(* ===== verification/Prelude.thy ===== *)
theory Prelude
  imports Complex_Main "HOL-Library.State_Monad"
begin

text \<open>
  What the components share.

  \<^item> Go's \<open>string\<close> and \<open>[]byte\<close> are byte sequences. HOL's \<open>string\<close> is a list of
    8-bit characters, so the two coincide: \<open>length\<close> is \<open>len\<close>, and text outside ASCII is
    its UTF-8 bytes. The functions of package \<open>strings\<close> that the program calls are
    defined here on bytes.
  \<^item> A Go \<open>error\<close> is the value \<open>error\<close>: the format string of the call that made it and
    its arguments, a wrapped error among them. A function that returns only an error returns
    an \<open>error option\<close> (\<open>None\<close> is \<open>nil\<close>); one that returns a value or an error
    returns \<open>error + 'a\<close>.
  \<^item> A Go \<open>map\<close> held by a component is a HOL map; an optional pointer is an
    \<open>option\<close>.
  \<^item> Time is the number of nanoseconds since Go's zero time, so \<open>IsZero\<close> is
    \<open>t = 0\<close>; a duration is a number of nanoseconds.
  \<^item> A handler of the protocol engine runs in the library's state monad; theory
    \<open>Trace_Monad\<close> has its program logic, whose rules are collected in \<open>wp\<close>.
\<close>

section \<open>Collections of facts\<close>

named_theorems bytes_simps "evaluation of the byte-string functions"
named_theorems code_consts "the wire constants of package ascp"
named_theorems wp "rules that take a handler apart"

section \<open>Errors\<close>

datatype error = Errorf string "fmt_arg list"
  and fmt_arg = AStr string | AInt int | AErr error

abbreviation New_error :: "string \<Rightarrow> error" where
  "New_error m \<equiv> Errorf m []"

type_synonym 'a result = "error + 'a"

section \<open>Byte strings\<close>

definition ord :: "char \<Rightarrow> nat" where
  "ord c = of_char c"

definition HasPrefix :: "string \<Rightarrow> string \<Rightarrow> bool" where
  "HasPrefix s p \<longleftrightarrow> take (length p) s = p"

definition TrimPrefix :: "string \<Rightarrow> string \<Rightarrow> string" where
  "TrimPrefix s p = (if HasPrefix s p then drop (length p) s else s)"

text \<open>\<open>strings.ContainsAny\<close> for a set of ASCII characters.\<close>

definition ContainsAny :: "string \<Rightarrow> string \<Rightarrow> bool" where
  "ContainsAny s cs \<longleftrightarrow> list_ex (\<lambda>c. c \<in> set cs) s"

text \<open>\<open>strings.Split\<close> at a one-byte separator.\<close>

fun Split :: "char \<Rightarrow> string \<Rightarrow> string list" where
  "Split c [] = [[]]"
| "Split c (x # xs) =
     (if x = c then [] # Split c xs
      else (case Split c xs of [] \<Rightarrow> [[x]] | p # ps \<Rightarrow> (x # p) # ps))"

text \<open>\<open>strings.IndexByte\<close>: \<open>None\<close> stands for \<open>-1\<close>.\<close>

fun IndexByte :: "string \<Rightarrow> char \<Rightarrow> nat option" where
  "IndexByte [] c = None"
| "IndexByte (x # xs) c = (if x = c then Some 0 else map_option Suc (IndexByte xs c))"

text \<open>\<open>strings.TrimRight\<close> and \<open>strings.Trim\<close> with a one-byte cutset.\<close>

definition TrimRight :: "string \<Rightarrow> char \<Rightarrow> string" where
  "TrimRight s c = rev (dropWhile (\<lambda>x. x = c) (rev s))"

definition TrimByte :: "string \<Rightarrow> char \<Rightarrow> string" where
  "TrimByte s c = TrimRight (dropWhile (\<lambda>x. x = c) s) c"

subsection \<open>White space\<close>

text \<open>
  The UTF-8 encodings of the runes for which \<open>unicode.IsSpace\<close> holds. A byte sequence
  starts with such a rune exactly when it starts with its encoding, and ends with one exactly
  when it ends with its encoding, so \<open>strings.TrimSpace\<close> strips these sequences from
  both ends.
\<close>

definition white_space :: "string list" where
  "white_space =
     [[CHR 0x09], [CHR 0x0A], [CHR 0x0B], [CHR 0x0C], [CHR 0x0D], [CHR 0x20],
      [CHR 0xC2, CHR 0x85], [CHR 0xC2, CHR 0xA0], [CHR 0xE1, CHR 0x9A, CHR 0x80],
      [CHR 0xE2, CHR 0x80, CHR 0x80], [CHR 0xE2, CHR 0x80, CHR 0x81],
      [CHR 0xE2, CHR 0x80, CHR 0x82], [CHR 0xE2, CHR 0x80, CHR 0x83],
      [CHR 0xE2, CHR 0x80, CHR 0x84], [CHR 0xE2, CHR 0x80, CHR 0x85],
      [CHR 0xE2, CHR 0x80, CHR 0x86], [CHR 0xE2, CHR 0x80, CHR 0x87],
      [CHR 0xE2, CHR 0x80, CHR 0x88], [CHR 0xE2, CHR 0x80, CHR 0x89],
      [CHR 0xE2, CHR 0x80, CHR 0x8A], [CHR 0xE2, CHR 0x80, CHR 0xA8],
      [CHR 0xE2, CHR 0x80, CHR 0xA9], [CHR 0xE2, CHR 0x80, CHR 0xAF],
      [CHR 0xE2, CHR 0x81, CHR 0x9F], [CHR 0xE3, CHR 0x80, CHR 0x80]]"

definition leading :: "string list \<Rightarrow> string \<Rightarrow> string option" where
  "leading ws s = find (\<lambda>w. w \<noteq> [] \<and> HasPrefix s w) ws"

lemma leading_Some:
  "leading ws s = Some w \<Longrightarrow> w \<noteq> [] \<and> w \<in> set ws \<and> length w \<le> length s \<and> s \<noteq> []"
proof -
  assume "leading ws s = Some w"
  then have *: "w \<noteq> []" "HasPrefix s w" "w \<in> set ws"
    by (auto simp: leading_def find_Some_iff)
  have "length w \<le> length s"
  proof (rule ccontr)
    assume "\<not> length w \<le> length s"
    with *(2) have "length (take (length w) s) < length w" by simp
    with *(2) show False by (simp add: HasPrefix_def)
  qed
  with * show ?thesis by auto
qed

function strip_leading :: "string list \<Rightarrow> string \<Rightarrow> string" where
  "strip_leading ws s =
     (case leading ws s of None \<Rightarrow> s | Some w \<Rightarrow> strip_leading ws (drop (length w) s))"
  by pat_completeness auto
termination
  by (relation "measure (length \<circ> snd)") (auto dest: leading_Some)

declare strip_leading.simps [simp del]

definition TrimSpace :: "string \<Rightarrow> string" where
  "TrimSpace s =
     rev (strip_leading (map rev white_space) (rev (strip_leading white_space s)))"

text \<open>The test the validators use: \<open>strings.TrimSpace(s) == ""\<close>.\<close>

abbreviation blank :: "string \<Rightarrow> bool" where
  "blank s \<equiv> TrimSpace s = []"

lemma strip_leading_Nil [simp]: "strip_leading ws [] = []"
proof -
  have "leading ws [] = None"
    using leading_Some by (cases "leading ws []") auto
  then show ?thesis by (simp add: strip_leading.simps)
qed

lemma blank_Nil [simp]: "blank []"
  by (simp add: TrimSpace_def)

lemma strip_leading_id:
  assumes "\<And>w. w \<in> set ws \<Longrightarrow> w \<noteq> [] \<Longrightarrow> s \<noteq> [] \<Longrightarrow> hd w \<noteq> hd s"
  shows "strip_leading ws s = s"
proof -
  have "leading ws s = None"
  proof (rule ccontr)
    assume "leading ws s \<noteq> None"
    then obtain w where w: "leading ws s = Some w" by blast
    then have "HasPrefix s w" by (auto simp: leading_def find_Some_iff)
    moreover from leading_Some [OF w] obtain b w' c s'
      where "w = b # w'" "s = c # s'" by (auto simp: neq_Nil_conv)
    ultimately show False
      using assms [of w] leading_Some [OF w] by (auto simp: HasPrefix_def)
  qed
  then show ?thesis by (simp add: strip_leading.simps)
qed

text \<open>Text that starts and ends with a visible ASCII byte has nothing to trim.\<close>

definition visible :: "char \<Rightarrow> bool" where
  "visible c \<longleftrightarrow> 0x21 \<le> ord c \<and> ord c \<le> 0x7e"

lemma white_space_not_visible:
  "w \<in> set white_space \<Longrightarrow> w \<noteq> [] \<and> \<not> visible (hd w) \<and> \<not> visible (last w)"
  by (auto simp: white_space_def visible_def ord_def)

lemma TrimSpace_id:
  assumes "s \<noteq> []" "visible (hd s)" "visible (last s)"
  shows "TrimSpace s = s"
proof -
  have "strip_leading white_space s = s"
    using assms(2) white_space_not_visible by (intro strip_leading_id) metis
  moreover have "strip_leading (map rev white_space) (rev s) = rev s"
    using assms(1,3)
    by (intro strip_leading_id) (force simp: hd_rev dest: white_space_not_visible)
  ultimately show ?thesis by (simp add: TrimSpace_def)
qed

lemma visible_not_blank: "s \<noteq> [] \<Longrightarrow> visible (hd s) \<Longrightarrow> visible (last s) \<Longrightarrow> \<not> blank s"
  by (simp add: TrimSpace_id)

text \<open>A visible byte anywhere is enough for a text not to be blank.\<close>

lemma strip_leading_keeps:
  assumes "c \<in> set s" "\<And>w. w \<in> set ws \<Longrightarrow> c \<notin> set w"
  shows "c \<in> set (strip_leading ws s)"
  using assms
proof (induction ws s rule: strip_leading.induct)
  case (1 ws s)
  show ?case
  proof (cases "leading ws s")
    case None
    with 1 show ?thesis by (simp add: strip_leading.simps)
  next
    case (Some w)
    then have w: "HasPrefix s w" "w \<in> set ws" by (auto simp: leading_def find_Some_iff)
    then have "s = w @ drop (length w) s" by (metis HasPrefix_def append_take_drop_id)
    with "1.prems" w(2) have "c \<in> set (drop (length w) s)" by (metis Un_iff set_append)
    with 1 Some show ?thesis by (simp add: strip_leading.simps [of ws s])
  qed
qed

lemma visible_in_not_blank: "c \<in> set s \<Longrightarrow> visible c \<Longrightarrow> \<not> blank s"
proof -
  assume "c \<in> set s" and c: "visible c"
  moreover have "c \<notin> set w" if "w \<in> set white_space" for w
    using that c by (auto simp: white_space_def visible_def ord_def)
  ultimately have "c \<in> set (TrimSpace s)"
    unfolding TrimSpace_def by (auto intro!: strip_leading_keeps)
  then show "\<not> blank s" by auto
qed

lemma visible_start: "visible c \<Longrightarrow> \<not> blank (c # s)"
  by (rule visible_in_not_blank [of c]) simp_all

subsection \<open>Decimal digits\<close>

definition is_digit :: "char \<Rightarrow> bool" where
  "is_digit c \<longleftrightarrow> 0x30 \<le> ord c \<and> ord c \<le> 0x39"

definition digit_val :: "char \<Rightarrow> nat" where
  "digit_val c = ord c - 0x30"

definition digit_char :: "nat \<Rightarrow> char" where
  "digit_char d = char_of (0x30 + d)"

text \<open>The value of a run of decimal digits, most significant first.\<close>

definition digits_val :: "string \<Rightarrow> nat" where
  "digits_val ds = foldl (\<lambda>n c. 10 * n + digit_val c) 0 ds"

text \<open>The decimal text of a natural number (\<open>strconv\<close>, \<open>%d\<close>).\<close>

fun decimal :: "nat \<Rightarrow> string" where
  "decimal n = (if n < 10 then [digit_char n] else decimal (n div 10) @ [digit_char (n mod 10)])"

declare decimal.simps [simp del]

definition decimal_int :: "int \<Rightarrow> string" where
  "decimal_int i = (if i < 0 then CHR ''-'' # decimal (nat (- i)) else decimal (nat i))"

lemma digit_char_digit [simp]: "d < 10 \<Longrightarrow> is_digit (digit_char d)"
  by (simp add: is_digit_def digit_char_def ord_def)

lemma digit_val_char [simp]: "d < 10 \<Longrightarrow> digit_val (digit_char d) = d"
  by (simp add: digit_val_def digit_char_def ord_def)

lemma digit_val_less: "is_digit c \<Longrightarrow> digit_val c < 10"
  by (auto simp: is_digit_def digit_val_def)

lemma digit_visible: "is_digit c \<Longrightarrow> visible c"
  by (simp add: is_digit_def visible_def)

lemma digits_val_Nil [simp]: "digits_val [] = 0"
  by (simp add: digits_val_def)

lemma digits_val_snoc [simp]: "digits_val (ds @ [c]) = 10 * digits_val ds + digit_val c"
  by (simp add: digits_val_def)

lemma digits_val_append: "digits_val (xs @ ys) = digits_val xs * 10 ^ length ys + digits_val ys"
proof (induction ys rule: rev_induct)
  case (snoc c ys)
  have "digits_val (xs @ ys @ [c]) = 10 * digits_val (xs @ ys) + digit_val c"
    using digits_val_snoc [of "xs @ ys" c] by simp
  with snoc show ?case by (simp add: algebra_simps)
qed simp

lemma digits_val_less: "list_all is_digit ds \<Longrightarrow> digits_val ds < 10 ^ length ds"
proof (induction ds rule: rev_induct)
  case (snoc c ds)
  then have "digits_val ds + 1 \<le> 10 ^ length ds" "digit_val c < 10"
    by (auto simp: digit_val_less)
  then show ?case by simp
qed simp

lemma decimal_nonempty [simp]: "decimal n \<noteq> []"
  by (subst decimal.simps) simp

lemma decimal_digits [simp]: "list_all is_digit (decimal n)"
  by (induction n rule: decimal.induct) (subst decimal.simps, simp)

lemma digits_val_decimal [simp]: "digits_val (decimal n) = n"
proof (induction n rule: decimal.induct)
  case (1 n)
  then show ?case
    by (subst decimal.simps) (simp add: digits_val_def)
qed

lemma decimal_inj: "decimal m = decimal n \<longleftrightarrow> m = n"
  by (metis digits_val_decimal)

section \<open>Validation\<close>

text \<open>
  A validator is a sequence of guards, each of which returns an error; the first one that
  fails decides. \<open>range_check\<close> is a \<open>for index, x := range xs\<close> loop of guards.
\<close>

definition fail_if :: "bool \<Rightarrow> error \<Rightarrow> error option" where
  "fail_if b e = (if b then Some e else None)"

fun first_error :: "error option list \<Rightarrow> error option" where
  "first_error [] = None"
| "first_error (Some e # es) = Some e"
| "first_error (None # es) = first_error es"

definition wrap_error :: "string \<Rightarrow> error option \<Rightarrow> error option" where
  "wrap_error fmt err = map_option (\<lambda>e. Errorf fmt [AErr e]) err"

fun range_check :: "(int \<Rightarrow> 'a \<Rightarrow> error option) \<Rightarrow> int \<Rightarrow> 'a list \<Rightarrow> error option" where
  "range_check f index [] = None"
| "range_check f index (x # xs) =
     (case f index x of Some err \<Rightarrow> Some err | None \<Rightarrow> range_check f (index + 1) xs)"

lemma fail_if_None [simp]: "fail_if b e = None \<longleftrightarrow> \<not> b"
  by (simp add: fail_if_def)

lemma wrap_error_None [simp]: "wrap_error fmt err = None \<longleftrightarrow> err = None"
  by (simp add: wrap_error_def)

lemma first_error_None [simp]:
  "first_error (err # es) = None \<longleftrightarrow> err = None \<and> first_error es = None"
  by (cases err) simp_all

lemma first_error_append: "first_error es = None \<Longrightarrow> first_error (es @ ds) = first_error ds"
  by (induction es) (auto split: if_splits)

lemma range_check_None:
  assumes "\<And>i x. f i x = None \<longleftrightarrow> P x"
  shows "range_check f i xs = None \<longleftrightarrow> list_all P xs"
proof (induction xs arbitrary: i)
  case (Cons x xs)
  with assms [of i x] show ?case by (cases "f i x") auto
qed simp

section \<open>64-bit integers\<close>

text \<open>\<open>int64\<close> arithmetic: the value of the mathematical result in two's complement.\<close>

definition wrap64 :: "int \<Rightarrow> int" where
  "wrap64 i = (i + 2 ^ 63) mod 2 ^ 64 - 2 ^ 63"

lemma wrap64_id: "- (2 ^ 63) \<le> i \<Longrightarrow> i < 2 ^ 63 \<Longrightarrow> wrap64 i = i"
  by (simp add: wrap64_def)

lemma wrap64_range: "- (2 ^ 63) \<le> wrap64 i \<and> wrap64 i < 2 ^ 63"
proof -
  have "0 \<le> (i + 2 ^ 63) mod 2 ^ 64" "(i + 2 ^ 63) mod 2 ^ 64 < (2 ^ 64 :: int)"
    by simp_all
  then show ?thesis by (simp add: wrap64_def)
qed

section \<open>Time\<close>

type_synonym time = int
type_synonym duration = int

abbreviation IsZero :: "time \<Rightarrow> bool" where "IsZero t \<equiv> t = 0"
abbreviation After :: "time \<Rightarrow> time \<Rightarrow> bool" where "After t u \<equiv> u < t"
abbreviation Before :: "time \<Rightarrow> time \<Rightarrow> bool" where "Before t u \<equiv> t < u"

definition Second :: duration where "Second = 1000000000"
definition Minute :: duration where "Minute = 60 * Second"
definition Hour :: duration where "Hour = 60 * Minute"

lemmas duration_defs = Second_def Minute_def Hour_def

end
