(* ===== verification/Types.thy ===== *)
theory Types
  imports Prelude
begin

text \<open>
  The wire data model of package \<open>ascp\<close> (pkg/ascp/types.go): every struct is a record with
  the struct's fields in its order, each field name prefixed by an abbreviation of its struct
  (\<open>q_\<close> for \<open>Quote\<close>, \<open>bt_\<close> for \<open>BillingTerms\<close>). The closed string types are
  datatypes whose last constructor holds any other string, because a decoded document may
  carry one; the empty string, Go's zero value, is such a string. An \<open>omitempty\<close> pointer
  is an option. \<open>any\<close> and \<open>map[string]any\<close> hold decoded JSON, the type
  \<open>json\<close>.
\<close>

section \<open>JSON values\<close>

datatype json =
    JNull
  | JBool bool
  | JNum int
  | JStr string
  | JArr "json list"
  | JObj "(string \<times> json) list"

type_synonym json_map = "(string \<times> json) list"

section \<open>Protocol constants\<close>

definition ProtocolName :: string where
  "ProtocolName = ''Agent Service Contract Protocol''"

definition ProtocolVersion :: string where
  "ProtocolVersion = ''0.2''"

definition MediaType :: string where
  "MediaType = ''application/ascp+json''"

declare ProtocolVersion_def [code_consts] MediaType_def [code_consts]

datatype Flow = FlowDirect | FlowContract | FlowOther string

section \<open>Money, parties, references and files\<close>

record Money =
  m_Currency :: string
  m_Amount :: string

record EntityRef =
  er_Type :: string
  er_ID :: string

record ContextRef =
  cr_URI :: string
  cr_MediaType :: string
  cr_Digest :: string
  cr_Size :: int
  cr_ExpiresAt :: time
  cr_Purpose :: string

record FileRef =
  fr_FileID :: string
  fr_URI :: string
  fr_Name :: string
  fr_MediaType :: string
  fr_Size :: int
  fr_Digest :: string
  fr_Disposition :: string
  fr_Purpose :: string
  fr_State :: string
  fr_ScanStatus :: string
  fr_ExpiresAt :: time

record FilePolicy =
  fp_Accepted :: bool
  fp_MaximumFiles :: int
  fp_MaximumFileBytes :: int
  fp_MaximumTotalBytes :: int
  fp_AllowedMediaTypes :: "string list"
  fp_InlineMaximumBytes :: int
  fp_UploadSupported :: bool
  fp_ReferenceSupported :: bool
  fp_MalwareScanRequired :: bool

record FileUploadRequest =
  fu_RequestID :: string
  fu_Name :: string
  fu_MediaType :: string
  fu_Size :: int
  fu_Digest :: string
  fu_Purpose :: string
  fu_ExpiresAt :: time

record FileUploadTicket =
  ft_FileID :: string
  ft_UploadURL :: string
  ft_UploadMethod :: string
  ft_UploadToken :: string
  ft_RequiredHeaders :: "(string \<times> string) list"
  ft_MaximumBytes :: int
  ft_ExpiresAt :: time

record ParameterDefinition =
  pd_Name :: string
  pd_Description :: string
  pd_Required :: bool
  pd_Sensitive :: bool
  pd_Schema :: string

section \<open>Billing\<close>

datatype BillingMode =
    BillingFree
  | BillingPayNow
  | BillingPrepaidBalance
  | BillingSubscription
  | BillingPostpaid
  | BillingMonthlyInvoice
  | BillingClearing
  | BillingSponsored
  | BillingExternal
  | BillingOther string

fun BillingMode_text :: "BillingMode \<Rightarrow> string" where
  "BillingMode_text BillingFree = ''free''"
| "BillingMode_text BillingPayNow = ''pay_now''"
| "BillingMode_text BillingPrepaidBalance = ''prepaid_balance''"
| "BillingMode_text BillingSubscription = ''subscription''"
| "BillingMode_text BillingPostpaid = ''postpaid_account''"
| "BillingMode_text BillingMonthlyInvoice = ''monthly_invoice''"
| "BillingMode_text BillingClearing = ''clearing_account''"
| "BillingMode_text BillingSponsored = ''sponsored''"
| "BillingMode_text BillingExternal = ''external_settlement''"
| "BillingMode_text (BillingOther s) = s"

record BillingOption =
  bo_Mode :: BillingMode
  bo_ArrangementRequired :: bool
  bo_AuthorizationRequired :: bool
  bo_SettlementTiming :: string
  bo_Description :: string

record BillingPreference =
  bp_Mode :: BillingMode
  bp_ArrangementRef :: string
  bp_MaximumAmount :: "Money option"

record BillingTerms =
  bt_Mode :: BillingMode
  bt_ArrangementRef :: string
  bt_ArrangementRequired :: bool
  bt_AuthorizationRequired :: bool
  bt_SettlementTiming :: string
  bt_AcceptedSchemes :: "string list"
  bt_AuthorizationMode :: string
  bt_CaptureMode :: string
  bt_RefundPolicyURI :: string
  bt_VariablePriceAllowed :: bool
  bt_BillingPeriod :: string
  bt_UsageUnit :: string

record BillingAuthorization =
  ba_Mode :: BillingMode
  ba_ArrangementRef :: string
  ba_AuthorizationRef :: string
  ba_Payer :: EntityRef
  ba_Audience :: string
  ba_MaximumAmount :: "Money option"
  ba_ExpiresAt :: time
  ba_BindingDigest :: string
  ba_Usage :: string

record BillingRecord =
  br_Mode :: BillingMode
  br_ArrangementRef :: string
  br_ReservationRef :: string
  br_SettlementRef :: string
  br_InvoiceRef :: string
  br_PeriodRef :: string
  br_Amount :: "Money option"
  br_State :: string

section \<open>Capability catalog and preflight\<close>

record CapabilityDescriptor =
  cd_Intent :: string
  cd_Version :: string
  cd_Summary :: string
  cd_Description :: string
  cd_Category :: string
  cd_DefaultFlow :: Flow
  cd_SupportedFlows :: "Flow list"
  cd_SideEffectClass :: string
  cd_RiskClass :: string
  cd_RequiredScopes :: "string list"
  cd_BillingModes :: "BillingMode list"
  cd_ParameterNames :: "string list"
  cd_OptionsSupported :: bool
  cd_InputFilePolicy :: FilePolicy
  cd_OutputModes :: "string list"
  cd_MaximumInlineBytes :: int
  cd_Deprecated :: bool
  cd_DocumentationURI :: string

record CapabilityQuery =
  cq_Query :: string
  cq_Intent :: string
  cq_Cursor :: string
  cq_Limit :: int

record CapabilityCatalog =
  cc_ServiceID :: string
  cc_Revision :: string
  cc_Capabilities :: "CapabilityDescriptor list"
  cc_NextCursor :: string
  cc_GeneratedAt :: time
  cc_ExpiresAt :: time

record PriceEstimate =
  pe_Minimum :: Money
  pe_Maximum :: Money
  pe_Basis :: string

record OptionsRequest =
  or_RequestID :: string
  or_Intent :: string
  or_Goal :: string
  or_Parameters :: json_map
  or_ContextRefs :: "ContextRef list"
  or_InputFiles :: "FileRef list"
  or_Locale :: string

record OptionsResponse =
  os_Supported :: bool
  os_ResolvedIntent :: string
  os_RecommendedFlow :: Flow
  os_DirectEligible :: bool
  os_ReasonCode :: string
  os_Reason :: string
  os_Parameters :: "ParameterDefinition list"
  os_MissingParameters :: "string list"
  os_RequiredScopes :: "string list"
  os_BillingOptions :: "BillingOption list"
  os_InputFilePolicy :: FilePolicy
  os_EstimatedPrice :: "PriceEstimate option"
  os_SchemaVersion :: string
  os_ExpiresAt :: time
  os_ServerRequestID :: string

section \<open>Contract flow\<close>

record NegotiationRequest =
  nr_RequestID :: string
  nr_Intent :: string
  nr_Goal :: string
  nr_Actor :: EntityRef
  nr_Principal :: EntityRef
  nr_Constraints :: json_map
  nr_Budget :: "Money option"
  nr_ContextRefs :: "ContextRef list"
  nr_InputFiles :: "FileRef list"
  nr_Locale :: string
  nr_Metadata :: json_map

record NegotiationResponse =
  ns_NegotiationID :: string
  ns_Supported :: bool
  ns_Conditional :: bool
  ns_ReasonCode :: string
  ns_Reason :: string
  ns_OfferID :: string
  ns_ResolvedIntent :: string
  ns_Parameters :: "ParameterDefinition list"
  ns_RequiredScopes :: "string list"
  ns_BillingOptions :: "BillingOption list"
  ns_InputFilePolicy :: FilePolicy
  ns_EstimatedPrice :: "PriceEstimate option"
  ns_OfferExpiresAt :: time
  ns_SchemaVersion :: string
  ns_ServerRequestID :: string
  ns_IdempotencyExpiry :: time

record ExecutionPreferences =
  ep_NotBefore :: "time option"
  ep_Deadline :: "time option"
  ep_MaxPrice :: "Money option"
  ep_AllowPartial :: bool
  ep_RequireHumanReview :: bool
  ep_MaximumInlineBytes :: int
  ep_PreferArtifactRefs :: bool

record CallbackConfiguration =
  cb_URL :: string
  cb_Events :: "string list"
  cb_SecretRef :: string
  cb_AuthScheme :: string

record PrepareRequest =
  pr_RequestID :: string
  pr_OfferID :: string
  pr_SchemaVersion :: string
  pr_Parameters :: json_map
  pr_ContextRefs :: "ContextRef list"
  pr_InputFiles :: "FileRef list"
  pr_Execution :: ExecutionPreferences
  pr_Billing :: BillingPreference
  pr_Callback :: "CallbackConfiguration option"
  pr_ClientMetadata :: json_map

record Effect =
  ef_Type :: string
  ef_Target :: string
  ef_Summary :: string
  ef_Reversible :: bool

record PermissionUse =
  pu_Scope :: string
  pu_Purpose :: string

record DataUse =
  du_Categories :: "string list"
  du_Purposes :: "string list"
  du_RetentionSeconds :: int
  du_TrainingAllowed :: bool
  du_ThirdPartySharing :: bool
  du_Region :: string

record ServiceLevel =
  sl_ExpectedCompletionSeconds :: int
  sl_MaximumCompletionSeconds :: int
  sl_AvailabilityBasisPoints :: int

record ConfirmationRequirement =
  cf_Required :: bool
  cf_Mode :: string
  cf_Text :: string

record Signature =
  sg_Algorithm :: string
  sg_KeyID :: string
  sg_CreatedAt :: time
  sg_PayloadDigest :: string
  sg_JWS :: string

record PriceComponent =
  pc_Type :: string
  pc_Description :: string
  pc_Amount :: Money

record Quote =
  q_ProtocolVersion :: string
  q_ServiceID :: string
  q_QuoteID :: string
  q_OfferID :: string
  q_Intent :: string
  q_Principal :: EntityRef
  q_Actor :: EntityRef
  q_NormalizedTask :: json_map
  q_ContextRefs :: "ContextRef list"
  q_InputFiles :: "FileRef list"
  q_Callback :: "CallbackConfiguration option"
  q_Price :: Money
  q_PriceCeiling :: Money
  q_PriceBreakdown :: "PriceComponent list"
  q_BillingTerms :: BillingTerms
  q_Effects :: "Effect list"
  q_Permissions :: "PermissionUse list"
  q_DataUse :: DataUse
  q_RiskClass :: string
  q_Confirmation :: ConfirmationRequirement
  q_SLA :: ServiceLevel
  q_Execution :: ExecutionPreferences
  q_IssuedAt :: time
  q_ExpiresAt :: time
  q_RevocableUntil :: "time option"
  q_Signature :: Signature

record AuthorizationEvidence =
  ae_Type :: string
  ae_Reference :: string
  ae_PrincipalID :: string
  ae_Audience :: string
  ae_ApprovedAt :: time
  ae_ExpiresAt :: time
  ae_BindingDigest :: string
  ae_PolicyVersion :: string

record CommitRequest =
  cm_RequestID :: string
  cm_QuoteID :: string
  cm_QuoteDigest :: string
  cm_Authorization :: AuthorizationEvidence
  cm_BillingAuthorization :: "BillingAuthorization option"
  cm_ClientTaskID :: string
  cm_Metadata :: json_map

section \<open>Direct flow\<close>

record DirectInvocationRequest =
  di_RequestID :: string
  di_Intent :: string
  di_Goal :: string
  di_Parameters :: json_map
  di_ContextRefs :: "ContextRef list"
  di_InputFiles :: "FileRef list"
  di_Execution :: ExecutionPreferences
  di_Billing :: BillingPreference
  di_Authorization :: "AuthorizationEvidence option"
  di_BillingAuthorization :: "BillingAuthorization option"
  di_ClientMetadata :: json_map

datatype InvocationState =
    InvocationSucceeded
  | InvocationAccepted
  | InvocationFailed
  | InvocationOther string

fun InvocationState_text :: "InvocationState \<Rightarrow> string" where
  "InvocationState_text InvocationSucceeded = ''succeeded''"
| "InvocationState_text InvocationAccepted = ''accepted''"
| "InvocationState_text InvocationFailed = ''failed''"
| "InvocationState_text (InvocationOther s) = s"

record ArtifactRef =
  ar_URI :: string
  ar_MediaType :: string
  ar_Digest :: string
  ar_Size :: int
  ar_Name :: string
  ar_Disposition :: string
  ar_Relationship :: string
  ar_ExpiresAt :: "time option"

record InvocationReceipt =
  ir_ProtocolVersion :: string
  ir_ServiceID :: string
  ir_ReceiptID :: string
  ir_InvocationID :: string
  ir_Intent :: string
  ir_RequestDigest :: string
  ir_Outcome :: InvocationState
  ir_Artifacts :: "ArtifactRef list"
  ir_Billing :: "BillingRecord option"
  ir_AuditRoot :: string
  ir_CompletedAt :: time
  ir_Signature :: Signature

record DirectInvocationResponse =
  dr_InvocationID :: string
  dr_Flow :: Flow
  dr_Intent :: string
  dr_State :: InvocationState
  dr_Result :: json_map
  dr_Artifacts :: "ArtifactRef list"
  dr_Billing :: "BillingRecord option"
  dr_Receipt :: InvocationReceipt
  dr_ServerRequestID :: string
  dr_IdempotencyExpiry :: "time option"

section \<open>Tasks, receipts and audit events\<close>

datatype TaskState =
    TaskAccepted
  | TaskScheduled
  | TaskRunning
  | TaskWaitingInput
  | TaskWaitingRequote
  | TaskCancelling
  | TaskCancelled
  | TaskSucceeded
  | TaskFailed
  | TaskCompensating
  | TaskCompensated
  | TaskDisputed
  | TaskStateOther string

fun TaskState_text :: "TaskState \<Rightarrow> string" where
  "TaskState_text TaskAccepted = ''accepted''"
| "TaskState_text TaskScheduled = ''scheduled''"
| "TaskState_text TaskRunning = ''running''"
| "TaskState_text TaskWaitingInput = ''waiting_input''"
| "TaskState_text TaskWaitingRequote = ''waiting_requote''"
| "TaskState_text TaskCancelling = ''cancelling''"
| "TaskState_text TaskCancelled = ''cancelled''"
| "TaskState_text TaskSucceeded = ''succeeded''"
| "TaskState_text TaskFailed = ''failed''"
| "TaskState_text TaskCompensating = ''compensating''"
| "TaskState_text TaskCompensated = ''compensated''"
| "TaskState_text TaskDisputed = ''disputed''"
| "TaskState_text (TaskStateOther s) = s"

record Receipt =
  rc_ProtocolVersion :: string
  rc_ServiceID :: string
  rc_ReceiptID :: string
  rc_TaskID :: string
  rc_QuoteID :: string
  rc_Outcome :: TaskState
  rc_Artifacts :: "ArtifactRef list"
  rc_Billing :: "BillingRecord option"
  rc_BilledAmount :: "Money option"
  rc_BilledBreakdown :: "PriceComponent list"
  rc_AuditRoot :: string
  rc_CompletedAt :: time
  rc_Signature :: Signature

record Task =
  t_TaskID :: string
  t_ClientTaskID :: string
  t_QuoteID :: string
  t_State :: TaskState
  t_StatusReason :: string
  t_Progress :: int
  t_CreatedAt :: time
  t_UpdatedAt :: time
  t_StartedAt :: "time option"
  t_CompletedAt :: "time option"
  t_Artifacts :: "ArtifactRef list"
  t_Billing :: "BillingRecord option"
  t_Receipt :: "Receipt option"
  t_Version :: int

record CancelRequest =
  cn_Reason :: string
  cn_ExpectedVersion :: "int option"

record CommitResponse =
  cs_Task :: Task
  cs_AcceptedAt :: time
  cs_IdempotencyExpiry :: time

record Manifest =
  mf_Protocol :: string
  mf_Versions :: "string list"
  mf_ServiceID :: string
  mf_ServiceName :: string
  mf_BaseURL :: string
  mf_JWKSURI :: string
  mf_CapabilitiesURI :: string
  mf_OptionsURI :: string
  mf_InvokeURI :: string
  mf_FilesURI :: string
  mf_DocumentationURI :: string
  mf_PrivacyPolicyURI :: string
  mf_TermsURI :: string
  mf_AuthSchemes :: "string list"
  mf_BillingModes :: "BillingMode list"
  mf_PaymentSchemes :: "string list"
  mf_Features :: "string \<rightharpoonup> bool"
  mf_Limits :: "string \<rightharpoonup> int"
  mf_GeneratedAt :: time
  mf_ManifestExpiresAt :: time

record AuditEvent =
  av_EventID :: string
  av_ResourceType :: string
  av_ResourceID :: string
  av_Sequence :: int
  av_Type :: string
  av_OccurredAt :: time
  av_Actor :: EntityRef
  av_Data :: string
  av_DataDigest :: string
  av_PreviousHash :: string
  av_EventHash :: string
  av_Signature :: Signature

section \<open>Zero values\<close>

text \<open>
  Go's zero values of the structs the program returns beside an error or starts a literal
  from.
\<close>

definition zero_Money :: Money where
  "zero_Money = \<lparr>m_Currency = [], m_Amount = []\<rparr>"

definition zero_EntityRef :: EntityRef where
  "zero_EntityRef = \<lparr>er_Type = [], er_ID = []\<rparr>"

definition zero_Signature :: Signature where
  "zero_Signature =
     \<lparr>sg_Algorithm = [], sg_KeyID = [], sg_CreatedAt = 0, sg_PayloadDigest = [], sg_JWS = []\<rparr>"

definition zero_FilePolicy :: FilePolicy where
  "zero_FilePolicy =
     \<lparr>fp_Accepted = False, fp_MaximumFiles = 0, fp_MaximumFileBytes = 0,
      fp_MaximumTotalBytes = 0, fp_AllowedMediaTypes = [], fp_InlineMaximumBytes = 0,
      fp_UploadSupported = False, fp_ReferenceSupported = False,
      fp_MalwareScanRequired = False\<rparr>"

definition zero_BillingTerms :: BillingTerms where
  "zero_BillingTerms =
     \<lparr>bt_Mode = BillingOther [], bt_ArrangementRef = [], bt_ArrangementRequired = False,
      bt_AuthorizationRequired = False, bt_SettlementTiming = [], bt_AcceptedSchemes = [],
      bt_AuthorizationMode = [], bt_CaptureMode = [], bt_RefundPolicyURI = [],
      bt_VariablePriceAllowed = False, bt_BillingPeriod = [], bt_UsageUnit = []\<rparr>"

definition zero_Task :: Task where
  "zero_Task =
     \<lparr>t_TaskID = [], t_ClientTaskID = [], t_QuoteID = [], t_State = TaskStateOther [],
      t_StatusReason = [], t_Progress = 0, t_CreatedAt = 0, t_UpdatedAt = 0,
      t_StartedAt = None, t_CompletedAt = None, t_Artifacts = [], t_Billing = None,
      t_Receipt = None, t_Version = 0\<rparr>"

end
