(* ===== verification/Money.thy ===== *)
theory Money
  imports Types
begin

text \<open>
  Exact monetary arithmetic (pkg/ascp/money.go). An amount is a decimal string; Go's
  \<open>big.Rat\<close> is HOL's \<open>rat\<close>. \<open>Rat_SetString\<close> models \<open>big.Rat.SetString\<close> on
  the unsigned decimals that reach it, \<open>FloatString\<close> the rounding and padding of
  \<open>big.Rat.FloatString\<close>. The lemmas give the grammar \<open>ValidateMoney\<close> accepts, the
  order \<open>CompareMoney\<close> decides and the exactness of \<open>AddMoney\<close>.
\<close>

section \<open>Definitions\<close>

text \<open>The pattern \<open>^[A-Z][A-Z0-9]{2,11}$\<close>.\<close>

definition is_upper :: "char \<Rightarrow> bool" where
  "is_upper c \<longleftrightarrow> 0x41 \<le> ord c \<and> ord c \<le> 0x5A"

definition currencyCodePattern :: "string \<Rightarrow> bool" where
  "currencyCodePattern s \<longleftrightarrow>
     (case s of [] \<Rightarrow> False
      | c # cs \<Rightarrow> is_upper c \<and> 2 \<le> length cs \<and> length cs \<le> 11 \<and>
          list_all (\<lambda>c. is_upper c \<or> is_digit c) cs)"

text \<open>The value of an unsigned decimal \<open>ddd\<close> or \<open>ddd.ddd\<close>.\<close>

definition Rat_SetString :: "string \<Rightarrow> rat option" where
  "Rat_SetString s =
     (case Split CHR ''.'' s of
        [ip] \<Rightarrow> if ip \<noteq> [] \<and> list_all is_digit ip then Some (of_nat (digits_val ip)) else None
      | [ip, fp] \<Rightarrow>
          if ip @ fp \<noteq> [] \<and> list_all is_digit (ip @ fp)
          then Some (of_nat (digits_val (ip @ fp)) / 10 ^ length fp) else None
      | _ \<Rightarrow> None)"

definition ValidateMoney :: "Money \<Rightarrow> error option" where
  "ValidateMoney value =
     (let bad = Some (Errorf ''invalid monetary amount %q'' [AStr (m_Amount value)]) in
      if \<not> currencyCodePattern (m_Currency value)
      then Some (Errorf ''invalid currency code %q'' [AStr (m_Currency value)])
      else if m_Amount value = [] \<or> TrimSpace (m_Amount value) \<noteq> m_Amount value then bad
      else (let parts = Split CHR ''.'' (m_Amount value) in
        if length parts > 2 \<or> parts ! 0 = [] then bad
        else if \<not> list_all is_digit (parts ! 0) then bad
        else if length parts = 2 \<and> (length (parts ! 1) = 0 \<or> length (parts ! 1) > 18) then bad
        else if length parts = 2 \<and> \<not> list_all is_digit (parts ! 1) then bad
        else if Rat_SetString (m_Amount value) = None then bad
        else None))"

text \<open>\<open>big.Rat.Cmp\<close>.\<close>

definition Rat_Cmp :: "rat \<Rightarrow> rat \<Rightarrow> int" where
  "Rat_Cmp x y = (if x < y then - 1 else if x = y then 0 else 1)"

text \<open>A failed \<open>SetString\<close> would leave \<open>nil\<close>; the callers validate first.\<close>

definition amount_rat :: "string \<Rightarrow> rat" where
  "amount_rat s = (case Rat_SetString s of Some r \<Rightarrow> r | None \<Rightarrow> 0)"

definition CompareMoney :: "Money \<Rightarrow> Money \<Rightarrow> int result" where
  "CompareMoney left right =
     (case ValidateMoney left of Some e \<Rightarrow> Inl e
      | None \<Rightarrow> (case ValidateMoney right of Some e \<Rightarrow> Inl e
      | None \<Rightarrow>
         if m_Currency left \<noteq> m_Currency right
         then Inl (Errorf ''currency mismatch: %s != %s'' [AStr (m_Currency left), AStr (m_Currency right)])
         else Inr (Rat_Cmp (amount_rat (m_Amount left)) (amount_rat (m_Amount right)))))"

text \<open>
  \<open>big.Rat.FloatString\<close>: the integer part, then the fraction scaled by \<open>10 ^ prec\<close>,
  rounded half away from zero and padded with zeros.
\<close>

definition pad_zeros :: "nat \<Rightarrow> string \<Rightarrow> string" where
  "pad_zeros n ds = replicate (n - length ds) (CHR ''0'') @ ds"

definition FloatString :: "rat \<Rightarrow> nat \<Rightarrow> string" where
  "FloatString x prec =
     (let (num, den) = quotient_of x; a = nat \<bar>num\<bar>; b = nat den;
          sgn = (if num < 0 then ''-'' else []) in
      if b = 1 then
        sgn @ decimal a @ (if prec > 0 then CHR ''.'' # replicate prec (CHR ''0'') else [])
      else
        let q = a div b; r = (a mod b) * 10 ^ prec; r1 = r div b; r2 = r mod b;
            r' = (if b \<le> r2 + r2 then r1 + 1 else r1);
            (q', r'') = (if b \<le> r2 + r2 \<and> 10 ^ prec \<le> r' then (q + 1, r' - 10 ^ prec) else (q, r'))
        in sgn @ decimal q' @ (if prec > 0 then CHR ''.'' # pad_zeros prec (decimal r'') else []))"

definition decimalScale :: "string \<Rightarrow> nat" where
  "decimalScale amount =
     (case IndexByte amount CHR ''.'' of Some separator \<Rightarrow> length amount - separator - 1 | None \<Rightarrow> 0)"

definition AddMoney :: "Money \<Rightarrow> Money \<Rightarrow> Money result" where
  "AddMoney left right =
     (case ValidateMoney left of Some e \<Rightarrow> Inl e
      | None \<Rightarrow> (case ValidateMoney right of Some e \<Rightarrow> Inl e
      | None \<Rightarrow>
         if m_Currency left \<noteq> m_Currency right
         then Inl (Errorf ''currency mismatch: %s != %s'' [AStr (m_Currency left), AStr (m_Currency right)])
         else
           let sum = amount_rat (m_Amount left) + amount_rat (m_Amount right);
               scale = (if decimalScale (m_Amount left) < decimalScale (m_Amount right)
                        then decimalScale (m_Amount right) else decimalScale (m_Amount left));
               amount = FloatString sum scale;
               amount = (if CHR ''.'' \<in> set amount
                         then TrimRight (TrimRight amount CHR ''0'') CHR ''.'' else amount);
               amount = (if amount = [] then ''0'' else amount)
           in Inr \<lparr>m_Currency = m_Currency left, m_Amount = amount\<rparr>))"

section \<open>The grammar of amounts\<close>

definition amount_text :: "string \<Rightarrow> string \<Rightarrow> string" where
  "amount_text ip fp = ip @ (if fp = [] then [] else CHR ''.'' # fp)"

definition decimal_parts :: "string \<Rightarrow> string \<Rightarrow> bool" where
  "decimal_parts ip fp \<longleftrightarrow> ip \<noteq> [] \<and> list_all is_digit ip \<and> list_all is_digit fp"

definition valid_amount :: "string \<Rightarrow> bool" where
  "valid_amount s \<longleftrightarrow> (\<exists>ip fp. s = amount_text ip fp \<and> decimal_parts ip fp \<and> length fp \<le> 18)"

lemma is_digit_dot [simp]: "\<not> is_digit CHR ''.''"
  by (simp add: is_digit_def ord_def)

lemma digits_no_dot: "list_all is_digit ds \<Longrightarrow> CHR ''.'' \<notin> set ds"
  by (auto simp: list_all_iff)

lemma Split_nonempty [simp]: "Split c s \<noteq> []"
  by (induction s) (auto split: list.splits)

lemma Split_absent: "c \<notin> set s \<Longrightarrow> Split c s = [s]"
  by (induction s) auto

lemma Split_append: "c \<notin> set s \<Longrightarrow> Split c (s @ c # t) = s # Split c t"
  by (induction s) auto

lemma Split_amount:
  "decimal_parts ip fp \<Longrightarrow>
     Split CHR ''.'' (amount_text ip fp) = (if fp = [] then [ip] else [ip, fp])"
  by (simp add: amount_text_def decimal_parts_def Split_absent Split_append digits_no_dot)

lemma Split_join: "Split c s = p # ps \<Longrightarrow> s = p @ concat (map (\<lambda>q. c # q) ps)"
proof (induction s arbitrary: p ps)
  case (Cons x xs)
  show ?case
  proof (cases "Split c xs")
    case Nil
    then show ?thesis by simp
  next
    case (Cons q qs)
    from Cons.IH [OF this] have "xs = q @ concat (map (\<lambda>q. c # q) qs)" .
    moreover from Cons.prems \<open>Split c xs = q # qs\<close>
    have "p = (if x = c then [] else x # q)" "ps = (if x = c then q # qs else qs)"
      by (auto split: if_splits)
    ultimately show ?thesis by simp
  qed
qed simp

lemma Rat_SetString_amount:
  "decimal_parts ip fp \<Longrightarrow>
     Rat_SetString (amount_text ip fp) = Some (of_nat (digits_val (ip @ fp)) / 10 ^ length fp)"
  by (auto simp: Rat_SetString_def Split_amount decimal_parts_def)

lemma amount_rat_amount:
  "decimal_parts ip fp \<Longrightarrow>
     amount_rat (amount_text ip fp) = of_nat (digits_val (ip @ fp)) / 10 ^ length fp"
  by (simp add: amount_rat_def Rat_SetString_amount)

lemma TrimSpace_amount:
  assumes "decimal_parts ip fp"
  shows "TrimSpace (amount_text ip fp) = amount_text ip fp"
proof (rule TrimSpace_id)
  from assms show "amount_text ip fp \<noteq> []"
    by (simp add: amount_text_def decimal_parts_def)
  from assms show "visible (hd (amount_text ip fp))"
    by (cases ip) (auto simp: amount_text_def decimal_parts_def digit_visible)
  have "visible (last ds)" if "ds \<noteq> []" "list_all is_digit ds" for ds
    using that by (simp add: list_all_iff digit_visible)
  with assms show "visible (last (amount_text ip fp))"
    by (auto simp: amount_text_def decimal_parts_def)
qed

lemma ValidateMoney_iff:
  "ValidateMoney m = None \<longleftrightarrow> currencyCodePattern (m_Currency m) \<and> valid_amount (m_Amount m)"
proof
  assume ok: "ValidateMoney m = None"
  define s where "s = m_Amount m"
  obtain p ps where sp: "Split CHR ''.'' s = p # ps"
    using Split_nonempty by (meson list.exhaust)
  from ok sp have c: "currencyCodePattern (m_Currency m)" "s \<noteq> []" "length ps \<le> 1" "p \<noteq> []"
    "list_all is_digit p"
    "length ps = 1 \<Longrightarrow> 0 < length (ps ! 0) \<and> length (ps ! 0) \<le> 18 \<and> list_all is_digit (ps ! 0)"
    by (auto simp: ValidateMoney_def Let_def s_def split: if_splits)
  have "valid_amount s"
  proof (cases ps)
    case Nil
    with sp c show ?thesis
      unfolding valid_amount_def
      by (intro exI [of _ p] exI [of _ "[]"]) (auto simp: amount_text_def decimal_parts_def dest: Split_join)
  next
    case (Cons q qs)
    with sp c show ?thesis
      unfolding valid_amount_def
      by (intro exI [of _ p] exI [of _ q]) (auto simp: amount_text_def decimal_parts_def dest: Split_join)
  qed
  with c show "currencyCodePattern (m_Currency m) \<and> valid_amount (m_Amount m)"
    by (simp add: s_def)
next
  assume "currencyCodePattern (m_Currency m) \<and> valid_amount (m_Amount m)"
  then obtain ip fp where *: "currencyCodePattern (m_Currency m)" "m_Amount m = amount_text ip fp"
    "decimal_parts ip fp" "length fp \<le> 18"
    by (auto simp: valid_amount_def)
  moreover from *(3) have "amount_text ip fp \<noteq> []"
    by (simp add: amount_text_def decimal_parts_def)
  ultimately show "ValidateMoney m = None"
    by (auto simp: ValidateMoney_def Let_def Split_amount TrimSpace_amount Rat_SetString_amount
        decimal_parts_def)
qed

lemma IndexByte_append: "c \<notin> set s \<Longrightarrow> IndexByte (s @ c # t) c = Some (length s)"
  by (induction s) auto

lemma IndexByte_absent: "c \<notin> set s \<Longrightarrow> IndexByte s c = None"
  by (induction s) auto

lemma decimalScale_amount: "decimal_parts ip fp \<Longrightarrow> decimalScale (amount_text ip fp) = length fp"
  by (simp add: decimalScale_def amount_text_def decimal_parts_def IndexByte_append
      IndexByte_absent digits_no_dot)

section \<open>Exact decimal output\<close>

lemma length_decimal_le: "n < 10 ^ k \<Longrightarrow> 0 < k \<Longrightarrow> length (decimal n) \<le> k"
proof (induction n arbitrary: k rule: decimal.induct)
  case (1 n)
  show ?case
  proof (cases "n < 10")
    case True
    with "1.prems" show ?thesis by (subst decimal.simps) simp
  next
    case False
    then obtain j where k: "k = Suc j" "0 < j"
      using "1.prems" by (cases k; cases "k - 1") auto
    with "1.prems" have "n div 10 < 10 ^ j" by (simp add: less_mult_imp_div_less mult.commute)
    with "1.IH" [OF False] k have "length (decimal (n div 10)) \<le> j" by simp
    with False k show ?thesis by (subst decimal.simps) simp
  qed
qed

lemma digit_char_0: "digit_char 0 = CHR ''0''"
  by code_simp

lemma digits_val_zeros: "digits_val (replicate k CHR ''0'') = 0"
  by (induction k) (auto simp: replicate_append_same [symmetric] digit_val_def ord_def)

lemma pad_zeros_facts:
  assumes "n < 10 ^ k" "0 < k"
  shows "length (pad_zeros k (decimal n)) = k" "list_all is_digit (pad_zeros k (decimal n))"
    "digits_val (pad_zeros k (decimal n)) = n"
proof -
  show "length (pad_zeros k (decimal n)) = k"
    using length_decimal_le [OF assms] by (simp add: pad_zeros_def)
  show "list_all is_digit (pad_zeros k (decimal n))"
    by (auto simp: pad_zeros_def list_all_iff is_digit_def ord_def)
       (use decimal_digits [of n] in \<open>auto simp: list_all_iff is_digit_def ord_def\<close>)
  show "digits_val (pad_zeros k (decimal n)) = n"
    by (simp add: pad_zeros_def digits_val_append digits_val_zeros)
qed

definition fixed_text :: "nat \<Rightarrow> nat \<Rightarrow> string" where
  "fixed_text n k =
     decimal (n div 10 ^ k) @ (if 0 < k then CHR ''.'' # pad_zeros k (decimal (n mod 10 ^ k)) else [])"

lemma quotient_of_nat_frac:
  assumes "quotient_of (of_nat n / 10 ^ k) = (num, den)"
  shows "0 \<le> num" "0 < den" "nat num * 10 ^ k = n * nat den"
proof -
  let ?x = "of_nat n / 10 ^ k :: rat"
  from assms show den: "0 < den" by (rule quotient_of_denom_pos)
  from assms have x: "?x = of_int num / of_int den" by (rule quotient_of_div)
  have "0 \<le> ?x" by simp
  with x den show num: "0 \<le> num" by (simp add: zero_le_divide_iff)
  from x den have "(of_int num :: rat) * 10 ^ k = of_nat n * of_int den"
    by (simp add: field_simps)
  then have "of_int (num * 10 ^ k) = (of_int (int n * den) :: rat)" by simp
  then have "num * 10 ^ k = int n * den" by (simp only: of_int_eq_iff)
  then have "int (nat num * 10 ^ k) = int (n * nat den)" using num den by simp
  then show "nat num * 10 ^ k = n * nat den" by (simp only: of_nat_eq_iff)
qed

lemma FloatString_exact: "FloatString (of_nat n / 10 ^ k) k = fixed_text n k"
proof -
  define x where "x = (of_nat n / 10 ^ k :: rat)"
  obtain num den where q: "quotient_of x = (num, den)" by fastforce
  note f = quotient_of_nat_frac [OF q [unfolded x_def]]
  define a b where ab: "a = nat num" "b = nat den"
  have b: "0 < b" and eq: "a * 10 ^ k = n * b" using f by (simp_all add: ab)
  have "FloatString x k = fixed_text n k"
  proof (cases "b = 1")
    case True
    with eq have n: "n = a * 10 ^ k" by simp
    have "pad_zeros k (decimal 0) = replicate k CHR ''0''" if "0 < k"
    proof -
      have "decimal 0 = ''0''" by (subst decimal.simps) (simp add: digit_char_0)
      then show ?thesis using that
        by (cases k) (simp_all add: pad_zeros_def replicate_append_same)
    qed
    moreover have "n div 10 ^ k = nat num" "n mod 10 ^ k = 0"
      by (simp_all add: n ab)
    ultimately show ?thesis
      using f(1,2) q True by (simp add: FloatString_def fixed_text_def Let_def ab)
  next
    case False
    define d r where qr: "d = a div b" "r = (a mod b) * 10 ^ k"
    have "a = d * b + a mod b" by (simp add: qr)
    then have "a * 10 ^ k = d * 10 ^ k * b + r"
      unfolding qr(2) by (metis add_mult_distrib mult.assoc mult.commute)
    then have "n * b = d * 10 ^ k * b + r" by (simp only: eq)
    then have r: "r = (n - d * 10 ^ k) * b" and le: "d * 10 ^ k * b \<le> n * b"
      by (simp_all add: diff_mult_distrib)
    from le b have le: "d * 10 ^ k \<le> n" by simp
    have "r < 10 ^ k * b" using b by (simp add: qr mult.commute)
    with r b have lt: "n - d * 10 ^ k < 10 ^ k" by simp
    define m where "m = n - d * 10 ^ k"
    from le have "n = d * 10 ^ k + m" by (simp add: m_def)
    with lt have nq: "n div 10 ^ k = d" "n mod 10 ^ k = n - d * 10 ^ k"
      by (simp_all add: m_def [symmetric])
    have rb: "r div b = n - d * 10 ^ k" "r mod b = 0" using r b by simp_all
    have fold: "nat \<bar>num\<bar> = a" "nat den = b" "\<not> num < 0" using f(1) by (simp_all add: ab)
    from False b show ?thesis
      unfolding FloatString_def q Let_def prod.case fold(1,2) qr [symmetric] rb fixed_text_def nq
      using fold(3) by simp
  qed
  then show ?thesis by (simp only: x_def)
qed

section \<open>Trimming zeros\<close>

lemma TrimRight_replicate: "TrimRight (s @ replicate j c) c = TrimRight s c"
proof -
  have "dropWhile (\<lambda>x. x = c) (replicate j c @ t) = dropWhile (\<lambda>x. x = c) t" for t
    by (induction j) auto
  then show ?thesis by (simp add: TrimRight_def)
qed

lemma TrimRight_last: "s = [] \<or> last s \<noteq> c \<Longrightarrow> TrimRight s c = s"
  by (cases s rule: rev_cases) (auto simp: TrimRight_def)

lemma TrimRight_split: "\<exists>j. s = TrimRight s c @ replicate j c"
proof -
  define t where "t = takeWhile (\<lambda>x. x = c) (rev s)"
  have "t = replicate (length t) c"
    unfolding t_def by (metis (mono_tags, lifting) replicate_length_same set_takeWhileD)
  moreover have "s = TrimRight s c @ rev t"
    unfolding TrimRight_def t_def by (metis rev_append rev_rev_ident takeWhile_dropWhile_id)
  ultimately show ?thesis by (metis rev_replicate)
qed

lemma TrimRight_not_last: "TrimRight s c \<noteq> [] \<Longrightarrow> last (TrimRight s c) \<noteq> c"
  using hd_dropWhile [of "\<lambda>x. x = c" "rev s"] by (simp add: TrimRight_def last_rev)

lemma TrimRight_append_dot:
  assumes "d \<noteq> c"
  shows "TrimRight (ip @ d # fp) c = ip @ d # TrimRight fp c"
proof -
  obtain j where j: "fp = TrimRight fp c @ replicate j c" using TrimRight_split by blast
  then have "TrimRight (ip @ d # fp) c = TrimRight ((ip @ d # TrimRight fp c) @ replicate j c) c"
    by simp
  also have "\<dots> = TrimRight (ip @ d # TrimRight fp c) c" by (rule TrimRight_replicate)
  also have "\<dots> = ip @ d # TrimRight fp c"
    using assms TrimRight_not_last [of fp c] by (intro TrimRight_last) auto
  finally show ?thesis .
qed

text \<open>Dropping trailing zeros of the fraction keeps the value.\<close>

lemma trimmed_value:
  assumes "decimal_parts ip fp"
  shows "\<exists>fp'. TrimRight (ip @ CHR ''.'' # fp) CHR ''0'' = ip @ CHR ''.'' # fp' \<and>
    decimal_parts ip fp' \<and> length fp' \<le> length fp \<and>
    amount_rat (amount_text ip fp') = of_nat (digits_val (ip @ fp)) / 10 ^ length fp"
proof -
  define fp' where "fp' = TrimRight fp CHR ''0''"
  obtain j where j: "fp = fp' @ replicate j CHR ''0''"
    using TrimRight_split unfolding fp'_def by blast
  with assms have ok: "decimal_parts ip fp'" by (simp add: decimal_parts_def)
  have "digits_val (ip @ fp) = digits_val (ip @ fp') * 10 ^ j"
    using digits_val_append [of "ip @ fp'" "replicate j CHR ''0''"] by (simp add: j digits_val_zeros)
  then have "of_nat (digits_val (ip @ fp)) / (10 :: rat) ^ length fp =
      of_nat (digits_val (ip @ fp')) / 10 ^ length fp'"
    by (simp add: j power_add)
  moreover have "TrimRight (ip @ CHR ''.'' # fp) CHR ''0'' = ip @ CHR ''.'' # fp'"
    by (simp add: TrimRight_append_dot fp'_def)
  moreover have "length fp' \<le> length fp" by (subst j) simp
  ultimately show ?thesis
    using ok by (intro exI [of _ fp']) (simp add: amount_rat_amount)
qed

section \<open>Addition is exact\<close>

definition money_value :: "Money \<Rightarrow> rat" where
  "money_value m = amount_rat (m_Amount m)"

definition trimmed :: "string \<Rightarrow> string" where
  "trimmed amount =
     (let a = (if CHR ''.'' \<in> set amount
               then TrimRight (TrimRight amount CHR ''0'') CHR ''.'' else amount)
      in if a = [] then ''0'' else a)"

lemma trimmed_fixed_text:
  assumes "k \<le> 18"
  shows "valid_amount (trimmed (fixed_text n k)) \<and>
    amount_rat (trimmed (fixed_text n k)) = of_nat n / 10 ^ k"
proof (cases "k = 0")
  case True
  have ok: "decimal_parts (decimal n) []" by (simp add: decimal_parts_def)
  then have "valid_amount (amount_text (decimal n) [])"
    unfolding valid_amount_def by (intro exI [of _ "decimal n"] exI [of _ "[]"]) simp
  moreover have "amount_rat (amount_text (decimal n) []) = of_nat n"
    using amount_rat_amount [OF ok] by simp
  moreover have "trimmed (fixed_text n k) = amount_text (decimal n) []"
    by (simp add: trimmed_def fixed_text_def True amount_text_def digits_no_dot)
  ultimately show ?thesis using True by simp
next
  case False
  define ip fp where parts: "ip = decimal (n div 10 ^ k)" "fp = pad_zeros k (decimal (n mod 10 ^ k))"
  have lt: "n mod 10 ^ k < 10 ^ k" by simp
  from False have fp: "length fp = k" "list_all is_digit fp" "digits_val fp = n mod 10 ^ k"
    using pad_zeros_facts [OF lt] by (simp_all add: parts)
  then have ok: "decimal_parts ip fp" by (simp add: decimal_parts_def parts)
  have "digits_val ip = n div 10 ^ k" by (simp add: parts)
  then have v: "digits_val (ip @ fp) = n"
    by (simp only: digits_val_append fp div_mult_mod_eq)
  from trimmed_value [OF ok] obtain fp' where t:
    "TrimRight (ip @ CHR ''.'' # fp) CHR ''0'' = ip @ CHR ''.'' # fp'" "decimal_parts ip fp'"
    "length fp' \<le> k" "amount_rat (amount_text ip fp') = of_nat n / 10 ^ k"
    by (auto simp: fp v)
  have "TrimRight (ip @ CHR ''.'' # fp') CHR ''.'' = amount_text ip fp'"
  proof (cases "fp' = []")
    case True
    have "last ip \<noteq> CHR ''.''" "ip \<noteq> []"
      using t(2) by (metis decimal_parts_def digits_no_dot last_in_set) (use t(2) in \<open>simp add: decimal_parts_def\<close>)
    then show ?thesis
      using TrimRight_replicate [of ip 1 "CHR ''.''"] TrimRight_last [of ip]
      by (simp add: True amount_text_def)
  next
    case False
    have "last fp' \<noteq> CHR ''.''"
      using t(2) False by (metis decimal_parts_def digits_no_dot last_in_set)
    with False show ?thesis by (subst TrimRight_last) (auto simp: amount_text_def)
  qed
  then have "trimmed (fixed_text n k) = amount_text ip fp'"
    using False t(1,2) by (simp add: trimmed_def fixed_text_def parts [symmetric] decimal_parts_def
        amount_text_def)
  moreover have "valid_amount (amount_text ip fp')"
    unfolding valid_amount_def using t assms by (intro exI [of _ ip] exI [of _ fp']) simp
  ultimately show ?thesis using t(4) by simp
qed

lemma valid_amount_value:
  assumes "valid_amount s"
  shows "\<exists>n. amount_rat s = of_nat n / 10 ^ decimalScale s \<and> decimalScale s \<le> 18"
  using assms by (auto simp: valid_amount_def amount_rat_amount decimalScale_amount)

lemma money_value_nonneg: "ValidateMoney m = None \<Longrightarrow> 0 \<le> money_value m"
  using valid_amount_value by (fastforce simp: ValidateMoney_iff money_value_def)

lemma AddMoney_ok:
  assumes "ValidateMoney a = None" "ValidateMoney b = None" "m_Currency a = m_Currency b"
  shows "\<exists>c. AddMoney a b = Inr c \<and> ValidateMoney c = None \<and> m_Currency c = m_Currency a \<and>
    money_value c = money_value a + money_value b"
proof -
  let ?A = "m_Amount a" and ?B = "m_Amount b"
  from assms obtain m n where v: "amount_rat ?A = of_nat m / 10 ^ decimalScale ?A"
    "amount_rat ?B = of_nat n / 10 ^ decimalScale ?B" "decimalScale ?A \<le> 18" "decimalScale ?B \<le> 18"
    using valid_amount_value by (metis ValidateMoney_iff)
  define k where "k = max (decimalScale ?A) (decimalScale ?B)"
  have k: "(if decimalScale ?A < decimalScale ?B then decimalScale ?B else decimalScale ?A) = k"
    by (simp add: k_def)
  define N where "N = m * 10 ^ (k - decimalScale ?A) + n * 10 ^ (k - decimalScale ?B)"
  have scale: "of_nat x / 10 ^ j = (of_nat (x * 10 ^ (k - j)) / 10 ^ k :: rat)" if "j \<le> k" for x j
  proof -
    have "(10 :: rat) ^ k = 10 ^ j * 10 ^ (k - j)" using that by (simp flip: power_add)
    then show ?thesis by simp
  qed
  have sum: "amount_rat ?A + amount_rat ?B = of_nat N / 10 ^ k"
    unfolding v(1,2) by (subst (1 2) scale) (simp_all add: k_def N_def add_divide_distrib)
  have le: "k \<le> 18" using v by (simp add: k_def)
  have "AddMoney a b = Inr \<lparr>m_Currency = m_Currency a, m_Amount = trimmed (fixed_text N k)\<rparr>"
    using assms unfolding AddMoney_def Let_def k sum FloatString_exact by (simp add: trimmed_def)
  with trimmed_fixed_text [OF le, of N] sum assms show ?thesis
    by (simp add: ValidateMoney_iff money_value_def)
qed

lemma AddMoney_err:
  "\<not> (ValidateMoney a = None \<and> ValidateMoney b = None \<and> m_Currency a = m_Currency b) \<Longrightarrow>
     \<exists>e. AddMoney a b = Inl e"
  by (auto simp: AddMoney_def split: option.splits)

lemma CompareMoney_ok:
  "ValidateMoney a = None \<Longrightarrow> ValidateMoney b = None \<Longrightarrow> m_Currency a = m_Currency b \<Longrightarrow>
     CompareMoney a b = Inr (Rat_Cmp (money_value a) (money_value b))"
  by (simp add: CompareMoney_def money_value_def)

lemma CompareMoney_Inr_iff:
  "CompareMoney a b = Inr c \<longleftrightarrow>
     ValidateMoney a = None \<and> ValidateMoney b = None \<and> m_Currency a = m_Currency b \<and>
     c = Rat_Cmp (money_value a) (money_value b)"
  by (auto simp: CompareMoney_def money_value_def split: option.splits)

lemma Rat_Cmp_simps [simp]:
  "Rat_Cmp x y < 0 \<longleftrightarrow> x < y" "Rat_Cmp x y = 0 \<longleftrightarrow> x = y" "0 < Rat_Cmp x y \<longleftrightarrow> y < x"
  "Rat_Cmp x y \<noteq> 0 \<longleftrightarrow> x \<noteq> y"
  by (auto simp: Rat_Cmp_def)

section \<open>The arithmetic as an interface\<close>

text \<open>
  What the validators and the settlement code use of this file: a set of valid amounts with
  exact values, an addition defined on valid amounts of one currency and a comparison of the
  values. The summation loop of the price breakdowns is proved over the interface.
\<close>

locale exact_money =
  fixes valid :: "Money \<Rightarrow> bool"
    and val :: "Money \<Rightarrow> rat"
    and add :: "Money \<Rightarrow> Money \<Rightarrow> Money result"
    and compare :: "Money \<Rightarrow> Money \<Rightarrow> int result"
  assumes val_nonneg: "valid m \<Longrightarrow> 0 \<le> val m"
    and add_Inr: "valid a \<Longrightarrow> valid b \<Longrightarrow> m_Currency a = m_Currency b \<Longrightarrow>
      \<exists>c. add a b = Inr c \<and> valid c \<and> m_Currency c = m_Currency a \<and> val c = val a + val b"
    and add_Inl: "\<not> (valid a \<and> valid b \<and> m_Currency a = m_Currency b) \<Longrightarrow> \<exists>e. add a b = Inl e"
    and compare_iff: "compare a b = Inr c \<longleftrightarrow>
      valid a \<and> valid b \<and> m_Currency a = m_Currency b \<and> c = Rat_Cmp (val a) (val b)"
begin

lemma add_InrD:
  assumes "add a b = Inr c"
  shows "valid a" "valid b" "valid c" "m_Currency b = m_Currency a" "m_Currency c = m_Currency a"
    "val c = val a + val b"
proof -
  have ok: "valid a \<and> valid b \<and> m_Currency a = m_Currency b"
    using assms add_Inl [of a b] by auto
  then show "valid a" "valid b" "m_Currency b = m_Currency a" by simp_all
  from ok assms show "valid c" "m_Currency c = m_Currency a" "val c = val a + val b"
    using add_Inr [of a b] by auto
qed

lemma compare_refl: "valid a \<Longrightarrow> compare a a = Inr 0"
  by (subst compare_iff) (simp add: Rat_Cmp_def)

lemma compare_antisym: "compare a b = Inr c \<Longrightarrow> compare b a = Inr (- c)"
  by (auto simp: compare_iff Rat_Cmp_def)

lemma compare_trans:
  "compare a b = Inr c \<Longrightarrow> compare b d = Inr e \<Longrightarrow> c \<le> 0 \<Longrightarrow> e \<le> 0 \<Longrightarrow>
     \<exists>f. compare a d = Inr f \<and> f \<le> 0"
  by (auto simp: compare_iff Rat_Cmp_def split: if_splits)

end

interpretation money: exact_money "\<lambda>m. ValidateMoney m = None" money_value AddMoney CompareMoney
  by unfold_locales (rule money_value_nonneg AddMoney_ok AddMoney_err CompareMoney_Inr_iff; assumption?)+

end
