(* ===== verification/Digest.thy ===== *)
theory Digest
  imports Prelude "HOL-Library.Word"
begin

text \<open>
  Digests and identifiers: the text form \<open>sha256:<base64url>\<close> of
  pkg/ascp/signature.go (\<open>SHA256Digest\<close>, \<open>ValidateSHA256Digest\<close>) and the random
  identifiers of pkg/ascp/ids.go, with what they use of the standard library: SHA-256
  (crypto/sha256, FIPS 180-4) and \<open>base64.RawURLEncoding\<close>, the unpadded URL alphabet,
  whose decoder skips line breaks and ignores unused low bits. The lemmas give the encoder's
  round trip, the exact set of strings the validator accepts and the shape of identifiers.
\<close>

section \<open>SHA-256\<close>

unbundle bit_operations_syntax

text \<open>Words are big-endian runs of four bytes.\<close>

type_synonym u32 = "32 word"

text \<open>The standard's table, eight 32-bit words to a row, first word first.\<close>

definition word_row :: "int \<Rightarrow> u32 list" where
  "word_row x = map (\<lambda>i. word_of_int (drop_bit (32 * i) x)) [7, 6, 5, 4, 3, 2, 1, 0]"

definition sha256_K :: "u32 list" where
  "sha256_K = concat (map word_row
    [0x428a2f9871374491b5c0fbcfe9b5dba53956c25b59f111f1923f82a4ab1c5ed5,
     0xd807aa9812835b01243185be550c7dc372be5d7480deb1fe9bdc06a7c19bf174,
     0xe49b69c1efbe47860fc19dc6240ca1cc2de92c6f4a7484aa5cb0a9dc76f988da,
     0x983e5152a831c66db00327c8bf597fc7c6e00bf3d5a7914706ca635114292967,
     0x27b70a852e1b21384d2c6dfc53380d13650a7354766a0abb81c2c92e92722c85,
     0xa2bfe8a1a81a664bc24b8b70c76c51a3d192e819d6990624f40e3585106aa070,
     0x19a4c1161e376c082748774c34b0bcb5391c0cb34ed8aa4a5b9cca4f682e6ff3,
     0x748f82ee78a5636f84c878148cc7020890befffaa4506cebbef9a3f7c67178f2])"

definition sha256_H :: "u32 list" where
  "sha256_H =
    [0x6a09e667, 0xbb67ae85, 0x3c6ef372, 0xa54ff53a, 0x510e527f, 0x9b05688c, 0x1f83d9ab, 0x5be0cd19]"

fun be_word :: "u32 \<Rightarrow> string \<Rightarrow> u32" where
  "be_word w [] = w"
| "be_word w (c # cs) = be_word (push_bit 8 w OR of_char c) cs"

fun words_of :: "string \<Rightarrow> u32 list" where
  "words_of (a # b # c # d # rest) = be_word 0 [a, b, c, d] # words_of rest"
| "words_of _ = []"

definition bytes_of_word :: "u32 \<Rightarrow> string" where
  "bytes_of_word w = map (\<lambda>n. char_of (uint (drop_bit n w))) [24, 16, 8, 0]"

definition sha256_pad :: "string \<Rightarrow> string" where
  "sha256_pad m =
     (let n = length m; z = (119 - n mod 64) mod 64
      in m @ [CHR 0x80] @ replicate z CHR 0x00 @
         map (\<lambda>i. char_of (drop_bit i (8 * int n))) [56, 48, 40, 32, 24, 16, 8, 0])"

text \<open>The schedule is kept newest word first.\<close>

fun sha256_extend :: "nat \<Rightarrow> u32 list \<Rightarrow> u32 list" where
  "sha256_extend 0 ws = ws"
| "sha256_extend (Suc n) ws =
     (let w15 = ws ! 14; w2 = ws ! 1;
          s0 = word_rotr 7 w15 XOR word_rotr 18 w15 XOR drop_bit 3 w15;
          s1 = word_rotr 17 w2 XOR word_rotr 19 w2 XOR drop_bit 10 w2
      in sha256_extend n ((ws ! 15 + s0 + ws ! 6 + s1) # ws))"

fun sha256_round :: "u32 list \<Rightarrow> u32 \<times> u32 \<Rightarrow> u32 list" where
  "sha256_round [a, b, c, d, e, f, g, h] (k, w) =
     (let S1 = word_rotr 6 e XOR word_rotr 11 e XOR word_rotr 25 e;
          ch = (e AND f) XOR (NOT e AND g);
          t1 = h + S1 + ch + k + w;
          S0 = word_rotr 2 a XOR word_rotr 13 a XOR word_rotr 22 a;
          maj = (a AND b) XOR (a AND c) XOR (b AND c);
          t2 = S0 + maj
      in [t1 + t2, a, b, c, d + t1, e, f, g])"
| "sha256_round st _ = st"

definition sha256_block :: "u32 list \<Rightarrow> u32 list \<Rightarrow> u32 list" where
  "sha256_block st blk =
     map2 (+) st (foldl sha256_round st (zip sha256_K (rev (sha256_extend 48 (rev blk)))))"

function sha256_blocks :: "u32 list \<Rightarrow> u32 list \<Rightarrow> u32 list" where
  "sha256_blocks st ws =
     (if length ws < 16 then st else sha256_blocks (sha256_block st (take 16 ws)) (drop 16 ws))"
  by pat_completeness auto
termination
  by (relation "measure (\<lambda>(st, ws). length ws)") auto

declare sha256_blocks.simps [simp del]

definition sha256 :: "string \<Rightarrow> string" where
  "sha256 m = concat (map bytes_of_word (sha256_blocks sha256_H (words_of (sha256_pad m))))"

lemma sha256_abc:
  "sha256 ''abc'' = map char_of
     [0xba :: nat, 0x78, 0x16, 0xbf, 0x8f, 0x01, 0xcf, 0xea, 0x41, 0x41, 0x40, 0xde, 0x5d, 0xae, 0x22, 0x23,
      0xb0, 0x03, 0x61, 0xa3, 0x96, 0x17, 0x7a, 0x9c, 0xb4, 0x10, 0xff, 0x61, 0xf2, 0x00, 0x15, 0xad]"
  by code_simp

lemma length_sha256_round: "length (sha256_round st kw) = length st"
  by (induction st kw rule: sha256_round.induct) (auto simp: Let_def)

lemma length_sha256_block:
  assumes "length st = 8"
  shows "length (sha256_block st blk) = 8"
proof -
  have "length (foldl sha256_round st kws) = length st" for kws
    by (induction kws arbitrary: st) (auto simp: length_sha256_round)
  with assms show ?thesis by (simp add: sha256_block_def)
qed

lemma length_sha256_blocks: "length st = 8 \<Longrightarrow> length (sha256_blocks st ws) = 8"
proof (induction st ws rule: sha256_blocks.induct)
  case (1 st ws)
  then show ?case
    by (subst sha256_blocks.simps) (auto simp: length_sha256_block)
qed

lemma length_sha256 [simp]: "length (sha256 m) = 32"
proof -
  have "length (sha256_blocks sha256_H (words_of (sha256_pad m))) = 8"
    by (rule length_sha256_blocks) (simp add: sha256_H_def)
  then show ?thesis
    by (simp add: sha256_def length_concat bytes_of_word_def o_def map_replicate_const sum_list_replicate)
qed

section \<open>Unpadded base64url\<close>

definition b64_alphabet :: string where
  "b64_alphabet = ''ABCDEFGHIJKLMNOPQRSTUVWXYZabcdefghijklmnopqrstuvwxyz0123456789-_''"

definition b64_char :: "nat \<Rightarrow> char" where
  "b64_char n = b64_alphabet ! n"

text \<open>The decoding table: the position of a byte in the alphabet.\<close>

definition b64_val :: "char \<Rightarrow> nat option" where
  "b64_val c = (let i = length (takeWhile (\<lambda>x. x \<noteq> c) b64_alphabet) in if i < 64 then Some i else None)"

fun base64_encode :: "string \<Rightarrow> string" where
  "base64_encode (a # b # c # rest) =
     b64_char (ord a div 4) # b64_char (ord a mod 4 * 16 + ord b div 16) #
     b64_char (ord b mod 16 * 4 + ord c div 64) # b64_char (ord c mod 64) # base64_encode rest"
| "base64_encode [a, b] =
     [b64_char (ord a div 4), b64_char (ord a mod 4 * 16 + ord b div 16), b64_char (ord b mod 16 * 4)]"
| "base64_encode [a] = [b64_char (ord a div 4), b64_char (ord a mod 4 * 16)]"
| "base64_encode [] = []"

fun b64_quanta :: "nat list \<Rightarrow> string option" where
  "b64_quanta (p # q # r # s # rest) =
     map_option (\<lambda>t. char_of (p * 4 + q div 16) # char_of (q mod 16 * 16 + r div 4) #
       char_of (r mod 4 * 64 + s) # t) (b64_quanta rest)"
| "b64_quanta [p, q, r] = Some [char_of (p * 4 + q div 16), char_of (q mod 16 * 16 + r div 4)]"
| "b64_quanta [p, q] = Some [char_of (p * 4 + q div 16)]"
| "b64_quanta [p] = None"
| "b64_quanta [] = Some []"

text \<open>\<open>None\<close> is a \<open>CorruptInputError\<close>.\<close>

definition base64_decode :: "string \<Rightarrow> string option" where
  "base64_decode s =
     (let vs = map b64_val (filter (\<lambda>c. c \<notin> {CHR 0x0A, CHR 0x0D}) s)
      in if None \<in> set vs then None else b64_quanta (map the vs))"

lemma ord_less [simp]: "ord c < 256"
  using nat_of_char_less_256 [of c] by (simp add: ord_def)

lemma char_of_ord [simp]: "char_of (ord c) = c"
  by (simp add: ord_def)

lemma b64_table: "list_all (\<lambda>i. b64_val (b64_char i) = Some i \<and> visible (b64_char i)) [0..<64]"
  by code_simp

lemma b64_val_char [simp]: "i < 64 \<Longrightarrow> b64_val (b64_char i) = Some i"
  using b64_table by (simp add: list_all_iff)

lemma b64_char_visible: "i < 64 \<Longrightarrow> visible (b64_char i)"
  using b64_table by (simp add: list_all_iff)

lemma visible_not_newline: "visible c \<Longrightarrow> c \<noteq> CHR 0x0A \<and> c \<noteq> CHR 0x0D"
  by (auto simp: visible_def ord_def)

text \<open>The sextets of a byte string, as values.\<close>

fun sextets :: "string \<Rightarrow> nat list" where
  "sextets (a # b # c # rest) =
     ord a div 4 # (ord a mod 4 * 16 + ord b div 16) # (ord b mod 16 * 4 + ord c div 64) #
     ord c mod 64 # sextets rest"
| "sextets [a, b] = [ord a div 4, ord a mod 4 * 16 + ord b div 16, ord b mod 16 * 4]"
| "sextets [a] = [ord a div 4, ord a mod 4 * 16]"
| "sextets [] = []"

lemma base64_encode_sextets: "base64_encode s = map b64_char (sextets s)"
  by (induction s rule: base64_encode.induct) auto

lemma byte_parts:
  "ord a div 4 < 64" "ord a mod 4 < 4" "ord a div 16 < 16" "ord a mod 16 < 16"
  "ord a div 64 < 4" "ord a mod 64 < 64"
  using ord_less [of a] by (simp_all add: div_less_iff_less_mult)

lemma byte_split:
  "ord a div 4 < 64" "ord a mod 4 * 16 + ord b div 16 < 64" "ord b mod 16 * 4 + ord c div 64 < 64"
  "ord a mod 4 * 16 < 64" "ord b mod 16 * 4 < 64"
  using byte_parts [of a] byte_parts [of b] byte_parts [of c] by linarith+

lemma sextets_less: "\<forall>n \<in> set (sextets s). n < 64"
  by (induction s rule: sextets.induct) (simp_all add: byte_split byte_parts)

lemma byte_join:
  "char_of (ord a div 4 * 4 + (ord a mod 4 * 16 + ord b div 16) div 16) = a"
  "char_of (ord a div 4 * 4 + (ord a mod 4 * 16) div 16) = a"
  "char_of ((ord a mod 4 * 16 + ord b div 16) mod 16 * 16 + (ord b mod 16 * 4 + ord c div 64) div 4) = b"
  "char_of ((ord a mod 4 * 16 + ord b div 16) mod 16 * 16 + (ord b mod 16 * 4) div 4) = b"
  "char_of ((ord b mod 16 * 4 + ord c div 64) mod 4 * 64 + ord c mod 64) = c"
  using byte_parts [of b] byte_parts [of c] by (simp_all add: div_mult_mod_eq)

lemma b64_quanta_sextets: "b64_quanta (sextets s) = Some s"
  by (induction s rule: sextets.induct) (simp_all only: sextets.simps b64_quanta.simps byte_join option.map(2))

lemma base64_visible: "list_all visible (base64_encode s)"
  by (auto simp: base64_encode_sextets list_all_iff dest: sextets_less [rule_format] intro!: b64_char_visible)

lemma base64_roundtrip [simp]: "base64_decode (base64_encode s) = Some s"
proof -
  have "filter (\<lambda>c. c \<notin> {CHR 0x0A, CHR 0x0D}) (base64_encode s) = base64_encode s"
    using base64_visible [of s] by (auto simp: filter_id_conv list_all_iff dest: visible_not_newline)
  moreover have "map b64_val (base64_encode s) = map Some (sextets s)"
    using sextets_less [of s] by (simp add: base64_encode_sextets)
  moreover have "None \<notin> set (map Some (sextets s))" by auto
  ultimately show ?thesis
    unfolding base64_decode_def Let_def by (simp only: if_False map_map o_def option.sel map_ident b64_quanta_sextets)
qed

lemma base64_encode_inj: "base64_encode s = base64_encode t \<longleftrightarrow> s = t"
  by (metis base64_roundtrip option.inject)

section \<open>The digest format\<close>

definition digest_prefix :: string where
  "digest_prefix = ''sha256:''"

definition SHA256Digest :: "string \<Rightarrow> string" where
  "SHA256Digest data = digest_prefix @ base64_encode (sha256 data)"

definition ValidateSHA256Digest :: "string \<Rightarrow> error option" where
  "ValidateSHA256Digest value =
     (if \<not> HasPrefix value digest_prefix
      then Some (New_error ''digest must use the sha256 scheme'')
      else
        let encoded = TrimPrefix value digest_prefix in
        case base64_decode encoded of
          None \<Rightarrow> Some (Errorf ''decode sha256 digest: %w'' [AErr (New_error ''illegal base64 data'')])
        | Some decoded \<Rightarrow>
            if length decoded \<noteq> 32
            then Some (Errorf ''sha256 digest has %d bytes; want %d'' [AInt (int (length decoded)), AInt 32])
            else if base64_encode decoded \<noteq> encoded
            then Some (New_error ''sha256 digest is not canonical base64url'')
            else None)"

lemma HasPrefix_append [simp]: "HasPrefix (p @ s) p"
  by (simp add: HasPrefix_def)

lemma TrimPrefix_append [simp]: "TrimPrefix (p @ s) p = s"
  by (simp add: TrimPrefix_def)

lemma HasPrefix_split: "HasPrefix s p \<longleftrightarrow> s = p @ TrimPrefix s p"
  by (metis HasPrefix_append HasPrefix_def TrimPrefix_def append_take_drop_id)

lemma ValidateSHA256Digest_iff:
  "ValidateSHA256Digest s = None \<longleftrightarrow> (\<exists>d. length d = 32 \<and> s = digest_prefix @ base64_encode d)"
proof
  assume ok: "ValidateSHA256Digest s = None"
  then have "HasPrefix s digest_prefix"
    by (auto simp: ValidateSHA256Digest_def split: if_splits)
  then have s: "s = digest_prefix @ TrimPrefix s digest_prefix" by (simp add: HasPrefix_split)
  from ok show "\<exists>d. length d = 32 \<and> s = digest_prefix @ base64_encode d"
    by (subst s) (auto simp: ValidateSHA256Digest_def Let_def split: if_splits option.splits)
qed (auto simp: ValidateSHA256Digest_def)

lemma ValidateSHA256Digest_SHA256Digest [simp]: "ValidateSHA256Digest (SHA256Digest data) = None"
  unfolding ValidateSHA256Digest_iff SHA256Digest_def by (intro exI [of _ "sha256 data"]) simp

lemma SHA256Digest_eq_iff: "SHA256Digest x = SHA256Digest y \<longleftrightarrow> sha256 x = sha256 y"
  by (simp add: SHA256Digest_def base64_encode_inj)

lemma SHA256Digest_not_Nil [simp]: "SHA256Digest x \<noteq> []" "[] \<noteq> SHA256Digest x"
  by (simp_all add: SHA256Digest_def digest_prefix_def)

section \<open>Identifiers\<close>

text \<open>
  \<open>NewID\<close> reads 18 random bytes; \<open>None\<close> is a failed read. \<open>MustNewID\<close> panics on
  that error, which ends the request, so it is modelled on a successful read.
\<close>

definition NewID :: "string option \<Rightarrow> string \<Rightarrow> string result" where
  "NewID raw prefix =
     (case raw of
        None \<Rightarrow> Inl (Errorf ''generate random identifier: %w'' [AErr (New_error ''read failed'')])
      | Some bytes \<Rightarrow> Inr (prefix @ ''_'' @ base64_encode bytes))"

definition MustNewID :: "string \<Rightarrow> string \<Rightarrow> string" where
  "MustNewID raw prefix = prefix @ ''_'' @ base64_encode raw"

lemma NewID_Some: "NewID (Some raw) prefix = Inr (MustNewID raw prefix)"
  by (simp add: NewID_def MustNewID_def)

lemma MustNewID_inj [simp]: "MustNewID r p = MustNewID r' p \<longleftrightarrow> r = r'"
  by (simp add: MustNewID_def base64_encode_inj)

lemma NewID_inj: "NewID (Some r) p = NewID (Some r') p \<longleftrightarrow> r = r'"
  by (simp add: NewID_def base64_encode_inj)

lemma NewID_prefix: "NewID r p = Inr i \<Longrightarrow> HasPrefix i (p @ ''_'')"
  by (auto simp: NewID_def HasPrefix_def split: option.splits)

end
