(* ===== verification/Problems.thy ===== *)
theory Problems
  imports Types
begin

text \<open>
  Problem documents (pkg/ascp/problem.go) and the constructors the packages build them with:
  \<open>problem\<close> and \<open>errorCategory\<close> of pkg/server/server.go, \<open>fileProblem\<close> of
  pkg/server/files.go, \<open>providerProblem\<close> and \<open>validationProblem\<close> of
  internal/email/service.go. The lemmas say which category a code falls in.
\<close>

section \<open>Error codes\<close>

definition ErrInvalidRequest where [code_consts]: "ErrInvalidRequest = ''invalid_request''"
definition ErrUnsupportedMediaType where [code_consts]: "ErrUnsupportedMediaType = ''unsupported_media_type''"
definition ErrValidationFailed where [code_consts]: "ErrValidationFailed = ''validation_failed''"
definition ErrUnauthenticated where [code_consts]: "ErrUnauthenticated = ''unauthenticated''"
definition ErrForbidden where [code_consts]: "ErrForbidden = ''forbidden''"
definition ErrNotFound where [code_consts]: "ErrNotFound = ''not_found''"
definition ErrUnsupportedIntent where [code_consts]: "ErrUnsupportedIntent = ''unsupported_intent''"
definition ErrCapabilityNotFound where [code_consts]: "ErrCapabilityNotFound = ''capability_not_found''"
definition ErrContractRequired where [code_consts]: "ErrContractRequired = ''contract_required''"
definition ErrDirectNotAllowed where [code_consts]: "ErrDirectNotAllowed = ''direct_execution_not_allowed''"
definition ErrAdditionalInput where [code_consts]: "ErrAdditionalInput = ''additional_input_required''"
definition ErrOfferExpired where [code_consts]: "ErrOfferExpired = ''offer_expired''"
definition ErrQuoteExpired where [code_consts]: "ErrQuoteExpired = ''quote_expired''"
definition ErrQuoteMismatch where [code_consts]: "ErrQuoteMismatch = ''quote_mismatch''"
definition ErrBudgetExceeded where [code_consts]: "ErrBudgetExceeded = ''budget_exceeded''"
definition ErrDeadlineExpired where [code_consts]: "ErrDeadlineExpired = ''deadline_expired''"
definition ErrSchedulingUnsupported where [code_consts]: "ErrSchedulingUnsupported = ''scheduling_unsupported''"
definition ErrCallbackUnsupported where [code_consts]: "ErrCallbackUnsupported = ''callback_unsupported''"
definition ErrAuthorizationRequired where [code_consts]: "ErrAuthorizationRequired = ''authorization_required''"
definition ErrAuthorizationInvalid where [code_consts]: "ErrAuthorizationInvalid = ''authorization_invalid''"
definition ErrBillingRequired where [code_consts]: "ErrBillingRequired = ''billing_required''"
definition ErrBillingDeclined where [code_consts]: "ErrBillingDeclined = ''billing_declined''"
definition ErrBillingUnavailable where [code_consts]: "ErrBillingUnavailable = ''billing_unavailable''"
definition ErrBillingOutcomeUnknown where [code_consts]: "ErrBillingOutcomeUnknown = ''billing_outcome_unknown''"
definition ErrBillingModeUnsupported where [code_consts]: "ErrBillingModeUnsupported = ''billing_mode_unsupported''"
definition ErrSettlementPending where [code_consts]: "ErrSettlementPending = ''settlement_pending''"
definition ErrSettlementFailed where [code_consts]: "ErrSettlementFailed = ''settlement_failed''"
definition ErrIdempotencyConflict where [code_consts]: "ErrIdempotencyConflict = ''idempotency_conflict''"
definition ErrRequestInProgress where [code_consts]: "ErrRequestInProgress = ''request_in_progress''"
definition ErrOutcomeUnknown where [code_consts]: "ErrOutcomeUnknown = ''outcome_unknown''"
definition ErrPreconditionFailed where [code_consts]: "ErrPreconditionFailed = ''precondition_failed''"
definition ErrTaskNotCancellable where [code_consts]: "ErrTaskNotCancellable = ''task_not_cancellable''"
definition ErrFileNotReady where [code_consts]: "ErrFileNotReady = ''file_not_ready''"
definition ErrFileRejected where [code_consts]: "ErrFileRejected = ''file_rejected''"
definition ErrFileTooLarge where [code_consts]: "ErrFileTooLarge = ''file_too_large''"
definition ErrUploadExpired where [code_consts]: "ErrUploadExpired = ''upload_expired''"
definition ErrDigestMismatch where [code_consts]: "ErrDigestMismatch = ''digest_mismatch''"
definition ErrRateLimited where [code_consts]: "ErrRateLimited = ''rate_limited''"
definition ErrServiceUnavailable where [code_consts]: "ErrServiceUnavailable = ''service_unavailable''"
definition ErrInternal where [code_consts]: "ErrInternal = ''internal_error''"

section \<open>HTTP status codes\<close>

abbreviation StatusOK :: int where "StatusOK \<equiv> 200"
abbreviation StatusCreated :: int where "StatusCreated \<equiv> 201"
abbreviation StatusAccepted :: int where "StatusAccepted \<equiv> 202"
abbreviation StatusBadRequest :: int where "StatusBadRequest \<equiv> 400"
abbreviation StatusUnauthorized :: int where "StatusUnauthorized \<equiv> 401"
abbreviation StatusPaymentRequired :: int where "StatusPaymentRequired \<equiv> 402"
abbreviation StatusForbidden :: int where "StatusForbidden \<equiv> 403"
abbreviation StatusNotFound :: int where "StatusNotFound \<equiv> 404"
abbreviation StatusConflict :: int where "StatusConflict \<equiv> 409"
abbreviation StatusGone :: int where "StatusGone \<equiv> 410"
abbreviation StatusPreconditionFailed :: int where "StatusPreconditionFailed \<equiv> 412"
abbreviation StatusRequestEntityTooLarge :: int where "StatusRequestEntityTooLarge \<equiv> 413"
abbreviation StatusUnsupportedMediaType :: int where "StatusUnsupportedMediaType \<equiv> 415"
abbreviation StatusUnprocessableEntity :: int where "StatusUnprocessableEntity \<equiv> 422"
abbreviation StatusPreconditionRequired :: int where "StatusPreconditionRequired \<equiv> 428"
abbreviation StatusTooManyRequests :: int where "StatusTooManyRequests \<equiv> 429"
abbreviation StatusInternalServerError :: int where "StatusInternalServerError \<equiv> 500"
abbreviation StatusServiceUnavailable :: int where "StatusServiceUnavailable \<equiv> 503"

section \<open>Problem documents\<close>

record FieldError =
  fe_Pointer :: string
  fe_Code :: string
  fe_Message :: string

record Problem =
  p_Type :: string
  p_Title :: string
  p_Status :: int
  p_Detail :: string
  p_Instance :: string
  p_Code :: string
  p_Category :: string
  p_Retryable :: bool
  p_RetryAfterMS :: int
  p_RequestID :: string
  p_TaskID :: string
  p_TaskState :: TaskState
  p_InvocationID :: string
  p_InvocationState :: InvocationState
  p_FieldErrors :: "FieldError list"
  p_Extensions :: json_map

definition Problem_Error :: "Problem \<Rightarrow> string" where
  "Problem_Error p =
     (if p_Detail p \<noteq> [] then p_Code p @ '': '' @ p_Detail p else p_Code p @ '': '' @ p_Title p)"

definition problem_type :: "string \<Rightarrow> string" where
  "problem_type code = ''urn:ascp:problem:'' @ code"

definition errorCategory :: "int \<Rightarrow> string \<Rightarrow> string" where
  "errorCategory status code =
     (if HasPrefix code ''billing_'' \<or> HasPrefix code ''settlement_'' then ''billing''
      else if HasPrefix code ''file_'' \<or> code = ErrUploadExpired \<or> code = ErrDigestMismatch then ''file''
      else if HasPrefix code ''authorization_'' \<or> status = StatusUnauthorized \<or> status = StatusForbidden
        then ''authorization''
      else if HasPrefix code ''idempotency_'' \<or> code = ErrRequestInProgress \<or> code = ErrOutcomeUnknown
        then ''idempotency''
      else if status = StatusTooManyRequests then ''rate_limit''
      else if 500 \<le> status then ''service''
      else if status = StatusConflict \<or> status = StatusPreconditionFailed then ''conflict''
      else ''request'')"

definition base_problem :: "int \<Rightarrow> string \<Rightarrow> string \<Rightarrow> string \<Rightarrow> string \<Rightarrow> bool \<Rightarrow> Problem" where
  "base_problem status code title detail category retryable =
     \<lparr>p_Type = problem_type code, p_Title = title, p_Status = status, p_Detail = detail,
      p_Instance = [], p_Code = code, p_Category = category, p_Retryable = retryable,
      p_RetryAfterMS = 0, p_RequestID = [], p_TaskID = [], p_TaskState = TaskStateOther [],
      p_InvocationID = [], p_InvocationState = InvocationOther [], p_FieldErrors = [],
      p_Extensions = []\<rparr>"

definition problem :: "int \<Rightarrow> string \<Rightarrow> string \<Rightarrow> string \<Rightarrow> bool \<Rightarrow> Problem" where
  "problem status code title detail retryable =
     base_problem status code title detail (errorCategory status code) retryable"

definition underscores_to_spaces :: "string \<Rightarrow> string" where
  "underscores_to_spaces s = map (\<lambda>c. if c = CHR ''_'' then CHR '' '' else c) s"

definition fileProblem :: "int \<Rightarrow> string \<Rightarrow> string \<Rightarrow> bool \<Rightarrow> Problem" where
  "fileProblem status code detail retryable =
     base_problem status code (underscores_to_spaces code) detail ''file'' retryable"

definition providerProblem :: "int \<Rightarrow> string \<Rightarrow> string \<Rightarrow> bool \<Rightarrow> Problem" where
  "providerProblem status code detail retryable =
     base_problem status code (underscores_to_spaces code) detail ''service'' retryable"

definition validationProblem :: "string \<Rightarrow> string \<Rightarrow> Problem" where
  "validationProblem pointer message =
     (providerProblem StatusUnprocessableEntity ErrValidationFailed message False)
       \<lparr>p_FieldErrors := [\<lparr>fe_Pointer = pointer, fe_Code = ''invalid'', fe_Message = message\<rparr>]\<rparr>"

section \<open>Lemmas\<close>

lemma problem_sel [simp]:
  "p_Type (problem st c t d r) = problem_type c"
  "p_Title (problem st c t d r) = t"
  "p_Status (problem st c t d r) = st"
  "p_Detail (problem st c t d r) = d"
  "p_Code (problem st c t d r) = c"
  "p_Category (problem st c t d r) = errorCategory st c"
  "p_Retryable (problem st c t d r) = r"
  "p_TaskID (problem st c t d r) = []"
  "p_InvocationID (problem st c t d r) = []"
  "p_RetryAfterMS (problem st c t d r) = 0"
  by (simp_all add: problem_def base_problem_def)

lemma fileProblem_sel [simp]:
  "p_Status (fileProblem st c d r) = st" "p_Code (fileProblem st c d r) = c"
  "p_Detail (fileProblem st c d r) = d" "p_Retryable (fileProblem st c d r) = r"
  "p_Category (fileProblem st c d r) = ''file''"
  by (simp_all add: fileProblem_def base_problem_def)

lemma providerProblem_sel [simp]:
  "p_Status (providerProblem st c d r) = st" "p_Code (providerProblem st c d r) = c"
  "p_Detail (providerProblem st c d r) = d" "p_Retryable (providerProblem st c d r) = r"
  "p_Category (providerProblem st c d r) = ''service''"
  by (simp_all add: providerProblem_def base_problem_def)

lemma errorCategory_range:
  "errorCategory status code \<in>
     {''billing'', ''file'', ''authorization'', ''idempotency'', ''rate_limit'', ''service'',
      ''conflict'', ''request''}"
  by (simp add: errorCategory_def)

text \<open>The stable code decides before the status does.\<close>

lemma errorCategory_billing_iff:
  "errorCategory status code = ''billing'' \<longleftrightarrow> HasPrefix code ''billing_'' \<or> HasPrefix code ''settlement_''"
  by (simp add: errorCategory_def)

end
