(* ===== verification/Validation.thy ===== *)
theory Validation
  imports Money Digest Problems
begin

text \<open>
  The cross-provider validators (pkg/ascp/validation.go): quotes, billing terms, file
  references, receipts. Each is the sequence of guards of its Go function; next to it stands a
  declarative predicate on exact values, and an equivalence between the two. \<open>url.Parse\<close> is
  the argument \<open>url_parse\<close>.
\<close>

section \<open>Definitions\<close>

text \<open>What the program reads of a parsed URL; a missing \<open>User\<close> is \<open>False\<close>.\<close>

record URL =
  u_Scheme :: string
  u_Host :: string
  u_has_User :: bool

type_synonym url_parser = "string \<Rightarrow> URL result"

definition https_url :: "url_parser \<Rightarrow> string \<Rightarrow> bool" where
  "https_url url_parse s =
     (case url_parse s of Inl _ \<Rightarrow> False
      | Inr parsed \<Rightarrow> u_Scheme parsed = ''https'' \<and> u_Host parsed \<noteq> [] \<and> \<not> u_has_User parsed)"

definition control_bytes :: string where
  "control_bytes = [CHR 0x0D, CHR 0x0A, CHR 0x00]"

definition ValidateFileRef :: "FileRef \<Rightarrow> error option" where
  "ValidateFileRef file = first_error
     [fail_if (blank (fr_FileID file) \<or> blank (fr_URI file)) (New_error ''file_id and uri are required''),
      fail_if (blank (fr_Name file) \<or> 512 < length (fr_Name file))
        (New_error ''file name is missing or too long''),
      fail_if (ContainsAny (fr_Name file) control_bytes)
        (New_error ''file name contains control characters''),
      fail_if (blank (fr_MediaType file)) (New_error ''file media type is required''),
      fail_if (fr_Size file < 0) (New_error ''file size is negative''),
      wrap_error ''file digest: %w'' (ValidateSHA256Digest (fr_Digest file)),
      fail_if (blank (fr_State file) \<or> blank (fr_ScanStatus file))
        (New_error ''file state and scan status are required'')]"

definition validateContextRef :: "ContextRef \<Rightarrow> error option" where
  "validateContextRef ref = first_error
     [fail_if (blank (cr_URI ref) \<or> 4096 < length (cr_URI ref)) (New_error ''invalid URI''),
      fail_if (cr_Size ref < 0) (New_error ''negative size''),
      fail_if (ContainsAny (cr_Digest ref) [CHR 0x0D, CHR 0x0A, CHR 0x09, CHR '' ''])
        (New_error ''invalid digest'')]"

fun validBillingMode :: "BillingMode \<Rightarrow> bool" where
  "validBillingMode (BillingOther _) = False"
| "validBillingMode _ = True"

text \<open>
  The loop of \<open>validatePriceComponents\<close>, which two validators of the engine repeat, for an
  addition \<open>add\<close> and the texts of its two errors.
\<close>

fun sum_components ::
  "(Money \<Rightarrow> Money \<Rightarrow> Money result) \<Rightarrow> (int \<Rightarrow> error) \<Rightarrow> (int \<Rightarrow> error \<Rightarrow> error) \<Rightarrow> int \<Rightarrow> Money \<Rightarrow>
     PriceComponent list \<Rightarrow> Money result"
where
  "sum_components add no_type bad_sum index sum0 [] = Inr sum0"
| "sum_components add no_type bad_sum index sum0 (component # components) =
     (if blank (pc_Type component) then Inl (no_type index)
      else case add sum0 (pc_Amount component) of
          Inl err \<Rightarrow> Inl (bad_sum index err)
        | Inr sum1 \<Rightarrow> sum_components add no_type bad_sum (index + 1) sum1 components)"

definition validatePriceComponents ::
  "PriceComponent list \<Rightarrow> Money \<Rightarrow> string \<Rightarrow> error option" where
  "validatePriceComponents components expected label =
     (if components = [] then None
      else case sum_components AddMoney
                  (\<lambda>index. Errorf ''%s price component %d has no type'' [AStr label, AInt index])
                  (\<lambda>index err. Errorf ''%s price component %d: %w'' [AStr label, AInt index, AErr err])
                  0 \<lparr>m_Currency = m_Currency expected, m_Amount = ''0''\<rparr> components of
          Inl err \<Rightarrow> Some err
        | Inr sum0 \<Rightarrow>
            fail_if (CompareMoney sum0 expected \<noteq> Inr 0)
              (Errorf ''%s price breakdown does not sum to amount'' [AStr label]))"

text \<open>A comparison that must succeed and satisfy \<open>ok\<close>.\<close>

definition compared :: "string \<Rightarrow> int result \<Rightarrow> (int \<Rightarrow> error option) \<Rightarrow> error option" where
  "compared fmt r k = (case r of Inl err \<Rightarrow> Some (Errorf fmt [AErr err]) | Inr c \<Rightarrow> k c)"

definition ValidateBillingTerms :: "BillingTerms \<Rightarrow> Money \<Rightarrow> error option" where
  "ValidateBillingTerms terms price = first_error
     [fail_if (\<not> validBillingMode (bt_Mode terms))
        (Errorf ''unsupported billing mode %q'' [AStr (BillingMode_text (bt_Mode terms))]),
      fail_if (blank (bt_SettlementTiming terms)) (New_error ''settlement timing is required''),
      fail_if (bt_ArrangementRequired terms \<and> blank (bt_ArrangementRef terms))
        (New_error ''billing arrangement reference is required''),
      fail_if (bt_Mode terms = BillingPayNow \<and> bt_AcceptedSchemes terms = [])
        (New_error ''pay-now terms list no accepted payment scheme''),
      (if bt_Mode terms = BillingFree
       then case CompareMoney price \<lparr>m_Currency = m_Currency price, m_Amount = ''0''\<rparr> of
           Inl err \<Rightarrow> Some err
         | Inr comparison \<Rightarrow>
             fail_if (comparison \<noteq> 0) (New_error ''free billing mode must have a zero price'')
       else None)]"

definition expires_before :: "time \<Rightarrow> time \<Rightarrow> bool" where
  "expires_before t quote_expiry \<longleftrightarrow> \<not> IsZero t \<and> \<not> IsZero quote_expiry \<and> Before t quote_expiry"

definition ValidateQuoteSemantics :: "url_parser \<Rightarrow> Quote \<Rightarrow> error option" where
  "ValidateQuoteSemantics url_parse quote = first_error
     [fail_if (q_ProtocolVersion quote \<noteq> ProtocolVersion)
        (Errorf ''unsupported signed protocol version %q'' [AStr (q_ProtocolVersion quote)]),
      fail_if (blank (q_ServiceID quote) \<or> blank (q_QuoteID quote) \<or>
          blank (q_OfferID quote) \<or> blank (q_Intent quote))
        (New_error ''quote identity fields are incomplete''),
      fail_if (blank (er_Type (q_Actor quote)) \<or> blank (er_ID (q_Actor quote)) \<or>
          blank (er_Type (q_Principal quote)) \<or> blank (er_ID (q_Principal quote)))
        (New_error ''quote actor or principal is incomplete''),
      fail_if (q_NormalizedTask quote = []) (New_error ''quote normalized task is empty''),
      range_check (\<lambda>index ref. first_error
         [map_option (\<lambda>err. Errorf ''quote context reference %d: %w'' [AInt index, AErr err])
            (validateContextRef ref),
          fail_if (expires_before (cr_ExpiresAt ref) (q_ExpiresAt quote))
            (Errorf ''quote context reference %d expires before the quote'' [AInt index])])
        0 (q_ContextRefs quote),
      range_check (\<lambda>index file. first_error
         [map_option (\<lambda>err. Errorf ''quote input file %d: %w'' [AInt index, AErr err])
            (ValidateFileRef file),
          fail_if (expires_before (fr_ExpiresAt file) (q_ExpiresAt quote))
            (Errorf ''quote input file %d expires before the quote'' [AInt index])])
        0 (q_InputFiles quote),
      (case q_Callback quote of None \<Rightarrow> None
       | Some callback \<Rightarrow> fail_if (\<not> https_url url_parse (cb_URL callback))
           (New_error ''quote callback must be an absolute HTTPS URL without user info'')),
      fail_if (IsZero (q_IssuedAt quote) \<or> IsZero (q_ExpiresAt quote) \<or>
          \<not> After (q_ExpiresAt quote) (q_IssuedAt quote))
        (New_error ''quote validity interval is invalid''),
      fail_if (case q_RevocableUntil quote of None \<Rightarrow> False | Some t \<Rightarrow> After t (q_ExpiresAt quote))
        (New_error ''quote revocation deadline exceeds expiry''),
      fail_if (blank (q_RiskClass quote)) (New_error ''quote risk class is missing''),
      fail_if (cf_Required (q_Confirmation quote) \<and> blank (cf_Mode (q_Confirmation quote)))
        (New_error ''quote confirmation mode is missing''),
      fail_if (du_RetentionSeconds (q_DataUse quote) < 0) (New_error ''quote data retention is negative''),
      (let sla = q_SLA quote in
       fail_if (sl_ExpectedCompletionSeconds sla < 0 \<or> sl_MaximumCompletionSeconds sla < 0 \<or>
          (sl_MaximumCompletionSeconds sla > 0 \<and>
           sl_ExpectedCompletionSeconds sla > sl_MaximumCompletionSeconds sla))
        (New_error ''quote service-level interval is invalid'')),
      fail_if (q_Effects quote = [])
        (New_error ''quote contains no explicit effect or access description''),
      range_check (\<lambda>index effect. fail_if (blank (ef_Type effect) \<or> blank (ef_Summary effect))
          (Errorf ''quote effect %d requires type and summary'' [AInt index]))
        0 (q_Effects quote),
      wrap_error ''quote price: %w'' (ValidateMoney (q_Price quote)),
      wrap_error ''quote price ceiling: %w'' (ValidateMoney (q_PriceCeiling quote)),
      compared ''compare quote price and ceiling: %w'' (CompareMoney (q_PriceCeiling quote) (q_Price quote))
        (\<lambda>ceilingComparison. first_error
          [fail_if (ceilingComparison < 0) (New_error ''quote price exceeds price ceiling''),
           fail_if (\<not> bt_VariablePriceAllowed (q_BillingTerms quote) \<and> ceilingComparison \<noteq> 0)
             (New_error ''fixed-price quote has a different price ceiling'')]),
      wrap_error ''quote billing terms: %w'' (ValidateBillingTerms (q_BillingTerms quote) (q_Price quote)),
      validatePriceComponents (q_PriceBreakdown quote) (q_Price quote) ''quote'',
      (case ep_MaxPrice (q_Execution quote) of None \<Rightarrow> None
       | Some limit \<Rightarrow>
           compared ''compare execution maximum price: %w'' (CompareMoney limit (q_PriceCeiling quote))
             (\<lambda>comparison. fail_if (comparison < 0)
               (New_error ''quote exceeds its embedded client maximum price''))),
      fail_if (case (ep_NotBefore (q_Execution quote), ep_Deadline (q_Execution quote)) of
          (Some notBefore, Some deadline) \<Rightarrow> After notBefore deadline | _ \<Rightarrow> False)
        (New_error ''quote execution window is invalid'')]"

definition terminal_outcome :: "TaskState \<Rightarrow> bool" where
  "terminal_outcome s \<longleftrightarrow>
     s \<in> {TaskSucceeded, TaskFailed, TaskCancelled, TaskCompensated, TaskDisputed}"

definition ValidateReceiptAgainstQuote :: "Receipt \<Rightarrow> Quote \<Rightarrow> error option" where
  "ValidateReceiptAgainstQuote receipt quote = first_error
     [fail_if (rc_ProtocolVersion receipt \<noteq> q_ProtocolVersion quote \<or>
          rc_ProtocolVersion receipt \<noteq> ProtocolVersion)
        (New_error ''receipt protocol version does not match quote''),
      fail_if (rc_ServiceID receipt \<noteq> q_ServiceID quote \<or> rc_QuoteID receipt \<noteq> q_QuoteID quote)
        (New_error ''receipt service or quote identity does not match''),
      fail_if (blank (rc_ReceiptID receipt) \<or> blank (rc_TaskID receipt))
        (New_error ''receipt identity fields are incomplete''),
      fail_if (IsZero (rc_CompletedAt receipt) \<or> Before (rc_CompletedAt receipt) (q_IssuedAt quote))
        (New_error ''receipt completion time is invalid''),
      fail_if (blank (rc_AuditRoot receipt)) (New_error ''receipt audit root is missing''),
      fail_if (\<not> terminal_outcome (rc_Outcome receipt))
        (Errorf ''receipt outcome %q is not terminal'' [AStr (TaskState_text (rc_Outcome receipt))]),
      (case rc_BilledAmount receipt of
         None \<Rightarrow> fail_if (rc_BilledBreakdown receipt \<noteq> [])
           (New_error ''receipt contains billed breakdown without billed amount'')
       | Some billed \<Rightarrow> first_error
           [wrap_error ''receipt billed amount: %w'' (ValidateMoney billed),
            compared ''compare receipt billing with quote ceiling: %w''
              (CompareMoney (q_PriceCeiling quote) billed)
              (\<lambda>comparison. fail_if (comparison < 0)
                (New_error ''receipt billing exceeds signed quote ceiling'')),
            fail_if (\<not> bt_VariablePriceAllowed (q_BillingTerms quote) \<and>
                CompareMoney (q_Price quote) billed \<noteq> Inr 0)
              (New_error ''fixed-price receipt billing differs from signed price''),
            validatePriceComponents (rc_BilledBreakdown receipt) billed ''receipt'']),
      (case rc_Billing receipt of None \<Rightarrow> None
       | Some billing \<Rightarrow> first_error
           [fail_if (br_Mode billing \<noteq> bt_Mode (q_BillingTerms quote))
              (New_error ''receipt billing mode differs from signed quote''),
            (case (br_Amount billing, rc_BilledAmount receipt) of
               (Some amount, Some billed) \<Rightarrow> fail_if (CompareMoney amount billed \<noteq> Inr 0)
                 (New_error ''receipt billing record amount differs from billed amount'')
             | _ \<Rightarrow> None)])]"

definition ValidateInvocationReceipt :: "InvocationReceipt \<Rightarrow> error option" where
  "ValidateInvocationReceipt receipt = first_error
     [fail_if (ir_ProtocolVersion receipt \<noteq> ProtocolVersion)
        (Errorf ''unsupported invocation receipt version %q'' [AStr (ir_ProtocolVersion receipt)]),
      fail_if (blank (ir_ServiceID receipt) \<or> blank (ir_ReceiptID receipt) \<or>
          blank (ir_InvocationID receipt) \<or> blank (ir_Intent receipt))
        (New_error ''invocation receipt identity fields are incomplete''),
      fail_if (blank (ir_RequestDigest receipt) \<or> blank (ir_AuditRoot receipt))
        (New_error ''invocation receipt digest or audit root is missing''),
      fail_if (IsZero (ir_CompletedAt receipt)) (New_error ''invocation receipt completion time is missing''),
      fail_if (ir_Outcome receipt \<notin> {InvocationSucceeded, InvocationFailed, InvocationAccepted})
        (Errorf ''unsupported invocation outcome %q'' [AStr (InvocationState_text (ir_Outcome receipt))])]"

section \<open>Sums of price components\<close>

context exact_money
begin

definition component_ok :: "string \<Rightarrow> PriceComponent \<Rightarrow> bool" where
  "component_ok cur c \<longleftrightarrow>
     \<not> blank (pc_Type c) \<and> valid (pc_Amount c) \<and> m_Currency (pc_Amount c) = cur"

definition component_sum :: "PriceComponent list \<Rightarrow> rat" where
  "component_sum cs = (\<Sum>c \<leftarrow> cs. val (pc_Amount c))"

lemma sum_components_InrD:
  assumes "valid t" "sum_components add nt bs i t cs = Inr u"
  shows "list_all (component_ok (m_Currency t)) cs \<and> valid u \<and> m_Currency u = m_Currency t \<and>
    val u = val t + component_sum cs"
  using assms
proof (induction cs arbitrary: t i)
  case (Cons c cs)
  then obtain t' where t': "\<not> blank (pc_Type c)" "add t (pc_Amount c) = Inr t'"
    "sum_components add nt bs (i + 1) t' cs = Inr u"
    by (auto split: if_splits sum.splits)
  note t'' = add_InrD [OF t'(2)]
  from Cons.IH [OF t''(3) t'(3)] t'(1) t'' show ?case
    by (simp add: component_ok_def component_sum_def)
qed (simp add: component_sum_def)

lemma sum_components_total:
  "valid t \<Longrightarrow> list_all (component_ok (m_Currency t)) cs \<Longrightarrow> \<exists>u. sum_components add nt bs i t cs = Inr u"
proof (induction cs arbitrary: t i)
  case (Cons c cs)
  then obtain t' where "add t (pc_Amount c) = Inr t'" "valid t'" "m_Currency t' = m_Currency t"
    using add_Inr [of t "pc_Amount c"] by (auto simp: component_ok_def)
  with Cons show ?case by (simp add: component_ok_def)
qed simp

text \<open>The loop followed by the comparison decides whether the parts make up the whole.\<close>

lemma sum_components_compare:
  assumes "valid t" "m_Currency t = m_Currency e" "val t = 0"
  shows "(\<exists>u. sum_components add nt bs i t cs = Inr u \<and> compare u e = Inr 0) \<longleftrightarrow>
    valid e \<and> list_all (component_ok (m_Currency e)) cs \<and> component_sum cs = val e"
proof
  assume "\<exists>u. sum_components add nt bs i t cs = Inr u \<and> compare u e = Inr 0"
  then obtain u where u: "sum_components add nt bs i t cs = Inr u" "compare u e = Inr 0" by blast
  from u(2) have "valid e" "val u = val e" by (auto simp: compare_iff dest: sym)
  with sum_components_InrD [OF assms(1) u(1)] assms(2,3)
  show "valid e \<and> list_all (component_ok (m_Currency e)) cs \<and> component_sum cs = val e" by simp
next
  assume ok: "valid e \<and> list_all (component_ok (m_Currency e)) cs \<and> component_sum cs = val e"
  then obtain u where u: "sum_components add nt bs i t cs = Inr u"
    using sum_components_total [OF assms(1), of cs nt bs i] assms(2) by auto
  with sum_components_InrD [OF assms(1) u] ok assms(2,3) have "compare u e = Inr 0"
    by (simp add: compare_iff)
  with u show "\<exists>u. sum_components add nt bs i t cs = Inr u \<and> compare u e = Inr 0" by blast
qed

end

section \<open>The declarative predicates\<close>

text \<open>
  The breakdown of an amount: every part is typed and in the amount's currency and the exact
  values add up; an absent breakdown is allowed.
\<close>

definition breakdown_ok :: "PriceComponent list \<Rightarrow> Money \<Rightarrow> bool" where
  "breakdown_ok cs e \<longleftrightarrow> cs = [] \<or>
     (ValidateMoney e = None \<and>
      list_all (\<lambda>c. \<not> blank (pc_Type c) \<and> ValidateMoney (pc_Amount c) = None \<and>
        m_Currency (pc_Amount c) = m_Currency e) cs \<and>
      (\<Sum>c \<leftarrow> cs. money_value (pc_Amount c)) = money_value e)"

lemma valid_zero_amount: "valid_amount ''0''"
  unfolding valid_amount_def
  by (intro exI [of _ "''0''"] exI [of _ "[]"]) (simp add: amount_text_def decimal_parts_def is_digit_def ord_def)

lemma amount_rat_zero [simp]: "amount_rat ''0'' = 0"
  by (simp add: amount_rat_def Rat_SetString_def is_digit_def ord_def digits_val_def digit_val_def)

lemma breakdown_loop_iff:
  assumes "cs \<noteq> []"
  shows "(\<exists>u. sum_components AddMoney nt bs 0 \<lparr>m_Currency = m_Currency e, m_Amount = ''0''\<rparr> cs = Inr u \<and>
     CompareMoney u e = Inr 0) \<longleftrightarrow> breakdown_ok cs e"
proof (cases "currencyCodePattern (m_Currency e)")
  case True
  let ?z = "\<lparr>m_Currency = m_Currency e, m_Amount = ''0''\<rparr>"
  have z: "ValidateMoney ?z = None" "money_value ?z = 0" "m_Currency ?z = m_Currency e"
    using True by (simp_all add: ValidateMoney_iff valid_zero_amount money_value_def)
  show ?thesis
    using assms unfolding money.sum_components_compare [OF z(1,3,2)]
    by (simp add: breakdown_ok_def money.component_ok_def [abs_def] money.component_sum_def)
next
  case bad: False
  obtain c cs' where cs: "cs = c # cs'" using assms by (cases cs) auto
  from bad obtain e1 where "ValidateMoney \<lparr>m_Currency = m_Currency e, m_Amount = ''0''\<rparr> = Some e1"
    using ValidateMoney_iff by fastforce
  moreover from bad cs have "\<not> breakdown_ok cs e"
    by (simp add: breakdown_ok_def ValidateMoney_iff)
  ultimately show ?thesis by (simp add: cs AddMoney_def)
qed

lemma validatePriceComponents_iff:
  "validatePriceComponents cs e label = None \<longleftrightarrow> breakdown_ok cs e"
proof (cases "cs = []")
  case False
  show ?thesis
    unfolding breakdown_loop_iff [OF False, symmetric,
        where nt = "\<lambda>index. Errorf ''%s price component %d has no type'' [AStr label, AInt index]"
          and bs = "\<lambda>index err. Errorf ''%s price component %d: %w'' [AStr label, AInt index, AErr err]"]
    using False by (auto simp: validatePriceComponents_def split: sum.splits)
qed (simp add: validatePriceComponents_def breakdown_ok_def)

definition wf_file_ref :: "FileRef \<Rightarrow> bool" where
  "wf_file_ref f \<longleftrightarrow>
     \<not> blank (fr_FileID f) \<and> \<not> blank (fr_URI f) \<and> \<not> blank (fr_Name f) \<and> length (fr_Name f) \<le> 512 \<and>
     \<not> ContainsAny (fr_Name f) control_bytes \<and> \<not> blank (fr_MediaType f) \<and> 0 \<le> fr_Size f \<and>
     (\<exists>d. length d = 32 \<and> fr_Digest f = digest_prefix @ base64_encode d) \<and>
     \<not> blank (fr_State f) \<and> \<not> blank (fr_ScanStatus f)"

definition wf_context_ref :: "ContextRef \<Rightarrow> bool" where
  "wf_context_ref r \<longleftrightarrow>
     \<not> blank (cr_URI r) \<and> length (cr_URI r) \<le> 4096 \<and> 0 \<le> cr_Size r \<and>
     \<not> ContainsAny (cr_Digest r) [CHR 0x0D, CHR 0x0A, CHR 0x09, CHR '' '']"

definition wf_terms :: "BillingTerms \<Rightarrow> Money \<Rightarrow> bool" where
  "wf_terms b price \<longleftrightarrow>
     validBillingMode (bt_Mode b) \<and> \<not> blank (bt_SettlementTiming b) \<and>
     (bt_ArrangementRequired b \<longrightarrow> \<not> blank (bt_ArrangementRef b)) \<and>
     (bt_Mode b = BillingPayNow \<longrightarrow> bt_AcceptedSchemes b \<noteq> []) \<and>
     (bt_Mode b = BillingFree \<longrightarrow> ValidateMoney price = None \<and> money_value price = 0)"

definition price_ok :: "Quote \<Rightarrow> bool" where
  "price_ok q \<longleftrightarrow>
     ValidateMoney (q_Price q) = None \<and> ValidateMoney (q_PriceCeiling q) = None \<and>
     m_Currency (q_PriceCeiling q) = m_Currency (q_Price q) \<and>
     (if bt_VariablePriceAllowed (q_BillingTerms q)
      then money_value (q_Price q) \<le> money_value (q_PriceCeiling q)
      else money_value (q_Price q) = money_value (q_PriceCeiling q)) \<and>
     wf_terms (q_BillingTerms q) (q_Price q) \<and> breakdown_ok (q_PriceBreakdown q) (q_Price q) \<and>
     (\<forall>limit. ep_MaxPrice (q_Execution q) = Some limit \<longrightarrow>
        ValidateMoney limit = None \<and> m_Currency limit = m_Currency (q_PriceCeiling q) \<and>
        money_value (q_PriceCeiling q) \<le> money_value limit)"

definition timing_ok :: "Quote \<Rightarrow> bool" where
  "timing_ok q \<longleftrightarrow>
     q_IssuedAt q \<noteq> 0 \<and> q_ExpiresAt q \<noteq> 0 \<and> q_IssuedAt q < q_ExpiresAt q \<and>
     (\<forall>t. q_RevocableUntil q = Some t \<longrightarrow> t \<le> q_ExpiresAt q) \<and>
     (\<forall>r \<in> set (q_ContextRefs q). cr_ExpiresAt r = 0 \<or> q_ExpiresAt q \<le> cr_ExpiresAt r) \<and>
     (\<forall>f \<in> set (q_InputFiles q). fr_ExpiresAt f = 0 \<or> q_ExpiresAt q \<le> fr_ExpiresAt f) \<and>
     (\<forall>s d. ep_NotBefore (q_Execution q) = Some s \<longrightarrow> ep_Deadline (q_Execution q) = Some d \<longrightarrow> s \<le> d)"

definition identity_ok :: "Quote \<Rightarrow> bool" where
  "identity_ok q \<longleftrightarrow>
     q_ProtocolVersion q = ProtocolVersion \<and> \<not> blank (q_ServiceID q) \<and> \<not> blank (q_QuoteID q) \<and>
     \<not> blank (q_OfferID q) \<and> \<not> blank (q_Intent q) \<and>
     \<not> blank (er_Type (q_Actor q)) \<and> \<not> blank (er_ID (q_Actor q)) \<and>
     \<not> blank (er_Type (q_Principal q)) \<and> \<not> blank (er_ID (q_Principal q))"

definition content_ok :: "url_parser \<Rightarrow> Quote \<Rightarrow> bool" where
  "content_ok url_parse q \<longleftrightarrow>
     q_NormalizedTask q \<noteq> [] \<and> list_all wf_context_ref (q_ContextRefs q) \<and>
     list_all wf_file_ref (q_InputFiles q) \<and>
     (\<forall>cb. q_Callback q = Some cb \<longrightarrow> https_url url_parse (cb_URL cb)) \<and>
     \<not> blank (q_RiskClass q) \<and> (cf_Required (q_Confirmation q) \<longrightarrow> \<not> blank (cf_Mode (q_Confirmation q))) \<and>
     0 \<le> du_RetentionSeconds (q_DataUse q) \<and>
     0 \<le> sl_ExpectedCompletionSeconds (q_SLA q) \<and> 0 \<le> sl_MaximumCompletionSeconds (q_SLA q) \<and>
     (0 < sl_MaximumCompletionSeconds (q_SLA q) \<longrightarrow>
        sl_ExpectedCompletionSeconds (q_SLA q) \<le> sl_MaximumCompletionSeconds (q_SLA q)) \<and>
     q_Effects q \<noteq> [] \<and> list_all (\<lambda>e. \<not> blank (ef_Type e) \<and> \<not> blank (ef_Summary e)) (q_Effects q)"

definition wf_quote :: "url_parser \<Rightarrow> Quote \<Rightarrow> bool" where
  "wf_quote url_parse q \<longleftrightarrow> identity_ok q \<and> content_ok url_parse q \<and> timing_ok q \<and> price_ok q"

section \<open>Equivalences\<close>

lemma Rat_Cmp_nonneg [simp]: "0 \<le> Rat_Cmp x y \<longleftrightarrow> y \<le> x"
  by (auto simp: Rat_Cmp_def)

lemma ValidateFileRef_wf: "ValidateFileRef f = None \<longleftrightarrow> wf_file_ref f"
  by (auto simp: ValidateFileRef_def wf_file_ref_def ValidateSHA256Digest_iff)

lemma validateContextRef_wf: "validateContextRef r = None \<longleftrightarrow> wf_context_ref r"
  by (auto simp: validateContextRef_def wf_context_ref_def)

lemma compared_None: "compared fmt r k = None \<longleftrightarrow> (\<exists>c. r = Inr c \<and> k c = None)"
  by (auto simp: compared_def split: sum.splits)

lemma CompareMoney_zero:
  "CompareMoney a b = Inr 0 \<longleftrightarrow> ValidateMoney a = None \<and> ValidateMoney b = None \<and>
     m_Currency a = m_Currency b \<and> money_value a = money_value b"
  by (auto simp: CompareMoney_Inr_iff dest: sym)

lemma ValidateBillingTerms_wf: "ValidateBillingTerms b price = None \<longleftrightarrow> wf_terms b price"
proof -
  have "(case CompareMoney price \<lparr>m_Currency = m_Currency price, m_Amount = ''0''\<rparr> of
           Inl err \<Rightarrow> Some err | Inr c \<Rightarrow> fail_if (c \<noteq> 0) e) = None \<longleftrightarrow>
      ValidateMoney price = None \<and> money_value price = 0" for e
  proof (cases "ValidateMoney price")
    case None
    then have "ValidateMoney \<lparr>m_Currency = m_Currency price, m_Amount = ''0''\<rparr> = None"
      by (simp add: ValidateMoney_iff valid_zero_amount)
    with None show ?thesis by (simp add: CompareMoney_ok money_value_def)
  qed (simp add: CompareMoney_def)
  then show ?thesis
    by (auto simp: ValidateBillingTerms_def wf_terms_def)
qed

lemma context_refs_None:
  "range_check (\<lambda>index ref. first_error
       [map_option (F index) (validateContextRef ref),
        fail_if (expires_before (cr_ExpiresAt ref) t) (G index)]) i refs = None \<longleftrightarrow>
     list_all wf_context_ref refs \<and> list_all (\<lambda>r. \<not> expires_before (cr_ExpiresAt r) t) refs"
  by (subst range_check_None
        [where P = "\<lambda>r. wf_context_ref r \<and> \<not> expires_before (cr_ExpiresAt r) t"])
     (auto simp: validateContextRef_wf list_all_iff)

lemma input_files_None:
  "range_check (\<lambda>index file. first_error
       [map_option (F index) (ValidateFileRef file),
        fail_if (expires_before (fr_ExpiresAt file) t) (G index)]) i files = None \<longleftrightarrow>
     list_all wf_file_ref files \<and> list_all (\<lambda>f. \<not> expires_before (fr_ExpiresAt f) t) files"
  by (subst range_check_None
        [where P = "\<lambda>f. wf_file_ref f \<and> \<not> expires_before (fr_ExpiresAt f) t"])
     (auto simp: ValidateFileRef_wf list_all_iff)

lemma effects_None:
  "range_check (\<lambda>index effect. fail_if (blank (ef_Type effect) \<or> blank (ef_Summary effect)) (G index))
     i effects = None \<longleftrightarrow> list_all (\<lambda>e. \<not> blank (ef_Type e) \<and> \<not> blank (ef_Summary e)) effects"
  by (rule range_check_None) simp

lemma callback_None:
  "(case q_Callback quote of None \<Rightarrow> None
    | Some callback \<Rightarrow> fail_if (\<not> https_url url_parse (cb_URL callback)) e) = None \<longleftrightarrow>
   (\<forall>cb. q_Callback quote = Some cb \<longrightarrow> https_url url_parse (cb_URL cb))"
  by (cases "q_Callback quote") simp_all

lemma limit_None:
  "(case l of None \<Rightarrow> None
    | Some limit \<Rightarrow> compared fmt (CompareMoney limit c) (\<lambda>comparison. fail_if (comparison < 0) e)) = None \<longleftrightarrow>
   (\<forall>limit. l = Some limit \<longrightarrow> ValidateMoney limit = None \<and> ValidateMoney c = None \<and>
      m_Currency limit = m_Currency c \<and> money_value c \<le> money_value limit)"
  by (auto simp: compared_None CompareMoney_Inr_iff not_less split: option.splits)

lemma ceiling_None:
  "compared fmt (CompareMoney c p)
     (\<lambda>x. first_error [fail_if (x < 0) e, fail_if (\<not> v \<and> x \<noteq> 0) e']) = None \<longleftrightarrow>
   ValidateMoney c = None \<and> ValidateMoney p = None \<and> m_Currency c = m_Currency p \<and>
   (if v then money_value p \<le> money_value c else money_value p = money_value c)"
  by (auto simp: compared_None CompareMoney_Inr_iff not_less)

lemmas quote_guards = context_refs_None input_files_None effects_None callback_None limit_None
  ceiling_None ValidateBillingTerms_wf validatePriceComponents_iff

lemma expires_before_all:
  "t \<noteq> 0 \<Longrightarrow> list_all (\<lambda>r. \<not> expires_before (f r) t) xs \<longleftrightarrow> (\<forall>r \<in> set xs. f r = 0 \<or> t \<le> f r)"
  by (auto simp: expires_before_def list_all_iff)

lemma revocable_None:
  "(case r of None \<Rightarrow> False | Some t \<Rightarrow> After t u) \<longleftrightarrow> \<not> (\<forall>t. r = Some t \<longrightarrow> t \<le> u)"
  by (auto split: option.splits)

lemma window_None:
  "(case (x, y) of (Some s, Some d) \<Rightarrow> After s d | _ \<Rightarrow> False) \<longleftrightarrow>
     \<not> (\<forall>s d. x = Some s \<longrightarrow> y = Some d \<longrightarrow> s \<le> d)"
  by (auto split: option.splits)

lemma ValidateQuoteSemantics_wf:
  "ValidateQuoteSemantics url_parse q = None \<longleftrightarrow> wf_quote url_parse q"
proof (cases "q_ExpiresAt q = 0")
  case True
  then show ?thesis
    by (simp add: ValidateQuoteSemantics_def wf_quote_def timing_ok_def)
next
  case False
  then show ?thesis
    unfolding ValidateQuoteSemantics_def wf_quote_def identity_ok_def content_ok_def timing_ok_def
      price_ok_def Let_def first_error_None first_error.simps fail_if_None wrap_error_None
      quote_guards revocable_None window_None not_not de_Morgan_disj not_less
      expires_before_all [OF False]
    by (simp only: simp_thms de_Morgan_conj not_less not_not imp_conv_disj)
       (rule iffI; elim conjE; intro conjI; (assumption | linarith | blast))
qed

section \<open>Receipts\<close>

text \<open>
  What an accepted receipt says: it settles this quote, at a terminal outcome, for an amount
  inside the signed ceiling (the signed price, when the price is fixed) that its own breakdown
  and billing record confirm.
\<close>

definition settles_within :: "Quote \<Rightarrow> Money \<Rightarrow> bool" where
  "settles_within q billed \<longleftrightarrow>
     ValidateMoney billed = None \<and> ValidateMoney (q_PriceCeiling q) = None \<and>
     m_Currency billed = m_Currency (q_PriceCeiling q) \<and>
     money_value billed \<le> money_value (q_PriceCeiling q) \<and>
     (\<not> bt_VariablePriceAllowed (q_BillingTerms q) \<longrightarrow>
        ValidateMoney (q_Price q) = None \<and> m_Currency (q_Price q) = m_Currency billed \<and>
        money_value billed = money_value (q_Price q))"

definition wf_receipt :: "Receipt \<Rightarrow> Quote \<Rightarrow> bool" where
  "wf_receipt r q \<longleftrightarrow>
     rc_ProtocolVersion r = q_ProtocolVersion q \<and> rc_ProtocolVersion r = ProtocolVersion \<and>
     rc_ServiceID r = q_ServiceID q \<and> rc_QuoteID r = q_QuoteID q \<and>
     \<not> blank (rc_ReceiptID r) \<and> \<not> blank (rc_TaskID r) \<and> \<not> blank (rc_AuditRoot r) \<and>
     rc_CompletedAt r \<noteq> 0 \<and> q_IssuedAt q \<le> rc_CompletedAt r \<and> terminal_outcome (rc_Outcome r) \<and>
     (case rc_BilledAmount r of
        None \<Rightarrow> rc_BilledBreakdown r = []
      | Some billed \<Rightarrow> settles_within q billed \<and> breakdown_ok (rc_BilledBreakdown r) billed) \<and>
     (\<forall>b. rc_Billing r = Some b \<longrightarrow> br_Mode b = bt_Mode (q_BillingTerms q) \<and>
        (\<forall>amount billed. br_Amount b = Some amount \<longrightarrow> rc_BilledAmount r = Some billed \<longrightarrow>
           ValidateMoney amount = None \<and> ValidateMoney billed = None \<and>
           m_Currency amount = m_Currency billed \<and> money_value amount = money_value billed))"

lemma billed_None:
  "first_error
     [wrap_error f1 (ValidateMoney billed),
      compared f2 (CompareMoney (q_PriceCeiling q) billed) (\<lambda>c. fail_if (c < 0) e1),
      fail_if (\<not> bt_VariablePriceAllowed (q_BillingTerms q) \<and> CompareMoney (q_Price q) billed \<noteq> Inr 0) e2,
      validatePriceComponents bs billed label] = None \<longleftrightarrow>
   settles_within q billed \<and> breakdown_ok bs billed"
  by (auto simp: compared_None CompareMoney_Inr_iff CompareMoney_zero validatePriceComponents_iff
      settles_within_def not_less)

lemma record_None:
  "(case (x, y) of (Some amount, Some billed) \<Rightarrow> fail_if (CompareMoney amount billed \<noteq> Inr 0) e
    | _ \<Rightarrow> None) = None \<longleftrightarrow>
   (\<forall>amount billed. x = Some amount \<longrightarrow> y = Some billed \<longrightarrow>
      ValidateMoney amount = None \<and> ValidateMoney billed = None \<and>
      m_Currency amount = m_Currency billed \<and> money_value amount = money_value billed)"
  by (auto simp: CompareMoney_zero split: option.splits)

lemma ValidateReceiptAgainstQuote_wf:
  "ValidateReceiptAgainstQuote r q = None \<longleftrightarrow> wf_receipt r q"
proof -
  have "(case rc_Billing r of None \<Rightarrow> None
       | Some billing \<Rightarrow> first_error
           [fail_if (br_Mode billing \<noteq> bt_Mode (q_BillingTerms q)) e1,
            (case (br_Amount billing, rc_BilledAmount r) of
               (Some amount, Some billed) \<Rightarrow> fail_if (CompareMoney amount billed \<noteq> Inr 0) e2
             | _ \<Rightarrow> None)]) = None \<longleftrightarrow>
     (\<forall>b. rc_Billing r = Some b \<longrightarrow> br_Mode b = bt_Mode (q_BillingTerms q) \<and>
        (\<forall>amount billed. br_Amount b = Some amount \<longrightarrow> rc_BilledAmount r = Some billed \<longrightarrow>
           ValidateMoney amount = None \<and> ValidateMoney billed = None \<and>
           m_Currency amount = m_Currency billed \<and> money_value amount = money_value billed))" for e1 e2
    unfolding record_None [symmetric, of _ _ e2] by (cases "rc_Billing r") simp_all
  moreover have "(case rc_BilledAmount r of None \<Rightarrow> fail_if (rc_BilledBreakdown r \<noteq> []) e
       | Some billed \<Rightarrow> first_error
     [wrap_error f1 (ValidateMoney billed),
      compared f2 (CompareMoney (q_PriceCeiling q) billed) (\<lambda>c. fail_if (c < 0) e1),
      fail_if (\<not> bt_VariablePriceAllowed (q_BillingTerms q) \<and> CompareMoney (q_Price q) billed \<noteq> Inr 0) e2,
      validatePriceComponents (rc_BilledBreakdown r) billed label]) = None \<longleftrightarrow>
     (case rc_BilledAmount r of
        None \<Rightarrow> rc_BilledBreakdown r = []
      | Some billed \<Rightarrow> settles_within q billed \<and> breakdown_ok (rc_BilledBreakdown r) billed)" for e e1 e2 f1 f2 label
    by (cases "rc_BilledAmount r") (simp_all only: option.case billed_None fail_if_None not_not)
  ultimately show ?thesis
    unfolding ValidateReceiptAgainstQuote_def wf_receipt_def
    by (simp only: first_error_None first_error.simps fail_if_None not_not de_Morgan_disj not_less simp_thms)
       (rule iffI; elim conjE; intro conjI; assumption)
qed

lemma ValidateInvocationReceipt_iff:
  "ValidateInvocationReceipt r = None \<longleftrightarrow>
     ir_ProtocolVersion r = ProtocolVersion \<and> \<not> blank (ir_ServiceID r) \<and> \<not> blank (ir_ReceiptID r) \<and>
     \<not> blank (ir_InvocationID r) \<and> \<not> blank (ir_Intent r) \<and> \<not> blank (ir_RequestDigest r) \<and>
     \<not> blank (ir_AuditRoot r) \<and> ir_CompletedAt r \<noteq> 0 \<and>
     (\<forall>s. ir_Outcome r \<noteq> InvocationOther s)"
  unfolding ValidateInvocationReceipt_def by (cases "ir_Outcome r") auto

end
