(* ===== verification/Idempotency.thy ===== *)
theory Idempotency
  imports Types
begin

text \<open>
  The idempotency store (pkg/server/idempotency.go): claims of mutation keys and the exact
  responses replayed for them. The clock is read at most twice under the lock, so an operation
  takes its readings as arguments. The interface \<open>IdempotencyBackend\<close> is the locale
  \<open>idempotency_backend\<close>; the in-memory store interprets it.
\<close>

section \<open>Definitions\<close>

datatype IdempotencyResult =
  IdempotencyNew | IdempotencyReplay | IdempotencyConflict | IdempotencyInProgress

record StoredResponse =
  sr_StatusCode :: int
  sr_Headers :: "string \<rightharpoonup> string list"
  sr_Body :: string
  sr_ExpiresAt :: time

record idempotencyEntry =
  ie_RequestDigest :: string
  ie_InProgress :: bool
  ie_Response :: StoredResponse

type_synonym IdempotencyStore = "string \<rightharpoonup> idempotencyEntry"

definition zero_StoredResponse :: StoredResponse where
  "zero_StoredResponse =
     \<lparr>sr_StatusCode = 0, sr_Headers = Map.empty, sr_Body = [], sr_ExpiresAt = 0\<rparr>"

definition NewIdempotencyStore :: IdempotencyStore where
  "NewIdempotencyStore = Map.empty"

definition storageKey :: "string \<Rightarrow> string \<Rightarrow> string" where
  "storageKey scope key = scope @ [CHR 0x00] @ key"

text \<open>A fresh claim, taken at \<open>now\<close>.\<close>

definition new_claim :: "string \<Rightarrow> duration \<Rightarrow> time \<Rightarrow> idempotencyEntry" where
  "new_claim requestDigest retention now =
     \<lparr>ie_RequestDigest = requestDigest, ie_InProgress = True,
      ie_Response = zero_StoredResponse\<lparr>sr_ExpiresAt := now + retention\<rparr>\<rparr>"

text \<open>The three critical sections, on the storage key.\<close>

definition Begin_at ::
  "time \<Rightarrow> time \<Rightarrow> string \<Rightarrow> string \<Rightarrow> duration \<Rightarrow> IdempotencyStore \<Rightarrow>
     (IdempotencyResult \<times> StoredResponse) \<times> IdempotencyStore"
where
  "Begin_at now1 now2 k requestDigest retention entries =
     (let claim = ((IdempotencyNew, zero_StoredResponse),
                   entries(k \<mapsto> new_claim requestDigest retention now2)) in
      case entries k of
        None \<Rightarrow> claim
      | Some entry \<Rightarrow>
          if ie_RequestDigest entry \<noteq> requestDigest
          then ((IdempotencyConflict, zero_StoredResponse), entries)
          else if ie_InProgress entry
          then ((IdempotencyInProgress, zero_StoredResponse), entries)
          else if \<not> IsZero (sr_ExpiresAt (ie_Response entry)) \<and> After now1 (sr_ExpiresAt (ie_Response entry))
          then claim
          else ((IdempotencyReplay, ie_Response entry), entries))"

definition claim_not_found :: error where
  "claim_not_found = New_error ''idempotency claim not found''"

definition Complete_at ::
  "string \<Rightarrow> StoredResponse \<Rightarrow> IdempotencyStore \<Rightarrow> error option \<times> IdempotencyStore"
where
  "Complete_at k response entries =
     (case entries k of
        None \<Rightarrow> (Some claim_not_found, entries)
      | Some entry \<Rightarrow>
          let response = (if IsZero (sr_ExpiresAt response)
                          then response\<lparr>sr_ExpiresAt := sr_ExpiresAt (ie_Response entry)\<rparr> else response)
          in (None, entries(k \<mapsto> entry\<lparr>ie_InProgress := False, ie_Response := response\<rparr>)))"

definition Release_at ::
  "string \<Rightarrow> string \<Rightarrow> IdempotencyStore \<Rightarrow> error option \<times> IdempotencyStore"
where
  "Release_at k requestDigest entries =
     (case entries k of
        None \<Rightarrow> (Some claim_not_found, entries)
      | Some entry \<Rightarrow>
          if \<not> ie_InProgress entry
          then (Some (New_error ''completed idempotency claim cannot be released''), entries)
          else if ie_RequestDigest entry \<noteq> requestDigest
          then (Some (New_error ''idempotency release digest mismatch''), entries)
          else (None, entries(k := None)))"

definition Begin ::
  "time \<Rightarrow> time \<Rightarrow> string \<Rightarrow> string \<Rightarrow> string \<Rightarrow> duration \<Rightarrow> IdempotencyStore \<Rightarrow>
     (IdempotencyResult \<times> StoredResponse) \<times> IdempotencyStore"
where
  "Begin now1 now2 scope key = Begin_at now1 now2 (storageKey scope key)"

definition Complete ::
  "string \<Rightarrow> string \<Rightarrow> StoredResponse \<Rightarrow> IdempotencyStore \<Rightarrow> error option \<times> IdempotencyStore"
where
  "Complete scope key = Complete_at (storageKey scope key)"

definition Release ::
  "string \<Rightarrow> string \<Rightarrow> string \<Rightarrow> IdempotencyStore \<Rightarrow> error option \<times> IdempotencyStore"
where
  "Release scope key = Release_at (storageKey scope key)"

section \<open>Keys\<close>

lemma append_NUL_inj:
  "CHR 0x00 \<notin> set k \<Longrightarrow> CHR 0x00 \<notin> set k' \<Longrightarrow> s @ CHR 0x00 # k = s' @ CHR 0x00 # k' \<Longrightarrow> s = s' \<and> k = k'"
proof -
  have cut: "takeWhile (\<lambda>c. c \<noteq> CHR 0x00) (rev (t @ CHR 0x00 # l)) = rev l"
    if "CHR 0x00 \<notin> set l" for t l :: string
  proof -
    have "takeWhile (\<lambda>c. c \<noteq> CHR 0x00) (rev l @ CHR 0x00 # rev t) = rev l"
      using that by (subst takeWhile_append2) auto
    then show ?thesis by simp
  qed
  assume "CHR 0x00 \<notin> set k" "CHR 0x00 \<notin> set k'" and eq: "s @ CHR 0x00 # k = s' @ CHR 0x00 # k'"
  with cut [of k s] cut [of k' s'] have "k = k'" by simp
  with eq show ?thesis by simp
qed

text \<open>
  The storage key separates scope and key unless the key has a NUL byte; the server admits
  only keys of visible ASCII.
\<close>

lemma storageKey_inj:
  "CHR 0x00 \<notin> set k \<Longrightarrow> CHR 0x00 \<notin> set k' \<Longrightarrow>
     storageKey s k = storageKey s' k' \<longleftrightarrow> s = s' \<and> k = k'"
  using append_NUL_inj [of k k' s s'] by (auto simp: storageKey_def)

section \<open>The interface\<close>

text \<open>
  What a client of the backend relies on: \<open>claimed s k\<close> is the digest of a claim in
  progress, \<open>stored s k\<close> the digest and the response of a completed one; a key has at most
  one of them. A call touches only its own key. Keys are abstract; the store's are its
  storage keys.
\<close>

datatype 'k call =
    CBegin time time 'k string duration
  | CComplete 'k StoredResponse
  | CRelease 'k string

locale idempotency_backend =
  fixes begin_op :: "time \<Rightarrow> time \<Rightarrow> 'k \<Rightarrow> string \<Rightarrow> duration \<Rightarrow> 's \<Rightarrow> (IdempotencyResult \<times> StoredResponse) \<times> 's"
    and complete_op :: "'k \<Rightarrow> StoredResponse \<Rightarrow> 's \<Rightarrow> error option \<times> 's"
    and release_op :: "'k \<Rightarrow> string \<Rightarrow> 's \<Rightarrow> error option \<times> 's"
    and claimed :: "'s \<Rightarrow> 'k \<Rightarrow> string option"
    and stored :: "'s \<Rightarrow> 'k \<Rightarrow> (string \<times> StoredResponse) option"
  assumes exclusive: "claimed s k \<noteq> None \<Longrightarrow> stored s k = None"
    and begin_free: "claimed s k = None \<Longrightarrow> stored s k = None \<Longrightarrow>
      \<exists>s'. begin_op t u k d r s = ((IdempotencyNew, zero_StoredResponse), s') \<and> claimed s' k = Some d"
    and begin_held: "claimed s k = Some d' \<Longrightarrow> begin_op t u k d r s =
      ((if d' = d then IdempotencyInProgress else IdempotencyConflict, zero_StoredResponse), s)"
    and begin_conflict: "stored s k = Some (d', resp) \<Longrightarrow> d' \<noteq> d \<Longrightarrow>
      begin_op t u k d r s = ((IdempotencyConflict, zero_StoredResponse), s)"
    and begin_stored: "stored s k = Some (d, resp) \<Longrightarrow> sr_ExpiresAt resp = 0 \<or> t \<le> sr_ExpiresAt resp \<Longrightarrow>
      begin_op t u k d r s = ((IdempotencyReplay, resp), s)"
    and begin_expired: "stored s k = Some (d, resp) \<Longrightarrow> sr_ExpiresAt resp \<noteq> 0 \<Longrightarrow> sr_ExpiresAt resp < t \<Longrightarrow>
      \<exists>s'. begin_op t u k d r s = ((IdempotencyNew, zero_StoredResponse), s') \<and> claimed s' k = Some d"
    and begin_other: "k' \<noteq> k \<Longrightarrow> claimed (snd (begin_op t u k d r s)) k' = claimed s k' \<and>
      stored (snd (begin_op t u k d r s)) k' = stored s k'"
    and complete_ok: "claimed s k = Some d \<or> stored s k = Some (d, old) \<Longrightarrow>
      \<exists>s' resp'. complete_op k resp s = (None, s') \<and> stored s' k = Some (d, resp') \<and>
        sr_StatusCode resp' = sr_StatusCode resp \<and> sr_Headers resp' = sr_Headers resp \<and>
        sr_Body resp' = sr_Body resp \<and> (sr_ExpiresAt resp \<noteq> 0 \<longrightarrow> resp' = resp)"
    and complete_err: "claimed s k = None \<Longrightarrow> stored s k = None \<Longrightarrow>
      \<exists>e. complete_op k resp s = (Some e, s)"
    and complete_other: "k' \<noteq> k \<Longrightarrow> claimed (snd (complete_op k resp s)) k' = claimed s k' \<and>
      stored (snd (complete_op k resp s)) k' = stored s k'"
    and release_held: "claimed s k = Some d \<Longrightarrow> \<exists>s'. release_op k d s = (None, s') \<and>
      claimed s' k = None \<and> stored s' k = None"
    and release_err: "claimed s k \<noteq> Some d \<Longrightarrow> \<exists>e. release_op k d s = (Some e, s)"
    and release_other: "k' \<noteq> k \<Longrightarrow> claimed (snd (release_op k d s)) k' = claimed s k' \<and>
      stored (snd (release_op k d s)) k' = stored s k'"
begin

fun step :: "'k call \<Rightarrow> 's \<Rightarrow> 's" where
  "step (CBegin t u k d r) s = snd (begin_op t u k d r s)"
| "step (CComplete k resp) s = snd (complete_op k resp s)"
| "step (CRelease k d) s = snd (release_op k d s)"

fun call_key :: "'k call \<Rightarrow> 'k" where
  "call_key (CBegin t u k d r) = k"
| "call_key (CComplete k resp) = k"
| "call_key (CRelease k d) = k"

text \<open>The digest a key is bound to, in progress or completed.\<close>

definition bound :: "'s \<Rightarrow> 'k \<Rightarrow> string option" where
  "bound s k = (case claimed s k of Some d \<Rightarrow> Some d | None \<Rightarrow> map_option fst (stored s k))"

lemma bound_cases:
  assumes "bound s k = Some d"
  obtains "claimed s k = Some d" "stored s k = None"
    | resp where "claimed s k = None" "stored s k = Some (d, resp)"
  using assms exclusive [of s k] by (auto simp: bound_def split: option.splits)

lemma step_other: "call_key c \<noteq> k \<Longrightarrow> claimed (step c s) k = claimed s k \<and> stored (step c s) k = stored s k"
  using begin_other [of k] complete_other [of k] release_other [of k] by (cases c) auto

lemma bound_claimed: "claimed s k = Some d \<Longrightarrow> bound s k = Some d"
  by (simp add: bound_def)

lemma bound_stored: "stored s k = Some (d, resp) \<Longrightarrow> bound s k = Some d"
  using exclusive [of s k] by (cases "claimed s k") (auto simp: bound_def)

lemma begin_bound:
  assumes "bound s k = Some d"
  shows "bound (snd (begin_op t u k d' r s)) k = Some d"
  using assms
proof (cases rule: bound_cases)
  case 1
  then show ?thesis using begin_held [OF 1(1), of t u d' r] assms by simp
next
  case (2 resp)
  show ?thesis
  proof (cases "d' = d")
    case True
    show ?thesis
    proof (cases "sr_ExpiresAt resp = 0 \<or> t \<le> sr_ExpiresAt resp")
      case True
      from begin_stored [OF 2(2) True, of u r] \<open>d' = d\<close> assms show ?thesis by simp
    next
      case False
      with begin_expired [OF 2(2), of t u r] \<open>d' = d\<close> show ?thesis
        by (auto intro: bound_claimed)
    qed
  next
    case False
    with begin_conflict [OF 2(2), of d' t u r] assms show ?thesis by simp
  qed
qed

lemma complete_bound:
  assumes "bound s k = Some d"
  shows "bound (snd (complete_op k resp s)) k = Some d"
proof -
  have "\<exists>old. claimed s k = Some d \<or> stored s k = Some (d, old)"
    using assms by (cases rule: bound_cases) auto
  then obtain old where "claimed s k = Some d \<or> stored s k = Some (d, old)" ..
  from complete_ok [OF this, of resp] show ?thesis by (auto intro: bound_stored)
qed

text \<open>
  Without a release, a key stays bound to the digest that first claimed it, whatever is
  called: no other request can ever take it over.
\<close>

lemma step_bound:
  assumes "bound s k = Some d" "\<forall>x. c \<noteq> CRelease k x"
  shows "bound (step c s) k = Some d"
proof (cases "call_key c = k")
  case True
  with assms begin_bound complete_bound show ?thesis by (cases c) auto
next
  case False
  from step_other [OF False, of s] have "bound (step c s) k = bound s k"
    unfolding bound_def by (elim conjE) (simp only:)
  with assms(1) show ?thesis by simp
qed

lemma run_bound:
  assumes "bound s k = Some d" "\<forall>x. CRelease k x \<notin> set cs"
  shows "bound (fold step cs s) k = Some d"
  using assms
proof (induction cs arbitrary: s)
  case (Cons c cs)
  from Cons.prems(2) have "\<forall>x. c \<noteq> CRelease k x" by auto
  with Cons show ?case by (simp add: step_bound)
qed simp

text \<open>
  A claim in progress is ended only by its own completion or release: until then every other
  call leaves it, a duplicate is refused, and the operation runs once.
\<close>

lemma step_held:
  assumes "claimed s k = Some d" "\<forall>x. c \<noteq> CComplete k x" "c \<noteq> CRelease k d"
  shows "claimed (step c s) k = Some d"
proof (cases "call_key c = k")
  case True
  have "snd (release_op k x s) = s" if "x \<noteq> d" for x
    using release_err [of s k x] assms(1) that by auto
  with True assms begin_held [OF assms(1)] show ?thesis by (cases c) auto
next
  case False
  with step_other [OF False, of s] assms(1) show ?thesis by simp
qed

lemma run_held:
  assumes "claimed s k = Some d" "\<forall>x. CComplete k x \<notin> set cs" "CRelease k d \<notin> set cs"
  shows "claimed (fold step cs s) k = Some d"
  using assms
proof (induction cs arbitrary: s)
  case (Cons c cs)
  from Cons.prems(2,3) have "\<forall>x. c \<noteq> CComplete k x" "c \<noteq> CRelease k d" by auto
  with Cons show ?case by (simp add: step_held)
qed simp

lemma begin_New_cases:
  assumes "fst (fst (begin_op t u k d r s)) = IdempotencyNew"
  shows "claimed s k = None \<and> (\<forall>d' resp. stored s k = Some (d', resp) \<longrightarrow>
    d' = d \<and> sr_ExpiresAt resp \<noteq> 0 \<and> sr_ExpiresAt resp < t)"
proof -
  have "claimed s k = None"
  proof (rule ccontr)
    assume "claimed s k \<noteq> None"
    then obtain d' where "claimed s k = Some d'" by blast
    from begin_held [OF this, of t u d r] assms show False by (simp split: if_splits)
  qed
  moreover have "d' = d \<and> sr_ExpiresAt resp \<noteq> 0 \<and> sr_ExpiresAt resp < t"
    if st: "stored s k = Some (d', resp)" for d' resp
  proof -
    have "d' = d" using begin_conflict [OF st, of d t u r] assms by (cases "d' = d") auto
    with begin_stored [of s k d resp t u r] assms st show ?thesis by force
  qed
  ultimately show ?thesis by blast
qed

text \<open>
  A second claim of a key that was not released is a retry of the same request whose
  completed response has outlived its retention.
\<close>

lemma second_claim:
  assumes "bound s k = Some d" "\<forall>x. CRelease k x \<notin> set cs"
    and new: "fst (fst (begin_op t u k d' r (fold step cs s))) = IdempotencyNew"
  shows "d' = d \<and> (\<exists>resp. stored (fold step cs s) k = Some (d, resp) \<and> sr_ExpiresAt resp \<noteq> 0 \<and> sr_ExpiresAt resp < t)"
proof -
  have "bound (fold step cs s) k = Some d" by (rule run_bound [OF assms(1,2)])
  then show ?thesis
    using begin_New_cases [OF new] by (cases rule: bound_cases) auto
qed

text \<open>The exact response is replayed until it expires.\<close>

fun keeps :: "'k \<Rightarrow> time \<Rightarrow> 'k call \<Rightarrow> bool" where
  "keeps k e (CBegin t u k' d r) \<longleftrightarrow> k' \<noteq> k \<or> e = 0 \<or> t \<le> e"
| "keeps k e (CComplete k' resp) \<longleftrightarrow> k' \<noteq> k"
| "keeps k e (CRelease k' d) \<longleftrightarrow> True"

lemma step_stored:
  assumes "stored s k = Some (d, resp)" "keeps k (sr_ExpiresAt resp) c"
  shows "stored (step c s) k = Some (d, resp)"
proof (cases "call_key c = k")
  case True
  have free: "claimed s k = None"
    using exclusive [of s k] assms(1) by (cases "claimed s k") simp_all
  have "snd (release_op k x s) = s" for x
    using release_err [of s k x] free by auto
  moreover have "snd (begin_op t u k d' r s) = s"
    if "sr_ExpiresAt resp = 0 \<or> t \<le> sr_ExpiresAt resp" for t u d' r
    using begin_stored [OF _ that, of s k d u r] begin_conflict [OF assms(1), of d' t u r] assms(1)
    by (cases "d' = d") auto
  ultimately show ?thesis using True assms by (cases c) auto
next
  case False
  with step_other [OF False, of s] assms(1) show ?thesis by simp
qed

lemma replayed:
  assumes "stored s k = Some (d, resp)" "list_all (keeps k (sr_ExpiresAt resp)) cs"
    and "sr_ExpiresAt resp = 0 \<or> t \<le> sr_ExpiresAt resp"
  shows "fst (begin_op t u k d r (fold step cs s)) = (IdempotencyReplay, resp)"
proof -
  have "stored (fold step cs s) k = Some (d, resp)"
    using assms(1,2) by (induction cs arbitrary: s) (auto simp: step_stored)
  from begin_stored [OF this assms(3), of u r] show ?thesis by simp
qed

end

section \<open>The in-memory store\<close>

definition claimed_entry :: "IdempotencyStore \<Rightarrow> string \<Rightarrow> string option" where
  "claimed_entry s k =
     (case s k of None \<Rightarrow> None | Some e \<Rightarrow> if ie_InProgress e then Some (ie_RequestDigest e) else None)"

definition stored_entry :: "IdempotencyStore \<Rightarrow> string \<Rightarrow> (string \<times> StoredResponse) option" where
  "stored_entry s k =
     (case s k of None \<Rightarrow> None
      | Some e \<Rightarrow> if ie_InProgress e then None else Some (ie_RequestDigest e, ie_Response e))"

lemmas store_ops = Begin_at_def Complete_at_def Release_at_def claimed_entry_def stored_entry_def
  new_claim_def Let_def

interpretation store: idempotency_backend Begin_at Complete_at Release_at claimed_entry stored_entry
  by unfold_locales
     (auto simp: store_ops split: option.splits if_splits)

end
