(* ===== verification/Memory_Store.thy ===== *)
theory Memory_Store
  imports Types
begin

text \<open>
  The reference store (pkg/server/store.go) with the records it keeps of the service's answers
  (\<open>StoredOffer\<close> of pkg/server/service.go). The defensive copy \<open>cloneJSON\<close> marshals and
  unmarshals a value with encoding/json; it is the argument \<open>clone\<close> of the operations, and
  the locale \<open>json_copy\<close> states what a copy promises.
\<close>

section \<open>Definitions\<close>

record StoredOffer =
  so_OfferID :: string
  so_NegotiationID :: string
  so_Actor :: EntityRef
  so_Principal :: EntityRef
  so_ResolvedIntent :: string
  so_SchemaVersion :: string
  so_RequiredScopes :: "string list"
  so_Budget :: "Money option"
  so_ExpiresAt :: time

record InvocationRecord =
  iv_InvocationID :: string
  iv_Actor :: EntityRef
  iv_Principal :: EntityRef
  iv_RequestDigest :: string
  iv_Response :: DirectInvocationResponse

record MemoryStore =
  ms_offers :: "string \<rightharpoonup> StoredOffer"
  ms_quotes :: "string \<rightharpoonup> Quote"
  ms_tasks :: "string \<rightharpoonup> Task"
  ms_invocations :: "string \<rightharpoonup> InvocationRecord"

definition NewMemoryStore :: MemoryStore where
  "NewMemoryStore =
     \<lparr>ms_offers = Map.empty, ms_quotes = Map.empty, ms_tasks = Map.empty, ms_invocations = Map.empty\<rparr>"

type_synonym 'a copier = "'a \<Rightarrow> 'a result"

definition get_copy :: "'a copier \<Rightarrow> 'a option \<Rightarrow> 'a option result" where
  "get_copy clone entry =
     (case entry of None \<Rightarrow> Inr None
      | Some x \<Rightarrow> (case clone x of Inl err \<Rightarrow> Inl err | Inr copy \<Rightarrow> Inr (Some copy)))"

definition PutInvocation ::
  "InvocationRecord copier \<Rightarrow> InvocationRecord \<Rightarrow> MemoryStore \<Rightarrow> error option \<times> MemoryStore" where
  "PutInvocation clone record s =
     (case clone record of
        Inl err \<Rightarrow> (Some err, s)
      | Inr copy \<Rightarrow>
          if ms_invocations s (iv_InvocationID record) \<noteq> None
          then (Some (New_error ''invocation already exists''), s)
          else (None, s\<lparr>ms_invocations := (ms_invocations s)(iv_InvocationID record \<mapsto> copy)\<rparr>))"

definition GetInvocation ::
  "InvocationRecord copier \<Rightarrow> string \<Rightarrow> MemoryStore \<Rightarrow> InvocationRecord option result" where
  "GetInvocation clone i s = get_copy clone (ms_invocations s i)"

definition PutOffer :: "StoredOffer \<Rightarrow> MemoryStore \<Rightarrow> error option \<times> MemoryStore" where
  "PutOffer offer s = (None, s\<lparr>ms_offers := (ms_offers s)(so_OfferID offer \<mapsto> offer)\<rparr>)"

definition GetOffer :: "string \<Rightarrow> MemoryStore \<Rightarrow> StoredOffer option result" where
  "GetOffer i s = Inr (ms_offers s i)"

definition PutQuote :: "Quote copier \<Rightarrow> Quote \<Rightarrow> MemoryStore \<Rightarrow> error option \<times> MemoryStore" where
  "PutQuote clone quote s =
     (case clone quote of
        Inl err \<Rightarrow> (Some err, s)
      | Inr copy \<Rightarrow> (None, s\<lparr>ms_quotes := (ms_quotes s)(q_QuoteID quote \<mapsto> copy)\<rparr>))"

definition GetQuote :: "Quote copier \<Rightarrow> string \<Rightarrow> MemoryStore \<Rightarrow> Quote option result" where
  "GetQuote clone i s = get_copy clone (ms_quotes s i)"

definition PutTask :: "Task copier \<Rightarrow> Task \<Rightarrow> MemoryStore \<Rightarrow> error option \<times> MemoryStore" where
  "PutTask clone task s =
     (case clone task of
        Inl err \<Rightarrow> (Some err, s)
      | Inr copy \<Rightarrow>
          if ms_tasks s (t_TaskID task) \<noteq> None then (Some (New_error ''task already exists''), s)
          else (None, s\<lparr>ms_tasks := (ms_tasks s)(t_TaskID task \<mapsto> copy)\<rparr>))"

definition GetTask :: "Task copier \<Rightarrow> string \<Rightarrow> MemoryStore \<Rightarrow> Task option result" where
  "GetTask clone i s = get_copy clone (ms_tasks s i)"

text \<open>
  The closure \<open>update\<close> changes a local copy of the task; its error discards the change. A
  call that fails returns the zero task beside the error.
\<close>

definition UpdateTask ::
  "Task copier \<Rightarrow> string \<Rightarrow> (Task \<Rightarrow> Task result) \<Rightarrow> MemoryStore \<Rightarrow> (Task \<times> error option) \<times> MemoryStore" where
  "UpdateTask clone i update s =
     (case ms_tasks s i of
        None \<Rightarrow> ((zero_Task, Some (New_error ''task not found'')), s)
      | Some task \<Rightarrow>
          (case update task of
             Inl err \<Rightarrow> ((zero_Task, Some err), s)
           | Inr task \<Rightarrow>
               let task = task\<lparr>t_Version := wrap64 (t_Version task + 1)\<rparr>;
                   s' = s\<lparr>ms_tasks := (ms_tasks s)(i \<mapsto> task)\<rparr> in
               (case clone task of
                  Inl err \<Rightarrow> ((zero_Task, Some err), s')
                | Inr copy \<Rightarrow> ((copy, None), s'))))"

section \<open>The task store as an interface\<close>

text \<open>
  The contract of the versioned tasks of interface \<open>Store\<close>: a created task is never
  replaced, only updated, and each successful update advances its version by one.
\<close>

datatype task_call = TPut Task | TUpdate string "Task \<Rightarrow> Task result"

locale task_store =
  fixes put :: "Task \<Rightarrow> 's \<Rightarrow> error option \<times> 's"
    and get :: "string \<Rightarrow> 's \<Rightarrow> Task option result"
    and update :: "string \<Rightarrow> (Task \<Rightarrow> Task result) \<Rightarrow> 's \<Rightarrow> (Task \<times> error option) \<times> 's"
    and task :: "'s \<Rightarrow> string \<Rightarrow> Task option"
  assumes put_ok: "put t s = (None, s') \<Longrightarrow>
      task s (t_TaskID t) = None \<and> task s' = (task s)(t_TaskID t \<mapsto> t)"
    and put_err: "put t s = (Some e, s') \<Longrightarrow> s' = s"
    and get_ok: "get i s = Inr r \<Longrightarrow> r = task s i"
    and update_ok: "update i f s = ((t', None), s') \<Longrightarrow>
      \<exists>t u. task s i = Some t \<and> f t = Inr u \<and> t' = u\<lparr>t_Version := wrap64 (t_Version u + 1)\<rparr> \<and>
        task s' = (task s)(i \<mapsto> t')"
    and update_err: "update i f s = ((t', Some e), s') \<Longrightarrow>
      t' = zero_Task \<and> (task s' = task s \<or>
        (\<exists>t u. task s i = Some t \<and> f t = Inr u \<and>
          task s' = (task s)(i \<mapsto> u\<lparr>t_Version := wrap64 (t_Version u + 1)\<rparr>)))"
begin

fun step :: "task_call \<Rightarrow> 's \<Rightarrow> 's" where
  "step (TPut t) s = snd (put t s)"
| "step (TUpdate i f) s = snd (update i f s)"

lemma put_cases:
  "task (snd (put t s)) = task s \<or>
   (task s (t_TaskID t) = None \<and> task (snd (put t s)) = (task s)(t_TaskID t \<mapsto> t))"
  using put_ok [of t s "snd (put t s)"] put_err [of t s _ "snd (put t s)"]
  by (cases "fst (put t s)") (auto simp: prod_eq_iff)

lemma update_cases:
  "task (snd (update i f s)) = task s \<or>
   (\<exists>t u. task s i = Some t \<and> f t = Inr u \<and>
      task (snd (update i f s)) = (task s)(i \<mapsto> u\<lparr>t_Version := wrap64 (t_Version u + 1)\<rparr>))"
proof -
  obtain t' e s' where *: "update i f s = ((t', e), s')" by (metis prod.exhaust)
  then show ?thesis using update_ok [of i f s t' s'] update_err [of i f s t'] by (cases e) auto
qed

text \<open>
  What an update function may rely on: a property of tasks that every update keeps holds of
  every version of a task, and a task never disappears.
\<close>

definition keeps :: "(Task \<Rightarrow> bool) \<Rightarrow> string \<Rightarrow> task_call \<Rightarrow> bool" where
  "keeps P i c \<longleftrightarrow> (\<forall>f. c = TUpdate i f \<longrightarrow>
     (\<forall>t u. P t \<longrightarrow> f t = Inr u \<longrightarrow> P (u\<lparr>t_Version := wrap64 (t_Version u + 1)\<rparr>)))"

lemma step_keeps:
  assumes "task s i = Some t" "P t" "keeps P i c"
  shows "\<exists>u. task (step c s) i = Some u \<and> P u"
proof (cases c)
  case (TPut t')
  then show ?thesis using put_cases [of t' s] assms by (cases "t_TaskID t' = i") auto
next
  case (TUpdate j f)
  from update_cases [of j f s] show ?thesis
  proof (elim disjE exE conjE)
    fix t1 u
    assume u: "task s j = Some t1" "f t1 = Inr u"
      "task (snd (update j f s)) = (task s)(j \<mapsto> u\<lparr>t_Version := wrap64 (t_Version u + 1)\<rparr>)"
    show ?thesis
    proof (cases "j = i")
      case True
      with u(1) assms(1) have "t1 = t" by simp
      with assms(2,3) TUpdate True u(2)
      have "P (u\<lparr>t_Version := wrap64 (t_Version u + 1)\<rparr>)" by (auto simp: keeps_def)
      with u(3) True TUpdate show ?thesis by simp
    qed (use assms u(3) TUpdate in auto)
  qed (use assms TUpdate in auto)
qed

lemma run_keeps:
  assumes "task s i = Some t" "P t" "list_all (keeps P i) cs"
  shows "\<exists>u. task (fold step cs s) i = Some u \<and> P u"
  using assms
proof (induction cs arbitrary: s t)
  case (Cons c cs)
  from step_keeps [of s i t P c] Cons.prems obtain u where "task (step c s) i = Some u" "P u"
    by auto
  from Cons.IH [OF this] Cons.prems(3) show ?case by simp
qed simp

end

section \<open>The in-memory store\<close>

text \<open>
  A copy succeeds or reports an error, and a successful one is the value: the round trip of
  encoding/json on values decoded from or built for the wire.
\<close>

locale json_copy =
  fixes clone :: "'a copier"
  assumes copy: "clone x = Inr y \<Longrightarrow> y = x"
begin

lemma get_copy_Inr: "get_copy clone e = Inr r \<Longrightarrow> r = e"
  by (auto simp: get_copy_def dest: copy split: option.splits sum.splits)

end

lemma task_store_laws:
  assumes "json_copy clone"
  shows "task_store (PutTask clone) (GetTask clone) (UpdateTask clone) ms_tasks"
proof -
  note c = json_copy.copy [OF assms]
  show ?thesis
  proof
    fix t s s' i f e r t'
    show "PutTask clone t s = (None, s') \<Longrightarrow>
        ms_tasks s (t_TaskID t) = None \<and> ms_tasks s' = (ms_tasks s)(t_TaskID t \<mapsto> t)"
      by (auto simp: PutTask_def dest: c split: sum.splits if_splits)
    show "PutTask clone t s = (Some e, s') \<Longrightarrow> s' = s"
      by (auto simp: PutTask_def split: sum.splits if_splits)
    show "GetTask clone i s = Inr r \<Longrightarrow> r = ms_tasks s i"
      using json_copy.get_copy_Inr [OF assms] by (auto simp: GetTask_def)
    show "UpdateTask clone i f s = ((t', None), s') \<Longrightarrow>
      \<exists>t u. ms_tasks s i = Some t \<and> f t = Inr u \<and> t' = u\<lparr>t_Version := wrap64 (t_Version u + 1)\<rparr> \<and>
        ms_tasks s' = (ms_tasks s)(i \<mapsto> t')"
      by (auto simp: UpdateTask_def Let_def dest: c split: option.splits sum.splits)
    show "UpdateTask clone i f s = ((t', Some e), s') \<Longrightarrow>
      t' = zero_Task \<and> (ms_tasks s' = ms_tasks s \<or>
        (\<exists>t u. ms_tasks s i = Some t \<and> f t = Inr u \<and>
          ms_tasks s' = (ms_tasks s)(i \<mapsto> u\<lparr>t_Version := wrap64 (t_Version u + 1)\<rparr>)))"
      by (auto simp: UpdateTask_def Let_def split: option.splits sum.splits)
  qed
qed

interpretation plain_copy: json_copy Inr
  by unfold_locales simp

interpretation memory_tasks: task_store "PutTask Inr" "GetTask Inr" "UpdateTask Inr" ms_tasks
  by (rule task_store_laws) (rule plain_copy.json_copy_axioms)

end
