(* ===== verification/Signing.thy ===== *)
theory Signing
  imports Types Digest
begin

text \<open>
  JSON Web Signatures (pkg/ascp/signature.go) and the object that is signed
  (pkg/ascp/signable.go). Ed25519 is the record \<open>ed25519\<close> of the package's functions,
  encoding/json a pair of functions per type, a \<open>codec\<close>; the JWS syntax, the header, the
  digest and the order of the checks are the program's.
\<close>

section \<open>Definitions\<close>

record ed25519 =
  ed_Public :: "string \<Rightarrow> string"
  ed_Sign :: "string \<Rightarrow> string \<Rightarrow> string"
  ed_Verify :: "string \<Rightarrow> string \<Rightarrow> string \<Rightarrow> bool"

definition PublicKeySize :: nat where "PublicKeySize = 32"
definition PrivateKeySize :: nat where "PrivateKeySize = 64"

record 'a codec =
  marshal :: "'a \<Rightarrow> string result"
  unmarshal :: "string \<Rightarrow> 'a result"

record Signer =
  sn_privateKey :: string
  sn_publicKey :: string
  sn_keyID :: string

record JWK =
  jwk_KeyType :: string
  jwk_Curve :: string
  jwk_Use :: string
  jwk_Alg :: string
  jwk_KeyID :: string
  jwk_X :: string

record JWSHeader =
  jh_Algorithm :: string
  jh_KeyID :: string
  jh_Type :: string
  jh_IssuedAt :: int

text \<open>\<open>time.Truncate(time.Second)\<close> and \<open>Unix\<close>, on times since the zero time.\<close>

definition Truncate_second :: "time \<Rightarrow> time" where
  "Truncate_second t = t - t mod Second"

definition unix_epoch_seconds :: int where
  "unix_epoch_seconds = 62135596800"

definition Unix :: "time \<Rightarrow> int" where
  "Unix t = t div Second - unix_epoch_seconds"

definition NewSignerFromPrivateKey :: "ed25519 \<Rightarrow> string \<Rightarrow> string \<Rightarrow> Signer result" where
  "NewSignerFromPrivateKey ed keyID privateKey =
     (if keyID = [] then Inl (New_error ''key ID is required'')
      else if length privateKey \<noteq> PrivateKeySize
      then Inl (Errorf ''invalid Ed25519 private key length: %d'' [AInt (int (length privateKey))])
      else Inr \<lparr>sn_privateKey = privateKey, sn_publicKey = ed_Public ed privateKey, sn_keyID = keyID\<rparr>)"

text \<open>\<open>generated\<close> is the outcome of \<open>ed25519.GenerateKey\<close>.\<close>

definition NewSigner :: "ed25519 \<Rightarrow> string result \<Rightarrow> string \<Rightarrow> Signer result" where
  "NewSigner ed generated keyID =
     (case generated of
        Inl err \<Rightarrow> Inl (Errorf ''generate Ed25519 key: %w'' [AErr err])
      | Inr privateKey \<Rightarrow> NewSignerFromPrivateKey ed keyID privateKey)"

definition JWKS :: "Signer \<Rightarrow> JWK list" where
  "JWKS s =
     [\<lparr>jwk_KeyType = ''OKP'', jwk_Curve = ''Ed25519'', jwk_Use = ''sig'', jwk_Alg = ''EdDSA'',
       jwk_KeyID = sn_keyID s, jwk_X = base64_encode (sn_publicKey s)\<rparr>]"

definition signing_input :: "string \<Rightarrow> string \<Rightarrow> string" where
  "signing_input encodedHeader encodedPayload = encodedHeader @ ''.'' @ encodedPayload"

definition SignJSON ::
  "ed25519 \<Rightarrow> JWSHeader codec \<Rightarrow> 'a codec \<Rightarrow> Signer \<Rightarrow> time \<Rightarrow> 'a \<Rightarrow> Signature result" where
  "SignJSON ed hc vc s now value =
     (case marshal vc value of
        Inl err \<Rightarrow> Inl (Errorf ''marshal signed payload: %w'' [AErr err])
      | Inr payload \<Rightarrow>
         let createdAt = Truncate_second now;
             protectedHeader = \<lparr>jh_Algorithm = ''EdDSA'', jh_KeyID = sn_keyID s,
               jh_Type = ''ascp+jws'', jh_IssuedAt = Unix createdAt\<rparr> in
         (case marshal hc protectedHeader of
            Inl err \<Rightarrow> Inl (Errorf ''marshal JWS header: %w'' [AErr err])
          | Inr protected \<Rightarrow>
             let input = signing_input (base64_encode protected) (base64_encode payload);
                 rawSignature = ed_Sign ed (sn_privateKey s) input;
                 compact = input @ ''.'' @ base64_encode rawSignature in
             Inr \<lparr>sg_Algorithm = ''EdDSA'', sg_KeyID = sn_keyID s, sg_CreatedAt = createdAt,
                  sg_PayloadDigest = ''sha256:'' @ base64_encode (sha256 payload), sg_JWS = compact\<rparr>))"

definition decode_part :: "string \<Rightarrow> string \<Rightarrow> string result" where
  "decode_part what part =
     (case base64_decode part of
        None \<Rightarrow> Inl (Errorf (''decode JWS '' @ what @ '': %w'') [AErr (New_error ''illegal base64 data'')])
      | Some bytes \<Rightarrow> Inr bytes)"

definition VerifyJSON ::
  "ed25519 \<Rightarrow> JWSHeader codec \<Rightarrow> 'a codec \<Rightarrow> Signature \<Rightarrow> string \<Rightarrow> 'a result" where
  "VerifyJSON ed hc vc signature publicKey =
     (if sg_Algorithm signature \<noteq> ''EdDSA''
      then Inl (Errorf ''unsupported signature algorithm %q'' [AStr (sg_Algorithm signature)])
      else if length publicKey \<noteq> PublicKeySize then Inl (New_error ''invalid Ed25519 public key'')
      else case Split CHR ''.'' (sg_JWS signature) of
          [part0, part1, part2] \<Rightarrow>
            (case decode_part ''header'' part0 of Inl err \<Rightarrow> Inl err
             | Inr headerBytes \<Rightarrow>
            (case unmarshal hc headerBytes of Inl err \<Rightarrow> Inl (Errorf ''parse JWS header: %w'' [AErr err])
             | Inr header \<Rightarrow>
               if jh_Algorithm header \<noteq> ''EdDSA'' \<or> jh_KeyID header \<noteq> sg_KeyID signature \<or>
                  jh_Type header \<noteq> ''ascp+jws'' \<or> jh_IssuedAt header \<noteq> Unix (sg_CreatedAt signature)
               then Inl (New_error ''JWS header does not match signature metadata'')
               else
            (case decode_part ''payload'' part1 of Inl err \<Rightarrow> Inl err
             | Inr payload \<Rightarrow>
            (case decode_part ''signature'' part2 of Inl err \<Rightarrow> Inl err
             | Inr rawSignature \<Rightarrow>
               if \<not> ed_Verify ed publicKey (part0 @ ''.'' @ part1) rawSignature
               then Inl (New_error ''JWS signature verification failed'')
               else if ''sha256:'' @ base64_encode (sha256 payload) \<noteq> sg_PayloadDigest signature
               then Inl (New_error ''signed payload digest mismatch'')
               else (case unmarshal vc payload of
                   Inl err \<Rightarrow> Inl (Errorf ''unmarshal signed payload: %w'' [AErr err])
                 | Inr out \<Rightarrow> Inr out)))))
        | _ \<Rightarrow> Inl (New_error ''invalid compact JWS''))"

text \<open>
  \<open>SigningProjection\<close>: the members of the marshalled object with their raw JSON, without
  \<open>signature\<close>. \<open>unmarshal_object\<close> is \<open>json.Unmarshal\<close> into a
  \<open>map[string]json.RawMessage\<close>, which leaves the map \<open>nil\<close> (\<open>None\<close>) for
  \<open>null\<close>.
\<close>

type_synonym raw_object = "string \<rightharpoonup> string"

definition SigningProjection ::
  "('a \<Rightarrow> string result) \<Rightarrow> (string \<Rightarrow> raw_object option result) \<Rightarrow> 'a \<Rightarrow> raw_object result" where
  "SigningProjection marshal_value unmarshal_object value =
     (case marshal_value value of
        Inl err \<Rightarrow> Inl err
      | Inr encoded \<Rightarrow>
         (case unmarshal_object encoded of
            Inl err \<Rightarrow> Inl err
          | Inr None \<Rightarrow> Inl (New_error ''ASCP signable value must be a JSON object'')
          | Inr (Some object) \<Rightarrow> Inr (object(''signature'' := None))))"

section \<open>Compact serialization\<close>

lemma visible_dot_b64: "n < 64 \<Longrightarrow> b64_char n \<noteq> CHR ''.''"
proof -
  have "list_all (\<lambda>i. b64_char i \<noteq> CHR ''.'') [0..<64]" by code_simp
  then show "n < 64 \<Longrightarrow> b64_char n \<noteq> CHR ''.''" by (simp add: list_all_iff)
qed

lemma base64_no_dot: "CHR ''.'' \<notin> set (base64_encode s)"
proof
  assume "CHR ''.'' \<in> set (base64_encode s)"
  then obtain n where "n \<in> set (sextets s)" "CHR ''.'' = b64_char n"
    by (auto simp: base64_encode_sextets)
  with sextets_less [of s] visible_dot_b64 [of n] show False by simp
qed

lemma Split_dot_absent: "c \<notin> set s \<Longrightarrow> Split c s = [s]"
  by (induction s) auto

lemma Split_dot_append: "c \<notin> set s \<Longrightarrow> Split c (s @ c # t) = s # Split c t"
  by (induction s) auto

lemma Split_compact:
  "Split CHR ''.'' (signing_input (base64_encode h) (base64_encode p) @ ''.'' @ base64_encode r) =
     [base64_encode h, base64_encode p, base64_encode r]"
  by (simp add: signing_input_def Split_dot_append Split_dot_absent base64_no_dot)

section \<open>What a verified signature is\<close>

text \<open>
  The parts of a compact JWS that \<open>VerifyJSON\<close> accepted: the header repeats the
  signature's metadata, the Ed25519 signature covers header and payload, the digest is the
  payload's and the value is the decoded payload, not a convenience copy.
\<close>

definition signed_document ::
  "ed25519 \<Rightarrow> JWSHeader codec \<Rightarrow> 'a codec \<Rightarrow> Signature \<Rightarrow> string \<Rightarrow> 'a \<Rightarrow> bool" where
  "signed_document ed hc vc sg pk value \<longleftrightarrow>
     (\<exists>part0 part1 part2 h p r hdr.
        Split CHR ''.'' (sg_JWS sg) = [part0, part1, part2] \<and>
        base64_decode part0 = Some h \<and> base64_decode part1 = Some p \<and> base64_decode part2 = Some r \<and>
        unmarshal hc h = Inr hdr \<and>
        hdr = \<lparr>jh_Algorithm = ''EdDSA'', jh_KeyID = sg_KeyID sg, jh_Type = ''ascp+jws'',
               jh_IssuedAt = Unix (sg_CreatedAt sg)\<rparr> \<and>
        ed_Verify ed pk (part0 @ ''.'' @ part1) r \<and>
        sg_PayloadDigest sg = SHA256Digest p \<and> unmarshal vc p = Inr value)"

lemma signed_documentI:
  assumes "Split CHR ''.'' (sg_JWS sg) = [pa, pb, pc]"
    "base64_decode pa = Some h" "base64_decode pb = Some p" "base64_decode pc = Some r"
    "unmarshal hc h = Inr hdr"
    "hdr = \<lparr>jh_Algorithm = ''EdDSA'', jh_KeyID = sg_KeyID sg, jh_Type = ''ascp+jws'',
            jh_IssuedAt = Unix (sg_CreatedAt sg)\<rparr>"
    "ed_Verify ed pk (pa @ ''.'' @ pb) r" "sg_PayloadDigest sg = SHA256Digest p"
    "unmarshal vc p = Inr value"
  shows "signed_document ed hc vc sg pk value"
  unfolding signed_document_def using assms by blast

lemma VerifyJSON_iff:
  "VerifyJSON ed hc vc sg pk = Inr value \<longleftrightarrow>
     sg_Algorithm sg = ''EdDSA'' \<and> length pk = PublicKeySize \<and> signed_document ed hc vc sg pk value"
proof -
  consider (three) a b c where "Split CHR ''.'' (sg_JWS sg) = [a, b, c]"
    | (other) "\<nexists>a b c. Split CHR ''.'' (sg_JWS sg) = [a, b, c]" by blast
  then show ?thesis
  proof cases
    case three
    then show ?thesis
      by (auto simp: VerifyJSON_def signed_document_def decode_part_def SHA256Digest_def
          digest_prefix_def JWSHeader.equality split: option.splits sum.splits)
  next
    case other
    then have "VerifyJSON ed hc vc sg pk \<noteq> Inr value"
      by (auto simp: VerifyJSON_def split: list.splits)
    with other show ?thesis by (auto simp: signed_document_def)
  qed
qed

definition codec_ok :: "'a codec \<Rightarrow> 'a \<Rightarrow> bool" where
  "codec_ok c x \<longleftrightarrow> (\<exists>s. marshal c x = Inr s \<and> unmarshal c s = Inr x)"

text \<open>Ed25519: the documented relation of key pair, \<open>Sign\<close> and \<open>Verify\<close>.\<close>

definition key_pair :: "ed25519 \<Rightarrow> Signer \<Rightarrow> bool" where
  "key_pair ed s \<longleftrightarrow> length (sn_publicKey s) = PublicKeySize \<and>
     (\<forall>m. ed_Verify ed (sn_publicKey s) m (ed_Sign ed (sn_privateKey s) m))"

lemma sign_verify:
  assumes "key_pair ed s" "codec_ok vc value"
    and "codec_ok hc \<lparr>jh_Algorithm = ''EdDSA'', jh_KeyID = sn_keyID s, jh_Type = ''ascp+jws'',
           jh_IssuedAt = Unix (Truncate_second now)\<rparr>"
  shows "\<exists>sg. SignJSON ed hc vc s now value = Inr sg \<and>
    VerifyJSON ed hc vc sg (sn_publicKey s) = Inr value \<and> sg_KeyID sg = sn_keyID s"
proof -
  let ?hdr = "\<lparr>jh_Algorithm = ''EdDSA'', jh_KeyID = sn_keyID s, jh_Type = ''ascp+jws'',
           jh_IssuedAt = Unix (Truncate_second now)\<rparr>"
  from assms obtain p h where ph: "marshal vc value = Inr p" "unmarshal vc p = Inr value"
    "marshal hc ?hdr = Inr h" "unmarshal hc h = Inr ?hdr"
    by (auto simp: codec_ok_def)
  let ?input = "signing_input (base64_encode h) (base64_encode p)"
  let ?raw = "ed_Sign ed (sn_privateKey s) ?input"
  let ?sg = "\<lparr>sg_Algorithm = ''EdDSA'', sg_KeyID = sn_keyID s, sg_CreatedAt = Truncate_second now,
      sg_PayloadDigest = ''sha256:'' @ base64_encode (sha256 p),
      sg_JWS = ?input @ ''.'' @ base64_encode ?raw\<rparr>"
  have 1: "SignJSON ed hc vc s now value = Inr ?sg"
    by (simp add: SignJSON_def ph Let_def)
  have v: "ed_Verify ed (sn_publicKey s) (base64_encode h @ ''.'' @ base64_encode p) ?raw"
    using assms(1) unfolding key_pair_def signing_input_def by blast
  have "signed_document ed hc vc ?sg (sn_publicKey s) value"
    using Split_compact [of h p ?raw] v ph
    by (intro signed_documentI [where pa = "base64_encode h" and pb = "base64_encode p" and
          pc = "base64_encode ?raw" and h = h and p = p and r = ?raw and hdr = ?hdr])
       (simp_all only: Signature.select_convs base64_roundtrip SHA256Digest_def digest_prefix_def)
  then have "VerifyJSON ed hc vc ?sg (sn_publicKey s) = Inr value"
    using assms(1) by (simp add: VerifyJSON_iff key_pair_def)
  with 1 show ?thesis by (intro exI [of _ ?sg]) simp
qed

text \<open>
  The payload bytes that a compact JWS carries. They are what the digest is computed from, so the
  payload a verifier accepts is fixed by the digest: two accepted signatures with one payload digest
  carry the same value, or their two payloads are a collision of SHA-256.
\<close>

definition signed_payload :: "Signature \<Rightarrow> string option" where
  "signed_payload sg = (case Split CHR ''.'' (sg_JWS sg) of [_, part, _] \<Rightarrow> base64_decode part | _ \<Rightarrow> None)"

definition payloads_collide :: "Signature \<Rightarrow> Signature \<Rightarrow> bool" where
  "payloads_collide sg sg' \<longleftrightarrow> (\<exists>p p'. signed_payload sg = Some p \<and> signed_payload sg' = Some p' \<and>
     p \<noteq> p' \<and> sha256 p = sha256 p')"

lemma signed_document_payload:
  "signed_document ed hc vc sg pk v \<Longrightarrow>
     \<exists>p. signed_payload sg = Some p \<and> sg_PayloadDigest sg = SHA256Digest p \<and> unmarshal vc p = Inr v"
  by (auto simp: signed_document_def signed_payload_def)

lemma verified_digest_binds:
  assumes "VerifyJSON ed hc vc sg pk = Inr v" "VerifyJSON ed hc vc sg' pk' = Inr v'"
    and "sg_PayloadDigest sg = sg_PayloadDigest sg'"
  shows "v = v' \<or> payloads_collide sg sg'"
proof -
  from assms(1,2) obtain p p' where p: "signed_payload sg = Some p" "sg_PayloadDigest sg = SHA256Digest p" "unmarshal vc p = Inr v"
    and p': "signed_payload sg' = Some p'" "sg_PayloadDigest sg' = SHA256Digest p'" "unmarshal vc p' = Inr v'"
    by (auto simp: VerifyJSON_iff dest!: signed_document_payload)
  with assms(3) have "sha256 p = sha256 p'" by (simp add: SHA256Digest_eq_iff)
  with p p' show ?thesis by (cases "p = p'") (auto simp: payloads_collide_def)
qed

section \<open>The signing projection\<close>

lemma SigningProjection_Inr:
  "SigningProjection m u x = Inr object \<longleftrightarrow>
     (\<exists>encoded full. m x = Inr encoded \<and> u encoded = Inr (Some full) \<and> object = full(''signature'' := None))"
  by (auto simp: SigningProjection_def split: sum.splits option.splits)

text \<open>
  Whatever signature a document carries, its projection is the same: two documents whose
  objects agree outside \<open>signature\<close> have one projection.
\<close>

lemma SigningProjection_ignores_signature:
  assumes "m x = Inr ex" "u ex = Inr (Some ox)" "m y = Inr ey" "u ey = Inr (Some oy)"
    and "ox(''signature'' := None) = oy(''signature'' := None)"
  shows "SigningProjection m u x = SigningProjection m u y"
  using assms by (simp add: SigningProjection_def)

end
