(* ===== verification/Audit_Log.thy ===== *)
theory Audit_Log
  imports Signing
begin

text \<open>
  The append-only, hash-chained audit log (pkg/audit/log.go): appending signed events,
  reading a chain and its root, verifying a chain offline and anchoring a receipt in it. The
  text of a time (\<open>time.RFC3339Nano\<close>) is the argument \<open>format_time\<close>; the signer and
  the verifier are those of the signing component.
\<close>

section \<open>Definitions\<close>

record signedEventPayload =
  sp_EventID :: string
  sp_ResourceType :: string
  sp_ResourceID :: string
  sp_Sequence :: int
  sp_Type :: string
  sp_OccurredAt :: time
  sp_Actor :: EntityRef
  sp_Data :: string
  sp_DataDigest :: string
  sp_PreviousHash :: string
  sp_EventHash :: string

type_synonym audit_log = "string \<rightharpoonup> AuditEvent list"

definition NewLog :: audit_log where
  "NewLog = Map.empty"

definition chain :: "audit_log \<Rightarrow> string \<Rightarrow> AuditEvent list" where
  "chain l resourceID = (case l resourceID of None \<Rightarrow> [] | Some events \<Rightarrow> events)"

definition inferResourceType :: "string \<Rightarrow> string" where
  "inferResourceType resourceID =
     (if HasPrefix resourceID ''tsk_'' then ''task''
      else if HasPrefix resourceID ''inv_'' then ''invocation''
      else if HasPrefix resourceID ''fil_'' then ''file''
      else if HasPrefix resourceID ''quo_'' then ''quote''
      else if HasPrefix resourceID ''off_'' then ''offer''
      else ''resource'')"

definition newline :: string where
  "newline = [CHR 0x0A]"

text \<open>The hashed tuple: ten fields, one per line.\<close>

definition material_fields :: "(time \<Rightarrow> string) \<Rightarrow> AuditEvent \<Rightarrow> string list" where
  "material_fields format_time e =
     [av_EventID e, av_ResourceType e, av_ResourceID e, decimal_int (av_Sequence e), av_Type e,
      format_time (av_OccurredAt e), er_Type (av_Actor e), er_ID (av_Actor e), av_DataDigest e,
      av_PreviousHash e]"

fun join_lines :: "string list \<Rightarrow> string" where
  "join_lines [] = []"
| "join_lines [f] = f"
| "join_lines (f # fs) = f @ newline @ join_lines fs"

definition chainMaterial :: "(time \<Rightarrow> string) \<Rightarrow> AuditEvent \<Rightarrow> string" where
  "chainMaterial format_time e = join_lines (material_fields format_time e)"

definition payload_of :: "AuditEvent \<Rightarrow> signedEventPayload" where
  "payload_of e =
     \<lparr>sp_EventID = av_EventID e, sp_ResourceType = av_ResourceType e,
      sp_ResourceID = av_ResourceID e, sp_Sequence = av_Sequence e, sp_Type = av_Type e,
      sp_OccurredAt = av_OccurredAt e, sp_Actor = av_Actor e, sp_Data = av_Data e,
      sp_DataDigest = av_DataDigest e, sp_PreviousHash = av_PreviousHash e,
      sp_EventHash = av_EventHash e\<rparr>"

definition Root :: "audit_log \<Rightarrow> string \<Rightarrow> string" where
  "Root l resourceID = (case rev (chain l resourceID) of [] \<Rightarrow> [] | e # _ \<Rightarrow> av_EventHash e)"

text \<open>
  \<open>Append\<close>: \<open>raw\<close> is the outcome of the random source, \<open>now\<close> the clock,
  \<open>data\<close> the outcome of marshalling the event's data and \<open>sign\<close> the signer.
\<close>

definition Append ::
  "(time \<Rightarrow> string) \<Rightarrow> (signedEventPayload \<Rightarrow> Signature result) \<Rightarrow> string option \<Rightarrow> time \<Rightarrow>
     string \<Rightarrow> string \<Rightarrow> EntityRef \<Rightarrow> string result \<Rightarrow> audit_log \<Rightarrow> AuditEvent result \<times> audit_log"
where
  "Append format_time sign raw now resourceID eventType actor data l =
     (if resourceID = [] then (Inl (New_error ''audit resource ID is required''), l)
      else if eventType = [] then (Inl (New_error ''audit event type is required''), l)
      else case data of
        Inl err \<Rightarrow> (Inl (Errorf ''marshal audit data: %w'' [AErr err]), l)
      | Inr dataBytes \<Rightarrow>
         let sequence = int (length (chain l resourceID)) + 1;
             previousHash = (if sequence > 1
               then av_EventHash (chain l resourceID ! nat (sequence - 2)) else []) in
         (case NewID raw ''evt'' of
            Inl err \<Rightarrow> (Inl err, l)
          | Inr eventID \<Rightarrow>
             let event0 = \<lparr>av_EventID = eventID, av_ResourceType = inferResourceType resourceID,
                   av_ResourceID = resourceID, av_Sequence = sequence, av_Type = eventType,
                   av_OccurredAt = now, av_Actor = actor, av_Data = dataBytes,
                   av_DataDigest = SHA256Digest dataBytes, av_PreviousHash = previousHash,
                   av_EventHash = [], av_Signature = zero_Signature\<rparr>;
                 event1 = event0\<lparr>av_EventHash := SHA256Digest (chainMaterial format_time event0)\<rparr> in
             (case sign (payload_of event1) of
                Inl err \<Rightarrow> (Inl (Errorf ''sign audit event: %w'' [AErr err]), l)
              | Inr signature \<Rightarrow>
                 let event = event1\<lparr>av_Signature := signature\<rparr> in
                 (Inr event, l(resourceID \<mapsto> chain l resourceID @ [event])))))"

definition List_events :: "string \<Rightarrow> int \<Rightarrow> audit_log \<Rightarrow> AuditEvent list" where
  "List_events resourceID afterSequence l =
     filter (\<lambda>event. afterSequence < av_Sequence event) (chain l resourceID)"

text \<open>The checks of one event; \<open>verify_json\<close> is \<open>VerifyJSON\<close> for event payloads.\<close>

definition verify_event ::
  "(time \<Rightarrow> string) \<Rightarrow> (Signature \<Rightarrow> signedEventPayload result) \<Rightarrow> int \<Rightarrow> string \<Rightarrow> string \<Rightarrow> string \<Rightarrow>
     AuditEvent \<Rightarrow> error option"
where
  "verify_event format_time verify_json expectedSequence resourceType resourceID previousHash event =
     first_error
       [fail_if (av_Sequence event \<noteq> expectedSequence)
          (Errorf ''audit sequence mismatch: got %d want %d'' [AInt (av_Sequence event), AInt expectedSequence]),
        fail_if (av_ResourceType event \<noteq> resourceType \<or> av_ResourceID event \<noteq> resourceID)
          (Errorf ''audit resource changed at sequence %d'' [AInt (av_Sequence event)]),
        fail_if (av_PreviousHash event \<noteq> previousHash)
          (Errorf ''audit previous hash mismatch at sequence %d'' [AInt (av_Sequence event)]),
        fail_if (SHA256Digest (av_Data event) \<noteq> av_DataDigest event)
          (Errorf ''audit data digest mismatch at sequence %d'' [AInt (av_Sequence event)]),
        fail_if (SHA256Digest (chainMaterial format_time event) \<noteq> av_EventHash event)
          (Errorf ''audit event hash mismatch at sequence %d'' [AInt (av_Sequence event)]),
        (case verify_json (av_Signature event) of
           Inl err \<Rightarrow> Some (Errorf ''verify event signature at sequence %d: %w''
             [AInt (av_Sequence event), AErr err])
         | Inr verified \<Rightarrow> fail_if (verified \<noteq> payload_of event)
             (Errorf ''signed event payload mismatch at sequence %d'' [AInt (av_Sequence event)]))]"

fun verify_from ::
  "(time \<Rightarrow> string) \<Rightarrow> (Signature \<Rightarrow> signedEventPayload result) \<Rightarrow> int \<Rightarrow> string \<Rightarrow> string \<Rightarrow> string \<Rightarrow>
     AuditEvent list \<Rightarrow> error option"
where
  "verify_from ft vj index resourceType resourceID previousHash [] = None"
| "verify_from ft vj index resourceType resourceID previousHash (event # events) =
     (let resourceType = (if index = 0 then av_ResourceType event else resourceType);
          resourceID = (if index = 0 then av_ResourceID event else resourceID) in
      case verify_event ft vj (index + 1) resourceType resourceID previousHash event of
        Some err \<Rightarrow> Some err
      | None \<Rightarrow> verify_from ft vj (index + 1) resourceType resourceID (av_EventHash event) events)"

definition Verify ::
  "(time \<Rightarrow> string) \<Rightarrow> (Signature \<Rightarrow> signedEventPayload result) \<Rightarrow> AuditEvent list \<Rightarrow> error option" where
  "Verify ft vj events = verify_from ft vj 0 [] [] [] events"

text \<open>
  \<open>decode_anchor\<close> is \<open>json.Unmarshal\<close> of the event data into the members
  \<open>receipt_id\<close> and \<open>audit_root\<close>.
\<close>

type_synonym anchor_decoder = "string \<Rightarrow> (string \<times> string) result"

fun verifyReceiptAnchor ::
  "anchor_decoder \<Rightarrow> AuditEvent list \<Rightarrow> string \<Rightarrow> string \<Rightarrow> string \<Rightarrow> error option" where
  "verifyReceiptAnchor decode_anchor [] receiptID auditRoot eventType =
     Some (New_error ''receipt-issued audit event not found'')"
| "verifyReceiptAnchor decode_anchor (event # events) receiptID auditRoot eventType =
     (if av_Type event \<noteq> eventType
      then verifyReceiptAnchor decode_anchor events receiptID auditRoot eventType
      else case decode_anchor (av_Data event) of
        Inl err \<Rightarrow> Some (Errorf ''decode receipt-issued audit data: %w'' [AErr err])
      | Inr (data_ReceiptID, data_AuditRoot) \<Rightarrow>
          if data_ReceiptID \<noteq> receiptID
          then verifyReceiptAnchor decode_anchor events receiptID auditRoot eventType
          else fail_if (data_AuditRoot \<noteq> auditRoot \<or> av_PreviousHash event \<noteq> auditRoot)
            (New_error ''receipt audit root does not match the pre-receipt chain root''))"

definition VerifyReceiptAnchor :: "anchor_decoder \<Rightarrow> AuditEvent list \<Rightarrow> Receipt \<Rightarrow> error option" where
  "VerifyReceiptAnchor decode_anchor events receipt =
     verifyReceiptAnchor decode_anchor events (rc_ReceiptID receipt) (rc_AuditRoot receipt)
       ''ascp.receipt.issued''"

definition VerifyInvocationReceiptAnchor ::
  "anchor_decoder \<Rightarrow> AuditEvent list \<Rightarrow> InvocationReceipt \<Rightarrow> error option" where
  "VerifyInvocationReceiptAnchor decode_anchor events receipt =
     verifyReceiptAnchor decode_anchor events (ir_ReceiptID receipt) (ir_AuditRoot receipt)
       ''ascp.invocation.receipt.issued''"

section \<open>Chains\<close>

text \<open>The hash at the end of a chain that started from \<open>prev\<close>.\<close>

definition last_hash :: "string \<Rightarrow> AuditEvent list \<Rightarrow> string" where
  "last_hash prev es = (if es = [] then prev else av_EventHash (last es))"

text \<open>What \<open>Verify\<close> establishes of the event at position \<open>i\<close>.\<close>

definition event_ok ::
  "(time \<Rightarrow> string) \<Rightarrow> (Signature \<Rightarrow> signedEventPayload result) \<Rightarrow> string \<Rightarrow> string \<Rightarrow> int \<Rightarrow> string \<Rightarrow>
     AuditEvent \<Rightarrow> bool" where
  "event_ok ft vj rt rid i prev e \<longleftrightarrow>
     av_Sequence e = i + 1 \<and> av_ResourceType e = rt \<and> av_ResourceID e = rid \<and>
     av_PreviousHash e = prev \<and> av_DataDigest e = SHA256Digest (av_Data e) \<and>
     av_EventHash e = SHA256Digest (chainMaterial ft e) \<and> vj (av_Signature e) = Inr (payload_of e)"

lemma verify_event_None: "verify_event ft vj (i + 1) rt rid prev e = None \<longleftrightarrow> event_ok ft vj rt rid i prev e"
  by (auto simp: verify_event_def event_ok_def split: sum.splits)

fun chain_ok ::
  "(time \<Rightarrow> string) \<Rightarrow> (Signature \<Rightarrow> signedEventPayload result) \<Rightarrow> string \<Rightarrow> string \<Rightarrow> int \<Rightarrow> string \<Rightarrow>
     AuditEvent list \<Rightarrow> bool" where
  "chain_ok ft vj rt rid i prev [] = True"
| "chain_ok ft vj rt rid i prev (e # es) \<longleftrightarrow>
     event_ok ft vj rt rid i prev e \<and> chain_ok ft vj rt rid (i + 1) (av_EventHash e) es"

lemma verify_from_later:
  "0 < i \<Longrightarrow> verify_from ft vj i rt rid prev es = None \<longleftrightarrow> chain_ok ft vj rt rid i prev es"
proof (induction es arbitrary: i prev)
  case (Cons e es)
  then show ?case
    using verify_event_None [of ft vj i rt rid prev e]
    by (auto simp: Let_def split: option.splits)
qed simp

text \<open>A chain verifies when it is a well-linked chain of the resource its first event names.\<close>

lemma Verify_iff:
  "Verify ft vj es = None \<longleftrightarrow>
     es = [] \<or> chain_ok ft vj (av_ResourceType (hd es)) (av_ResourceID (hd es)) 0 [] es"
proof (cases es)
  case (Cons e es')
  show ?thesis
    using verify_event_None [of ft vj 0 "av_ResourceType e" "av_ResourceID e" "[]" e]
      verify_from_later [of 1 ft vj "av_ResourceType e" "av_ResourceID e" "av_EventHash e" es']
    by (auto simp: Cons Verify_def Let_def split: option.splits)
qed (simp add: Verify_def)

lemma chain_ok_append:
  "chain_ok ft vj rt rid i prev (es @ es') \<longleftrightarrow>
     chain_ok ft vj rt rid i prev es \<and> chain_ok ft vj rt rid (i + int (length es)) (last_hash prev es) es'"
  by (induction es arbitrary: i prev) (auto simp: last_hash_def algebra_simps)


section \<open>The audit store as an interface\<close>

text \<open>
  The contract of interface \<open>AuditStore\<close>: an append either fails and changes nothing or
  extends one chain by an event that carries the given data and links to the root before it.
  \<open>'e\<close> is what an implementation reads of its environment (clock, random source).
\<close>

locale audit_store =
  fixes append_op :: "'e \<Rightarrow> string \<Rightarrow> string \<Rightarrow> EntityRef \<Rightarrow> string result \<Rightarrow> 's \<Rightarrow> AuditEvent result \<times> 's"
    and list_op :: "string \<Rightarrow> int \<Rightarrow> 's \<Rightarrow> AuditEvent list"
    and root_op :: "'s \<Rightarrow> string \<Rightarrow> string"
    and events :: "'s \<Rightarrow> string \<Rightarrow> AuditEvent list"
  assumes append_Inr: "append_op e r t a d s = (Inr ev, s') \<Longrightarrow>
      events s' r = events s r @ [ev] \<and> (\<forall>r'. r' \<noteq> r \<longrightarrow> events s' r' = events s r') \<and>
      av_Type ev = t \<and> av_Actor ev = a \<and> av_ResourceID ev = r \<and> d = Inr (av_Data ev) \<and>
      av_PreviousHash ev = root_op s r"
    and append_Inl: "append_op e r t a d s = (Inl err, s') \<Longrightarrow> s' = s"
    and root: "root_op s r = last_hash [] (events s r)"
    and list: "list_op r n s = filter (\<lambda>ev. n < av_Sequence ev) (events s r)"
begin

text \<open>Chains only grow.\<close>

fun append_all :: "('e \<times> string \<times> string \<times> EntityRef \<times> string result) list \<Rightarrow> 's \<Rightarrow> 's" where
  "append_all [] s = s"
| "append_all ((e, r, t, a, d) # cs) s = append_all cs (snd (append_op e r t a d s))"

lemma append_extends: "\<exists>es. events (snd (append_op e r t a d s)) r' = events s r' @ es"
proof (cases "append_op e r t a d s")
  case (Pair res s')
  show ?thesis
  proof (cases res)
    case (Inl err)
    with Pair append_Inl show ?thesis by fastforce
  next
    case (Inr ev)
    with append_Inr [of e r t a d s ev s'] Pair show ?thesis by (cases "r' = r") auto
  qed
qed

lemma append_all_extends: "\<exists>es. events (append_all cs s) r' = events s r' @ es"
proof (induction cs arbitrary: s)
  case (Cons c cs)
  obtain e r t a d where c: "c = (e, r, t, a, d)" by (cases c)
  from Cons [of "snd (append_op e r t a d s)"] append_extends [of e r t a d s r'] show ?case
    by (auto simp: c)
qed simp

text \<open>
  The receipt anchor: the event that records a receipt, appended when \<open>root\<close> was the root,
  proves the receipt in every later state of the chain, whatever else is appended, provided
  no earlier event of that type names the receipt.
\<close>

lemma anchor_absent:
  "\<forall>x \<in> set es. av_Type x = et \<longrightarrow> (\<exists>i o'. dec (av_Data x) = Inr (i, o') \<and> i \<noteq> rid) \<Longrightarrow>
     verifyReceiptAnchor dec es rid rt et = Some (New_error ''receipt-issued audit event not found'')"
  by (induction es) auto

lemma anchor_found:
  assumes "verifyReceiptAnchor dec es rid rt et = Some (New_error ''receipt-issued audit event not found'')"
    and "\<forall>x \<in> set es. av_Type x = et \<longrightarrow> (\<exists>i o'. dec (av_Data x) = Inr (i, o') \<and> i \<noteq> rid)"
    and "av_Type ev = et" "dec (av_Data ev) = Inr (rid, rt)" "av_PreviousHash ev = rt"
  shows "verifyReceiptAnchor dec (es @ ev # es') rid rt et = None"
  using assms by (induction es) auto

lemma anchor_stays:
  assumes fresh: "\<forall>x \<in> set (events s r). av_Type x = et \<longrightarrow> (\<exists>i o'. dec (av_Data x) = Inr (i, o') \<and> i \<noteq> rid)"
    and app: "append_op e r et a (Inr d) s = (Inr ev, s')"
    and dec: "dec d = Inr (rid, root_op s r)"
  shows "verifyReceiptAnchor dec (events (append_all cs s') r) rid (root_op s r) et = None"
proof -
  from append_Inr [OF app] have ev: "events s' r = events s r @ [ev]" "av_Type ev = et"
    "av_Data ev = d" "av_PreviousHash ev = root_op s r" by auto
  obtain es where "events (append_all cs s') r = events s' r @ es"
    using append_all_extends by blast
  moreover have "verifyReceiptAnchor dec (events s r) rid (root_op s r) et =
      Some (New_error ''receipt-issued audit event not found'')"
    using fresh by (rule anchor_absent)
  ultimately show ?thesis
    using anchor_found [of dec "events s r" rid "root_op s r" et ev es] fresh ev dec by auto
qed

end

section \<open>The log\<close>

lemma Root_last_hash: "Root l r = last_hash [] (chain l r)"
  by (cases "chain l r" rule: rev_cases) (simp_all add: Root_def last_hash_def)

lemma Append_previous:
  "(if int (length es) + 1 > 1 then av_EventHash (es ! nat (int (length es) + 1 - 2)) else []) = last_hash [] es"
proof (cases es rule: rev_cases)
  case (snoc es' e)
  then have "nat (int (length es) + 1 - 2) = length es'" by simp
  with snoc show ?thesis by (simp add: last_hash_def)
qed (simp add: last_hash_def)

text \<open>The event a successful \<open>Append\<close> adds.\<close>

lemma Append_Inr:
  assumes "Append ft sign raw now r t a d l = (Inr ev, l')"
  shows "l' = l(r \<mapsto> chain l r @ [ev])" "d = Inr (av_Data ev)"
    "av_Type ev = t" "av_Actor ev = a" "av_ResourceID ev = r" "r \<noteq> []" "t \<noteq> []"
    "av_ResourceType ev = inferResourceType r"
    "av_Sequence ev = int (length (chain l r)) + 1"
    "av_PreviousHash ev = last_hash [] (chain l r)"
    "av_DataDigest ev = SHA256Digest (av_Data ev)"
    "av_EventHash ev = SHA256Digest (chainMaterial ft ev)"
    "sign (payload_of ev) = Inr (av_Signature ev)"
    "av_OccurredAt ev = now" "NewID raw ''evt'' = Inr (av_EventID ev)"
proof -
  obtain bytes where d: "r \<noteq> []" "t \<noteq> []" "d = Inr bytes"
    using assms by (auto simp: Append_def split: if_splits sum.splits)
  obtain eid where eid: "NewID raw ''evt'' = Inr eid"
    using assms d by (auto simp: Append_def Let_def split: sum.splits)
  define ev0 where "ev0 = \<lparr>av_EventID = eid, av_ResourceType = inferResourceType r,
                   av_ResourceID = r, av_Sequence = int (length (chain l r)) + 1, av_Type = t,
                   av_OccurredAt = now, av_Actor = a, av_Data = bytes,
                   av_DataDigest = SHA256Digest bytes, av_PreviousHash = last_hash [] (chain l r),
                   av_EventHash = [], av_Signature = zero_Signature\<rparr>"
  define ev1 where "ev1 = ev0\<lparr>av_EventHash := SHA256Digest (chainMaterial ft ev0)\<rparr>"
  have "Append ft sign raw now r t a d l =
      (case sign (payload_of ev1) of
                Inl err \<Rightarrow> (Inl (Errorf ''sign audit event: %w'' [AErr err]), l)
              | Inr signature \<Rightarrow>
                 (Inr (ev1\<lparr>av_Signature := signature\<rparr>), l(r \<mapsto> chain l r @ [ev1\<lparr>av_Signature := signature\<rparr>])))"
    using d eid unfolding Append_def Let_def Append_previous ev1_def ev0_def by simp
  with assms obtain sg where sg: "sign (payload_of ev1) = Inr sg" "ev = ev1\<lparr>av_Signature := sg\<rparr>"
    "l' = l(r \<mapsto> chain l r @ [ev])"
    by (auto split: sum.splits)
  have cm: "chainMaterial ft ev0 = chainMaterial ft ev" "payload_of ev = payload_of ev1"
    by (simp_all add: sg ev1_def chainMaterial_def material_fields_def payload_of_def)
  show "sign (payload_of ev) = Inr (av_Signature ev)"
    by (simp add: cm) (simp add: sg)
  show "av_EventHash ev = SHA256Digest (chainMaterial ft ev)"
    by (simp flip: cm) (simp add: sg ev1_def)
  show "l' = l(r \<mapsto> chain l r @ [ev])" "d = Inr (av_Data ev)"
    "av_Type ev = t" "av_Actor ev = a" "av_ResourceID ev = r" "r \<noteq> []" "t \<noteq> []"
    "av_ResourceType ev = inferResourceType r"
    "av_Sequence ev = int (length (chain l r)) + 1"
    "av_PreviousHash ev = last_hash [] (chain l r)"
    "av_DataDigest ev = SHA256Digest (av_Data ev)"
    "av_OccurredAt ev = now" "NewID raw ''evt'' = Inr (av_EventID ev)"
    using d sg(3) eid by (simp_all add: sg(2) ev1_def ev0_def)
qed

lemma Append_Inl: "Append ft sign raw now r t a d l = (Inl err, l') \<Longrightarrow> l' = l"
  by (auto simp: Append_def Let_def split: if_splits sum.splits)

lemma chain_update: "chain (l(r \<mapsto> es)) r' = (if r' = r then es else chain l r')"
  by (simp add: chain_def)

text \<open>The log's operations for one signer, over its readings of the random source and the clock.\<close>

definition Append_with ::
  "(time \<Rightarrow> string) \<Rightarrow> (time \<Rightarrow> signedEventPayload \<Rightarrow> Signature result) \<Rightarrow> string option \<times> time \<times> time \<Rightarrow>
     string \<Rightarrow> string \<Rightarrow> EntityRef \<Rightarrow> string result \<Rightarrow> audit_log \<Rightarrow> AuditEvent result \<times> audit_log" where
  "Append_with ft sign env = (case env of (raw, now, signed_at) \<Rightarrow> Append ft (sign signed_at) raw now)"

interpretation log: audit_store "Append_with ft sign" List_events Root chain for ft sign
proof
  fix e r t a d s ev s'
  assume "Append_with ft sign e r t a d s = (Inr ev, s')"
  then obtain raw now tm where *: "Append ft (sign tm) raw now r t a d s = (Inr ev, s')"
    by (auto simp: Append_with_def split: prod.splits)
  note ap = Append_Inr [OF *]
  show "chain s' r = chain s r @ [ev] \<and> (\<forall>r'. r' \<noteq> r \<longrightarrow> chain s' r' = chain s r') \<and>
      av_Type ev = t \<and> av_Actor ev = a \<and> av_ResourceID ev = r \<and> d = Inr (av_Data ev) \<and>
      av_PreviousHash ev = Root s r"
    using ap(2-5,10) by (simp add: ap(1) chain_update Root_last_hash)
next
  fix e r t a d s err s'
  show "Append_with ft sign e r t a d s = (Inl err, s') \<Longrightarrow> s' = s"
    by (auto simp: Append_with_def dest: Append_Inl split: prod.splits)
qed (simp_all add: Root_last_hash List_events_def)

section \<open>Every log verifies\<close>

inductive reachable_log ::
  "(time \<Rightarrow> string) \<Rightarrow> (time \<Rightarrow> signedEventPayload \<Rightarrow> Signature result) \<Rightarrow> audit_log \<Rightarrow> bool"
  for ft sign
where
  "reachable_log ft sign NewLog"
| "reachable_log ft sign l \<Longrightarrow> reachable_log ft sign (snd (Append_with ft sign env r t a d l))"

definition log_ok ::
  "(time \<Rightarrow> string) \<Rightarrow> (Signature \<Rightarrow> signedEventPayload result) \<Rightarrow> audit_log \<Rightarrow> bool" where
  "log_ok ft vj l \<longleftrightarrow> (\<forall>r. chain_ok ft vj (inferResourceType r) r 0 [] (chain l r))"

lemma Append_log_ok:
  assumes "\<And>tm p sg. sign tm p = Inr sg \<Longrightarrow> vj sg = Inr p" "log_ok ft vj l"
  shows "log_ok ft vj (snd (Append_with ft sign env r t a d l))"
proof -
  obtain raw now tm where env: "env = (raw, now, tm)" by (cases env)
  obtain res l' where ap: "Append ft (sign tm) raw now r t a d l = (res, l')" by fastforce
  then have l': "snd (Append_with ft sign env r t a d l) = l'" by (simp add: Append_with_def env)
  show ?thesis
  proof (cases res)
    case (Inl err)
    with ap have "l' = l" by (auto dest: Append_Inl)
    with l' assms(2) show ?thesis by simp
  next
    case (Inr ev)
    note ev = Append_Inr [OF ap [unfolded Inr]]
    have "event_ok ft vj (inferResourceType r) r (int (length (chain l r))) (last_hash [] (chain l r)) ev"
      unfolding event_ok_def using ev assms(1) [OF ev(13)] by simp
    with assms(2) show ?thesis
      by (auto simp: l' log_ok_def ev(1) chain_update chain_ok_append)
  qed
qed

lemma reachable_log_ok:
  assumes "reachable_log ft sign l" "\<And>tm p sg. sign tm p = Inr sg \<Longrightarrow> vj sg = Inr p"
  shows "log_ok ft vj l"
  using assms
proof induction
  case 1
  show ?case by (simp add: log_ok_def NewLog_def chain_def)
next
  case (2 l env r t a d)
  then show ?case by (intro Append_log_ok) blast+
qed

lemma log_ok_Verify: "log_ok ft vj l \<Longrightarrow> Verify ft vj (chain l r) = None"
proof -
  assume "log_ok ft vj l"
  then have "chain_ok ft vj (inferResourceType r) r 0 [] (chain l r)" by (simp add: log_ok_def)
  then show ?thesis
    by (cases "chain l r") (auto simp: Verify_iff event_ok_def)
qed

section \<open>Tamper evidence\<close>

text \<open>
  The root commits to the whole chain. The tuple is hashed as lines, so the fields must not
  contain a line break for it to be unambiguous.
\<close>

definition lines_clean :: "(time \<Rightarrow> string) \<Rightarrow> AuditEvent \<Rightarrow> bool" where
  "lines_clean ft e \<longleftrightarrow> list_all (\<lambda>f. CHR 0x0A \<notin> set f) (material_fields ft e)"

lemma join_lines_inj:
  "list_all (\<lambda>f. CHR 0x0A \<notin> set f) fs \<Longrightarrow> list_all (\<lambda>f. CHR 0x0A \<notin> set f) gs \<Longrightarrow>
     length fs = length gs \<Longrightarrow> join_lines fs = join_lines gs \<Longrightarrow> fs = gs"
proof (induction fs arbitrary: gs rule: join_lines.induct)
  case (3 f f' fs)
  from "3.prems"(3) obtain g g' gs' where gs: "gs = g # g' # gs'"
    by (cases gs; cases "tl gs") auto
  have cut: "takeWhile (\<lambda>c. c \<noteq> CHR 0x0A) (x @ newline @ y) = x" if "CHR 0x0A \<notin> set x" for x y
    using that by (subst takeWhile_append2) (auto simp: newline_def)
  from "3.prems"(4) gs have eq: "f @ newline @ join_lines (f' # fs) = g @ newline @ join_lines (g' # gs')"
    by simp
  with cut [of f] cut [of g] "3.prems"(1,2) gs have "f = g" by (metis list.pred_inject(2))
  with eq "3.IH" [of "g' # gs'"] "3.prems" gs show ?case by simp
next
  case 2
  then show ?case by (cases gs) (auto simp: length_Suc_conv)
qed simp

text \<open>What the hash fixes of an event: everything but its signature.\<close>

definition core :: "(time \<Rightarrow> string) \<Rightarrow> AuditEvent \<Rightarrow> string list \<times> string \<times> string" where
  "core ft e = (material_fields ft e, av_Data e, av_EventHash e)"

lemma decimal_int_inj: "decimal_int i = decimal_int j \<Longrightarrow> 0 \<le> i \<Longrightarrow> 0 \<le> j \<Longrightarrow> i = j"
  by (simp add: decimal_int_def decimal_inj)

text \<open>
  A collision that a forger of one of two events would have found: their chain material or their
  data differ and hash to the same digest.
\<close>

definition collide :: "(time \<Rightarrow> string) \<Rightarrow> AuditEvent \<Rightarrow> AuditEvent \<Rightarrow> bool" where
  "collide ft e e' \<longleftrightarrow>
     chainMaterial ft e \<noteq> chainMaterial ft e' \<and> sha256 (chainMaterial ft e) = sha256 (chainMaterial ft e') \<or>
     av_Data e \<noteq> av_Data e' \<and> sha256 (av_Data e) = sha256 (av_Data e')"

lemma event_hash_commits:
  assumes "av_EventHash e = SHA256Digest (chainMaterial ft e)"
    "av_EventHash e' = SHA256Digest (chainMaterial ft e')"
    "av_DataDigest e = SHA256Digest (av_Data e)" "av_DataDigest e' = SHA256Digest (av_Data e')"
    and "lines_clean ft e" "lines_clean ft e'" "av_EventHash e = av_EventHash e'"
  shows "core ft e = core ft e' \<or> collide ft e e'"
proof (cases "chainMaterial ft e = chainMaterial ft e'")
  case True
  then have f: "material_fields ft e = material_fields ft e'"
    using assms(5,6) join_lines_inj [of "material_fields ft e" "material_fields ft e'"]
    by (simp add: chainMaterial_def lines_clean_def material_fields_def)
  then have "SHA256Digest (av_Data e) = SHA256Digest (av_Data e')"
    using assms(3,4) by (simp add: material_fields_def)
  with f assms(7) show ?thesis by (auto simp: core_def collide_def SHA256Digest_eq_iff)
next
  case False
  moreover from assms have "sha256 (chainMaterial ft e) = sha256 (chainMaterial ft e')"
    by (simp flip: SHA256Digest_eq_iff)
  ultimately show ?thesis unfolding collide_def by blast
qed

lemma chain_ok_commits:
  assumes "chain_ok ft vj rt rid 0 [] es" "chain_ok ft vj' rt' rid' 0 [] es'"
    and "last_hash [] es = last_hash [] es'" "list_all (lines_clean ft) es" "list_all (lines_clean ft) es'"
  shows "map (core ft) es = map (core ft) es' \<or> (\<exists>e\<in>set es. \<exists>e'\<in>set es'. collide ft e e')"
  using assms
proof (induction es arbitrary: es' rule: rev_induct)
  case Nil
  then have "es' = []"
    by (cases es' rule: rev_cases) (auto simp: last_hash_def chain_ok_append event_ok_def)
  then show ?case by simp
next
  case (snoc e es)
  from snoc.prems(1) have e: "chain_ok ft vj rt rid 0 [] es"
    "event_ok ft vj rt rid (int (length es)) (last_hash [] es) e"
    by (simp_all add: chain_ok_append)
  from snoc.prems(1,3) e have "es' \<noteq> []" by (auto simp: last_hash_def event_ok_def)
  then obtain ds d where es': "es' = ds @ [d]" by (cases es' rule: rev_cases) auto
  with snoc.prems(2) have d: "chain_ok ft vj' rt' rid' 0 [] ds"
    "event_ok ft vj' rt' rid' (int (length ds)) (last_hash [] ds) d"
    by (simp_all add: chain_ok_append)
  from snoc.prems(3) es' have h: "av_EventHash e = av_EventHash d" by (simp add: last_hash_def)
  have "core ft e = core ft d \<or> collide ft e d"
    using e(2) d(2) h snoc.prems(4,5) es'
    by (intro event_hash_commits) (auto simp: event_ok_def)
  then show ?case
  proof
    assume c: "core ft e = core ft d"
    then have "av_PreviousHash e = av_PreviousHash d"
      by (simp add: core_def material_fields_def)
    with e(2) d(2) have "last_hash [] es = last_hash [] ds" by (simp add: event_ok_def)
    with snoc.IH [OF e(1) d(1)] snoc.prems(4,5) es' c show ?thesis by auto
  qed (use es' in auto)
qed

lemma append_all_ok:
  assumes "\<And>tm p sg. sign tm p = Inr sg \<Longrightarrow> vj sg = Inr p" "log_ok ft vj l"
  shows "log_ok ft vj (log.append_all ft sign cs l)"
  using assms(2)
proof (induction cs arbitrary: l)
  case (Cons c cs)
  obtain e r t a d where c: "c = (e, r, t, a, d)" by (cases c)
  show ?case unfolding c log.append_all.simps by (intro Cons.IH Append_log_ok assms(1) Cons.prems)
qed (simp add: log.append_all.simps)

lemma chain_ok_sequence: "chain_ok ft vj rt rid i prev es \<Longrightarrow> x \<in> set es \<Longrightarrow> i < av_Sequence x"
  by (induction es arbitrary: i prev) (fastforce simp: event_ok_def)+

lemma List_events_all: "log_ok ft vj l \<Longrightarrow> List_events r 0 l = chain l r"
  unfolding List_events_def filter_id_conv log_ok_def by (blast intro: chain_ok_sequence)

lemma b64_no_newline: "CHR 0x0A \<notin> set (base64_encode s)"
  using base64_visible [of s] visible_not_newline by (auto simp: list_all_iff)

lemma SHA256Digest_no_newline: "CHR 0x0A \<notin> set (SHA256Digest s)"
  using b64_no_newline [of "sha256 s"] by (auto simp: SHA256Digest_def digest_prefix_def)

end
