(* ===== verification/Calendar.thy ===== *)
theory Calendar
  imports Types
begin

text \<open>
  The civil date of a time and the layouts the program formats times with: package
  \<open>time\<close>'s \<open>Date\<close>, \<open>Format\<close> and \<open>time.RFC3339\<close> for UTC times since year 1.
\<close>

definition leap :: "int \<Rightarrow> bool" where
  "leap y \<longleftrightarrow> y mod 4 = 0 \<and> (y mod 100 \<noteq> 0 \<or> y mod 400 = 0)"

definition month_lengths :: "int \<Rightarrow> int list" where
  "month_lengths y = [31, if leap y then 29 else 28, 31, 30, 31, 30, 31, 31, 30, 31, 30, 31]"

text \<open>
  Day number 0 is 1 January of year 1. A cycle of 400 years has 146097 days, a century 36524
  (the fourth one more), four years 1461 (three times 365 and a leap year).
\<close>

definition year_of_day :: "int \<Rightarrow> int \<times> int" where
  "year_of_day d =
     (let n400 = d div 146097; d = d mod 146097;
          n100 = min 3 (d div 36524); d = d - n100 * 36524;
          n4 = d div 1461; d = d mod 1461;
          n1 = min 3 (d div 365)
      in (400 * n400 + 100 * n100 + 4 * n4 + n1 + 1, d - n1 * 365))"

fun month_of_day :: "int \<Rightarrow> int list \<Rightarrow> int \<Rightarrow> int \<times> int" where
  "month_of_day m [] d = (m, d + 1)"
| "month_of_day m (l # ls) d = (if d < l then (m, d + 1) else month_of_day (m + 1) ls (d - l))"

definition civil_date :: "time \<Rightarrow> int \<times> int \<times> int" where
  "civil_date t =
     (let (y, yd) = year_of_day (t div (24 * Hour)); (m, d) = month_of_day 1 (month_lengths y) yd
      in (y, m, d))"

definition zero_padded :: "nat \<Rightarrow> int \<Rightarrow> string" where
  "zero_padded n i = replicate (n - length (decimal_int i)) (CHR ''0'') @ decimal_int i"

text \<open>The layouts \<open>200601\<close>, \<open>2006-01\<close> and \<open>time.RFC3339\<close>.\<close>

definition Format_200601 :: "time \<Rightarrow> string" where
  "Format_200601 t = (let (y, m, d) = civil_date t in zero_padded 4 y @ zero_padded 2 m)"

definition Format_2006_01 :: "time \<Rightarrow> string" where
  "Format_2006_01 t = (let (y, m, d) = civil_date t in zero_padded 4 y @ ''-'' @ zero_padded 2 m)"

definition Format_RFC3339 :: "time \<Rightarrow> string" where
  "Format_RFC3339 t =
     (let (y, m, d) = civil_date t; s = (t div Second) mod 86400 in
      zero_padded 4 y @ ''-'' @ zero_padded 2 m @ ''-'' @ zero_padded 2 d @ ''T'' @
      zero_padded 2 (s div 3600) @ '':'' @ zero_padded 2 (s div 60 mod 60) @ '':'' @
      zero_padded 2 (s mod 60) @ ''Z'')"

text \<open>\<open>time.RFC3339Nano\<close> drops the trailing zeros of the fraction.\<close>

definition Format_RFC3339Nano :: "time \<Rightarrow> string" where
  "Format_RFC3339Nano t =
     (let ns = t mod Second; base = butlast (Format_RFC3339 t) in
      (if ns = 0 then base else base @ ''.'' @ TrimRight (zero_padded 9 ns) (CHR ''0'')) @ ''Z'')"

text \<open>Known dates: the zero time, the Unix epoch, a leap day.\<close>

lemma civil_dates:
  "civil_date 0 = (1, 1, 1)"
  "civil_date (62135596800 * Second) = (1970, 1, 1)"
  "civil_date (63844761600 * Second) = (2024, 2, 29)"
  by code_simp+

lemma format_example:
  "Format_2006_01 (63844761600 * Second) = ''2024-02''"
  by (simp add: Format_2006_01_def civil_dates zero_padded_def decimal_int_def decimal.simps
      digit_char_def)
     code_simp

end
