(* ===== verification/Billing.thy ===== *)
theory Billing
  imports Money Digest Calendar
begin

text \<open>
  The billing boundary (pkg/billing/billing.go) and the in-memory processor
  (pkg/billing/mock.go): reservations, settlements, releases and refunds. An operation takes
  the clock readings and random bytes its Go function draws. \<open>err_text\<close> is the text of an
  error (\<open>err.Error()\<close>). The invariants say that a hold is settled at most once and for no
  more than was reserved, that a released hold is never settled and that refunds never exceed
  the settlement.
\<close>

section \<open>Definitions\<close>

record Reservation =
  rv_Reference :: string
  rv_Mode :: BillingMode
  rv_ArrangementRef :: string
  rv_Amount :: Money
  rv_State :: string
  rv_InvoiceRef :: string
  rv_PeriodRef :: string

record Settlement =
  st_Reference :: string
  st_Mode :: BillingMode
  st_ArrangementRef :: string
  st_Amount :: Money
  st_State :: string
  st_InvoiceRef :: string
  st_PeriodRef :: string

record Refund_record =
  rf_Reference :: string
  rf_Amount :: Money
  rf_State :: string

datatype billing_error =
    DeclinedError string
  | TemporaryError string
  | UnknownOutcomeError string string
  | OtherBillingError error

definition Billing_Error_text :: "(error \<Rightarrow> string) \<Rightarrow> billing_error \<Rightarrow> string" where
  "Billing_Error_text err_text e =
     (case e of
        DeclinedError reason \<Rightarrow> ''billing declined: '' @ reason
      | TemporaryError reason \<Rightarrow> ''temporary no-effect billing error: '' @ reason
      | UnknownOutcomeError reason ref \<Rightarrow> ''unknown billing outcome: '' @ reason
      | OtherBillingError err \<Rightarrow> err_text err)"

record mandateUse =
  mu_BindingDigest :: string
  mu_IdempotencyKey :: string
  mu_Reservation :: Reservation

record MockProcessor =
  reservationsByKey :: "string \<rightharpoonup> Reservation"
  reservationsByRef :: "string \<rightharpoonup> Reservation"
  mandateUses :: "string \<rightharpoonup> mandateUse"
  settlementsByKey :: "string \<rightharpoonup> Settlement"
  settlementsByRef :: "string \<rightharpoonup> Settlement"
  settlementByHold :: "string \<rightharpoonup> Settlement"
  refundsByKey :: "string \<rightharpoonup> Refund_record"
  refundedTotals :: "string \<rightharpoonup> Money"
  released_holds :: "string set"

definition NewMockProcessor :: MockProcessor where
  "NewMockProcessor =
     \<lparr>reservationsByKey = Map.empty, reservationsByRef = Map.empty, mandateUses = Map.empty,
      settlementsByKey = Map.empty, settlementsByRef = Map.empty, settlementByHold = Map.empty,
      refundsByKey = Map.empty, refundedTotals = Map.empty, released_holds = {}\<rparr>"

fun reservationState :: "BillingMode \<Rightarrow> string" where
  "reservationState BillingSubscription = ''allowance_reserved''"
| "reservationState BillingPostpaid = ''credit_reserved''"
| "reservationState BillingMonthlyInvoice = ''credit_reserved''"
| "reservationState BillingSponsored = ''sponsor_approved''"
| "reservationState BillingExternal = ''external_acknowledged''"
| "reservationState _ = ''reserved''"

fun settlementState :: "BillingMode \<Rightarrow> string" where
  "settlementState BillingPayNow = ''captured''"
| "settlementState BillingPrepaidBalance = ''balance_debited''"
| "settlementState BillingSubscription = ''usage_recorded''"
| "settlementState BillingPostpaid = ''invoice_item_recorded''"
| "settlementState BillingMonthlyInvoice = ''invoice_item_recorded''"
| "settlementState BillingClearing = ''clearing_recorded''"
| "settlementState BillingSponsored = ''sponsor_usage_recorded''"
| "settlementState BillingExternal = ''external_settlement_recorded''"
| "settlementState _ = ''settled''"

definition colon_key :: "string \<Rightarrow> string \<Rightarrow> string" where
  "colon_key a b = a @ '':'' @ b"

text \<open>The guards of \<open>Reserve\<close> on the authorization, before the lock; \<open>now\<close> is the clock.\<close>

definition check_authorization ::
  "(error \<Rightarrow> string) \<Rightarrow> time \<Rightarrow> string \<Rightarrow> string \<Rightarrow> BillingTerms \<Rightarrow> Money \<Rightarrow> BillingAuthorization \<Rightarrow>
     billing_error option"
where
  "check_authorization err_text now serviceID bindingDigest terms amount authorization =
     (if ba_Mode authorization \<noteq> bt_Mode terms
      then Some (DeclinedError ''billing authorization mode mismatch'')
      else if ba_Audience authorization \<noteq> serviceID
      then Some (DeclinedError ''billing authorization audience mismatch'')
      else if ba_BindingDigest authorization \<noteq> bindingDigest
      then Some (DeclinedError ''billing authorization is not bound to this contract or request'')
      else if \<not> IsZero (ba_ExpiresAt authorization) \<and> \<not> After (ba_ExpiresAt authorization) now
      then Some (DeclinedError ''billing authorization expired'')
      else if bt_ArrangementRef terms \<noteq> [] \<and> ba_ArrangementRef authorization \<noteq> [] \<and>
              ba_ArrangementRef authorization \<noteq> bt_ArrangementRef terms
      then Some (DeclinedError ''billing arrangement reference mismatch'')
      else case (case ba_MaximumAmount authorization of None \<Rightarrow> None
                 | Some maximum \<Rightarrow> (case CompareMoney maximum amount of
                      Inl err \<Rightarrow> Some (DeclinedError (err_text err))
                    | Inr comparison \<Rightarrow>
                        if comparison < 0
                        then Some (DeclinedError ''authorized amount is below the contract ceiling'')
                        else None)) of
          Some err \<Rightarrow> Some err
        | None \<Rightarrow>
            if bt_Mode terms = BillingPayNow \<and> \<not> HasPrefix (ba_AuthorizationRef authorization) ''mockpay_''
            then Some (DeclinedError ''unknown mock pay-now authorization reference'') else None)"

definition check_reserve ::
  "(error \<Rightarrow> string) \<Rightarrow> time \<Rightarrow> string \<Rightarrow> string \<Rightarrow> BillingTerms \<Rightarrow> BillingAuthorization option \<Rightarrow> Money \<Rightarrow>
     billing_error option"
where
  "check_reserve err_text now serviceID bindingDigest terms authorization amount =
     (if bt_Mode terms = BillingFree
      then Some (DeclinedError ''free operations do not create billing reservations'')
      else if bt_ArrangementRequired terms \<and> blank (bt_ArrangementRef terms)
      then Some (DeclinedError ''required billing arrangement is missing'')
      else if bt_AuthorizationRequired terms \<and> authorization = None
      then Some (DeclinedError ''per-call billing authorization is required'')
      else case authorization of None \<Rightarrow> None
        | Some a \<Rightarrow> check_authorization err_text now serviceID bindingDigest terms amount a)"

definition usage_of :: "BillingAuthorization \<Rightarrow> string" where
  "usage_of a = (if ba_Usage a = [] then ''single_use'' else ba_Usage a)"

text \<open>The reuse of a mandate: an earlier reservation, a refusal or nothing.\<close>

definition check_mandate ::
  "string \<Rightarrow> string \<Rightarrow> BillingAuthorization option \<Rightarrow> MockProcessor \<Rightarrow> (billing_error + Reservation) option"
where
  "check_mandate bindingDigest idempotencyKey authorization m =
     (case authorization of None \<Rightarrow> None
      | Some a \<Rightarrow>
          if ba_AuthorizationRef a = [] then None
          else if usage_of a \<noteq> ''single_use'' \<and> usage_of a \<noteq> ''reusable''
          then Some (Inl (DeclinedError ''unsupported billing authorization usage''))
          else (case mandateUses m (ba_AuthorizationRef a) of None \<Rightarrow> None
            | Some previous \<Rightarrow>
                if usage_of a \<noteq> ''single_use'' then None
                else if mu_BindingDigest previous = bindingDigest \<and> mu_IdempotencyKey previous = idempotencyKey
                then Some (Inr (mu_Reservation previous))
                else Some (Inl (DeclinedError ''single-use billing authorization was already consumed''))))"

definition new_reservation :: "string \<Rightarrow> time \<Rightarrow> BillingTerms \<Rightarrow> Money \<Rightarrow> Reservation" where
  "new_reservation raw now terms amount =
     (let invoiced = bt_Mode terms = BillingMonthlyInvoice \<or> bt_Mode terms = BillingPostpaid in
      \<lparr>rv_Reference = MustNewID raw ''blr'', rv_Mode = bt_Mode terms,
       rv_ArrangementRef = bt_ArrangementRef terms, rv_Amount = amount,
       rv_State = reservationState (bt_Mode terms),
       rv_InvoiceRef = (if invoiced then ''invoice-open-'' @ Format_200601 now else []),
       rv_PeriodRef = (if invoiced then Format_2006_01 now else [])\<rparr>)"

definition Reserve ::
  "(error \<Rightarrow> string) \<Rightarrow> time \<Rightarrow> time \<Rightarrow> string \<Rightarrow> string \<Rightarrow> string \<Rightarrow> string \<Rightarrow> BillingTerms \<Rightarrow>
     BillingAuthorization option \<Rightarrow> Money \<Rightarrow> string \<Rightarrow> MockProcessor \<Rightarrow>
     (billing_error + Reservation) \<times> MockProcessor"
where
  "Reserve err_text now1 now2 raw serviceID contractID bindingDigest terms authorization amount idempotencyKey m =
     (case check_reserve err_text now1 serviceID bindingDigest terms authorization amount of
        Some err \<Rightarrow> (Inl err, m)
      | None \<Rightarrow>
         let key = colon_key contractID idempotencyKey in
         (case reservationsByKey m key of
            Some reservation \<Rightarrow> (Inr reservation, m)
          | None \<Rightarrow>
             (case check_mandate bindingDigest idempotencyKey authorization m of
                Some r \<Rightarrow> (r, m)
              | None \<Rightarrow>
                 let reservation = new_reservation raw now2 terms amount;
                     m = m\<lparr>reservationsByKey := (reservationsByKey m)(key \<mapsto> reservation),
                           reservationsByRef := (reservationsByRef m)(rv_Reference reservation \<mapsto> reservation)\<rparr>;
                     m = (case authorization of None \<Rightarrow> m
                          | Some a \<Rightarrow>
                              if ba_AuthorizationRef a \<noteq> [] \<and> usage_of a = ''single_use''
                              then m\<lparr>mandateUses := (mandateUses m)(ba_AuthorizationRef a \<mapsto>
                                   \<lparr>mu_BindingDigest = bindingDigest, mu_IdempotencyKey = idempotencyKey,
                                    mu_Reservation = reservation\<rparr>)\<rparr>
                              else m)
                 in (Inr reservation, m))))"

definition new_settlement :: "string \<Rightarrow> Reservation \<Rightarrow> Money \<Rightarrow> Settlement" where
  "new_settlement raw reservation amount =
     \<lparr>st_Reference = MustNewID raw ''bls'', st_Mode = rv_Mode reservation,
      st_ArrangementRef = rv_ArrangementRef reservation, st_Amount = amount,
      st_State = settlementState (rv_Mode reservation), st_InvoiceRef = rv_InvoiceRef reservation,
      st_PeriodRef = rv_PeriodRef reservation\<rparr>"

definition Settle ::
  "(error \<Rightarrow> string) \<Rightarrow> string \<Rightarrow> string \<Rightarrow> Money \<Rightarrow> string \<Rightarrow> MockProcessor \<Rightarrow>
     (billing_error + Settlement) \<times> MockProcessor"
where
  "Settle err_text raw reservationRef amount idempotencyKey m =
     (let key = colon_key reservationRef idempotencyKey in
      case settlementsByKey m key of
        Some settlement \<Rightarrow> (Inr settlement, m)
      | None \<Rightarrow>
         (case settlementByHold m reservationRef of
            Some existing \<Rightarrow>
              if CompareMoney (st_Amount existing) amount \<noteq> Inr 0
              then (Inl (DeclinedError ''reservation was already settled for a different amount''), m)
              else (Inr existing, m\<lparr>settlementsByKey := (settlementsByKey m)(key \<mapsto> existing)\<rparr>)
          | None \<Rightarrow>
             (case reservationsByRef m reservationRef of
                None \<Rightarrow> (Inl (DeclinedError ''unknown billing reservation''), m)
              | Some reservation \<Rightarrow>
                  if reservationRef \<in> released_holds m
                  then (Inl (DeclinedError ''billing reservation has been released''), m)
                  else (case CompareMoney (rv_Amount reservation) amount of
                      Inl err \<Rightarrow> (Inl (DeclinedError (err_text err)), m)
                    | Inr comparison \<Rightarrow>
                        if comparison < 0
                        then (Inl (DeclinedError ''settlement exceeds reserved amount''), m)
                        else
                          let settlement = new_settlement raw reservation amount in
                          (Inr settlement,
                           m\<lparr>settlementsByKey := (settlementsByKey m)(key \<mapsto> settlement),
                             settlementsByRef := (settlementsByRef m)(st_Reference settlement \<mapsto> settlement),
                             settlementByHold := (settlementByHold m)(reservationRef \<mapsto> settlement)\<rparr>)))))"

definition Release_hold :: "string \<Rightarrow> string \<Rightarrow> MockProcessor \<Rightarrow> billing_error option \<times> MockProcessor" where
  "Release_hold reservationRef idempotencyKey m =
     (if reservationsByRef m reservationRef = None
      then (Some (OtherBillingError (New_error ''unknown billing reservation'')), m)
      else if settlementByHold m reservationRef \<noteq> None
      then (Some (OtherBillingError (New_error ''settled reservation cannot be released'')), m)
      else (None, m\<lparr>released_holds := insert reservationRef (released_holds m)\<rparr>))"

definition new_total :: "MockProcessor \<Rightarrow> string \<Rightarrow> Money \<Rightarrow> Money result" where
  "new_total m settlementRef amount =
     (case refundedTotals m settlementRef of None \<Rightarrow> Inr amount
      | Some previous \<Rightarrow> AddMoney previous amount)"

definition Refund ::
  "string \<Rightarrow> string \<Rightarrow> Money \<Rightarrow> string \<Rightarrow> MockProcessor \<Rightarrow> (billing_error + Refund_record) \<times> MockProcessor"
where
  "Refund raw settlementRef amount idempotencyKey m =
     (let key = colon_key settlementRef idempotencyKey in
      case refundsByKey m key of
        Some refund \<Rightarrow> (Inr refund, m)
      | None \<Rightarrow>
         (case settlementsByRef m settlementRef of
            None \<Rightarrow> (Inl (OtherBillingError (New_error ''unknown billing settlement'')), m)
          | Some settlement \<Rightarrow>
             (case ValidateMoney amount of
                Some err \<Rightarrow> (Inl (OtherBillingError err), m)
              | None \<Rightarrow>
                 (case new_total m settlementRef amount of
                    Inl err \<Rightarrow> (Inl (OtherBillingError err), m)
                  | Inr total_refund \<Rightarrow>
                     (case CompareMoney (st_Amount settlement) total_refund of
                        Inl err \<Rightarrow> (Inl (OtherBillingError err), m)
                      | Inr comparison \<Rightarrow>
                         if comparison < 0
                         then (Inl (OtherBillingError
                                (New_error ''cumulative refunds exceed settled amount'')), m)
                         else
                           let refund = \<lparr>rf_Reference = MustNewID raw ''blrfd'', rf_Amount = amount,
                                         rf_State = ''refunded_or_credited''\<rparr> in
                           (Inr refund,
                            m\<lparr>refundsByKey := (refundsByKey m)(key \<mapsto> refund),
                              refundedTotals := (refundedTotals m)(settlementRef \<mapsto> total_refund)\<rparr>))))))"

section \<open>Branches\<close>

text \<open>\<open>covers a b\<close>: a comparable amount that is at least as large.\<close>

definition covers :: "Money \<Rightarrow> Money \<Rightarrow> bool" where
  "covers a b \<longleftrightarrow> ValidateMoney a = None \<and> ValidateMoney b = None \<and>
     m_Currency a = m_Currency b \<and> money_value b \<le> money_value a"

lemma covers_iff: "covers a b \<longleftrightarrow> (\<exists>c. CompareMoney a b = Inr c \<and> 0 \<le> c)"
  by (auto simp: covers_def CompareMoney_Inr_iff Rat_Cmp_def)

lemma check_authorization_None:
  "check_authorization err_text now sid bd terms amount a = None \<longleftrightarrow>
     ba_Mode a = bt_Mode terms \<and> ba_Audience a = sid \<and> ba_BindingDigest a = bd \<and>
     (ba_ExpiresAt a = 0 \<or> now < ba_ExpiresAt a) \<and>
     (bt_ArrangementRef terms = [] \<or> ba_ArrangementRef a = [] \<or> ba_ArrangementRef a = bt_ArrangementRef terms) \<and>
     (\<forall>x. ba_MaximumAmount a = Some x \<longrightarrow> covers x amount) \<and>
     (bt_Mode terms = BillingPayNow \<longrightarrow> HasPrefix (ba_AuthorizationRef a) ''mockpay_'')"
proof -
  have "(case ba_MaximumAmount a of None \<Rightarrow> None
                 | Some maximum \<Rightarrow> (case CompareMoney maximum amount of
                      Inl err \<Rightarrow> Some (DeclinedError (err_text err))
                    | Inr comparison \<Rightarrow>
                        if comparison < 0
                        then Some (DeclinedError ''authorized amount is below the contract ceiling'')
                        else None)) = None \<longleftrightarrow> (\<forall>x. ba_MaximumAmount a = Some x \<longrightarrow> covers x amount)"
    by (auto simp: covers_iff not_less split: option.splits sum.splits)
  then show ?thesis
    unfolding check_authorization_def by (simp split: option.split) auto
qed

section \<open>The processor as an interface\<close>

text \<open>
  The contract of interface \<open>Processor\<close> for the holds of a client: \<open>held s ref\<close> is the
  reservation behind a reference, \<open>settled s ref\<close> the one settlement of a hold,
  \<open>voided s ref\<close> says that it was released. \<open>'e\<close> is what an operation reads of its
  environment, \<open>fresh e s\<close> that the identifier it draws is unused.
\<close>

datatype 'e billing_call =
    BReserve 'e string string string BillingTerms "BillingAuthorization option" Money string
  | BSettle 'e string Money string
  | BRelease string string
  | BRefund 'e string Money string

locale billing_processor =
  fixes reserve_op :: "'e \<Rightarrow> string \<Rightarrow> string \<Rightarrow> string \<Rightarrow> BillingTerms \<Rightarrow> BillingAuthorization option \<Rightarrow>
      Money \<Rightarrow> string \<Rightarrow> 's \<Rightarrow> (billing_error + Reservation) \<times> 's"
    and settle_op :: "'e \<Rightarrow> string \<Rightarrow> Money \<Rightarrow> string \<Rightarrow> 's \<Rightarrow> (billing_error + Settlement) \<times> 's"
    and release_op :: "string \<Rightarrow> string \<Rightarrow> 's \<Rightarrow> billing_error option \<times> 's"
    and refund_op :: "'e \<Rightarrow> string \<Rightarrow> Money \<Rightarrow> string \<Rightarrow> 's \<Rightarrow> (billing_error + Refund_record) \<times> 's"
    and held :: "'s \<Rightarrow> string \<Rightarrow> Reservation option"
    and settled :: "'s \<Rightarrow> string \<Rightarrow> Settlement option"
    and voided :: "'s \<Rightarrow> string \<Rightarrow> bool"
    and fresh :: "'e \<Rightarrow> 's \<Rightarrow> bool"
    and inv :: "'s \<Rightarrow> bool"
  assumes reserve_inv: "inv s \<Longrightarrow> fresh e s \<Longrightarrow> inv (snd (reserve_op e sid cid bd t a amt k s))"
    and settle_inv: "inv s \<Longrightarrow> fresh e s \<Longrightarrow> inv (snd (settle_op e ref amt k s))"
    and release_inv: "inv s \<Longrightarrow> inv (snd (release_op ref k s))"
    and refund_inv: "inv s \<Longrightarrow> inv (snd (refund_op e ref amt k s))"
    and inv_settled: "inv s \<Longrightarrow> settled s ref = Some st \<Longrightarrow>
      \<exists>r. held s ref = Some r \<and> covers (rv_Amount r) (st_Amount st) \<and> st_Mode st = rv_Mode r \<and> \<not> voided s ref"
    and reserve_held: "inv s \<Longrightarrow> reserve_op e sid cid bd t a amt k s = (Inr r, s') \<Longrightarrow>
      held s' (rv_Reference r) = Some r"
    and reserve_frame: "fresh e s \<Longrightarrow> held s ref = Some r \<Longrightarrow>
      held (snd (reserve_op e sid cid bd t a amt k s)) ref = Some r"
    and reserve_settled: "settled (snd (reserve_op e sid cid bd t a amt k s)) = settled s"
    and reserve_voided: "voided (snd (reserve_op e sid cid bd t a amt k s)) = voided s"
    and settle_ok: "inv s \<Longrightarrow> held s ref = Some r \<Longrightarrow> settle_op e ref amt k s = (Inr st, s') \<Longrightarrow>
      settled s' ref = Some st"
    and settle_frame: "held (snd (settle_op e ref amt k s)) = held s \<and>
      voided (snd (settle_op e ref amt k s)) = voided s"
    and settle_keeps: "settled s ref' = Some st \<Longrightarrow> settled (snd (settle_op e ref amt k s)) ref' = Some st"
    and settle_voided: "voided s ref' \<Longrightarrow> settled s ref' = None \<Longrightarrow>
      settled (snd (settle_op e ref amt k s)) ref' = None"
    and release_frame: "held (snd (release_op ref k s)) = held s \<and> settled (snd (release_op ref k s)) = settled s"
    and release_voids: "voided s ref' \<Longrightarrow> voided (snd (release_op ref k s)) ref'"
    and release_ok: "release_op ref k s = (None, s') \<Longrightarrow> voided s' ref \<and> settled s' ref = None"
    and refund_frame: "held (snd (refund_op e ref amt k s)) = held s \<and>
      settled (snd (refund_op e ref amt k s)) = settled s \<and> voided (snd (refund_op e ref amt k s)) = voided s"
begin

fun step :: "'e billing_call \<Rightarrow> 's \<Rightarrow> 's" where
  "step (BReserve e sid cid bd t a amt k) s = snd (reserve_op e sid cid bd t a amt k s)"
| "step (BSettle e ref amt k) s = snd (settle_op e ref amt k s)"
| "step (BRelease ref k) s = snd (release_op ref k s)"
| "step (BRefund e ref amt k) s = snd (refund_op e ref amt k s)"

fun fresh_call :: "'e billing_call \<Rightarrow> 's \<Rightarrow> bool" where
  "fresh_call (BReserve e _ _ _ _ _ _ _) s = fresh e s"
| "fresh_call (BSettle e _ _ _) s = fresh e s"
| "fresh_call (BRelease _ _) s = True"
| "fresh_call (BRefund e _ _ _) s = fresh e s"

fun fresh_run :: "'e billing_call list \<Rightarrow> 's \<Rightarrow> bool" where
  "fresh_run [] s = True"
| "fresh_run (c # cs) s \<longleftrightarrow> fresh_call c s \<and> fresh_run cs (step c s)"

lemma step_inv: "inv s \<Longrightarrow> fresh_call c s \<Longrightarrow> inv (step c s)"
  using reserve_inv settle_inv release_inv refund_inv by (cases c) auto

lemma run_inv: "inv s \<Longrightarrow> fresh_run cs s \<Longrightarrow> inv (fold step cs s)"
  by (induction cs arbitrary: s) (auto intro: step_inv)

lemma step_settled: "settled s ref = Some st \<Longrightarrow> settled (step c s) ref = Some st"
  using reserve_settled settle_keeps release_frame refund_frame by (cases c) auto

lemma run_settled: "settled s ref = Some st \<Longrightarrow> settled (fold step cs s) ref = Some st"
  by (induction cs arbitrary: s) (auto intro: step_settled)

lemma step_held: "held s ref = Some r \<Longrightarrow> fresh_call c s \<Longrightarrow> held (step c s) ref = Some r"
  using reserve_frame settle_frame release_frame refund_frame by (cases c) auto

lemma run_held: "held s ref = Some r \<Longrightarrow> fresh_run cs s \<Longrightarrow> held (fold step cs s) ref = Some r"
  by (induction cs arbitrary: s) (auto intro: step_held)

lemma step_void:
  "voided s ref \<Longrightarrow> settled s ref = None \<Longrightarrow> voided (step c s) ref \<and> settled (step c s) ref = None"
  using reserve_settled reserve_voided settle_frame settle_voided release_frame release_voids refund_frame
  by (cases c) auto

lemma run_void:
  "voided s ref \<Longrightarrow> settled s ref = None \<Longrightarrow>
     voided (fold step cs s) ref \<and> settled (fold step cs s) ref = None"
proof (induction cs arbitrary: s)
  case (Cons c cs)
  from step_void [of s ref c] Cons show ?case by simp
qed simp

text \<open>
  The life of a hold: once reserved it stays, whatever settlement it ever gets is the only
  one, and that one charges no more than was reserved.
\<close>

lemma held_settled_once:
  assumes "inv s" "fresh e s" "reserve_op e sid cid bd t a amt k s = (Inr r, s1)"
    and "fresh_run cs s1" "settle_op e1 (rv_Reference r) amt1 k1 (fold step cs s1) = (Inr st1, s2)"
    and "fresh e1 (fold step cs s1)" "fresh_run cs' s2"
    and "settle_op e2 (rv_Reference r) amt2 k2 (fold step cs' s2) = (Inr st2, s3)"
  shows "st2 = st1 \<and> covers (rv_Amount r) (st_Amount st1) \<and> st_Mode st1 = rv_Mode r"
proof -
  have i1: "inv s1" using reserve_inv [OF assms(1,2), of sid cid bd t a amt k] assms(3) by simp
  have h1: "held s1 (rv_Reference r) = Some r" by (rule reserve_held [OF assms(1,3)])
  have i1': "inv (fold step cs s1)" and h1': "held (fold step cs s1) (rv_Reference r) = Some r"
    using run_inv [OF i1 assms(4)] run_held [OF h1 assms(4)] .
  have s2: "settled s2 (rv_Reference r) = Some st1" by (rule settle_ok [OF i1' h1' assms(5)])
  have i2: "inv s2" using settle_inv [OF i1' assms(6), of "rv_Reference r" amt1 k1] assms(5) by simp
  have h2: "held s2 (rv_Reference r) = Some r"
    using settle_frame [of e1 "rv_Reference r" amt1 k1 "fold step cs s1"] h1' assms(5) by simp
  from inv_settled [OF i2 s2] h2 have c: "covers (rv_Amount r) (st_Amount st1)" "st_Mode st1 = rv_Mode r"
    by auto
  have "settled s3 (rv_Reference r) = Some st2"
    by (rule settle_ok [OF run_inv [OF i2 assms(7)] run_held [OF h2 assms(7)] assms(8)])
  moreover have "settled s3 (rv_Reference r) = Some st1"
    using settle_keeps [OF run_settled [OF s2, of cs'], of e2 "rv_Reference r" amt2 k2] assms(8) by simp
  ultimately show ?thesis using c by simp
qed

text \<open>A released hold is never charged.\<close>

lemma released_never_charged:
  assumes "inv s" "held s ref = Some r" "release_op ref k s = (None, s1)" "fresh_run cs s1"
  shows "fst (settle_op e ref amt k' (fold step cs s1)) \<noteq> Inr st"
proof
  have v: "voided s1 ref \<and> settled s1 ref = None" by (rule release_ok [OF assms(3)])
  have i: "inv s1" using release_inv [OF assms(1), of ref k] assms(3) by simp
  have h: "held s1 ref = Some r" using release_frame [of ref k s] assms(2,3) by simp
  obtain res s2 where s2: "settle_op e ref amt k' (fold step cs s1) = (res, s2)" by fastforce
  assume "fst (settle_op e ref amt k' (fold step cs s1)) = Inr st"
  with s2 settle_ok [OF run_inv [OF i assms(4)] run_held [OF h assms(4)], of e amt k' st s2]
  have "settled s2 ref = Some st" by simp
  moreover have "settled s2 ref = None"
    using settle_voided [of "fold step cs s1" ref e ref amt k'] run_void [of s1 ref cs] v s2 by simp
  ultimately show False by simp
qed

end

section \<open>The in-memory processor\<close>

definition no_colon :: "string \<Rightarrow> bool" where
  "no_colon s \<longleftrightarrow> CHR '':'' \<notin> set s"

lemma b64_no_colon: "no_colon (base64_encode s)"
proof -
  have "list_all (\<lambda>i. b64_char i \<noteq> CHR '':'') [0..<64]" by code_simp
  with sextets_less [of s] show ?thesis
    by (force simp: list_all_iff no_colon_def base64_encode_sextets)
qed

lemma MustNewID_no_colon: "no_colon p \<Longrightarrow> no_colon (MustNewID raw p)"
  using b64_no_colon [of raw] by (auto simp: MustNewID_def no_colon_def)

lemma colon_key_inj: "no_colon a \<Longrightarrow> no_colon a' \<Longrightarrow> colon_key a b = colon_key a' b' \<Longrightarrow> a = a' \<and> b = b'"
proof -
  assume a: "no_colon a" "no_colon a'" and eq: "colon_key a b = colon_key a' b'"
  have "takeWhile (\<lambda>c. c \<noteq> CHR '':'') (colon_key x y) = x" if "no_colon x" for x y
    using that by (subst colon_key_def, subst takeWhile_append2) (auto simp: no_colon_def)
  with a eq have "a = a'" by metis
  with eq show ?thesis by (simp add: colon_key_def)
qed

definition reservations_ok :: "MockProcessor \<Rightarrow> bool" where
  "reservations_ok m \<longleftrightarrow>
     (\<forall>k r. reservationsByKey m k = Some r \<longrightarrow> reservationsByRef m (rv_Reference r) = Some r) \<and>
     (\<forall>ref r. reservationsByRef m ref = Some r \<longrightarrow> rv_Reference r = ref \<and> no_colon ref) \<and>
     (\<forall>a u. mandateUses m a = Some u \<longrightarrow>
        reservationsByRef m (rv_Reference (mu_Reservation u)) = Some (mu_Reservation u))"

definition settlements_ok :: "MockProcessor \<Rightarrow> bool" where
  "settlements_ok m \<longleftrightarrow>
     (\<forall>ref st. settlementByHold m ref = Some st \<longrightarrow>
        (\<exists>r. reservationsByRef m ref = Some r \<and> covers (rv_Amount r) (st_Amount st) \<and> st_Mode st = rv_Mode r) \<and>
        ref \<notin> released_holds m \<and> settlementsByRef m (st_Reference st) = Some st) \<and>
     (\<forall>k st. settlementsByKey m k = Some st \<longrightarrow>
        (\<exists>ref key. k = colon_key ref key \<and> settlementByHold m ref = Some st)) \<and>
     (\<forall>sr st. settlementsByRef m sr = Some st \<longrightarrow>
        st_Reference st = sr \<and> (\<exists>ref. settlementByHold m ref = Some st))"

definition refunds_ok :: "MockProcessor \<Rightarrow> bool" where
  "refunds_ok m \<longleftrightarrow> (\<forall>sr t. refundedTotals m sr = Some t \<longrightarrow>
     (\<exists>st. settlementsByRef m sr = Some st \<and> covers (st_Amount st) t))"

definition mock_ok :: "MockProcessor \<Rightarrow> bool" where
  "mock_ok m \<longleftrightarrow> reservations_ok m \<and> settlements_ok m \<and> refunds_ok m"

lemmas mock_ok_defs = mock_ok_def reservations_ok_def settlements_ok_def refunds_ok_def

lemma reservations_okD:
  assumes "reservations_ok m"
  shows "reservationsByKey m k = Some r \<Longrightarrow> reservationsByRef m (rv_Reference r) = Some r"
    "reservationsByRef m ref = Some r \<Longrightarrow> rv_Reference r = ref"
    "reservationsByRef m ref = Some r \<Longrightarrow> no_colon ref"
    "mandateUses m a = Some u \<Longrightarrow>
       reservationsByRef m (rv_Reference (mu_Reservation u)) = Some (mu_Reservation u)"
  using assms unfolding reservations_ok_def by blast+

lemma settlements_okD:
  assumes "settlements_ok m"
  shows "settlementByHold m ref = Some st \<Longrightarrow>
      \<exists>r. reservationsByRef m ref = Some r \<and> covers (rv_Amount r) (st_Amount st) \<and> st_Mode st = rv_Mode r"
    "settlementByHold m ref = Some st \<Longrightarrow> ref \<notin> released_holds m"
    "settlementByHold m ref = Some st \<Longrightarrow> settlementsByRef m (st_Reference st) = Some st"
    "settlementsByKey m k = Some st \<Longrightarrow> \<exists>ref key. k = colon_key ref key \<and> settlementByHold m ref = Some st"
    "settlementsByRef m sr = Some st \<Longrightarrow> st_Reference st = sr"
    "settlementsByRef m sr = Some st \<Longrightarrow> \<exists>ref. settlementByHold m ref = Some st"
  using assms unfolding settlements_ok_def by blast+

lemma refunds_okD:
  "refunds_ok m \<Longrightarrow> refundedTotals m sr = Some t \<Longrightarrow>
     \<exists>st. settlementsByRef m sr = Some st \<and> covers (st_Amount st) t"
  unfolding refunds_ok_def by blast

definition fresh_raw :: "time \<times> time \<times> string \<Rightarrow> MockProcessor \<Rightarrow> bool" where
  "fresh_raw e m \<longleftrightarrow> (case e of (_, _, raw) \<Rightarrow>
     reservationsByRef m (MustNewID raw ''blr'') = None \<and> settlementsByRef m (MustNewID raw ''bls'') = None)"

lemma NewMockProcessor_ok: "mock_ok NewMockProcessor"
  by (simp add: mock_ok_defs NewMockProcessor_def)

text \<open>The cases of each operation: it leaves the processor or makes one entry.\<close>

lemma check_mandate_Inr:
  "check_mandate bd k a m = Some (Inr r) \<Longrightarrow> \<exists>x u. mandateUses m x = Some u \<and> r = mu_Reservation u"
  by (auto simp: check_mandate_def split: option.splits if_splits)

lemma Reserve_cases:
  assumes "Reserve et n1 n2 raw sid cid bd t a amt k m = (res, m')"
  obtains (same) "m' = m" "\<And>r. res = Inr r \<Longrightarrow> (\<exists>key. reservationsByKey m key = Some r) \<or>
      (\<exists>x u. mandateUses m x = Some u \<and> r = mu_Reservation u)"
  | (new) r where "res = Inr r" "r = new_reservation raw n2 t amt"
      "check_reserve et n1 sid bd t a amt = None"
      "reservationsByKey m' = (reservationsByKey m)(colon_key cid k \<mapsto> r)"
      "reservationsByRef m' = (reservationsByRef m)(rv_Reference r \<mapsto> r)"
      "\<And>x u. mandateUses m' x = Some u \<Longrightarrow> mandateUses m x = Some u \<or> mu_Reservation u = r"
      "settlementsByKey m' = settlementsByKey m" "settlementsByRef m' = settlementsByRef m"
      "settlementByHold m' = settlementByHold m" "refundsByKey m' = refundsByKey m"
      "refundedTotals m' = refundedTotals m" "released_holds m' = released_holds m"
proof (cases "check_reserve et n1 sid bd t a amt")
  case c: None
  show ?thesis
  proof (cases "reservationsByKey m (colon_key cid k)")
    case k: None
    show ?thesis
    proof (cases "check_mandate bd k a m")
      case None
      let ?r = "new_reservation raw n2 t amt"
      from assms c k None show ?thesis
        by (intro new [of ?r]) (auto simp: Reserve_def Let_def split: option.splits if_splits)
    next
      case (Some y)
      with assms c k show ?thesis
        by (intro same) (auto simp: Reserve_def Let_def dest: check_mandate_Inr)
    qed
  next
    case (Some r)
    with assms c show ?thesis by (intro same) (auto simp: Reserve_def Let_def)
  qed
next
  case (Some e)
  with assms show ?thesis by (intro same) (auto simp: Reserve_def)
qed

lemma Settle_cases:
  assumes "Settle et raw ref amt k m = (res, m')"
  obtains (same) "m' = m" "\<And>st. res = Inr st \<Longrightarrow> settlementsByKey m (colon_key ref k) = Some st"
  | (again) st where "res = Inr st" "settlementByHold m ref = Some st"
      "m' = m\<lparr>settlementsByKey := (settlementsByKey m)(colon_key ref k \<mapsto> st)\<rparr>"
      "CompareMoney (st_Amount st) amt = Inr 0"
  | (new) r st where "res = Inr st" "st = new_settlement raw r amt" "settlementByHold m ref = None"
      "reservationsByRef m ref = Some r" "ref \<notin> released_holds m" "covers (rv_Amount r) amt"
      "m' = m\<lparr>settlementsByKey := (settlementsByKey m)(colon_key ref k \<mapsto> st),
              settlementsByRef := (settlementsByRef m)(st_Reference st \<mapsto> st),
              settlementByHold := (settlementByHold m)(ref \<mapsto> st)\<rparr>"
proof (cases "settlementsByKey m (colon_key ref k)")
  case k: None
  show ?thesis
  proof (cases "settlementByHold m ref")
    case h: None
    show ?thesis
    proof (cases "\<exists>r. reservationsByRef m ref = Some r \<and> ref \<notin> released_holds m \<and> covers (rv_Amount r) amt")
      case True
      then obtain r c where r: "reservationsByRef m ref = Some r" "ref \<notin> released_holds m"
        "covers (rv_Amount r) amt" "CompareMoney (rv_Amount r) amt = Inr c" "0 \<le> c"
        by (auto simp: covers_iff)
      with assms k h show ?thesis
        by (intro new [of "new_settlement raw r amt" r]) (auto simp: Settle_def Let_def)
    next
      case False
      with assms k h show ?thesis
        by (intro same) (auto simp: Settle_def Let_def covers_iff not_less split: option.splits if_splits sum.splits)
    qed
  next
    case (Some st)
    show ?thesis
    proof (cases "CompareMoney (st_Amount st) amt = Inr 0")
      case True
      with assms k Some show ?thesis by (intro again [of st]) (auto simp: Settle_def Let_def)
    next
      case False
      with assms k Some show ?thesis by (intro same) (auto simp: Settle_def Let_def)
    qed
  qed
next
  case (Some st)
  with assms show ?thesis by (intro same) (auto simp: Settle_def Let_def)
qed

lemma Release_cases:
  assumes "Release_hold ref k m = (res, m')"
  obtains (same) "m' = m" "res \<noteq> None"
  | (new) r where "res = None" "reservationsByRef m ref = Some r" "settlementByHold m ref = None"
      "m' = m\<lparr>released_holds := insert ref (released_holds m)\<rparr>"
  using assms by (auto simp: Release_hold_def split: if_splits)

lemma Refund_cases:
  assumes "Refund raw sr amt k m = (res, m')"
  obtains (same) "m' = m" "\<And>r. res = Inr r \<Longrightarrow> refundsByKey m (colon_key sr k) = Some r"
  | (new) r st t where "res = Inr r" "rf_Amount r = amt" "refundsByKey m (colon_key sr k) = None"
      "settlementsByRef m sr = Some st" "ValidateMoney amt = None" "new_total m sr amt = Inr t"
      "covers (st_Amount st) t"
      "m' = m\<lparr>refundsByKey := (refundsByKey m)(colon_key sr k \<mapsto> r),
              refundedTotals := (refundedTotals m)(sr \<mapsto> t)\<rparr>"
proof (cases "refundsByKey m (colon_key sr k)")
  case k: None
  show ?thesis
  proof (cases "\<exists>st t. settlementsByRef m sr = Some st \<and> ValidateMoney amt = None \<and>
      new_total m sr amt = Inr t \<and> covers (st_Amount st) t")
    case True
    then obtain st t c where *: "settlementsByRef m sr = Some st" "ValidateMoney amt = None"
      "new_total m sr amt = Inr t" "covers (st_Amount st) t" "CompareMoney (st_Amount st) t = Inr c" "0 \<le> c"
      by (auto simp: covers_iff)
    with assms k show ?thesis
      by (intro new [of "\<lparr>rf_Reference = MustNewID raw ''blrfd'', rf_Amount = amt,
             rf_State = ''refunded_or_credited''\<rparr>" st t]) (auto simp: Refund_def Let_def)
  next
    case False
    with assms k show ?thesis
      by (intro same) (auto simp: Refund_def Let_def covers_iff not_less split: option.splits if_splits sum.splits)
  qed
next
  case (Some r)
  with assms show ?thesis by (intro same) (auto simp: Refund_def Let_def)
qed

subsection \<open>The invariant\<close>

lemma new_reservation_sel [simp]:
  "rv_Reference (new_reservation raw n t amt) = MustNewID raw ''blr''"
  "rv_Amount (new_reservation raw n t amt) = amt"
  "rv_Mode (new_reservation raw n t amt) = bt_Mode t"
  "rv_ArrangementRef (new_reservation raw n t amt) = bt_ArrangementRef t"
  "rv_State (new_reservation raw n t amt) = reservationState (bt_Mode t)"
  by (simp_all add: new_reservation_def Let_def)

lemma new_settlement_sel [simp]:
  "st_Reference (new_settlement raw r amt) = MustNewID raw ''bls''"
  "st_Amount (new_settlement raw r amt) = amt"
  "st_Mode (new_settlement raw r amt) = rv_Mode r"
  by (simp_all add: new_settlement_def)

lemma Reserve_ok:
  assumes "mock_ok m" "Reserve et n1 n2 raw sid cid bd t a amt k m = (res, m')"
    and "reservationsByRef m (MustNewID raw ''blr'') = None"
  shows "mock_ok m'"
  using assms(2)
proof (cases rule: Reserve_cases)
  case (new r)
  have ref: "rv_Reference r = MustNewID raw ''blr''" "no_colon (rv_Reference r)"
    using new(2) MustNewID_no_colon [of "''blr''" raw] by (simp_all add: no_colon_def)
  have old: "reservationsByRef m' x = Some y" if "reservationsByRef m x = Some y" for x y
    using that assms(3) ref new(5) by auto
  from assms(1) have R: "reservations_ok m" and S: "settlements_ok m" and F: "refunds_ok m"
    by (simp_all add: mock_ok_def)
  have "reservations_ok m'"
    unfolding reservations_ok_def
  proof (intro conjI allI impI)
    fix k' x
    assume "reservationsByKey m' k' = Some x"
    then consider "x = r" | "reservationsByKey m k' = Some x"
      by (cases "k' = colon_key cid k") (simp_all add: new(4))
    then show "reservationsByRef m' (rv_Reference x) = Some x"
    proof cases
      case 1
      then show ?thesis by (simp add: new(5))
    next
      case 2
      then show ?thesis by (intro old reservations_okD(1) [OF R])
    qed
  next
    fix ref' x
    assume "reservationsByRef m' ref' = Some x"
    then consider "x = r" "ref' = rv_Reference r" | "reservationsByRef m ref' = Some x"
      by (cases "ref' = rv_Reference r") (simp_all add: new(5))
    then show "rv_Reference x = ref'" "no_colon ref'"
      using reservations_okD(2,3) [OF R, of ref' x] ref by (cases; simp)+
  next
    fix z u
    assume "mandateUses m' z = Some u"
    from new(6) [OF this] show "reservationsByRef m' (rv_Reference (mu_Reservation u)) = Some (mu_Reservation u)"
    proof
      assume "mandateUses m z = Some u"
      from reservations_okD(4) [OF R this] show ?thesis by (rule old)
    qed (simp add: new(5))
  qed
  moreover have "settlements_ok m'"
    unfolding settlements_ok_def new(7-12)
  proof (intro conjI allI impI)
    fix ref' st
    assume st: "settlementByHold m ref' = Some st"
    from settlements_okD(1) [OF S this] old show "\<exists>r. reservationsByRef m' ref' = Some r \<and> covers (rv_Amount r) (st_Amount st) \<and>
        st_Mode st = rv_Mode r" by blast
    from settlements_okD(2,3) [OF S st]
    show "ref' \<notin> released_holds m" "settlementsByRef m (st_Reference st) = Some st" .
  qed (blast dest: settlements_okD [OF S])+
  moreover have "refunds_ok m'"
    using F by (simp add: refunds_ok_def new)
  ultimately show ?thesis by (simp add: mock_ok_def)
qed (use assms(1) in simp)

lemma Settle_ok:
  assumes "mock_ok m" "Settle et raw ref amt k m = (res, m')"
    and "settlementsByRef m (MustNewID raw ''bls'') = None"
  shows "mock_ok m'"
  using assms(2)
proof (cases rule: Settle_cases)
  case (again st)
  with assms(1) show ?thesis
    unfolding mock_ok_defs by (auto split: if_splits)
next
  case (new r st)
  from assms(1) have R: "reservations_ok m" and S: "settlements_ok m" and F: "refunds_ok m"
    by (simp_all add: mock_ok_def)
  have ref: "st_Reference st = MustNewID raw ''bls''" "st_Amount st = amt" "st_Mode st = rv_Mode r"
    using new(2) by simp_all
  have other: "st_Reference x \<noteq> st_Reference st" if "settlementByHold m ref' = Some x" for ref' x
    using settlements_okD(3) [OF S that] assms(3) ref(1) by auto
  have "settlements_ok m'"
    unfolding settlements_ok_def
  proof (intro conjI allI impI)
    fix ref' x
    assume x: "settlementByHold m' ref' = Some x"
    show "\<exists>r. reservationsByRef m' ref' = Some r \<and> covers (rv_Amount r) (st_Amount x) \<and> st_Mode x = rv_Mode r"
      using x new(4,6,7) ref settlements_okD(1) [OF S, of ref' x] by (auto split: if_splits)
    show "ref' \<notin> released_holds m'"
      using x new(5,7) settlements_okD(2) [OF S, of ref' x] by (auto split: if_splits)
    show "settlementsByRef m' (st_Reference x) = Some x"
      using x new(7) settlements_okD(3) [OF S, of ref' x] other [of ref' x] by (auto split: if_splits)
  next
    fix k' x
    assume x: "settlementsByKey m' k' = Some x"
    show "\<exists>ref' key. k' = colon_key ref' key \<and> settlementByHold m' ref' = Some x"
    proof (cases "k' = colon_key ref k")
      case True
      with x new(7) show ?thesis by (intro exI [of _ ref] exI [of _ k]) simp
    next
      case False
      with x new(7) settlements_okD(4) [OF S, of k' x]
      obtain ref' key where "k' = colon_key ref' key" "settlementByHold m ref' = Some x" by auto
      with new(3,7) show ?thesis by (intro exI [of _ ref'] exI [of _ key]) auto
    qed
  next
    fix sr x
    assume x: "settlementsByRef m' sr = Some x"
    then show "st_Reference x = sr"
      using new(7) settlements_okD(5) [OF S, of sr x] by (auto split: if_splits)
    show "\<exists>ref. settlementByHold m' ref = Some x"
    proof (cases "sr = st_Reference st")
      case True
      with x new(7) show ?thesis by (intro exI [of _ ref]) simp
    next
      case False
      with x new(7) settlements_okD(6) [OF S, of sr x]
      obtain ref' where "settlementByHold m ref' = Some x" by auto
      with new(3,7) show ?thesis by (intro exI [of _ ref']) auto
    qed
  qed
  moreover have "reservations_ok m'" using R by (simp add: reservations_ok_def new(7))
  moreover have "refunds_ok m'"
    using F assms(3) ref unfolding refunds_ok_def new(7) by force
  ultimately show ?thesis by (simp add: mock_ok_def)
qed (use assms(1) in simp)

lemma Release_ok:
  assumes "mock_ok m" "Release_hold ref k m = (res, m')"
  shows "mock_ok m'"
  using assms(2)
proof (cases rule: Release_cases)
  case (new r)
  with assms(1) show ?thesis by (auto simp: mock_ok_defs)
qed (use assms(1) in simp)

lemma Refund_ok:
  assumes "mock_ok m" "Refund raw sr amt k m = (res, m')"
  shows "mock_ok m'"
  using assms(2)
proof (cases rule: Refund_cases)
  case (new r st t)
  with assms(1) show ?thesis by (simp add: mock_ok_defs)
qed (use assms(1) in simp)

subsection \<open>The interpretation\<close>

definition Reserve_env ::
  "(error \<Rightarrow> string) \<Rightarrow> time \<times> time \<times> string \<Rightarrow> string \<Rightarrow> string \<Rightarrow> string \<Rightarrow> BillingTerms \<Rightarrow>
     BillingAuthorization option \<Rightarrow> Money \<Rightarrow> string \<Rightarrow> MockProcessor \<Rightarrow> (billing_error + Reservation) \<times> MockProcessor"
where
  "Reserve_env et e = (case e of (n1, n2, raw) \<Rightarrow> Reserve et n1 n2 raw)"

definition Settle_env ::
  "(error \<Rightarrow> string) \<Rightarrow> time \<times> time \<times> string \<Rightarrow> string \<Rightarrow> Money \<Rightarrow> string \<Rightarrow> MockProcessor \<Rightarrow>
     (billing_error + Settlement) \<times> MockProcessor" where
  "Settle_env et e = (case e of (_, _, raw) \<Rightarrow> Settle et raw)"

definition Refund_env ::
  "time \<times> time \<times> string \<Rightarrow> string \<Rightarrow> Money \<Rightarrow> string \<Rightarrow> MockProcessor \<Rightarrow>
     (billing_error + Refund_record) \<times> MockProcessor" where
  "Refund_env e = (case e of (_, _, raw) \<Rightarrow> Refund raw)"

definition hold_released :: "MockProcessor \<Rightarrow> string \<Rightarrow> bool" where
  "hold_released m ref \<longleftrightarrow> ref \<in> released_holds m"

lemmas env_ops = Reserve_env_def Settle_env_def Refund_env_def fresh_raw_def hold_released_def

lemma Settle_held:
  assumes "mock_ok m" "reservationsByRef m ref = Some r" "Settle et raw ref amt k m = (Inr st, m')"
  shows "settlementByHold m' ref = Some st"
  using assms(3)
proof (cases rule: Settle_cases)
  case same
  then have "settlementsByKey m (colon_key ref k) = Some st" by simp
  have R: "reservations_ok m" and S: "settlements_ok m" using assms(1) by (simp_all add: mock_ok_def)
  from settlements_okD(4) [OF S \<open>settlementsByKey m (colon_key ref k) = Some st\<close>]
  obtain ref' key where *: "colon_key ref k = colon_key ref' key" "settlementByHold m ref' = Some st"
    by blast
  from settlements_okD(1) [OF S *(2)] obtain r' where "reservationsByRef m ref' = Some r'" by blast
  then have "no_colon ref" "no_colon ref'" using reservations_okD(3) [OF R] assms(2) by blast+
  with colon_key_inj [OF this *(1)] * same(1) show ?thesis by simp
qed auto

interpretation mock: billing_processor "Reserve_env et" "Settle_env et" Release_hold Refund_env
  reservationsByRef settlementByHold hold_released fresh_raw mock_ok
  for et
proof
  fix e :: "time \<times> time \<times> string" and s sid cid bd t a amt k
  obtain n1 n2 raw where e: "e = (n1, n2, raw)" by (cases e)
  obtain res m' where R: "Reserve et n1 n2 raw sid cid bd t a amt k s = (res, m')" by fastforce
  then have m': "snd (Reserve_env et e sid cid bd t a amt k s) = m'" by (simp add: e Reserve_env_def)
  show "mock_ok s \<Longrightarrow> fresh_raw e s \<Longrightarrow> mock_ok (snd (Reserve_env et e sid cid bd t a amt k s))"
    unfolding m' using Reserve_ok [OF _ R] by (simp add: fresh_raw_def e)
  show "settlementByHold (snd (Reserve_env et e sid cid bd t a amt k s)) = settlementByHold s"
    "hold_released (snd (Reserve_env et e sid cid bd t a amt k s)) = hold_released s"
    using R unfolding m' by (cases rule: Reserve_cases; simp add: hold_released_def [abs_def])+
  fix ref r
  show "fresh_raw e s \<Longrightarrow> reservationsByRef s ref = Some r \<Longrightarrow>
      reservationsByRef (snd (Reserve_env et e sid cid bd t a amt k s)) ref = Some r"
    using R unfolding m' by (cases rule: Reserve_cases) (auto simp: fresh_raw_def e)
  fix s'
  assume ok: "mock_ok s" and R': "Reserve_env et e sid cid bd t a amt k s = (Inr r, s')"
  then have "Reserve et n1 n2 raw sid cid bd t a amt k s = (Inr r, s')" by (simp add: e Reserve_env_def)
  then show "reservationsByRef s' (rv_Reference r) = Some r"
  proof (cases rule: Reserve_cases)
    case same
    with ok show ?thesis by (auto simp: mock_ok_def reservations_ok_def)
  qed simp
next
  fix e :: "time \<times> time \<times> string" and s ref amt k
  obtain n1 n2 raw where e: "e = (n1, n2, raw)" by (cases e)
  obtain res m' where S: "Settle et raw ref amt k s = (res, m')" by fastforce
  then have m': "snd (Settle_env et e ref amt k s) = m'" by (simp add: e Settle_env_def)
  show "mock_ok s \<Longrightarrow> fresh_raw e s \<Longrightarrow> mock_ok (snd (Settle_env et e ref amt k s))"
    unfolding m' using Settle_ok [OF _ S] by (simp add: fresh_raw_def e)
  show "reservationsByRef (snd (Settle_env et e ref amt k s)) = reservationsByRef s \<and>
      hold_released (snd (Settle_env et e ref amt k s)) = hold_released s"
    using S unfolding m' by (cases rule: Settle_cases) (auto simp: hold_released_def)
  fix ref' st
  show "settlementByHold s ref' = Some st \<Longrightarrow>
      settlementByHold (snd (Settle_env et e ref amt k s)) ref' = Some st"
    using S unfolding m' by (cases rule: Settle_cases) auto
  show "hold_released s ref' \<Longrightarrow> settlementByHold s ref' = None \<Longrightarrow>
      settlementByHold (snd (Settle_env et e ref amt k s)) ref' = None"
    using S unfolding m' by (cases rule: Settle_cases) (auto simp: hold_released_def)
  fix r s'
  show "mock_ok s \<Longrightarrow> reservationsByRef s ref = Some r \<Longrightarrow> Settle_env et e ref amt k s = (Inr st, s') \<Longrightarrow>
      settlementByHold s' ref = Some st"
    using Settle_held by (simp add: e Settle_env_def)
next
  fix s ref k
  obtain res m' where R: "Release_hold ref k s = (res, m')" by fastforce
  show "mock_ok s \<Longrightarrow> mock_ok (snd (Release_hold ref k s))"
    using Release_ok [OF _ R] R by simp
  show "reservationsByRef (snd (Release_hold ref k s)) = reservationsByRef s \<and>
      settlementByHold (snd (Release_hold ref k s)) = settlementByHold s"
    using R by (cases rule: Release_cases) (simp_all add: R)
  fix ref'
  show "hold_released s ref' \<Longrightarrow> hold_released (snd (Release_hold ref k s)) ref'"
    using R by (cases rule: Release_cases) (simp_all add: R hold_released_def)
  fix s'
  show "Release_hold ref k s = (None, s') \<Longrightarrow> hold_released s' ref \<and> settlementByHold s' ref = None"
    by (erule Release_cases) (simp_all add: hold_released_def)
next
  fix e :: "time \<times> time \<times> string" and s ref amt k
  obtain n1 n2 raw where e: "e = (n1, n2, raw)" by (cases e)
  obtain res m' where R: "Refund raw ref amt k s = (res, m')" by fastforce
  then have m': "snd (Refund_env e ref amt k s) = m'" by (simp add: e Refund_env_def)
  show "mock_ok s \<Longrightarrow> mock_ok (snd (Refund_env e ref amt k s))"
    unfolding m' using Refund_ok [OF _ R] .
  show "reservationsByRef (snd (Refund_env e ref amt k s)) = reservationsByRef s \<and>
      settlementByHold (snd (Refund_env e ref amt k s)) = settlementByHold s \<and>
      hold_released (snd (Refund_env e ref amt k s)) = hold_released s"
    using R unfolding m' by (cases rule: Refund_cases) (auto simp: hold_released_def)
next
  fix s ref st
  show "mock_ok s \<Longrightarrow> settlementByHold s ref = Some st \<Longrightarrow>
      \<exists>r. reservationsByRef s ref = Some r \<and> covers (rv_Amount r) (st_Amount st) \<and>
        st_Mode st = rv_Mode r \<and> \<not> hold_released s ref"
    by (auto simp: mock_ok_def settlements_ok_def hold_released_def)
qed

subsection \<open>Idempotency of the operations\<close>

text \<open>
  Repeating a reservation under its contract and key returns the first one and changes
  nothing, as long as the guards still pass (an authorization may expire in between).
\<close>

lemma Reserve_again:
  assumes "Reserve et n1 n2 raw sid cid bd t a amt k m = (Inr r, m')"
    and "check_reserve et n1' sid bd t a amt = None"
  shows "Reserve et n1' n2' raw' sid cid bd t a amt k m' = (Inr r, m')"
  using assms(1)
proof (cases rule: Reserve_cases)
  case same
  then have "Reserve et n1 n2 raw sid cid bd t a amt k m = (Inr r, m)" using assms(1) by simp
  then show ?thesis using assms(2) same(1)
    unfolding Reserve_def Let_def
    by (auto split: option.splits if_splits dest!: fun_cong [where x = "colon_key cid k"] arg_cong [where f = reservationsByKey])
next
  case (new r')
  then show ?thesis using assms(2) by (simp add: Reserve_def Let_def)
qed

lemma Settle_again:
  assumes "Settle et raw ref amt k m = (Inr st, m')"
  shows "Settle et raw' ref amt' k m' = (Inr st, m')"
  using assms by (cases rule: Settle_cases) (auto simp: Settle_def Let_def)

lemma Refund_again:
  assumes "Refund raw sr amt k m = (Inr r, m')"
  shows "Refund raw' sr amt' k m' = (Inr r, m')"
  using assms by (cases rule: Refund_cases) (auto simp: Refund_def Let_def)

subsection \<open>Refunds add up\<close>

definition refunded :: "MockProcessor \<Rightarrow> string \<Rightarrow> rat" where
  "refunded m sr = (case refundedTotals m sr of None \<Rightarrow> 0 | Some t \<Rightarrow> money_value t)"

text \<open>The amount a refund request adds: what it asks for when it is new and granted.\<close>

definition granted :: "MockProcessor \<Rightarrow> string \<Rightarrow> Money \<times> string \<Rightarrow> string \<Rightarrow> rat" where
  "granted m sr req raw =
     (case Refund raw sr (fst req) (snd req) m of
        (Inr r, _) \<Rightarrow> if refundsByKey m (colon_key sr (snd req)) = None then money_value (fst req) else 0
      | _ \<Rightarrow> 0)"

fun refund_run :: "string \<Rightarrow> (string \<times> Money \<times> string) list \<Rightarrow> MockProcessor \<Rightarrow> rat \<times> MockProcessor" where
  "refund_run sr [] m = (0, m)"
| "refund_run sr ((raw, req) # rs) m =
     (let (x, m') = refund_run sr rs (snd (Refund raw sr (fst req) (snd req) m)) in (granted m sr req raw + x, m'))"

lemma refunded_step:
  "refunded (snd (Refund raw sr (fst req) (snd req) m)) sr = refunded m sr + granted m sr req raw"
proof -
  obtain amt k where req: "req = (amt, k)" by (cases req)
  obtain res m' where R: "Refund raw sr amt k m = (res, m')" by fastforce
  then show ?thesis
  proof (cases rule: Refund_cases)
    case same
    then show ?thesis using R by (auto simp: req granted_def split: sum.splits)
  next
    case (new r st t)
    have "money_value t = refunded m sr + money_value amt"
      using new(6) by (auto simp: new_total_def refunded_def dest: money.add_InrD(6) split: option.splits)
    with new R show ?thesis by (simp add: req granted_def refunded_def)
  qed
qed

lemma refund_run_total:
  "refund_run sr rs m = (x, m') \<Longrightarrow> refunded m' sr = refunded m sr + x"
proof (induction rs arbitrary: m x)
  case (Cons r rs)
  obtain raw req where r: "r = (raw, req)" by (cases r)
  from Cons show ?case
    using refunded_step [of raw sr req m] by (auto simp: r Let_def split: prod.splits)
qed simp

lemma refund_run_ok: "mock_ok m \<Longrightarrow> mock_ok (snd (refund_run sr rs m))"
proof (induction rs arbitrary: m)
  case (Cons r rs)
  obtain raw req where r: "r = (raw, req)" by (cases r)
  have "mock_ok (snd (Refund raw sr (fst req) (snd req) m))"
    using Refund_ok [OF Cons.prems] by (metis prod.collapse)
  from Cons.IH [OF this] show ?case by (simp add: r Let_def case_prod_beta)
qed simp

lemma refund_run_settlement:
  "settlementsByRef (snd (refund_run sr rs m)) = settlementsByRef m"
proof (induction rs arbitrary: m)
  case (Cons r rs)
  obtain raw req where r: "r = (raw, req)" by (cases r)
  obtain res m' where R: "Refund raw sr (fst req) (snd req) m = (res, m')" by fastforce
  then have "settlementsByRef m' = settlementsByRef m" by (cases rule: Refund_cases) auto
  with Cons [of m'] R show ?case by (simp add: r Let_def case_prod_beta)
qed simp

text \<open>However refunds are requested, those granted never exceed the settled amount.\<close>

lemma refunds_bounded:
  assumes "mock_ok m" "settlementsByRef m sr = Some st" "refundedTotals m sr = None"
    "ValidateMoney (st_Amount st) = None"
  shows "fst (refund_run sr rs m) \<le> money_value (st_Amount st)"
proof -
  obtain x m' where run: "refund_run sr rs m = (x, m')" by fastforce
  then have x: "x = refunded m' sr" using refund_run_total [OF run] assms(3) by (simp add: refunded_def)
  have ok: "mock_ok m'" "settlementsByRef m' sr = Some st"
    using refund_run_ok [OF assms(1), of sr rs] refund_run_settlement [of sr rs m] run assms(2) by simp_all
  show ?thesis
  proof (cases "refundedTotals m' sr")
    case None
    with x run money_value_nonneg [OF assms(4)] show ?thesis by (simp add: refunded_def)
  next
    case (Some t)
    with ok refunds_okD [of m' sr t] have "covers (st_Amount st) t" by (auto simp: mock_ok_def)
    with Some x run show ?thesis by (simp add: covers_def refunded_def)
  qed
qed

end
