(* ===== verification/File_Store.thy ===== *)
theory File_Store
  imports Digest Problems
begin

text \<open>
  Identities (pkg/server/auth.go) and the store of staged input files (pkg/server/files.go):
  upload tickets, uploads, authoritative metadata and content. \<open>mime.ParseMediaType\<close> is the
  argument \<open>parse_media_type\<close>. The invariant says that a ready file holds exactly the bytes
  its reference declares; the locale \<open>file_store\<close> states what the protocol engine relies on.
\<close>

section \<open>Identities\<close>

record Identity =
  id_Actor :: EntityRef
  id_Principal :: EntityRef
  id_Scopes :: "string \<rightharpoonup> bool"

definition HasScope :: "Identity \<Rightarrow> string \<Rightarrow> bool" where
  "HasScope i scope \<longleftrightarrow> id_Scopes i scope = Some True"

definition sameIdentity :: "Identity \<Rightarrow> Identity \<Rightarrow> bool" where
  "sameIdentity left right \<longleftrightarrow>
     id_Actor left = id_Actor right \<and> id_Principal left = id_Principal right"

text \<open>
  \<open>strings.EqualFold\<close> on ASCII text, which both of its uses compare: a media type from
  \<open>mime.ParseMediaType\<close> and the word \<open>Bearer\<close>, none of whose letters folds to a
  character outside ASCII.
\<close>

definition lower_char :: "char \<Rightarrow> char" where
  "lower_char c = (if 0x41 \<le> ord c \<and> ord c \<le> 0x5A then char_of (ord c + 32) else c)"

definition EqualFold :: "string \<Rightarrow> string \<Rightarrow> bool" where
  "EqualFold s t \<longleftrightarrow> map lower_char s = map lower_char t"

text \<open>\<open>strings.Fields\<close>: the runs between white space.\<close>

function split_white :: "string \<Rightarrow> string list" where
  "split_white s =
     (case leading white_space s of
        Some w \<Rightarrow> [] # split_white (drop (length w) s)
      | None \<Rightarrow> (case s of [] \<Rightarrow> [[]]
         | c # cs \<Rightarrow> (case split_white cs of [] \<Rightarrow> [[c]] | p # ps \<Rightarrow> (c # p) # ps)))"
  by pat_completeness auto
termination
  by (relation "measure length") (auto dest: leading_Some)

declare split_white.simps [simp del]

definition Fields :: "string \<Rightarrow> string list" where
  "Fields s = filter (\<lambda>f. f \<noteq> []) (split_white s)"

text \<open>\<open>StaticAuthenticator\<close>; its argument is the \<open>Authorization\<close> header.\<close>

definition StaticAuthenticate :: "string \<Rightarrow> Identity \<Rightarrow> string \<Rightarrow> Identity result" where
  "StaticAuthenticate token identity authorization =
     (let parts = Fields authorization in
      if length parts \<noteq> 2 \<or> \<not> EqualFold (parts ! 0) ''Bearer''
      then Inl (New_error ''missing bearer token'')
      else if sha256 (parts ! 1) \<noteq> sha256 token then Inl (New_error ''invalid bearer token'')
      else Inr identity)"

section \<open>The store\<close>

record storedFile =
  sf_Owner :: Identity
  sf_Reference :: FileRef
  sf_UploadTokenHash :: string
  sf_Content :: string
  sf_CreatedAt :: time

record MemoryFileStore =
  mfs_files :: "string \<rightharpoonup> storedFile"
  mfs_maximumFileBytes :: int
  mfs_uploadTTL :: duration
  mfs_fileTTL :: duration

definition NewMemoryFileStore :: "int \<Rightarrow> MemoryFileStore" where
  "NewMemoryFileStore maximumFileBytes =
     \<lparr>mfs_files = Map.empty,
      mfs_maximumFileBytes = (if maximumFileBytes \<le> 0 then 10 * 2 ^ 20 else maximumFileBytes),
      mfs_uploadTTL = 10 * Minute, mfs_fileTTL = 24 * Hour\<rparr>"

text \<open>\<open>randomUploadToken\<close>; \<open>None\<close> is a failed read of the random source.\<close>

definition randomUploadToken :: "string option \<Rightarrow> string option" where
  "randomUploadToken buffer = map_option base64_encode buffer"

definition unsafe_name_bytes :: string where
  "unsafe_name_bytes = [CHR 0x0D, CHR 0x0A, CHR 0x00, CHR ''/'', CHR 0x5C]"

definition Prepare ::
  "(string \<Rightarrow> string result) \<Rightarrow> string \<Rightarrow> string option \<Rightarrow> Identity \<Rightarrow> FileUploadRequest \<Rightarrow> string \<Rightarrow> time \<Rightarrow>
     MemoryFileStore \<Rightarrow> (Problem + FileUploadTicket) \<times> MemoryFileStore"
where
  "Prepare parse_media_type raw buffer identity request baseURL now s =
     (let name = TrimSpace (fu_Name request) in
      if name = [] \<or> 512 < length name \<or> ContainsAny name unsafe_name_bytes
      then (Inl (fileProblem StatusUnprocessableEntity ErrValidationFailed
              ''file name is missing, unsafe, or too long'' False), s)
      else case parse_media_type (fu_MediaType request) of
        Inl _ \<Rightarrow> (Inl (fileProblem StatusUnprocessableEntity ErrValidationFailed
              ''file media_type is invalid'' False), s)
      | Inr mediaType \<Rightarrow>
         if mediaType = []
         then (Inl (fileProblem StatusUnprocessableEntity ErrValidationFailed
              ''file media_type is invalid'' False), s)
         else if fu_Size request < 0 \<or> mfs_maximumFileBytes s < fu_Size request
         then (Inl (fileProblem StatusRequestEntityTooLarge ErrFileTooLarge
              ''declared file size exceeds the service limit'' False), s)
         else if ValidateSHA256Digest (fu_Digest request) \<noteq> None
         then (Inl (fileProblem StatusUnprocessableEntity ErrValidationFailed
              ''digest must be a canonical ASCP sha256 digest'' False), s)
         else if \<not> IsZero (fu_ExpiresAt request) \<and> \<not> After (fu_ExpiresAt request) now
         then (Inl (fileProblem StatusUnprocessableEntity ErrValidationFailed
              ''requested file expiry must be in the future'' False), s)
         else
          let fileID = MustNewID raw ''fil'' in
          (case randomUploadToken buffer of
             None \<Rightarrow> (Inl (fileProblem StatusInternalServerError ErrInternal
                ''could not create upload credential'' True), s)
           | Some token \<Rightarrow>
              let expiresAt = now + mfs_fileTTL s;
                  expiresAt = (if \<not> IsZero (fu_ExpiresAt request) \<and> Before (fu_ExpiresAt request) expiresAt \<and>
                                  After (fu_ExpiresAt request) now
                               then fu_ExpiresAt request else expiresAt);
                  ref = \<lparr>fr_FileID = fileID, fr_URI = ''ascp-file://'' @ fileID, fr_Name = name,
                         fr_MediaType = mediaType, fr_Size = fu_Size request,
                         fr_Digest = fu_Digest request, fr_Disposition = ''attachment'',
                         fr_Purpose = fu_Purpose request, fr_State = ''pending_upload'',
                         fr_ScanStatus = ''not_scanned'', fr_ExpiresAt = expiresAt\<rparr>;
                  stored = \<lparr>sf_Owner = identity, sf_Reference = ref,
                            sf_UploadTokenHash = sha256 token, sf_Content = [], sf_CreatedAt = now\<rparr>
              in (Inr \<lparr>ft_FileID = fileID,
                       ft_UploadURL = TrimRight baseURL (CHR ''/'') @ ''/v1/files/'' @ fileID @ ''/content'',
                       ft_UploadMethod = ''PUT'', ft_UploadToken = token,
                       ft_RequiredHeaders = [(''Content-Type'', mediaType),
                         (''X-ASCP-Content-Digest'', fu_Digest request)],
                       ft_MaximumBytes = fu_Size request, ft_ExpiresAt = now + mfs_uploadTTL s\<rparr>,
                  s\<lparr>mfs_files := (mfs_files s)(fileID \<mapsto> stored)\<rparr>)))"

definition file_not_found :: "string \<Rightarrow> Problem" where
  "file_not_found detail = fileProblem StatusNotFound ErrNotFound detail False"

definition Upload ::
  "(string \<Rightarrow> string result) \<Rightarrow> Identity \<Rightarrow> string \<Rightarrow> string \<Rightarrow> string \<Rightarrow> string \<Rightarrow> time \<Rightarrow>
     MemoryFileStore \<Rightarrow> (Problem + FileRef) \<times> MemoryFileStore"
where
  "Upload parse_media_type identity fileID uploadToken mediaType content now s =
     (case mfs_files s fileID of
        None \<Rightarrow> (Inl (file_not_found ''file upload target was not found''), s)
      | Some stored \<Rightarrow>
         if \<not> sameIdentity (sf_Owner stored) identity
         then (Inl (file_not_found ''file upload target was not found''), s)
         else if After now (sf_CreatedAt stored + mfs_uploadTTL s)
         then (Inl (fileProblem StatusGone ErrUploadExpired ''upload ticket has expired'' False), s)
         else if sha256 uploadToken \<noteq> sf_UploadTokenHash stored
         then (Inl (fileProblem StatusForbidden ErrForbidden ''upload token is invalid'' False), s)
         else if (case parse_media_type mediaType of Inl _ \<Rightarrow> True
                  | Inr parsedType \<Rightarrow> \<not> EqualFold parsedType (fr_MediaType (sf_Reference stored)))
         then (Inl (fileProblem StatusUnsupportedMediaType ErrUnsupportedMediaType
                ''uploaded media type differs from the prepared metadata'' False), s)
         else if int (length content) \<noteq> fr_Size (sf_Reference stored)
         then (Inl (fileProblem StatusUnprocessableEntity ErrValidationFailed
                ''uploaded byte length differs from the declared size'' False), s)
         else if SHA256Digest content \<noteq> fr_Digest (sf_Reference stored)
         then (Inl (fileProblem StatusUnprocessableEntity ErrDigestMismatch
                ''uploaded content digest differs from the declared digest'' False), s)
         else if fr_State (sf_Reference stored) = ''ready''
         then (if SHA256Digest (sf_Content stored) \<noteq> SHA256Digest content
               then (Inl (fileProblem StatusConflict ErrIdempotencyConflict
                      ''file ID already contains different bytes'' False), s)
               else (Inr (sf_Reference stored), s))
         else
           let stored = stored\<lparr>sf_Content := content,
                 sf_Reference := (sf_Reference stored)\<lparr>fr_State := ''ready'', fr_ScanStatus := ''clean''\<rparr>\<rparr>
           in (Inr (sf_Reference stored), s\<lparr>mfs_files := (mfs_files s)(fileID \<mapsto> stored)\<rparr>))"

definition Get :: "Identity \<Rightarrow> string \<Rightarrow> time \<Rightarrow> MemoryFileStore \<Rightarrow> Problem + FileRef" where
  "Get identity fileID now s =
     (case mfs_files s fileID of
        None \<Rightarrow> Inl (file_not_found ''file was not found'')
      | Some stored \<Rightarrow>
         if \<not> sameIdentity (sf_Owner stored) identity then Inl (file_not_found ''file was not found'')
         else if \<not> IsZero (fr_ExpiresAt (sf_Reference stored)) \<and> \<not> After (fr_ExpiresAt (sf_Reference stored)) now
         then Inl (fileProblem StatusGone ErrFileNotReady ''file reference has expired'' False)
         else Inr (sf_Reference stored))"

definition Content :: "Identity \<Rightarrow> string \<Rightarrow> time \<Rightarrow> MemoryFileStore \<Rightarrow> Problem + (FileRef \<times> string)" where
  "Content identity fileID now s =
     (case Get identity fileID now s of
        Inl p \<Rightarrow> Inl p
      | Inr ref \<Rightarrow>
         if fr_State ref \<noteq> ''ready'' \<or> fr_ScanStatus ref \<noteq> ''clean''
         then Inl (fileProblem StatusConflict ErrFileNotReady ''file is not ready for use'' True)
         else Inr (ref, case mfs_files s fileID of None \<Rightarrow> [] | Some stored \<Rightarrow> sf_Content stored))"

definition input_file :: "int \<Rightarrow> string" where
  "input_file index = ''input_files['' @ decimal_int index @ '']''"

definition validate_file :: "Identity \<Rightarrow> time \<Rightarrow> MemoryFileStore \<Rightarrow> int \<Rightarrow> FileRef \<Rightarrow> Problem option" where
  "validate_file identity now s index supplied =
     (case Get identity (fr_FileID supplied) now s of
        Inl p \<Rightarrow> Some (p\<lparr>p_Detail := input_file index @ '': '' @ p_Detail p\<rparr>)
      | Inr actual \<Rightarrow>
         if fr_State actual \<noteq> ''ready'' \<or> fr_ScanStatus actual \<noteq> ''clean''
         then Some (fileProblem StatusConflict ErrFileNotReady (input_file index @ '' is not ready and clean'') True)
         else if fr_URI supplied \<noteq> fr_URI actual \<or> fr_Name supplied \<noteq> fr_Name actual \<or>
                 fr_MediaType supplied \<noteq> fr_MediaType actual \<or> fr_Size supplied \<noteq> fr_Size actual \<or>
                 fr_Digest supplied \<noteq> fr_Digest actual
         then Some (fileProblem StatusConflict ErrFileRejected
                (input_file index @ '' metadata does not match the provider record'') False)
         else None)"

fun validate_files :: "Identity \<Rightarrow> time \<Rightarrow> MemoryFileStore \<Rightarrow> int \<Rightarrow> FileRef list \<Rightarrow> Problem option" where
  "validate_files identity now s index [] = None"
| "validate_files identity now s index (supplied # refs) =
     (case validate_file identity now s index supplied of
        Some p \<Rightarrow> Some p
      | None \<Rightarrow> validate_files identity now s (index + 1) refs)"

definition Validate :: "Identity \<Rightarrow> FileRef list \<Rightarrow> time \<Rightarrow> MemoryFileStore \<Rightarrow> Problem option" where
  "Validate identity refs now s = validate_files identity now s 0 refs"

section \<open>The interface\<close>

text \<open>
  What the engine relies on: \<open>bytes s i fid\<close> are the bytes that a ready file of owner
  \<open>i\<close> holds, \<open>meta s i fid\<close> its authoritative reference. Neither changes any more
  (\<open>steps\<close> are the store's calls), and the bytes are those the reference declares.
\<close>

locale file_store =
  fixes content_op :: "Identity \<Rightarrow> string \<Rightarrow> time \<Rightarrow> 's \<Rightarrow> Problem + (FileRef \<times> string)"
    and validate_op :: "Identity \<Rightarrow> FileRef list \<Rightarrow> time \<Rightarrow> 's \<Rightarrow> Problem option"
    and steps :: "'s \<Rightarrow> 's \<Rightarrow> bool"
    and ready :: "'s \<Rightarrow> Identity \<Rightarrow> string \<Rightarrow> (FileRef \<times> string) option"
    and inv :: "'s \<Rightarrow> bool"
  assumes steps_inv: "inv s \<Longrightarrow> steps s s' \<Longrightarrow> inv s'"
    and steps_ready: "inv s \<Longrightarrow> steps s s' \<Longrightarrow> ready s i fid = Some y \<Longrightarrow> ready s' i fid = Some y"
    and ready_bytes: "inv s \<Longrightarrow> ready s i fid = Some (ref, bs) \<Longrightarrow>
      SHA256Digest bs = fr_Digest ref \<and> int (length bs) = fr_Size ref \<and> fr_FileID ref = fid"
    and content_ready: "ready s i fid = Some (ref, bs) \<Longrightarrow> fr_ExpiresAt ref = 0 \<or> now < fr_ExpiresAt ref \<Longrightarrow>
      content_op i fid now s = Inr (ref, bs)"
    and content_Inr: "content_op i fid now s = Inr (ref, bs) \<Longrightarrow> ready s i fid = Some (ref, bs)"
    and validate_None: "validate_op i refs now s = None \<Longrightarrow> x \<in> set refs \<Longrightarrow>
      \<exists>ref bs. ready s i (fr_FileID x) = Some (ref, bs) \<and> fr_Digest x = fr_Digest ref \<and>
        fr_Size x = fr_Size ref \<and> fr_URI x = fr_URI ref \<and> fr_Name x = fr_Name ref \<and>
        fr_MediaType x = fr_MediaType ref"
begin

text \<open>
  A reference that was validated once resolves, until the file expires, to the very bytes
  whose digest and size it declares, whatever happens to the store in between.
\<close>

lemma validated_resolves:
  assumes "inv s" "validate_op i refs t s = None" "x \<in> set refs" "steps\<^sup>*\<^sup>* s s'"
  shows "\<exists>ref bs. SHA256Digest bs = fr_Digest x \<and> int (length bs) = fr_Size x \<and>
    (\<forall>now. fr_ExpiresAt ref = 0 \<or> now < fr_ExpiresAt ref \<longrightarrow>
       content_op i (fr_FileID x) now s' = Inr (ref, bs))"
proof -
  from validate_None [OF assms(2,3)] obtain ref bs where
    r: "ready s i (fr_FileID x) = Some (ref, bs)" "fr_Digest x = fr_Digest ref" "fr_Size x = fr_Size ref"
    by blast
  from assms(4) have "inv s' \<and> ready s' i (fr_FileID x) = Some (ref, bs)"
  proof induction
    case base
    show ?case using assms(1) r(1) by simp
  next
    case (step y z)
    then show ?case using steps_inv [of y z] steps_ready [of y z] by blast
  qed
  with ready_bytes content_ready r(2,3) show ?thesis by (metis (no_types))
qed

end

section \<open>The in-memory store\<close>

definition file_ok :: "MemoryFileStore \<Rightarrow> string \<Rightarrow> storedFile \<Rightarrow> bool" where
  "file_ok s fid f \<longleftrightarrow>
     fr_FileID (sf_Reference f) = fid \<and> ValidateSHA256Digest (fr_Digest (sf_Reference f)) = None \<and>
     0 \<le> fr_Size (sf_Reference f) \<and> fr_Size (sf_Reference f) \<le> mfs_maximumFileBytes s \<and>
     ((fr_State (sf_Reference f) = ''pending_upload'' \<and> fr_ScanStatus (sf_Reference f) = ''not_scanned'' \<and>
       sf_Content f = []) \<or>
      (fr_State (sf_Reference f) = ''ready'' \<and> fr_ScanStatus (sf_Reference f) = ''clean'' \<and>
       SHA256Digest (sf_Content f) = fr_Digest (sf_Reference f) \<and>
       int (length (sf_Content f)) = fr_Size (sf_Reference f)))"

definition files_ok :: "MemoryFileStore \<Rightarrow> bool" where
  "files_ok s \<longleftrightarrow> (\<forall>fid f. mfs_files s fid = Some f \<longrightarrow> file_ok s fid f)"

lemma files_okD: "files_ok s \<Longrightarrow> mfs_files s fid = Some f \<Longrightarrow> file_ok s fid f"
  by (simp add: files_ok_def)

lemma NewMemoryFileStore_ok: "files_ok (NewMemoryFileStore n)"
  by (simp add: files_ok_def NewMemoryFileStore_def)

lemma Prepare_Inl: "Prepare pm raw buf i req url now s = (Inl p, s') \<Longrightarrow> s' = s"
  by (auto simp: Prepare_def Let_def split: if_splits sum.splits option.splits)

lemma Prepare_Inr:
  assumes "Prepare pm raw buf i req url now s = (Inr tk, s')"
  shows "\<exists>f. s' = s\<lparr>mfs_files := (mfs_files s)(MustNewID raw ''fil'' \<mapsto> f)\<rparr> \<and>
    ft_FileID tk = MustNewID raw ''fil'' \<and> file_ok s (MustNewID raw ''fil'') f \<and> sf_Owner f = i \<and>
    fr_State (sf_Reference f) = ''pending_upload'' \<and> fr_Digest (sf_Reference f) = fu_Digest req \<and>
    fr_Size (sf_Reference f) = fu_Size req \<and>
    sf_UploadTokenHash f = sha256 (ft_UploadToken tk) \<and> sf_CreatedAt f = now"
proof -
  let ?name = "TrimSpace (fu_Name req)"
  have n: "\<not> (?name = [] \<or> 512 < length ?name \<or> ContainsAny ?name unsafe_name_bytes)"
    using assms by (auto simp: Prepare_def Let_def)
  obtain mt where mt: "pm (fu_MediaType req) = Inr mt" "mt \<noteq> []"
    using assms n by (auto simp: Prepare_def Let_def split: sum.splits if_splits)
  have g: "\<not> (fu_Size req < 0 \<or> mfs_maximumFileBytes s < fu_Size req)"
    "ValidateSHA256Digest (fu_Digest req) = None"
    "\<not> (\<not> IsZero (fu_ExpiresAt req) \<and> \<not> After (fu_ExpiresAt req) now)"
    using assms n mt by (simp_all add: Prepare_def Let_def split: if_splits)
  obtain tok where tok: "randomUploadToken buf = Some tok"
    using assms n mt g by (cases "randomUploadToken buf") (simp_all add: Prepare_def Let_def)
  from g(1) have "0 \<le> fu_Size req" "fu_Size req \<le> mfs_maximumFileBytes s" by simp_all
  with assms n mt g tok show ?thesis
    unfolding Prepare_def Let_def
    by (clarsimp split del: if_split) (intro exI conjI, rule refl, simp_all add: file_ok_def)
qed

lemma Upload_cases:
  assumes "Upload pm i fid tok mt c now s = (res, s')"
  obtains (same) "s' = s" "\<And>ref. res = Inr ref \<Longrightarrow>
      \<exists>f. mfs_files s fid = Some f \<and> ref = sf_Reference f \<and> fr_State ref = ''ready'' \<and>
        sameIdentity (sf_Owner f) i \<and> SHA256Digest c = fr_Digest ref"
  | (new) f where "mfs_files s fid = Some f" "sameIdentity (sf_Owner f) i"
      "sha256 tok = sf_UploadTokenHash f" "fr_State (sf_Reference f) \<noteq> ''ready''"
      "int (length c) = fr_Size (sf_Reference f)" "SHA256Digest c = fr_Digest (sf_Reference f)"
      "res = Inr ((sf_Reference f)\<lparr>fr_State := ''ready'', fr_ScanStatus := ''clean''\<rparr>)"
      "s' = s\<lparr>mfs_files := (mfs_files s)(fid \<mapsto> f\<lparr>sf_Content := c,
         sf_Reference := (sf_Reference f)\<lparr>fr_State := ''ready'', fr_ScanStatus := ''clean''\<rparr>\<rparr>)\<rparr>"
proof (cases "mfs_files s fid")
  case None
  with assms show thesis by (intro same) (auto simp: Upload_def)
next
  case (Some f)
  show thesis
  proof (cases "fr_State (sf_Reference f) = ''ready'' \<or> (\<exists>p. res = Inl p)")
    case True
    with assms Some show thesis
      by (intro same) (auto simp: Upload_def Let_def split: if_splits)
  next
    case False
    with assms Some show thesis
      by (intro new [of f]) (auto simp: Upload_def Let_def split: if_splits)
  qed
qed


lemma file_ok_update [simp]: "file_ok (s\<lparr>mfs_files := m\<rparr>) = file_ok s"
  by (simp add: fun_eq_iff file_ok_def)

lemma Upload_ok:
  assumes "files_ok s" "Upload pm i fid tok mt c now s = (res, s')"
  shows "files_ok s'"
  using assms(2)
proof (cases rule: Upload_cases)
  case (new f)
  from files_okD [OF assms(1) new(1)] have "file_ok s fid f" .
  with new(5,6) have "file_ok s fid (f\<lparr>sf_Content := c,
         sf_Reference := (sf_Reference f)\<lparr>fr_State := ''ready'', fr_ScanStatus := ''clean''\<rparr>\<rparr>)"
    by (simp add: file_ok_def)
  with assms(1) show ?thesis
    unfolding new(8) files_ok_def by simp
qed (use assms(1) in simp)

lemma Prepare_ok:
  assumes "files_ok s" "Prepare pm raw buf i req url now s = (res, s')"
  shows "files_ok s'"
proof (cases res)
  case (Inl p)
  with assms Prepare_Inl show ?thesis by blast
next
  case (Inr tk)
  from Prepare_Inr [OF assms(2) [unfolded Inr]] obtain f where
    "s' = s\<lparr>mfs_files := (mfs_files s)(MustNewID raw ''fil'' \<mapsto> f)\<rparr>" "file_ok s (MustNewID raw ''fil'') f"
    by blast
  with assms(1) show ?thesis by (simp add: files_ok_def)
qed

text \<open>The store's calls; a prepared file gets an unused identifier.\<close>

inductive file_step :: "(string \<Rightarrow> string result) \<Rightarrow> MemoryFileStore \<Rightarrow> MemoryFileStore \<Rightarrow> bool" for pm where
  prepare: "mfs_files s (MustNewID raw ''fil'') = None \<Longrightarrow>
    file_step pm s (snd (Prepare pm raw buf i req url now s))"
| upload: "file_step pm s (snd (Upload pm i fid tok mt c now s))"

inductive_cases file_stepE: "file_step pm s s'"

definition ready_file :: "MemoryFileStore \<Rightarrow> Identity \<Rightarrow> string \<Rightarrow> (FileRef \<times> string) option" where
  "ready_file s i fid =
     (case mfs_files s fid of None \<Rightarrow> None
      | Some f \<Rightarrow>
          if sameIdentity (sf_Owner f) i \<and> fr_State (sf_Reference f) = ''ready'' \<and>
             fr_ScanStatus (sf_Reference f) = ''clean''
          then Some (sf_Reference f, sf_Content f) else None)"

lemma ready_file_Some:
  "ready_file s i fid = Some (ref, bs) \<longleftrightarrow>
     (\<exists>f. mfs_files s fid = Some f \<and> sameIdentity (sf_Owner f) i \<and> sf_Reference f = ref \<and>
        fr_State ref = ''ready'' \<and> fr_ScanStatus ref = ''clean'' \<and> sf_Content f = bs)"
  by (auto simp: ready_file_def split: option.splits if_splits)

lemma Get_Inr:
  "Get i fid now s = Inr ref \<longleftrightarrow>
     (\<exists>f. mfs_files s fid = Some f \<and> sameIdentity (sf_Owner f) i \<and> sf_Reference f = ref \<and>
        (fr_ExpiresAt ref = 0 \<or> now < fr_ExpiresAt ref))"
  by (auto simp: Get_def split: option.splits if_splits)

lemma Content_Inr:
  "Content i fid now s = Inr (ref, bs) \<longleftrightarrow>
     ready_file s i fid = Some (ref, bs) \<and> (fr_ExpiresAt ref = 0 \<or> now < fr_ExpiresAt ref)"
  unfolding ready_file_Some
  by (auto simp: Content_def Get_def split: option.splits if_splits)

lemma validate_file_None:
  "validate_file i now s k x = None \<longleftrightarrow>
     (\<exists>ref bs. Content i (fr_FileID x) now s = Inr (ref, bs) \<and> fr_Digest x = fr_Digest ref \<and>
        fr_Size x = fr_Size ref \<and> fr_URI x = fr_URI ref \<and> fr_Name x = fr_Name ref \<and>
        fr_MediaType x = fr_MediaType ref)"
  by (auto simp: validate_file_def Content_def split: sum.splits)

lemma Validate_None:
  "Validate i refs now s = None \<longleftrightarrow>
     (\<forall>x \<in> set refs. \<exists>ref bs. Content i (fr_FileID x) now s = Inr (ref, bs) \<and> fr_Digest x = fr_Digest ref \<and>
        fr_Size x = fr_Size ref \<and> fr_URI x = fr_URI ref \<and> fr_Name x = fr_Name ref \<and>
        fr_MediaType x = fr_MediaType ref)"
proof -
  have "validate_files i now s k refs = None \<longleftrightarrow> (\<forall>x \<in> set refs. validate_file i now s 0 x = None)" for k
  proof (induction refs arbitrary: k)
    case (Cons x refs)
    have "validate_file i now s k x = None \<longleftrightarrow> validate_file i now s 0 x = None"
      by (simp only: validate_file_None)
    with Cons show ?case by (cases "validate_file i now s k x") simp_all
  qed simp
  then show ?thesis by (simp add: Validate_def validate_file_None)
qed

interpretation files: file_store Content Validate "file_step pm" ready_file files_ok for pm
proof
  fix s s' i fid and y :: "FileRef \<times> string"
  assume ok: "files_ok s" and st: "file_step pm s s'"
  from st ok show "files_ok s'"
    by (cases rule: file_step.cases) (metis Prepare_ok Upload_ok prod.collapse)+
  obtain ref bs where y: "y = (ref, bs)" by (cases y)
  assume "ready_file s i fid = Some y"
  then obtain f where f: "mfs_files s fid = Some f" "sameIdentity (sf_Owner f) i" "sf_Reference f = ref"
    "fr_State ref = ''ready''" "fr_ScanStatus ref = ''clean''" "sf_Content f = bs"
    by (auto simp: y ready_file_Some)
  from st have "mfs_files s' fid = Some f"
  proof (cases rule: file_step.cases)
    case (prepare raw buf j req url now)
    show ?thesis
    proof (cases "fst (Prepare pm raw buf j req url now s)")
      case (Inl p)
      with Prepare_Inl [of pm raw buf j req url now s p s'] prepare f show ?thesis by (metis prod.collapse)
    next
      case (Inr tk)
      with Prepare_Inr [of pm raw buf j req url now s tk s'] prepare obtain g where
        "s' = s\<lparr>mfs_files := (mfs_files s)(MustNewID raw ''fil'' \<mapsto> g)\<rparr>" by (metis prod.collapse)
      moreover from prepare f have "fid \<noteq> MustNewID raw ''fil''" by auto
      ultimately show ?thesis using f by simp
    qed
  next
    case (upload j fid' tok mt c now)
    obtain res where "Upload pm j fid' tok mt c now s = (res, s')"
      using upload by (metis prod.collapse)
    then show ?thesis
      by (cases rule: Upload_cases) (use f in auto)
  qed
  with f show "ready_file s' i fid = Some y" by (simp add: y ready_file_Some)
next
  fix s i fid ref bs
  assume "files_ok s" "ready_file s i fid = Some (ref, bs)"
  then show "SHA256Digest bs = fr_Digest ref \<and> int (length bs) = fr_Size ref \<and> fr_FileID ref = fid"
    by (auto simp: ready_file_Some file_ok_def dest!: files_okD)
qed (auto simp: Content_Inr Validate_None)

section \<open>Isolation\<close>

text \<open>To anyone but its owner a file is indistinguishable from one that does not exist.\<close>

lemma not_owner_hidden:
  assumes "mfs_files s fid = Some f" "\<not> sameIdentity (sf_Owner f) i"
  shows "Get i fid now s = Get i fid now (s\<lparr>mfs_files := (mfs_files s)(fid := None)\<rparr>)"
    "Content i fid now s = Content i fid now (s\<lparr>mfs_files := (mfs_files s)(fid := None)\<rparr>)"
    "Upload pm i fid tok mt c now s =
       (fst (Upload pm i fid tok mt c now (s\<lparr>mfs_files := (mfs_files s)(fid := None)\<rparr>)), s)"
  using assms by (simp_all add: Get_def Content_def Upload_def)

text \<open>
  The branch of \<open>Upload\<close> for different bytes under a ready identifier cannot be reached:
  the digest check before it has already refused them.
\<close>

lemma Upload_no_conflict:
  assumes "files_ok s"
  shows "fst (Upload pm i fid tok mt c now s) \<noteq>
    Inl (fileProblem StatusConflict ErrIdempotencyConflict ''file ID already contains different bytes'' False)"
proof (cases "mfs_files s fid")
  case (Some f)
  from files_okD [OF assms Some] have ok: "fr_State (sf_Reference f) = ''ready'' \<Longrightarrow>
      SHA256Digest (sf_Content f) = fr_Digest (sf_Reference f)"
    by (auto simp: file_ok_def)
  with Some show ?thesis
    by (auto simp: Upload_def Let_def file_not_found_def fileProblem_def base_problem_def code_consts)
qed (auto simp: Upload_def file_not_found_def fileProblem_def base_problem_def)

end
