(* ===== verification/Trace_Monad.thy ===== *)
theory Trace_Monad
  imports Prelude
begin

text \<open>
  The state monad of the protocol engine and its program logic. A handler runs in the library's
  state monad over the events it emitted so far and the world \<open>'w\<close> behind its
  dependencies. A call of a dependency is \<open>perform\<close>: it runs the dependency on the world and
  appends what was called and answered to the events.

  A protocol is a machine whose \<open>step\<close> accepts or refuses an event. \<open>follows step p m Q\<close>
  says: started in phase \<open>p\<close>, and whatever the dependencies do and answer, all events of \<open>m\<close>
  are accepted, and its result and the phase it ends in satisfy \<open>Q\<close>. The rules in \<open>wp\<close> take
  a handler apart, one rule for each construct.
\<close>

section \<open>Definitions\<close>

type_synonym ('e, 'w, 'a) traced = "('e list \<times> 'w, 'a) state"

definition perform :: "('w \<Rightarrow> 'r \<times> 'w) \<Rightarrow> ('r \<Rightarrow> 'e) \<Rightarrow> ('e, 'w, 'r) traced" where
  "perform m ev = State (\<lambda>(tr, w). let (r, w') = m w in (r, (tr @ [ev r], w')))"

text \<open>Early return: the rest of the handler runs only when there is no answer yet.\<close>

definition attempt :: "('e, 'w, 'a + 'b) traced \<Rightarrow> ('b \<Rightarrow> ('e, 'w, 'a) traced) \<Rightarrow> ('e, 'w, 'a) traced" where
  "attempt m f = do { r \<leftarrow> m; case r of Inl a \<Rightarrow> State_Monad.return a | Inr b \<Rightarrow> f b }"

text \<open>The result and the events of a run from an empty trace.\<close>

definition result_of :: "('e, 'w, 'a) traced \<Rightarrow> 'w \<Rightarrow> 'a" where
  "result_of m w = fst (run_state m ([], w))"

definition events_of :: "('e, 'w, 'a) traced \<Rightarrow> 'w \<Rightarrow> 'e list" where
  "events_of m w = fst (snd (run_state m ([], w)))"

definition world_after :: "('e, 'w, 'a) traced \<Rightarrow> 'w \<Rightarrow> 'w" where
  "world_after m w = snd (snd (run_state m ([], w)))"

section \<open>Protocols\<close>

fun advance :: "('p \<Rightarrow> 'e \<Rightarrow> 'p option) \<Rightarrow> 'p \<Rightarrow> 'e list \<Rightarrow> 'p option" where
  "advance step p [] = Some p"
| "advance step p (e # es) = (case step p e of None \<Rightarrow> None | Some p' \<Rightarrow> advance step p' es)"

definition follows ::
  "('p \<Rightarrow> 'e \<Rightarrow> 'p option) \<Rightarrow> 'p \<Rightarrow> ('e, 'w, 'a) traced \<Rightarrow> ('a \<Rightarrow> 'p \<Rightarrow> bool) \<Rightarrow> bool"
where
  "follows step p m Q \<longleftrightarrow>
     (\<forall>tr w. \<exists>a es w' p'. run_state m (tr, w) = (a, (tr @ es, w')) \<and>
        advance step p es = Some p' \<and> Q a p')"

lemma advance_append:
  "advance step p (es @ ds) = (case advance step p es of None \<Rightarrow> None | Some p' \<Rightarrow> advance step p' ds)"
  by (induction es arbitrary: p) (auto split: option.splits)

lemma advance_prefix:
  "advance step p (es @ e # ds) = Some p'' \<Longrightarrow>
     \<exists>q q'. advance step p es = Some q \<and> step q e = Some q' \<and> advance step q' ds = Some p''"
  by (auto simp: advance_append split: option.splits)

text \<open>An invariant of the machine holds wherever the machine gets.\<close>

lemma advance_invariant:
  assumes "\<And>q e q'. I q \<Longrightarrow> step q e = Some q' \<Longrightarrow> I q'" and "I p" "advance step p es = Some p'"
  shows "I p'"
  using assms(2,3) by (induction es arbitrary: p) (auto split: option.splits intro: assms(1))

text \<open>A fact about the events and the phase they lead to, kept by every step.\<close>

lemma advance_history:
  assumes step: "\<And>es p e p'. H es p \<Longrightarrow> step p e = Some p' \<Longrightarrow> H (es @ [e]) p'"
    and "H [] p" "advance step p es = Some p'"
  shows "H es p'"
  using assms(3)
proof (induction es arbitrary: p' rule: rev_induct)
  case Nil
  with assms(2) show ?case by simp
next
  case (snoc e es)
  then obtain q where "advance step p es = Some q" "step q e = Some p'"
    by (auto simp: advance_append split: option.splits)
  with snoc.IH step show ?case by blast
qed

lemma followsI:
  assumes "\<And>tr w. \<exists>a es w' p'. run_state m (tr, w) = (a, (tr @ es, w')) \<and>
     advance step p es = Some p' \<and> Q a p'"
  shows "follows step p m Q"
  using assms by (simp add: follows_def)

lemma follows_run:
  assumes "follows step p m Q"
  obtains p' where "advance step p (events_of m w) = Some p'" "Q (result_of m w) p'"
proof -
  from assms obtain a es w' p'
    where "run_state m ([], w) = (a, ([] @ es, w'))" "advance step p es = Some p'" "Q a p'"
    unfolding follows_def by metis
  then show ?thesis by (intro that) (simp_all add: events_of_def result_of_def)
qed

section \<open>Rules\<close>

lemma follows_mono:
  assumes "follows step p m Q" and "\<And>a p'. Q a p' \<Longrightarrow> R a p'"
  shows "follows step p m R"
  using assms unfolding follows_def by blast

lemma follows_return [wp]: "Q a p \<Longrightarrow> follows step p (State_Monad.return a) Q"
  by (auto simp: follows_def State_Monad.return_def)

lemma follows_bind [wp]:
  assumes "follows step p m (\<lambda>a q. follows step q (f a) Q)"
  shows "follows step p (State_Monad.bind m f) Q"
proof (rule followsI)
  fix tr w
  from assms obtain a es w' q
    where 1: "run_state m (tr, w) = (a, (tr @ es, w'))" "advance step p es = Some q"
      and "follows step q (f a) Q"
    unfolding follows_def by metis
  then obtain b ds w'' p'
    where 2: "run_state (f a) (tr @ es, w') = (b, ((tr @ es) @ ds, w''))" "advance step q ds = Some p'" "Q b p'"
    unfolding follows_def by metis
  have "run_state (State_Monad.bind m f) (tr, w) = (b, (tr @ (es @ ds), w''))"
    using 1(1) 2(1) by (simp add: State_Monad.bind_def)
  moreover have "advance step p (es @ ds) = Some p'"
    using 1(2) 2(2) by (simp add: advance_append)
  ultimately show "\<exists>b es w' p'. run_state (State_Monad.bind m f) (tr, w) = (b, (tr @ es, w')) \<and>
      advance step p es = Some p' \<and> Q b p'"
    using 2(3) by blast
qed

lemma follows_perform:
  assumes "\<And>r. \<exists>p'. step p (ev r) = Some p' \<and> Q r p'"
  shows "follows step p (perform m ev) Q"
proof (rule followsI)
  fix tr w
  obtain r w' where m: "m w = (r, w')" by (cases "m w")
  obtain p' where "step p (ev r) = Some p'" "Q r p'" using assms by blast
  then have "run_state (perform m ev) (tr, w) = (r, (tr @ [ev r], w'))"
    "advance step p [ev r] = Some p'"
    by (simp_all add: perform_def m)
  with \<open>Q r p'\<close> show "\<exists>a es w' p'. run_state (perform m ev) (tr, w) = (a, (tr @ es, w')) \<and>
      advance step p es = Some p' \<and> Q a p'" by blast
qed

text \<open>A call is accepted whatever it answers, or the handler does not follow the protocol.\<close>

lemma follows_call:
  assumes "\<And>r. case step p (ev r) of None \<Rightarrow> False | Some p' \<Rightarrow> Q r p'"
  shows "follows step p (perform m ev) Q"
proof (rule follows_perform)
  fix r
  from assms [of r] show "\<exists>p'. step p (ev r) = Some p' \<and> Q r p'"
    by (cases "step p (ev r)") auto
qed

text \<open>A call that answers an error or a value.\<close>

lemma follows_either:
  assumes "\<And>err. case step p (ev (Inl err)) of None \<Rightarrow> False | Some p' \<Rightarrow> Q (Inl err) p'"
    and "\<And>a. case step p (ev (Inr a)) of None \<Rightarrow> False | Some p' \<Rightarrow> Q (Inr a) p'"
  shows "follows step p (perform m ev) Q"
proof (rule follows_call)
  fix r
  show "case step p (ev r) of None \<Rightarrow> False | Some p' \<Rightarrow> Q r p'" by (cases r; hypsubst; rule assms)
qed

lemma follows_attempt [wp]:
  assumes "follows step p m (\<lambda>r q. case r of Inl a \<Rightarrow> Q a q | Inr b \<Rightarrow> follows step q (f b) Q)"
  shows "follows step p (attempt m f) Q"
  unfolding attempt_def
  by (rule follows_bind, rule follows_mono [OF assms]) (auto split: sum.splits intro: follows_return)

text \<open>Sequencing with the property of the first part.\<close>

lemma follows_then:
  assumes "follows step p m P" "\<And>a q. P a q \<Longrightarrow> follows step q (f a) Q"
  shows "follows step p (State_Monad.bind m f) Q"
  by (rule follows_bind, rule follows_mono [OF assms(1)]) (rule assms(2))

lemma follows_attempt_then:
  assumes "follows step p m (\<lambda>r q. case r of Inl a \<Rightarrow> P a q | Inr b \<Rightarrow> R b q)"
    and "\<And>a q. P a q \<Longrightarrow> Q a q" "\<And>b q. R b q \<Longrightarrow> follows step q (f b) Q"
  shows "follows step p (attempt m f) Q"
  by (rule follows_attempt, rule follows_mono [OF assms(1)]) (auto split: sum.splits intro: assms(2,3))

lemma follows_if [wp]:
  "(b \<Longrightarrow> follows step p m Q) \<Longrightarrow> (\<not> b \<Longrightarrow> follows step p n Q) \<Longrightarrow> follows step p (if b then m else n) Q"
  by simp

lemma follows_case_option [wp]:
  assumes "x = None \<Longrightarrow> follows step p m Q" and "\<And>y. x = Some y \<Longrightarrow> follows step p (f y) Q"
  shows "follows step p (case x of None \<Rightarrow> m | Some y \<Rightarrow> f y) Q"
  using assms by (cases x) auto

lemma follows_case_sum [wp]:
  assumes "\<And>a. x = Inl a \<Longrightarrow> follows step p (f a) Q" and "\<And>b. x = Inr b \<Longrightarrow> follows step p (g b) Q"
  shows "follows step p (case x of Inl a \<Rightarrow> f a | Inr b \<Rightarrow> g b) Q"
  using assms by (cases x) auto

lemma follows_case_prod [wp]:
  assumes "\<And>a b. x = (a, b) \<Longrightarrow> follows step p (f a b) Q"
  shows "follows step p (case x of (a, b) \<Rightarrow> f a b) Q"
  using assms by (cases x) auto

lemma follows_let [wp]: "follows step p (f x) Q \<Longrightarrow> follows step p (let y = x in f y) Q"
  by simp

section \<open>Runs from a given world\<close>

text \<open>\<open>runs w m Q\<close>: started in the world \<open>w\<close>, the result, the new events and the new world satisfy \<open>Q\<close>.\<close>

definition runs :: "'w \<Rightarrow> ('e, 'w, 'a) traced \<Rightarrow> ('a \<Rightarrow> 'e list \<Rightarrow> 'w \<Rightarrow> bool) \<Rightarrow> bool" where
  "runs w m Q \<longleftrightarrow> (\<forall>tr. \<exists>a es w'. run_state m (tr, w) = (a, (tr @ es, w')) \<and> Q a es w')"

lemma runs_result: "runs w m Q \<Longrightarrow> Q (result_of m w) (events_of m w) (world_after m w)"
  unfolding runs_def result_of_def events_of_def world_after_def
  by (erule allE [of _ "[]"]) auto

lemma runs_mono: "runs w m Q \<Longrightarrow> (\<And>a es w'. Q a es w' \<Longrightarrow> R a es w') \<Longrightarrow> runs w m R"
  unfolding runs_def by blast

lemma runs_both: "runs w m P \<Longrightarrow> runs w m Q \<Longrightarrow> runs w m (\<lambda>a es w'. P a es w' \<and> Q a es w')"
  unfolding runs_def by (metis prod.inject same_append_eq)

lemma runs_return: "Q a [] w \<Longrightarrow> runs w (State_Monad.return a) Q"
  by (auto simp: runs_def State_Monad.return_def)

lemma runs_bind:
  assumes "runs w m (\<lambda>a es w'. runs w' (f a) (\<lambda>b ds w''. Q b (es @ ds) w''))"
  shows "runs w (State_Monad.bind m f) Q"
  unfolding runs_def
proof
  fix tr
  from assms obtain a es w' where 1: "run_state m (tr, w) = (a, (tr @ es, w'))"
    and "runs w' (f a) (\<lambda>b ds w''. Q b (es @ ds) w'')"
    unfolding runs_def by metis
  then obtain b ds w'' where "run_state (f a) (tr @ es, w') = (b, ((tr @ es) @ ds, w''))" "Q b (es @ ds) w''"
    unfolding runs_def by metis
  with 1 show "\<exists>b es' w''. run_state (State_Monad.bind m f) (tr, w) = (b, (tr @ es', w'')) \<and> Q b es' w''"
    by (auto simp: State_Monad.bind_def)
qed

lemma runs_perform: "(\<And>r w'. m w = (r, w') \<Longrightarrow> Q r [ev r] w') \<Longrightarrow> runs w (perform m ev) Q"
  by (cases "m w") (auto simp: runs_def perform_def)

lemma runs_attempt:
  assumes "runs w m (\<lambda>r es w'. case r of Inl a \<Rightarrow> Q a es w' | Inr b \<Rightarrow> runs w' (f b) (\<lambda>c ds w''. Q c (es @ ds) w''))"
  shows "runs w (attempt m f) Q"
  unfolding attempt_def
  by (rule runs_bind, rule runs_mono [OF assms]) (auto split: sum.splits intro: runs_return)

section \<open>Handlers do not read the trace\<close>

text \<open>A uniform handler answers and records the same after any trace; every handler is one.\<close>

definition uniform :: "('e, 'w, 'a) traced \<Rightarrow> bool" where
  "uniform m \<longleftrightarrow> (\<forall>tr w. run_state m (tr, w) = (result_of m w, (tr @ events_of m w, world_after m w)))"

lemma uniformI:
  assumes "\<And>w. \<exists>a es w'. \<forall>tr. run_state m (tr, w) = (a, (tr @ es, w'))"
  shows "uniform m"
  unfolding uniform_def
proof (intro allI)
  fix tr w
  obtain a es w' where *: "run_state m (tr, w) = (a, (tr @ es, w'))" for tr
    using assms [of w] by metis
  show "run_state m (tr, w) = (result_of m w, (tr @ events_of m w, world_after m w))"
    using * [of "[]"] * [of tr] by (simp add: result_of_def events_of_def world_after_def)
qed

lemma uniform_runs:
  "uniform m \<Longrightarrow> runs w m (\<lambda>r es w'. r = result_of m w \<and> es = events_of m w \<and> w' = world_after m w)"
  by (auto simp: uniform_def runs_def)

lemma uniform_return: "uniform (State_Monad.return a)"
  by (rule uniformI) (auto simp: State_Monad.return_def)

lemma uniform_perform: "uniform (perform m ev)"
proof (rule uniformI)
  fix w
  show "\<exists>a es w'. \<forall>tr. run_state (perform m ev) (tr, w) = (a, (tr @ es, w'))"
    by (cases "m w") (auto simp: perform_def)
qed

lemma uniform_bind:
  assumes "uniform m" "\<And>a. uniform (f a)"
  shows "uniform (State_Monad.bind m f)"
proof (rule uniformI)
  fix w
  let ?a = "result_of m w" and ?w = "world_after m w"
  have "run_state (State_Monad.bind m f) (tr, w) =
      (result_of (f ?a) ?w, (tr @ (events_of m w @ events_of (f ?a) ?w), world_after (f ?a) ?w))" for tr
    using assms by (simp add: uniform_def State_Monad.bind_def)
  then show "\<exists>a es w'. \<forall>tr. run_state (State_Monad.bind m f) (tr, w) = (a, (tr @ es, w'))" by blast
qed

lemma uniform_attempt: "uniform m \<Longrightarrow> (\<And>a. uniform (f a)) \<Longrightarrow> uniform (attempt m f)"
  unfolding attempt_def by (rule uniform_bind) (auto intro: uniform_return split: sum.split)

lemma uniform_if: "uniform m \<Longrightarrow> uniform n \<Longrightarrow> uniform (if b then m else n)"
  by simp

lemma uniform_case_option: "uniform m \<Longrightarrow> (\<And>a. uniform (f a)) \<Longrightarrow> uniform (case x of None \<Rightarrow> m | Some a \<Rightarrow> f a)"
  by (cases x) auto

lemma uniform_case_sum:
  "(\<And>a. uniform (f a)) \<Longrightarrow> (\<And>b. uniform (g b)) \<Longrightarrow> uniform (case x of Inl a \<Rightarrow> f a | Inr b \<Rightarrow> g b)"
  by (cases x) auto

lemma uniform_case_prod: "(\<And>a b. uniform (f a b)) \<Longrightarrow> uniform (case x of (a, b) \<Rightarrow> f a b)"
  by (cases x) auto

lemma uniform_let: "uniform (f x) \<Longrightarrow> uniform (let y = x in f y)"
  by simp

lemmas uniform_rules = uniform_return uniform_perform uniform_bind uniform_attempt uniform_if uniform_case_option
  uniform_case_sum uniform_case_prod uniform_let

lemma uniform_follows:
  assumes "uniform m" "\<And>e. step p e = Some p"
  shows "follows step p m (\<lambda>a q. q = p)"
proof (rule followsI)
  fix tr w
  have "advance step p es = Some p" for es by (induction es) (simp_all add: assms(2))
  then show "\<exists>a es w' p'. run_state m (tr, w) = (a, tr @ es, w') \<and> advance step p es = Some p' \<and> p' = p"
    using assms(1) unfolding uniform_def by blast
qed

section \<open>All events of a handler\<close>

text \<open>\<open>emits P m\<close>: all events of the handler satisfy \<open>P\<close>.\<close>

definition emits :: "('e \<Rightarrow> bool) \<Rightarrow> ('e, 'w, 'a) traced \<Rightarrow> bool" where
  "emits P m \<longleftrightarrow> follows (\<lambda>p e. if P e then Some () else None) () m (\<lambda>_ _. True)"

lemma emits_events: "emits P m \<Longrightarrow> list_all P (events_of m w)"
proof -
  have "advance (\<lambda>p e. if P e then Some () else None) () es = Some p \<Longrightarrow> list_all P es" for es p
    by (induction es) (auto split: if_splits)
  then show "emits P m \<Longrightarrow> list_all P (events_of m w)"
    unfolding emits_def using follows_run by metis
qed

lemma runs_emits: "emits P m \<Longrightarrow> runs w m Q \<Longrightarrow> (\<And>a es w'. Q a es w' \<Longrightarrow> list_all P es \<Longrightarrow> R a es w') \<Longrightarrow> runs w m R"
proof -
  have all: "advance (\<lambda>p e. if P e then Some () else None) () es = Some p \<Longrightarrow> list_all P es" for es p
    by (induction es) (auto split: if_splits)
  assume P: "emits P m" and Q: "runs w m Q" and R: "\<And>a es w'. Q a es w' \<Longrightarrow> list_all P es \<Longrightarrow> R a es w'"
  show "runs w m R"
    unfolding runs_def
  proof
    fix tr
    from Q obtain a es w' where run: "run_state m (tr, w) = (a, tr @ es, w')" "Q a es w'"
      unfolding runs_def by blast
    moreover from P obtain b ds w'' p' where "run_state m (tr, w) = (b, tr @ ds, w'')"
      "advance (\<lambda>p e. if P e then Some () else None) () ds = Some p'"
      unfolding emits_def follows_def by metis
    ultimately have "list_all P es" using all by auto
    with run R show "\<exists>a es w'. run_state m (tr, w) = (a, tr @ es, w') \<and> R a es w'" by blast
  qed
qed

lemma emits_return: "emits P (State_Monad.return a)"
  by (simp add: emits_def follows_return)

lemma emits_perform: "(\<And>r. P (ev r)) \<Longrightarrow> emits P (perform m ev)"
  unfolding emits_def by (rule follows_call) simp

lemma emits_bind: "emits P m \<Longrightarrow> (\<And>a. emits P (f a)) \<Longrightarrow> emits P (State_Monad.bind m f)"
  unfolding emits_def by (rule follows_then) auto

lemma emits_attempt: "emits P m \<Longrightarrow> (\<And>a. emits P (f a)) \<Longrightarrow> emits P (attempt m f)"
  unfolding attempt_def by (rule emits_bind) (auto intro: emits_return split: sum.split)

lemma emits_if: "emits P m \<Longrightarrow> emits P n \<Longrightarrow> emits P (if b then m else n)"
  by simp

lemma emits_case_option: "emits P m \<Longrightarrow> (\<And>a. emits P (f a)) \<Longrightarrow> emits P (case x of None \<Rightarrow> m | Some a \<Rightarrow> f a)"
  by (cases x) auto

lemma emits_case_sum:
  "(\<And>a. emits P (f a)) \<Longrightarrow> (\<And>b. emits P (g b)) \<Longrightarrow> emits P (case x of Inl a \<Rightarrow> f a | Inr b \<Rightarrow> g b)"
  by (cases x) auto

lemma emits_case_prod: "(\<And>a b. emits P (f a b)) \<Longrightarrow> emits P (case x of (a, b) \<Rightarrow> f a b)"
  by (cases x) auto

lemma emits_let: "emits P (f x) \<Longrightarrow> emits P (let y = x in f y)"
  by simp

lemmas emits_rules = emits_return emits_perform emits_bind emits_attempt emits_if emits_case_option
  emits_case_sum emits_case_prod emits_let

text \<open>The events of calls whose answers are known to satisfy a fact for every world.\<close>

lemma emits_perform_answer: "(\<And>w. P (ev (fst (m w)))) \<Longrightarrow> emits P (perform m ev)"
  unfolding emits_def
proof (rule followsI)
  fix tr w
  assume answer: "\<And>w. P (ev (fst (m w)))"
  obtain r w' where m: "m w = (r, w')" by (cases "m w")
  with answer [of w] show "\<exists>a es w' p'. run_state (perform m ev) (tr, w) = (a, (tr @ es, w')) \<and>
      advance (\<lambda>p e. if P e then Some () else None) () es = Some p' \<and> True"
    by (simp add: perform_def)
qed

section \<open>The result of a handler\<close>

text \<open>\<open>yields m Q\<close>: in every world and whatever is answered, the result satisfies \<open>Q\<close>.\<close>

definition yields :: "('e, 'w, 'a) traced \<Rightarrow> ('a \<Rightarrow> bool) \<Rightarrow> bool" where
  "yields m Q \<longleftrightarrow> (\<forall>w. runs w m (\<lambda>a es w'. Q a))"

lemma yields_result: "yields m Q \<Longrightarrow> Q (result_of m w)"
  unfolding yields_def by (drule spec, drule runs_result) assumption

lemma yields_mono: "yields m Q \<Longrightarrow> (\<And>a. Q a \<Longrightarrow> R a) \<Longrightarrow> yields m R"
  unfolding yields_def by (rule allI, rule runs_mono, erule spec) simp

lemma yields_return: "Q a \<Longrightarrow> yields (State_Monad.return a) Q"
  by (simp add: yields_def runs_return)

lemma yields_bind: "yields m (\<lambda>a. yields (f a) Q) \<Longrightarrow> yields (State_Monad.bind m f) Q"
  unfolding yields_def by (rule allI, rule runs_bind, rule runs_mono, erule spec, erule spec)

lemma yields_uniform: "uniform m \<Longrightarrow> (\<And>a. Q a) \<Longrightarrow> yields m Q"
  unfolding yields_def by (intro allI, rule runs_mono [OF uniform_runs]) auto

lemma yields_case_sum:
  "(\<And>a. x = Inl a \<Longrightarrow> yields (f a) Q) \<Longrightarrow> (\<And>b. x = Inr b \<Longrightarrow> yields (g b) Q) \<Longrightarrow>
     yields (case x of Inl a \<Rightarrow> f a | Inr b \<Rightarrow> g b) Q"
  by (cases x) auto

lemma yields_case_option:
  "(x = None \<Longrightarrow> yields m Q) \<Longrightarrow> (\<And>a. x = Some a \<Longrightarrow> yields (f a) Q) \<Longrightarrow>
     yields (case x of None \<Rightarrow> m | Some a \<Rightarrow> f a) Q"
  by (cases x) auto

lemma yields_if: "(b \<Longrightarrow> yields m Q) \<Longrightarrow> (\<not> b \<Longrightarrow> yields n Q) \<Longrightarrow> yields (if b then m else n) Q"
  by simp

lemmas yields_rules = yields_return yields_bind yields_if yields_case_option yields_case_sum

lemma follows_yields:
  assumes "follows step p m Q" "yields m R"
  shows "follows step p m (\<lambda>a q. Q a q \<and> R a)"
proof (rule followsI)
  fix tr w
  from assms(1) obtain a es w' q where run: "run_state m (tr, w) = (a, (tr @ es, w'))" "advance step p es = Some q" "Q a q"
    unfolding follows_def by metis
  from assms(2) obtain b ds w'' where "run_state m (tr, w) = (b, (tr @ ds, w''))" "R b"
    unfolding yields_def runs_def by metis
  with run show "\<exists>a es w' p'. run_state m (tr, w) = (a, (tr @ es, w')) \<and> advance step p es = Some p' \<and> Q a p' \<and> R a"
    by (metis prod.inject)
qed

lemma emits_bind_yields:
  assumes "emits P m" "yields m R" "\<And>a. R a \<Longrightarrow> emits P (f a)"
  shows "emits P (State_Monad.bind m f)"
  using follows_yields [OF assms(1) [unfolded emits_def] assms(2)] assms(3)
  unfolding emits_def by (auto intro: follows_then)

section \<open>Calls that leave a part of the world alone\<close>

definition leaves :: "('w \<Rightarrow> 's) \<Rightarrow> ('e, 'w, 'a) traced \<Rightarrow> bool" where
  "leaves part m \<longleftrightarrow> (\<forall>w. runs w m (\<lambda>r es w'. part w' = part w))"

lemma leavesD: "leaves part m \<Longrightarrow> runs w m (\<lambda>r es w'. part w' = part w)"
  by (simp add: leaves_def)

lemma leaves_return: "leaves part (State_Monad.return a)"
  by (auto simp: leaves_def intro: runs_return)

lemma leaves_perform: "(\<And>w. part (snd (m w)) = part w) \<Longrightarrow> leaves part (perform m ev)"
  unfolding leaves_def by (intro allI runs_perform) (metis snd_conv)

lemma leaves_bind:
  assumes "leaves part m" "\<And>a. leaves part (f a)"
  shows "leaves part (State_Monad.bind m f)"
  unfolding leaves_def
proof (intro allI runs_bind, rule runs_mono [OF leavesD [OF assms(1)]])
  fix w a es w'
  assume "part w' = part w"
  then show "runs w' (f a) (\<lambda>b ds w''. part w'' = part w)"
    using leavesD [OF assms(2), of w' a] by simp
qed

lemma leaves_attempt: "leaves part m \<Longrightarrow> (\<And>a. leaves part (f a)) \<Longrightarrow> leaves part (attempt m f)"
  unfolding attempt_def by (rule leaves_bind) (auto intro: leaves_return split: sum.split)

lemma leaves_if: "leaves part m \<Longrightarrow> leaves part n \<Longrightarrow> leaves part (if b then m else n)"
  by simp

lemma leaves_case_option:
  "leaves part m \<Longrightarrow> (\<And>a. leaves part (f a)) \<Longrightarrow> leaves part (case x of None \<Rightarrow> m | Some a \<Rightarrow> f a)"
  by (cases x) auto

lemma leaves_case_sum:
  "(\<And>a. leaves part (f a)) \<Longrightarrow> (\<And>b. leaves part (g b)) \<Longrightarrow>
     leaves part (case x of Inl a \<Rightarrow> f a | Inr b \<Rightarrow> g b)"
  by (cases x) auto

lemma leaves_case_prod: "(\<And>a b. leaves part (f a b)) \<Longrightarrow> leaves part (case x of (a, b) \<Rightarrow> f a b)"
  by (cases x) auto

lemma leaves_let: "leaves part (f x) \<Longrightarrow> leaves part (let y = x in f y)"
  by simp

lemmas leaves_rules = leaves_return leaves_bind leaves_attempt leaves_if leaves_case_option
  leaves_case_sum leaves_case_prod leaves_let

end
