(* ===== verification/Server_Config.thy ===== *)
theory Server_Config
  imports Validation Idempotency Memory_Store Signing Audit_Log Billing File_Store Trace_Monad
begin

text \<open>
  The boundary of the protocol engine (pkg/server/service.go and the interfaces of
  pkg/server/server.go, auth.go, authorization.go, store.go, idempotency.go, files.go and
  pkg/billing/billing.go). A Go interface is a record of operations on a world \<open>'w\<close>; an
  implementation behind it, even one that misbehaves, is a value of the record. Every call the
  engine makes is a function here that runs the operation and records an \<open>event\<close> with the
  arguments and the answer. The functions of the standard library that the engine only passes
  bytes through (encoding/json, mime, net/url) are the record \<open>Library\<close>. The logger has no
  effect on the protocol and is left out.
\<close>

section \<open>The service's answers\<close>

record CapabilityOffer =
  co_Supported :: bool
  co_Conditional :: bool
  co_ReasonCode :: string
  co_Reason :: string
  co_ResolvedIntent :: string
  co_Parameters :: "ParameterDefinition list"
  co_RequiredScopes :: "string list"
  co_BillingOptions :: "BillingOption list"
  co_InputFilePolicy :: FilePolicy
  co_EstimatedPrice :: "PriceEstimate option"
  co_SchemaVersion :: string
  co_ExpiresAt :: time

record DirectPlan =
  dp_Eligible :: bool
  dp_ReasonCode :: string
  dp_Reason :: string
  dp_ResolvedIntent :: string
  dp_NormalizedTask :: json_map
  dp_RequiredScopes :: "string list"
  dp_AuthorizationRequired :: bool
  dp_BillingTerms :: BillingTerms
  dp_Price :: Money
  dp_PriceCeiling :: Money
  dp_PriceBreakdown :: "PriceComponent list"
  dp_Effects :: "Effect list"
  dp_Permissions :: "PermissionUse list"
  dp_DataUse :: DataUse
  dp_RiskClass :: string
  dp_IdempotencyRequired :: bool
  dp_SLA :: ServiceLevel

record DirectExecutionResult =
  dx_Result :: json_map
  dx_Artifacts :: "ArtifactRef list"
  dx_FinalPrice :: "Money option"
  dx_FinalPriceBreakdown :: "PriceComponent list"

record PreparedContract =
  pp_NormalizedTask :: json_map
  pp_Price :: Money
  pp_PriceCeiling :: Money
  pp_PriceBreakdown :: "PriceComponent list"
  pp_BillingTerms :: BillingTerms
  pp_Effects :: "Effect list"
  pp_Permissions :: "PermissionUse list"
  pp_DataUse :: DataUse
  pp_RiskClass :: string
  pp_Confirmation :: ConfirmationRequirement
  pp_SLA :: ServiceLevel
  pp_ExpiresAt :: time
  pp_RevocableUntil :: "time option"

record ExecutionResult =
  xr_Artifacts :: "ArtifactRef list"
  xr_Metadata :: json_map
  xr_FinalPrice :: "Money option"
  xr_FinalPriceBreakdown :: "PriceComponent list"

section \<open>HTTP\<close>

text \<open>
  Header names are kept in their canonical form, as \<open>http.Header\<close> keeps them. The body is
  what reading it to its end gives; net/http never hands a handler a request without one.
\<close>

type_synonym headers = "string \<rightharpoonup> string list"

record http_request =
  rq_Method :: string
  rq_Path :: string
  rq_Query :: "string \<Rightarrow> string"
  rq_Headers :: headers
  rq_ContentLength :: int
  rq_Body :: "string result"

record http_response =
  rs_Status :: int
  rs_Headers :: headers
  rs_Body :: string

text \<open>A value the engine hands to encoding/json.\<close>

datatype audit_value =
    VText string | VBool bool | VInt int | VMoney Money | VOptMoney "Money option"
  | VTime time | VMode BillingMode

type_synonym audit_data = "(string \<times> audit_value) list"

datatype body_value =
    BProblem Problem
  | BManifest Manifest
  | BJWKS "JWK list"
  | BHealth string string time
  | BCatalog CapabilityCatalog
  | BOptions OptionsResponse
  | BNegotiation NegotiationResponse
  | BQuote Quote
  | BReceipt Receipt
  | BInvocationReceipt InvocationReceipt
  | BCommit CommitResponse
  | BTask Task
  | BDirect DirectInvocationResponse
  | BTicket FileUploadTicket
  | BFileRef FileRef
  | BAuditEvent AuditEvent
  | BChain string string "AuditEvent list" string

text \<open>
  A strict decoder answers what \<open>Decode\<close> with \<open>DisallowUnknownFields\<close> returns for the
  first value, and whether decoding another value ends at the end of the input.
\<close>

type_synonym 'a strict_decoder = "string \<Rightarrow> 'a result \<times> bool"

record Library =
  js_Marshal :: "body_value \<Rightarrow> string result"
  js_Encode :: "body_value \<Rightarrow> string"
  js_Object :: "string \<Rightarrow> raw_object option result"
  js_Negotiation :: "NegotiationRequest strict_decoder"
  js_Prepare :: "PrepareRequest strict_decoder"
  js_Commit :: "CommitRequest strict_decoder"
  js_Cancel :: "CancelRequest strict_decoder"
  js_Options :: "OptionsRequest strict_decoder"
  js_Direct :: "DirectInvocationRequest strict_decoder"
  js_Upload :: "FileUploadRequest strict_decoder"
  lib_ParseMediaType :: "string \<Rightarrow> string result"
  lib_ParseURL :: url_parser
  lib_ErrText :: "error \<Rightarrow> string"

section \<open>Interfaces\<close>

type_synonym ('w, 'a) op = "'w \<Rightarrow> 'a \<times> 'w"

record 'w Service =
  svc_Capabilities :: "Identity \<Rightarrow> CapabilityQuery \<Rightarrow> ('w, Problem + CapabilityCatalog) op"
  svc_Options :: "Identity \<Rightarrow> OptionsRequest \<Rightarrow> ('w, Problem + OptionsResponse) op"
  svc_PlanDirect :: "Identity \<Rightarrow> DirectInvocationRequest \<Rightarrow> ('w, Problem + DirectPlan) op"
  svc_ExecuteDirect :: "Identity \<Rightarrow> string \<Rightarrow> DirectInvocationRequest \<Rightarrow> DirectPlan \<Rightarrow>
    ('w, Problem + DirectExecutionResult) op"
  svc_Negotiate :: "Identity \<Rightarrow> NegotiationRequest \<Rightarrow> ('w, Problem + CapabilityOffer) op"
  svc_Prepare :: "Identity \<Rightarrow> StoredOffer \<Rightarrow> PrepareRequest \<Rightarrow> ('w, Problem + PreparedContract) op"
  svc_Execute :: "Identity \<Rightarrow> Task \<Rightarrow> Quote \<Rightarrow> ('w, Problem + ExecutionResult) op"
  svc_Cancel :: "Identity \<Rightarrow> Task \<Rightarrow> CancelRequest \<Rightarrow> ('w, Problem option) op"

record 'w Store =
  db_PutInvocation :: "InvocationRecord \<Rightarrow> ('w, error option) op"
  db_GetInvocation :: "string \<Rightarrow> ('w, InvocationRecord option result) op"
  db_PutOffer :: "StoredOffer \<Rightarrow> ('w, error option) op"
  db_GetOffer :: "string \<Rightarrow> ('w, StoredOffer option result) op"
  db_PutQuote :: "Quote \<Rightarrow> ('w, error option) op"
  db_GetQuote :: "string \<Rightarrow> ('w, Quote option result) op"
  db_PutTask :: "Task \<Rightarrow> ('w, error option) op"
  db_GetTask :: "string \<Rightarrow> ('w, Task option result) op"
  db_UpdateTask :: "string \<Rightarrow> (Task \<Rightarrow> Task result) \<Rightarrow> ('w, Task \<times> error option) op"

record 'w IdempotencyBackend =
  idem_Begin :: "string \<Rightarrow> string \<Rightarrow> string \<Rightarrow> duration \<Rightarrow> ('w, (IdempotencyResult \<times> StoredResponse) result) op"
  idem_Complete :: "string \<Rightarrow> string \<Rightarrow> StoredResponse \<Rightarrow> ('w, error option) op"
  idem_Release :: "string \<Rightarrow> string \<Rightarrow> string \<Rightarrow> ('w, error option) op"

record 'w AuditStore =
  aud_Append :: "string \<Rightarrow> string \<Rightarrow> EntityRef \<Rightarrow> audit_data \<Rightarrow> ('w, AuditEvent result) op"
  aud_List :: "string \<Rightarrow> int \<Rightarrow> ('w, AuditEvent list result) op"
  aud_Root :: "string \<Rightarrow> ('w, string result) op"

record 'w Processor =
  bill_Reserve :: "string \<Rightarrow> string \<Rightarrow> string \<Rightarrow> BillingTerms \<Rightarrow> BillingAuthorization option \<Rightarrow> Money \<Rightarrow> string \<Rightarrow>
    ('w, billing_error + Reservation) op"
  bill_Settle :: "string \<Rightarrow> Money \<Rightarrow> string \<Rightarrow> ('w, billing_error + Settlement) op"
  bill_Release :: "string \<Rightarrow> string \<Rightarrow> ('w, billing_error option) op"

record 'w FileStore =
  fs_Prepare :: "Identity \<Rightarrow> FileUploadRequest \<Rightarrow> string \<Rightarrow> time \<Rightarrow> ('w, Problem + FileUploadTicket) op"
  fs_Upload :: "Identity \<Rightarrow> string \<Rightarrow> string \<Rightarrow> string \<Rightarrow> string \<Rightarrow> time \<Rightarrow> ('w, Problem + FileRef) op"
  fs_Get :: "Identity \<Rightarrow> string \<Rightarrow> time \<Rightarrow> ('w, Problem + FileRef) op"
  fs_Content :: "Identity \<Rightarrow> string \<Rightarrow> time \<Rightarrow> ('w, Problem + FileRef \<times> string) op"
  fs_Validate :: "Identity \<Rightarrow> FileRef list \<Rightarrow> time \<Rightarrow> ('w, Problem option) op"

record 'w ContractSigner =
  sig_SignJSON :: "raw_object \<Rightarrow> ('w, Signature result) op"
  sig_JWKS :: "('w, JWK list) op"

text \<open>
  The configuration. \<open>cfg_Random\<close> is the random source that \<open>ascp.NewID\<close> reads 18 bytes
  from.
\<close>

record 'w Config =
  cfg_Manifest :: Manifest
  cfg_Authenticator :: "http_request \<Rightarrow> ('w, Identity result) op"
  cfg_Authorization :: "Identity \<Rightarrow> Quote \<Rightarrow> AuthorizationEvidence \<Rightarrow> ('w, Problem option) op"
  cfg_Service :: "'w Service"
  cfg_Store :: "'w Store"
  cfg_Idempotency :: "'w IdempotencyBackend"
  cfg_Audit :: "'w AuditStore"
  cfg_Billing :: "'w Processor"
  cfg_Files :: "'w FileStore"
  cfg_Signer :: "'w ContractSigner"
  cfg_IdempotencyRetention :: duration
  cfg_MaximumBodyBytes :: int
  cfg_Now :: "('w, time) op"
  cfg_Random :: "('w, string) op"
  cfg_Library :: Library

section \<open>Events\<close>

datatype (plugins only: code) event =
    EvNow time
  | EvRandom string
  | EvAuthenticate http_request "Identity result"
  | EvVerify Identity Quote AuthorizationEvidence "Problem option"
  | EvService
  | EvPlanDirect DirectInvocationRequest "Problem + DirectPlan"
  | EvExecuteDirect string DirectInvocationRequest DirectPlan "Problem + DirectExecutionResult"
  | EvNegotiate NegotiationRequest "Problem + CapabilityOffer"
  | EvPrepare StoredOffer PrepareRequest "Problem + PreparedContract"
  | EvExecute Task Quote "Problem + ExecutionResult"
  | EvCancel Task CancelRequest "Problem option"
  | EvPutInvocation InvocationRecord "error option"
  | EvGetInvocation string "InvocationRecord option result"
  | EvPutOffer StoredOffer "error option"
  | EvGetOffer string "StoredOffer option result"
  | EvPutQuote Quote "error option"
  | EvGetQuote string "Quote option result"
  | EvPutTask Task "error option"
  | EvGetTask string "Task option result"
  | EvUpdateTask string "Task \<Rightarrow> Task result" "Task \<times> error option"
  | EvBegin string string string "(IdempotencyResult \<times> StoredResponse) result"
  | EvComplete string string StoredResponse "error option"
  | EvUnclaim string string string "error option"
  | EvAudit string string audit_data "AuditEvent result"
  | EvAuditList string int "AuditEvent list result"
  | EvAuditRoot string "string result"
  | EvReserve string string string BillingTerms "BillingAuthorization option" Money string
      "billing_error + Reservation"
  | EvSettle string Money string "billing_error + Settlement"
  | EvRelease string string "billing_error option"
  | EvFilePrepare "Problem + FileUploadTicket"
  | EvFileUpload string string "Problem + FileRef"
  | EvFileGet string "Problem + FileRef"
  | EvFileContent string "Problem + FileRef \<times> string"
  | EvFileValidate "FileRef list" "Problem option"
  | EvSign raw_object "Signature result"
  | EvKeys "JWK list"

type_synonym ('w, 'a) server = "(event, 'w, 'a) traced"

section \<open>Calls\<close>

definition Now :: "'w Config \<Rightarrow> ('w, time) server" where
  "Now cfg = perform (cfg_Now cfg) EvNow"

definition new_id :: "'w Config \<Rightarrow> string \<Rightarrow> ('w, string) server" where
  "new_id cfg prefix = do { raw \<leftarrow> perform (cfg_Random cfg) EvRandom; State_Monad.return (MustNewID raw prefix) }"

definition Authenticate :: "'w Config \<Rightarrow> http_request \<Rightarrow> ('w, Identity result) server" where
  "Authenticate cfg request = perform (cfg_Authenticator cfg request) (EvAuthenticate request)"

definition VerifyAuthorization ::
  "'w Config \<Rightarrow> Identity \<Rightarrow> Quote \<Rightarrow> AuthorizationEvidence \<Rightarrow> ('w, Problem option) server" where
  "VerifyAuthorization cfg identity quote evidence =
     perform (cfg_Authorization cfg identity quote evidence) (EvVerify identity quote evidence)"

definition service_capabilities where
  "service_capabilities cfg identity query =
     perform (svc_Capabilities (cfg_Service cfg) identity query) (\<lambda>_. EvService)"

definition service_options where
  "service_options cfg identity input =
     perform (svc_Options (cfg_Service cfg) identity input) (\<lambda>_. EvService)"

definition service_plan_direct where
  "service_plan_direct cfg identity input =
     perform (svc_PlanDirect (cfg_Service cfg) identity input) (EvPlanDirect input)"

definition service_execute_direct where
  "service_execute_direct cfg identity invocationID input plan =
     perform (svc_ExecuteDirect (cfg_Service cfg) identity invocationID input plan)
       (EvExecuteDirect invocationID input plan)"

definition service_negotiate where
  "service_negotiate cfg identity input =
     perform (svc_Negotiate (cfg_Service cfg) identity input) (EvNegotiate input)"

definition service_prepare where
  "service_prepare cfg identity offer input =
     perform (svc_Prepare (cfg_Service cfg) identity offer input) (EvPrepare offer input)"

definition service_execute where
  "service_execute cfg identity task quote =
     perform (svc_Execute (cfg_Service cfg) identity task quote) (EvExecute task quote)"

definition service_cancel where
  "service_cancel cfg identity task input =
     perform (svc_Cancel (cfg_Service cfg) identity task input) (EvCancel task input)"

definition store_put_invocation where
  "store_put_invocation cfg record = perform (db_PutInvocation (cfg_Store cfg) record) (EvPutInvocation record)"

definition store_get_invocation where
  "store_get_invocation cfg i = perform (db_GetInvocation (cfg_Store cfg) i) (EvGetInvocation i)"

definition store_put_offer where
  "store_put_offer cfg offer = perform (db_PutOffer (cfg_Store cfg) offer) (EvPutOffer offer)"

definition store_get_offer where
  "store_get_offer cfg i = perform (db_GetOffer (cfg_Store cfg) i) (EvGetOffer i)"

definition store_put_quote where
  "store_put_quote cfg quote = perform (db_PutQuote (cfg_Store cfg) quote) (EvPutQuote quote)"

definition store_get_quote where
  "store_get_quote cfg i = perform (db_GetQuote (cfg_Store cfg) i) (EvGetQuote i)"

definition store_put_task where
  "store_put_task cfg task = perform (db_PutTask (cfg_Store cfg) task) (EvPutTask task)"

definition store_get_task where
  "store_get_task cfg i = perform (db_GetTask (cfg_Store cfg) i) (EvGetTask i)"

definition store_update_task where
  "store_update_task cfg i update =
     perform (db_UpdateTask (cfg_Store cfg) i update) (EvUpdateTask i update)"

definition idempotency_begin where
  "idempotency_begin cfg scope key digest =
     perform (idem_Begin (cfg_Idempotency cfg) scope key digest (cfg_IdempotencyRetention cfg))
       (EvBegin scope key digest)"

definition idempotency_complete where
  "idempotency_complete cfg scope key response =
     perform (idem_Complete (cfg_Idempotency cfg) scope key response) (EvComplete scope key response)"

definition idempotency_release where
  "idempotency_release cfg scope key digest =
     perform (idem_Release (cfg_Idempotency cfg) scope key digest) (EvUnclaim scope key digest)"

definition audit_append where
  "audit_append cfg chainID eventType actor data =
     perform (aud_Append (cfg_Audit cfg) chainID eventType actor data) (EvAudit chainID eventType data)"

definition audit_list where
  "audit_list cfg chainID after = perform (aud_List (cfg_Audit cfg) chainID after) (EvAuditList chainID after)"

definition audit_root where
  "audit_root cfg chainID = perform (aud_Root (cfg_Audit cfg) chainID) (EvAuditRoot chainID)"

definition billing_reserve where
  "billing_reserve cfg serviceID contractID bindingDigest terms authorization amount key =
     perform (bill_Reserve (cfg_Billing cfg) serviceID contractID bindingDigest terms authorization amount key)
       (EvReserve serviceID contractID bindingDigest terms authorization amount key)"

definition billing_settle where
  "billing_settle cfg ref amount key = perform (bill_Settle (cfg_Billing cfg) ref amount key) (EvSettle ref amount key)"

definition billing_release where
  "billing_release cfg ref key = perform (bill_Release (cfg_Billing cfg) ref key) (EvRelease ref key)"

definition files_prepare where
  "files_prepare cfg identity input baseURL now =
     perform (fs_Prepare (cfg_Files cfg) identity input baseURL now) EvFilePrepare"

definition files_upload where
  "files_upload cfg identity fileID token mediaType content now =
     perform (fs_Upload (cfg_Files cfg) identity fileID token mediaType content now) (EvFileUpload fileID content)"

definition files_get where
  "files_get cfg identity fileID now = perform (fs_Get (cfg_Files cfg) identity fileID now) (EvFileGet fileID)"

definition files_content where
  "files_content cfg identity fileID now =
     perform (fs_Content (cfg_Files cfg) identity fileID now) (EvFileContent fileID)"

definition files_validate where
  "files_validate cfg identity refs now =
     perform (fs_Validate (cfg_Files cfg) identity refs now) (EvFileValidate refs)"

definition sign_json where
  "sign_json cfg object = perform (sig_SignJSON (cfg_Signer cfg) object) (EvSign object)"

definition signer_keys where
  "signer_keys cfg = perform (sig_JWKS (cfg_Signer cfg)) EvKeys"

lemmas call_defs =
  Now_def new_id_def Authenticate_def VerifyAuthorization_def service_capabilities_def
  service_options_def service_plan_direct_def service_execute_direct_def service_negotiate_def
  service_prepare_def service_execute_def service_cancel_def store_put_invocation_def
  store_get_invocation_def store_put_offer_def store_get_offer_def store_put_quote_def
  store_get_quote_def store_put_task_def store_get_task_def store_update_task_def
  idempotency_begin_def idempotency_complete_def idempotency_release_def audit_append_def
  audit_list_def audit_root_def billing_reserve_def billing_settle_def billing_release_def
  files_prepare_def files_upload_def files_get_def files_content_def files_validate_def
  sign_json_def signer_keys_def

end
