(* ===== verification/Contract_Rules.thy ===== *)
theory Contract_Rules
  imports Server_Config
begin

text \<open>
  The pure rules of the protocol engine (pkg/server/server.go, direct.go, authorization.go):
  what a prepared contract, a direct plan, a price estimate, an approval, a billing mandate and
  a final charge must satisfy, and how a billing error becomes a problem document. Each
  validator comes with a declarative predicate and the lemma that it decides it.
\<close>

section \<open>Definitions\<close>

definition validIdempotencyKey :: "string \<Rightarrow> bool" where
  "validIdempotencyKey key \<longleftrightarrow>
     \<not> (length key < 16 \<or> length key > 255) \<and> list_all (\<lambda>c. \<not> (ord c < 0x21 \<or> ord c > 0x7e)) key"

definition validatePriceEstimate :: "PriceEstimate \<Rightarrow> error option" where
  "validatePriceEstimate estimate = first_error
     [wrap_error ''minimum: %w'' (ValidateMoney (pe_Minimum estimate)),
      wrap_error ''maximum: %w'' (ValidateMoney (pe_Maximum estimate)),
      (case CompareMoney (pe_Minimum estimate) (pe_Maximum estimate) of
         Inl err \<Rightarrow> Some err
       | Inr comparison \<Rightarrow>
           fail_if (0 < comparison) (New_error ''estimated minimum exceeds maximum''))]"

definition validateContextRef_at :: "ContextRef \<Rightarrow> time \<Rightarrow> error option" where
  "validateContextRef_at ref now = first_error
     [fail_if (blank (cr_URI ref)) (New_error ''uri is required''),
      fail_if (4096 < length (cr_URI ref)) (New_error ''uri exceeds 4096 bytes''),
      fail_if (cr_Size ref < 0) (New_error ''size must not be negative''),
      fail_if (\<not> IsZero (cr_ExpiresAt ref) \<and> \<not> After (cr_ExpiresAt ref) now)
        (New_error ''reference is already expired''),
      fail_if (ContainsAny (cr_Digest ref) [CHR 0x0D, CHR 0x0A, CHR 0x09, CHR '' ''])
        (New_error ''digest must not contain whitespace'')]"

text \<open>The loop over the price breakdown of a prepared contract.\<close>

definition contract_breakdown :: "PriceComponent list \<Rightarrow> Money \<Rightarrow> error option" where
  "contract_breakdown components price =
     (if components = [] then None
      else case sum_components AddMoney
                  (\<lambda>index. Errorf ''price component %d has no type'' [AInt index])
                  (\<lambda>index err. Errorf ''price component %d: %w'' [AInt index, AErr err])
                  0 \<lparr>m_Currency = m_Currency price, m_Amount = ''0''\<rparr> components of
          Inl err \<Rightarrow> Some err
        | Inr sum0 \<Rightarrow>
            fail_if (CompareMoney sum0 price \<noteq> Inr 0)
              (New_error ''price breakdown does not sum to price''))"

definition validatePreparedContract :: "PreparedContract \<Rightarrow> error option" where
  "validatePreparedContract c = first_error
     [fail_if (pp_NormalizedTask c = []) (New_error ''normalized task is empty''),
      fail_if (pp_Effects c = []) (New_error ''at least one explicit effect is required''),
      range_check (\<lambda>index e. fail_if (blank (ef_Type e) \<or> blank (ef_Summary e))
        (Errorf ''effect %d requires type and summary'' [AInt index])) 0 (pp_Effects c),
      fail_if (blank (pp_RiskClass c)) (New_error ''risk class is required''),
      fail_if (cf_Required (pp_Confirmation c) \<and> blank (cf_Mode (pp_Confirmation c)))
        (New_error ''confirmation mode is required when confirmation is required''),
      fail_if (du_RetentionSeconds (pp_DataUse c) < 0) (New_error ''data retention cannot be negative''),
      fail_if (sl_ExpectedCompletionSeconds (pp_SLA c) < 0 \<or> sl_MaximumCompletionSeconds (pp_SLA c) < 0)
        (New_error ''SLA durations cannot be negative''),
      fail_if (0 < sl_MaximumCompletionSeconds (pp_SLA c) \<and>
          sl_MaximumCompletionSeconds (pp_SLA c) < sl_ExpectedCompletionSeconds (pp_SLA c))
        (New_error ''expected completion exceeds maximum completion''),
      (case pp_RevocableUntil c of None \<Rightarrow> None
       | Some t \<Rightarrow> fail_if (After t (pp_ExpiresAt c)) (New_error ''revocable_until exceeds quote expiry'')),
      wrap_error ''price: %w'' (ValidateMoney (pp_Price c)),
      wrap_error ''price ceiling: %w'' (ValidateMoney (pp_PriceCeiling c)),
      (case CompareMoney (pp_PriceCeiling c) (pp_Price c) of
         Inl err \<Rightarrow> Some err
       | Inr comparison \<Rightarrow> first_error
           [fail_if (comparison < 0) (New_error ''price ceiling is below price''),
            fail_if (\<not> bt_VariablePriceAllowed (pp_BillingTerms c) \<and> comparison \<noteq> 0)
              (New_error ''a non-variable quote must have equal price and price ceiling'')]),
      wrap_error ''billing terms: %w'' (ValidateBillingTerms (pp_BillingTerms c) (pp_Price c)),
      contract_breakdown (pp_PriceBreakdown c) (pp_Price c)]"

definition validateDirectPlan :: "DirectPlan \<Rightarrow> error option" where
  "validateDirectPlan plan = first_error
     [fail_if (blank (dp_ResolvedIntent plan)) (New_error ''resolved intent is required''),
      fail_if (dp_NormalizedTask plan = []) (New_error ''normalized task is required''),
      fail_if (dp_Effects plan = [])
        (New_error ''at least one explicit effect or data-access description is required''),
      fail_if (blank (dp_RiskClass plan)) (New_error ''risk class is required''),
      wrap_error ''price: %w'' (ValidateMoney (dp_Price plan)),
      wrap_error ''price ceiling: %w'' (ValidateMoney (dp_PriceCeiling plan)),
      (case CompareMoney (dp_PriceCeiling plan) (dp_Price plan) of
         Inl err \<Rightarrow> Some (New_error ''price ceiling is below price'')
       | Inr comparison \<Rightarrow> first_error
           [fail_if (comparison < 0) (New_error ''price ceiling is below price''),
            fail_if (\<not> bt_VariablePriceAllowed (dp_BillingTerms plan) \<and> comparison \<noteq> 0)
              (New_error ''fixed direct price and ceiling differ'')]),
      ValidateBillingTerms (dp_BillingTerms plan) (dp_Price plan)]"

subsection \<open>The final charge\<close>

text \<open>The price the execution reports, or the quoted one.\<close>

definition reported_price :: "Quote \<Rightarrow> ExecutionResult \<Rightarrow> Money" where
  "reported_price quote result = (case xr_FinalPrice result of None \<Rightarrow> q_Price quote | Some price \<Rightarrow> price)"

definition resolveFinalCharge :: "Quote \<Rightarrow> ExecutionResult \<Rightarrow> (Money \<times> PriceComponent list) result" where
  "resolveFinalCharge quote result =
     (if bt_VariablePriceAllowed (q_BillingTerms quote) \<and> xr_FinalPrice result = None
      then Inl (New_error ''variable-price execution did not report a final price'')
      else let actual = reported_price quote result in
        case ValidateMoney actual of
          Some err \<Rightarrow> Inl (Errorf ''final price: %w'' [AErr err])
        | None \<Rightarrow>
          (case CompareMoney (q_PriceCeiling quote) actual of
             Inl err \<Rightarrow> Inl (Errorf ''compare final price with ceiling: %w'' [AErr err])
           | Inr ceilingComparison \<Rightarrow>
             if ceilingComparison < 0 then Inl (New_error ''final price exceeds signed ceiling'')
             else (case CompareMoney (q_Price quote) actual of
                Inl err \<Rightarrow> Inl (Errorf ''compare final and quoted price: %w'' [AErr err])
              | Inr quotedComparison \<Rightarrow>
                if \<not> bt_VariablePriceAllowed (q_BillingTerms quote) \<and> quotedComparison \<noteq> 0
                then Inl (New_error ''fixed-price execution changed the signed price'')
                else if xr_FinalPriceBreakdown result = []
                then Inr (actual, if quotedComparison = 0 then q_PriceBreakdown quote else [])
                else (case sum_components AddMoney
                         (\<lambda>index. Errorf ''final price component %d has no type'' [AInt index])
                         (\<lambda>index err. Errorf ''final price component %d: %w'' [AInt index, AErr err])
                         0 \<lparr>m_Currency = m_Currency actual, m_Amount = ''0''\<rparr> (xr_FinalPriceBreakdown result) of
                   Inl err \<Rightarrow> Inl err
                 | Inr sum0 \<Rightarrow>
                     if CompareMoney sum0 actual \<noteq> Inr 0
                     then Inl (New_error ''final price breakdown does not sum to final price'')
                     else Inr (actual, xr_FinalPriceBreakdown result)))))"

text \<open>The quote literal of \<open>resolveDirectPrice\<close>: every field it does not set is zero.\<close>

definition zero_Quote :: Quote where
  "zero_Quote =
     \<lparr>q_ProtocolVersion = [], q_ServiceID = [], q_QuoteID = [], q_OfferID = [], q_Intent = [],
      q_Principal = zero_EntityRef, q_Actor = zero_EntityRef, q_NormalizedTask = [], q_ContextRefs = [],
      q_InputFiles = [], q_Callback = None, q_Price = zero_Money, q_PriceCeiling = zero_Money,
      q_PriceBreakdown = [], q_BillingTerms = zero_BillingTerms, q_Effects = [], q_Permissions = [],
      q_DataUse = \<lparr>du_Categories = [], du_Purposes = [], du_RetentionSeconds = 0,
        du_TrainingAllowed = False, du_ThirdPartySharing = False, du_Region = []\<rparr>,
      q_RiskClass = [], q_Confirmation = \<lparr>cf_Required = False, cf_Mode = [], cf_Text = []\<rparr>,
      q_SLA = \<lparr>sl_ExpectedCompletionSeconds = 0, sl_MaximumCompletionSeconds = 0, sl_AvailabilityBasisPoints = 0\<rparr>,
      q_Execution = \<lparr>ep_NotBefore = None, ep_Deadline = None, ep_MaxPrice = None, ep_AllowPartial = False,
        ep_RequireHumanReview = False, ep_MaximumInlineBytes = 0, ep_PreferArtifactRefs = False\<rparr>,
      q_IssuedAt = 0, q_ExpiresAt = 0, q_RevocableUntil = None, q_Signature = zero_Signature\<rparr>"

definition plan_quote :: "DirectPlan \<Rightarrow> Quote" where
  "plan_quote plan = zero_Quote\<lparr>q_Price := dp_Price plan, q_PriceCeiling := dp_PriceCeiling plan,
     q_PriceBreakdown := dp_PriceBreakdown plan, q_BillingTerms := dp_BillingTerms plan\<rparr>"

definition resolveDirectPrice :: "DirectPlan \<Rightarrow> DirectExecutionResult \<Rightarrow> (Money \<times> PriceComponent list) result" where
  "resolveDirectPrice plan result = resolveFinalCharge (plan_quote plan)
     \<lparr>xr_Artifacts = [], xr_Metadata = [], xr_FinalPrice = dx_FinalPrice result,
      xr_FinalPriceBreakdown = dx_FinalPriceBreakdown result\<rparr>"


subsection \<open>Approvals and mandates\<close>

definition evidence_incomplete :: "AuthorizationEvidence \<Rightarrow> bool" where
  "evidence_incomplete a \<longleftrightarrow> ae_Type a = [] \<or> ae_Reference a = [] \<or> ae_PrincipalID a = [] \<or>
     ae_Audience a = [] \<or> ae_BindingDigest a = [] \<or> IsZero (ae_ApprovedAt a) \<or> IsZero (ae_ExpiresAt a)"

definition validateAuthorization ::
  "AuthorizationEvidence \<Rightarrow> Quote \<Rightarrow> Identity \<Rightarrow> time \<Rightarrow> Problem option" where
  "validateAuthorization a quote identity now =
     (if evidence_incomplete a
      then Some (problem StatusForbidden ErrAuthorizationRequired ''Complete authorization evidence required''
        ''Authorization type, reference, principal, audience, quote digest, approval time, and expiry are required.'' False)
      else if ae_PrincipalID a \<noteq> er_ID (id_Principal identity) \<or> ae_Audience a \<noteq> q_ServiceID quote \<or>
              ae_BindingDigest a \<noteq> sg_PayloadDigest (q_Signature quote)
      then Some (problem StatusForbidden ErrAuthorizationInvalid ''Authorization is not bound to this quote''
        ''Principal, service audience, or quote digest mismatch.'' False)
      else if \<not> After (ae_ExpiresAt a) (ae_ApprovedAt a) \<or> \<not> After (ae_ExpiresAt a) now \<or>
              After (ae_ApprovedAt a) (now + 5 * Minute) \<or>
              Before (ae_ApprovedAt a) (q_IssuedAt quote + - 5 * Minute)
      then Some (problem StatusForbidden ErrAuthorizationInvalid ''Authorization timing is invalid''
        ''The approval must be contemporaneous with the signed quote, must not be future-dated, and must expire after approval and after the current time.'' False)
      else None)"

definition validateDirectAuthorization ::
  "AuthorizationEvidence \<Rightarrow> Identity \<Rightarrow> string \<Rightarrow> string \<Rightarrow> time \<Rightarrow> Problem option" where
  "validateDirectAuthorization a identity audience bindingDigest now =
     (if evidence_incomplete a
      then Some (problem StatusForbidden ErrAuthorizationRequired ''Complete authorization evidence required''
        ''Authorization type, reference, principal, audience, binding digest, approval time, and expiry are required.'' False)
      else if ae_PrincipalID a \<noteq> er_ID (id_Principal identity) \<or> ae_Audience a \<noteq> audience \<or>
              ae_BindingDigest a \<noteq> bindingDigest
      then Some (problem StatusForbidden ErrAuthorizationInvalid ''Authorization is not bound to this invocation''
        ''Principal, service audience, or request digest mismatch.'' False)
      else if \<not> After (ae_ExpiresAt a) (ae_ApprovedAt a) \<or> \<not> After (ae_ExpiresAt a) now \<or>
              After (ae_ApprovedAt a) (now + 5 * Minute)
      then Some (problem StatusForbidden ErrAuthorizationInvalid ''Authorization timing is invalid''
        ''Approval must be current and must expire after approval and after the current time.'' False)
      else None)"

text \<open>\<open>DemoAuthorizationVerifier\<close>: the verifier of examples and tests.\<close>

definition DemoVerify :: "Identity \<Rightarrow> Quote \<Rightarrow> AuthorizationEvidence \<Rightarrow> Problem option" where
  "DemoVerify identity quote evidence =
     (if \<not> HasPrefix (ae_Reference evidence) ''demo-approval-''
      then Some (base_problem StatusForbidden ErrAuthorizationInvalid
        ''Authorization evidence could not be verified''
        ''The demo verifier accepts only demo-approval-* references.'' ''authorization'' False)
      else None)"

abbreviation declined :: "string \<Rightarrow> string \<Rightarrow> Problem" where
  "declined title detail \<equiv> problem StatusPaymentRequired ErrBillingDeclined title detail False"

text \<open>The checks on the maximum amount of a mandate.\<close>

definition mandate_maximum :: "(error \<Rightarrow> string) \<Rightarrow> BillingAuthorization \<Rightarrow> Money \<Rightarrow> Problem option" where
  "mandate_maximum err_text a amount =
     (case ba_MaximumAmount a of None \<Rightarrow> None
      | Some maximum \<Rightarrow>
         (case ValidateMoney maximum of
            Some err \<Rightarrow> Some (declined ''Invalid billing authorization amount'' (err_text err))
          | None \<Rightarrow>
             (case CompareMoney maximum amount of
                Inl err \<Rightarrow> Some (declined ''Insufficient billing authorization'' (err_text err))
              | Inr comparison \<Rightarrow>
                  if comparison < 0
                  then Some (declined ''Insufficient billing authorization''
                    ''The billing authorization maximum is below the operation ceiling.'')
                  else None)))"

definition validateBillingAuthorization ::
  "(error \<Rightarrow> string) \<Rightarrow> BillingAuthorization option \<Rightarrow> EntityRef \<Rightarrow> string \<Rightarrow> string \<Rightarrow> BillingTerms \<Rightarrow> Money \<Rightarrow>
     time \<Rightarrow> Problem option"
where
  "validateBillingAuthorization err_text authorization payer serviceID bindingDigest terms amount now =
     (if bt_Mode terms = BillingFree
      then (if authorization \<noteq> None
        then Some (problem StatusUnprocessableEntity ErrValidationFailed ''Billing authorization not applicable''
          ''Free service does not accept a billing authorization.'' False)
        else None)
      else if bt_ArrangementRequired terms \<and> blank (bt_ArrangementRef terms)
      then Some (problem StatusPreconditionRequired ErrBillingRequired ''Billing arrangement required''
        ''The selected billing mode requires a signed arrangement reference.'' False)
      else if bt_AuthorizationRequired terms \<and> authorization = None
      then Some (problem StatusPaymentRequired ErrBillingRequired ''Billing authorization required''
        ''The selected billing mode requires a tokenized per-call authorization.'' False)
      else case authorization of None \<Rightarrow> None
      | Some a \<Rightarrow>
        if ba_Mode a \<noteq> bt_Mode terms
        then Some (declined ''Billing mode mismatch'' ''The authorization mode does not match the signed billing terms.'')
        else if ba_Payer a \<noteq> payer
        then Some (declined ''Billing payer mismatch'' ''The billing mandate is not issued for the authenticated principal.'')
        else if ba_Audience a \<noteq> serviceID \<or> ba_BindingDigest a \<noteq> bindingDigest
        then Some (declined ''Billing authorization is not bound to this operation''
          ''The service audience or binding digest does not match.'')
        else if bt_ArrangementRef terms \<noteq> [] \<and> ba_ArrangementRef a \<noteq> [] \<and>
                ba_ArrangementRef a \<noteq> bt_ArrangementRef terms
        then Some (declined ''Billing arrangement mismatch'' ''The authorization references a different billing arrangement.'')
        else if \<not> IsZero (ba_ExpiresAt a) \<and> \<not> After (ba_ExpiresAt a) now
        then Some (declined ''Billing authorization expired'' ''The billing mandate is no longer valid.'')
        else if ba_Usage a \<noteq> [] \<and> ba_Usage a \<noteq> ''single_use'' \<and> ba_Usage a \<noteq> ''reusable''
        then Some (declined ''Unsupported billing authorization usage'' ''usage must be single_use or reusable.'')
        else if bt_Mode terms = BillingPayNow \<and> blank (ba_AuthorizationRef a)
        then Some (declined ''Billing authorization reference required''
          ''Pay-now requires an opaque authorization reference.'')
        else if bt_Mode terms = BillingPayNow \<and> ba_MaximumAmount a = None
        then Some (declined ''Billing maximum required'' ''Pay-now requires a maximum authorized amount.'')
        else mandate_maximum err_text a amount)"

subsection \<open>Billing errors\<close>

definition billingProblem :: "(error \<Rightarrow> string) \<Rightarrow> billing_error \<Rightarrow> Problem" where
  "billingProblem err_text err =
     (case err of
        UnknownOutcomeError reason ref \<Rightarrow>
          let p = problem StatusServiceUnavailable ErrBillingOutcomeUnknown ''Billing outcome is unknown''
            (Billing_Error_text err_text err) False in
          if ref \<noteq> [] then p\<lparr>p_Extensions := [(''billing_reconciliation_ref'', JStr ref)]\<rparr> else p
      | DeclinedError reason \<Rightarrow> declined ''Billing declined'' (Billing_Error_text err_text err)
      | TemporaryError reason \<Rightarrow>
          (problem StatusServiceUnavailable ErrBillingUnavailable ''Billing provider unavailable''
            (Billing_Error_text err_text err) True)\<lparr>p_RetryAfterMS := 2000\<rparr>
      | OtherBillingError e \<Rightarrow>
          problem StatusServiceUnavailable ErrBillingOutcomeUnknown ''Billing processing outcome is unknown''
            (''The billing adapter returned an unclassified error. The provider must reconcile before allowing another attempt: ''
              @ Billing_Error_text err_text err) False)"

section \<open>What the validators decide\<close>

text \<open>Prices under a ceiling, as in a signed quote; \<open>v\<close> allows a variable price.\<close>

definition priced :: "bool \<Rightarrow> Money \<Rightarrow> Money \<Rightarrow> bool" where
  "priced v price cap \<longleftrightarrow>
     ValidateMoney price = None \<and> ValidateMoney cap = None \<and> m_Currency cap = m_Currency price \<and>
     (if v then money_value price \<le> money_value cap else money_value price = money_value cap)"

lemma compare_check:
  "(case CompareMoney a b of Inl err \<Rightarrow> Some (e err) | Inr c \<Rightarrow> k c) = None \<longleftrightarrow>
     ValidateMoney a = None \<and> ValidateMoney b = None \<and> m_Currency a = m_Currency b \<and>
     k (Rat_Cmp (money_value a) (money_value b)) = None"
proof (cases "CompareMoney a b")
  case (Inl err)
  then have "CompareMoney a b \<noteq> Inr (Rat_Cmp (money_value a) (money_value b))" by simp
  with Inl show ?thesis unfolding CompareMoney_Inr_iff by auto
next
  case (Inr c)
  with CompareMoney_Inr_iff [of a b c] show ?thesis by simp
qed

lemma ceiling_check:
  "(case CompareMoney cap price of Inl err \<Rightarrow> Some (e err)
    | Inr c \<Rightarrow> first_error [fail_if (c < 0) e1, fail_if (\<not> v \<and> c \<noteq> 0) e2]) = None \<longleftrightarrow> priced v price cap"
  unfolding compare_check by (auto simp: priced_def not_less)

definition wf_contract :: "PreparedContract \<Rightarrow> bool" where
  "wf_contract c \<longleftrightarrow>
     pp_NormalizedTask c \<noteq> [] \<and> pp_Effects c \<noteq> [] \<and>
     list_all (\<lambda>e. \<not> blank (ef_Type e) \<and> \<not> blank (ef_Summary e)) (pp_Effects c) \<and>
     \<not> blank (pp_RiskClass c) \<and> (cf_Required (pp_Confirmation c) \<longrightarrow> \<not> blank (cf_Mode (pp_Confirmation c))) \<and>
     0 \<le> du_RetentionSeconds (pp_DataUse c) \<and>
     0 \<le> sl_ExpectedCompletionSeconds (pp_SLA c) \<and> 0 \<le> sl_MaximumCompletionSeconds (pp_SLA c) \<and>
     (0 < sl_MaximumCompletionSeconds (pp_SLA c) \<longrightarrow>
        sl_ExpectedCompletionSeconds (pp_SLA c) \<le> sl_MaximumCompletionSeconds (pp_SLA c)) \<and>
     (\<forall>t. pp_RevocableUntil c = Some t \<longrightarrow> t \<le> pp_ExpiresAt c) \<and>
     priced (bt_VariablePriceAllowed (pp_BillingTerms c)) (pp_Price c) (pp_PriceCeiling c) \<and>
     wf_terms (pp_BillingTerms c) (pp_Price c) \<and> breakdown_ok (pp_PriceBreakdown c) (pp_Price c)"

lemma contract_breakdown_iff: "contract_breakdown cs e = None \<longleftrightarrow> breakdown_ok cs e"
proof (cases "cs = []")
  case False
  show ?thesis
    unfolding breakdown_loop_iff [OF False, symmetric,
        where nt = "\<lambda>index. Errorf ''price component %d has no type'' [AInt index]"
          and bs = "\<lambda>index err. Errorf ''price component %d: %w'' [AInt index, AErr err]"]
    using False by (auto simp: contract_breakdown_def split: sum.splits)
qed (simp add: contract_breakdown_def breakdown_ok_def)

lemma pp_revocable_None:
  "(case r of None \<Rightarrow> None | Some t \<Rightarrow> fail_if (After t u) e) = None \<longleftrightarrow> (\<forall>t. r = Some t \<longrightarrow> t \<le> u)"
  by (auto split: option.splits)

lemma validatePreparedContract_iff: "validatePreparedContract c = None \<longleftrightarrow> wf_contract c"
  unfolding validatePreparedContract_def wf_contract_def first_error_None first_error.simps
    fail_if_None wrap_error_None ceiling_check ValidateBillingTerms_wf contract_breakdown_iff
    pp_revocable_None effects_None
  by (auto simp: priced_def not_less)

definition wf_plan :: "DirectPlan \<Rightarrow> bool" where
  "wf_plan plan \<longleftrightarrow>
     \<not> blank (dp_ResolvedIntent plan) \<and> dp_NormalizedTask plan \<noteq> [] \<and> dp_Effects plan \<noteq> [] \<and>
     \<not> blank (dp_RiskClass plan) \<and>
     priced (bt_VariablePriceAllowed (dp_BillingTerms plan)) (dp_Price plan) (dp_PriceCeiling plan) \<and>
     wf_terms (dp_BillingTerms plan) (dp_Price plan)"

lemma validateDirectPlan_iff: "validateDirectPlan plan = None \<longleftrightarrow> wf_plan plan"
  unfolding validateDirectPlan_def wf_plan_def first_error_None first_error.simps
    fail_if_None wrap_error_None ceiling_check ValidateBillingTerms_wf
  by (auto simp: priced_def)

lemma validatePriceEstimate_iff:
  "validatePriceEstimate e = None \<longleftrightarrow>
     ValidateMoney (pe_Minimum e) = None \<and> ValidateMoney (pe_Maximum e) = None \<and>
     m_Currency (pe_Minimum e) = m_Currency (pe_Maximum e) \<and>
     money_value (pe_Minimum e) \<le> money_value (pe_Maximum e)"
  unfolding validatePriceEstimate_def first_error_None compare_check by auto

lemma validateContextRef_at_iff:
  "validateContextRef_at r now = None \<longleftrightarrow>
     wf_context_ref r \<and> (cr_ExpiresAt r = 0 \<or> now < cr_ExpiresAt r)"
  by (auto simp: validateContextRef_at_def wf_context_ref_def ContainsAny_def)

subsection \<open>The final charge\<close>

definition final_breakdown :: "Quote \<Rightarrow> ExecutionResult \<Rightarrow> Money \<Rightarrow> PriceComponent list" where
  "final_breakdown q r p =
     (if xr_FinalPriceBreakdown r \<noteq> [] then xr_FinalPriceBreakdown r
      else if money_value (q_Price q) = money_value p then q_PriceBreakdown q else [])"

lemma resolveFinalCharge_iff:
  "resolveFinalCharge q r = Inr (p, bd) \<longleftrightarrow>
     (bt_VariablePriceAllowed (q_BillingTerms q) \<longrightarrow> xr_FinalPrice r \<noteq> None) \<and> p = reported_price q r \<and>
     settles_within q p \<and> ValidateMoney (q_Price q) = None \<and> m_Currency (q_Price q) = m_Currency p \<and>
     breakdown_ok (xr_FinalPriceBreakdown r) p \<and> bd = final_breakdown q r p"
proof -
  let ?p = "reported_price q r" and ?cs = "xr_FinalPriceBreakdown r"
  let ?z = "\<lparr>m_Currency = m_Currency ?p, m_Amount = ''0''\<rparr>"
  let ?s = "sum_components AddMoney
       (\<lambda>index. Errorf ''final price component %d has no type'' [AInt index])
       (\<lambda>index err. Errorf ''final price component %d: %w'' [AInt index, AErr err]) 0 ?z ?cs"
  have loop: "breakdown_ok ?cs ?p \<longleftrightarrow> ?cs = [] \<or> (\<exists>u. ?s = Inr u \<and> CompareMoney u ?p = Inr 0)"
    using breakdown_loop_iff [of ?cs] by (cases "?cs = []") (auto simp: breakdown_ok_def)
  show ?thesis
  proof (cases "ValidateMoney ?p = None \<and> ValidateMoney (q_PriceCeiling q) = None \<and>
      ValidateMoney (q_Price q) = None \<and> m_Currency (q_PriceCeiling q) = m_Currency ?p \<and>
      m_Currency (q_Price q) = m_Currency ?p")
    case True
    then have cmp: "CompareMoney (q_PriceCeiling q) ?p =
          Inr (Rat_Cmp (money_value (q_PriceCeiling q)) (money_value ?p))"
        "CompareMoney (q_Price q) ?p = Inr (Rat_Cmp (money_value (q_Price q)) (money_value ?p))"
      by (simp_all add: CompareMoney_Inr_iff)
    have sw: "settles_within q ?p \<longleftrightarrow> money_value ?p \<le> money_value (q_PriceCeiling q) \<and>
        (\<not> bt_VariablePriceAllowed (q_BillingTerms q) \<longrightarrow> money_value (q_Price q) = money_value ?p)"
      using True by (auto simp: settles_within_def)
    show ?thesis
    proof (cases "(bt_VariablePriceAllowed (q_BillingTerms q) \<longrightarrow> xr_FinalPrice r \<noteq> None) \<and> settles_within q ?p")
      case False
      with True have "\<exists>e. resolveFinalCharge q r = Inl e"
        by (cases "bt_VariablePriceAllowed (q_BillingTerms q) \<and> xr_FinalPrice r = None")
           (auto simp: resolveFinalCharge_def Let_def cmp sw not_le simp del: not_None_eq)
      with False show ?thesis by auto
    next
      case ok: True
      then have "resolveFinalCharge q r =
          (if ?cs = [] then Inr (?p, final_breakdown q r ?p)
           else case ?s of Inl e \<Rightarrow> Inl e
             | Inr u \<Rightarrow> if CompareMoney u ?p \<noteq> Inr 0
                 then Inl (New_error ''final price breakdown does not sum to final price'') else Inr (?p, ?cs))"
        using True unfolding sw
        by (cases "bt_VariablePriceAllowed (q_BillingTerms q)")
           (simp_all add: resolveFinalCharge_def Let_def cmp final_breakdown_def not_less del: not_None_eq)
      then have "resolveFinalCharge q r = Inr (p, bd) \<longleftrightarrow>
          breakdown_ok ?cs ?p \<and> (p, bd) = (?p, final_breakdown q r ?p)"
        using loop by (cases "?cs = []"; cases ?s) (auto simp: final_breakdown_def)
      with ok True show ?thesis by auto
    qed
  next
    case False
    then have "\<not> (settles_within q p \<and> p = ?p \<and> ValidateMoney (q_Price q) = None \<and>
        m_Currency (q_Price q) = m_Currency p)"
      by (auto simp: settles_within_def)
    moreover from False have "\<exists>e. resolveFinalCharge q r = Inl e"
      by (auto simp: resolveFinalCharge_def Let_def CompareMoney_def split: option.splits)
    ultimately show ?thesis by auto
  qed
qed

text \<open>A charge within a well-priced quote always gives a receipt that passes its validator.\<close>

lemma breakdown_ok_transfer:
  "breakdown_ok cs e \<Longrightarrow> ValidateMoney e' = None \<Longrightarrow> m_Currency e' = m_Currency e \<Longrightarrow>
     money_value e' = money_value e \<Longrightarrow> breakdown_ok cs e'"
  unfolding breakdown_ok_def by metis

lemma resolveFinalCharge_breakdown:
  assumes "resolveFinalCharge q r = Inr (p, bd)" "breakdown_ok (q_PriceBreakdown q) (q_Price q)"
  shows "settles_within q p \<and> breakdown_ok bd p"
proof -
  from assms(1) have *: "settles_within q p" "m_Currency (q_Price q) = m_Currency p"
    "breakdown_ok (xr_FinalPriceBreakdown r) p" "bd = final_breakdown q r p"
    by (auto simp: resolveFinalCharge_iff)
  moreover have "ValidateMoney p = None" using *(1) by (simp add: settles_within_def)
  ultimately show ?thesis
    using breakdown_ok_transfer [OF assms(2), of p]
    by (auto simp: final_breakdown_def breakdown_ok_def [of "[]"])
qed

subsection \<open>Approvals and mandates, declaratively\<close>

definition evidence_binds :: "AuthorizationEvidence \<Rightarrow> string \<Rightarrow> string \<Rightarrow> string \<Rightarrow> time \<Rightarrow> bool" where
  "evidence_binds a principalID audience bindingDigest now \<longleftrightarrow>
     \<not> evidence_incomplete a \<and> ae_PrincipalID a = principalID \<and> ae_Audience a = audience \<and>
     ae_BindingDigest a = bindingDigest \<and> ae_ApprovedAt a < ae_ExpiresAt a \<and> now < ae_ExpiresAt a \<and>
     ae_ApprovedAt a \<le> now + 5 * Minute"

lemma validateAuthorization_iff:
  "validateAuthorization a q identity now = None \<longleftrightarrow>
     evidence_binds a (er_ID (id_Principal identity)) (q_ServiceID q) (sg_PayloadDigest (q_Signature q)) now \<and>
     q_IssuedAt q - 5 * Minute \<le> ae_ApprovedAt a"
  by (auto simp: validateAuthorization_def evidence_binds_def not_less)

lemma validateDirectAuthorization_iff:
  "validateDirectAuthorization a identity audience d now = None \<longleftrightarrow>
     evidence_binds a (er_ID (id_Principal identity)) audience d now"
  by (auto simp: validateDirectAuthorization_def evidence_binds_def not_less)

definition mandate_ok ::
  "EntityRef \<Rightarrow> string \<Rightarrow> string \<Rightarrow> BillingTerms \<Rightarrow> Money \<Rightarrow> time \<Rightarrow> BillingAuthorization \<Rightarrow> bool"
where
  "mandate_ok payer serviceID bindingDigest terms amount now a \<longleftrightarrow>
     ba_Mode a = bt_Mode terms \<and> ba_Payer a = payer \<and> ba_Audience a = serviceID \<and>
     ba_BindingDigest a = bindingDigest \<and>
     (bt_ArrangementRef terms = [] \<or> ba_ArrangementRef a = [] \<or> ba_ArrangementRef a = bt_ArrangementRef terms) \<and>
     (ba_ExpiresAt a = 0 \<or> now < ba_ExpiresAt a) \<and>
     ba_Usage a \<in> {[], ''single_use'', ''reusable''} \<and>
     (bt_Mode terms = BillingPayNow \<longrightarrow> \<not> blank (ba_AuthorizationRef a) \<and> ba_MaximumAmount a \<noteq> None) \<and>
     (\<forall>maximum. ba_MaximumAmount a = Some maximum \<longrightarrow> covers maximum amount)"

lemma mandate_maximum_None:
  "mandate_maximum err_text a amount = None \<longleftrightarrow>
     (\<forall>maximum. ba_MaximumAmount a = Some maximum \<longrightarrow> covers maximum amount)"
proof (cases "ba_MaximumAmount a")
  case (Some m)
  show ?thesis
    by (cases "ValidateMoney m"; cases "CompareMoney m amount")
       (auto simp: mandate_maximum_def Some covers_iff covers_def CompareMoney_def not_less)
qed (simp add: mandate_maximum_def)

lemma validateBillingAuthorization_iff:
  "validateBillingAuthorization err_text authorization payer sid bd terms amount now = None \<longleftrightarrow>
     (if bt_Mode terms = BillingFree then authorization = None
      else (bt_ArrangementRequired terms \<longrightarrow> \<not> blank (bt_ArrangementRef terms)) \<and>
        (bt_AuthorizationRequired terms \<longrightarrow> authorization \<noteq> None) \<and>
        (\<forall>a. authorization = Some a \<longrightarrow> mandate_ok payer sid bd terms amount now a))"
proof (cases authorization)
  case (Some a)
  show ?thesis
    by (simp add: validateBillingAuthorization_def mandate_ok_def Some mandate_maximum_None) auto
qed (simp add: validateBillingAuthorization_def)

text \<open>
  The engine's check implies the processor's own one, except for the reference format the
  reference processor requires of pay-now mandates.
\<close>

lemma mandate_accepted_by_processor:
  assumes "validateBillingAuthorization err_text authorization payer sid bd terms amount now = None"
    and "bt_Mode terms \<noteq> BillingFree"
    and "\<And>a. authorization = Some a \<Longrightarrow> bt_Mode terms = BillingPayNow \<Longrightarrow>
       HasPrefix (ba_AuthorizationRef a) ''mockpay_''"
  shows "check_reserve err_text now sid bd terms authorization amount = None"
  using assms unfolding validateBillingAuthorization_iff
  by (cases authorization)
     (auto simp: check_reserve_def check_authorization_None mandate_ok_def)

section \<open>Billing errors\<close>

text \<open>Only a temporary error, which promises that nothing was booked, may be retried.\<close>

lemma billingProblem_sel [simp]:
  "p_Retryable (billingProblem err_text e) \<longleftrightarrow> (\<exists>reason. e = TemporaryError reason)"
  "p_Status (billingProblem err_text e) =
     (case e of DeclinedError _ \<Rightarrow> StatusPaymentRequired | _ \<Rightarrow> StatusServiceUnavailable)"
  "p_Code (billingProblem err_text e) =
     (case e of DeclinedError _ \<Rightarrow> ErrBillingDeclined | TemporaryError _ \<Rightarrow> ErrBillingUnavailable
      | _ \<Rightarrow> ErrBillingOutcomeUnknown)"
  by (simp_all add: billingProblem_def Let_def split: billing_error.split)

lemma mandate_maximum_not_retryable:
  "mandate_maximum err_text a amount = Some p \<Longrightarrow> \<not> p_Retryable p"
  by (auto simp: mandate_maximum_def split: if_splits option.splits sum.splits)

lemma validateBillingAuthorization_not_retryable:
  "validateBillingAuthorization err_text authorization payer sid bd terms amount now = Some p \<Longrightarrow>
     \<not> p_Retryable p"
  unfolding validateBillingAuthorization_def
  by (cases authorization) (auto dest: mandate_maximum_not_retryable split: if_split_asm)

section \<open>Idempotency keys\<close>

text \<open>An accepted key has no delimiter, so keys and scopes never collide in the store.\<close>

lemma validIdempotencyKey_iff:
  "validIdempotencyKey key \<longleftrightarrow> 16 \<le> length key \<and> length key \<le> 255 \<and> list_all visible key"
  by (auto simp: validIdempotencyKey_def visible_def not_less list_all_iff)

lemma validIdempotencyKey_storageKey:
  assumes "validIdempotencyKey k" "validIdempotencyKey l" "storageKey s k = storageKey t l"
  shows "s = t \<and> k = l"
proof -
  have "CHR 0x00 \<notin> set k" "CHR 0x00 \<notin> set l"
    using assms(1,2) by (auto simp: validIdempotencyKey_iff list_all_iff visible_def ord_def)
  with assms(3) show ?thesis using storageKey_inj by blast
qed

end
