(* ===== verification/Http_Core.thy ===== *)
theory Http_Core
  imports Contract_Rules Calendar "HOL-Library.Signed_Division"
begin

text \<open>
  The HTTP core of the protocol engine (pkg/server/server.go): headers, problem and JSON
  results, authentication, and the wrapper of every mutation that claims the idempotency key,
  runs the operation and stores its response. A handler takes the response headers set so far
  and returns the response it writes.
\<close>

section \<open>Headers\<close>

text \<open>
  \<open>http.Header\<close> keeps the canonical form of a name: a capital at the start and after every
  hyphen. All names the program uses are tokens.
\<close>

definition upper_char :: "char \<Rightarrow> char" where
  "upper_char c = (if 0x61 \<le> ord c \<and> ord c \<le> 0x7A then char_of (ord c - 32) else c)"

fun canonical_name :: "bool \<Rightarrow> string \<Rightarrow> string" where
  "canonical_name start [] = []"
| "canonical_name start (c # cs) =
     (if start then upper_char c else lower_char c) # canonical_name (c = CHR ''-'') cs"

definition Header_Get :: "headers \<Rightarrow> string \<Rightarrow> string" where
  "Header_Get h name = (case h (canonical_name True name) of Some (v # vs) \<Rightarrow> v | _ \<Rightarrow> [])"

definition Header_Set :: "headers \<Rightarrow> string \<Rightarrow> string \<Rightarrow> headers" where
  "Header_Set h name v = h(canonical_name True name \<mapsto> [v])"

definition header_values :: "headers \<Rightarrow> string \<Rightarrow> string list" where
  "header_values h key = (case h key of None \<Rightarrow> [] | Some vs \<Rightarrow> vs)"

definition Header_Add :: "headers \<Rightarrow> string \<Rightarrow> string \<Rightarrow> headers" where
  "Header_Add h name v =
     h(canonical_name True name \<mapsto> header_values h (canonical_name True name) @ [v])"

text \<open>
  The loops that add every value of one header map to the response; the names in such a map are
  distinct, so the order of the range over it does not matter.
\<close>

definition add_headers :: "headers \<Rightarrow> headers \<Rightarrow> headers" where
  "add_headers h extra =
     (\<lambda>key. if header_values extra key = [] then h key
       else Some (header_values h key @ header_values extra key))"

text \<open>A header literal with one value for each name.\<close>

definition header_literal :: "(string \<times> string) list \<Rightarrow> headers" where
  "header_literal entries = foldr (\<lambda>(name, v) h. Header_Set h name v) entries Map.empty"

section \<open>Results\<close>

record operationResult =
  op_Status :: int
  op_Headers :: headers
  op_Body :: string
  op_TaskID :: string
  op_TaskState :: TaskState
  op_InvocationID :: string
  op_InvocationState :: InvocationState
  op_ReleaseClaim :: bool

definition problemResult :: "'w Config \<Rightarrow> string \<Rightarrow> Problem \<Rightarrow> operationResult" where
  "problemResult cfg requestID p0 =
     (let p = p0\<lparr>p_RequestID := requestID\<rparr>;
          headers = header_literal [(''Content-Type'', ''application/problem+json'')];
          headers = (if 0 < p_RetryAfterMS p
            then Header_Set headers ''Retry-After'' (decimal_int (wrap64 (p_RetryAfterMS p + 999) sdiv 1000))
            else headers)
      in \<lparr>op_Status = p_Status p, op_Headers = headers,
          op_Body = (case js_Marshal (cfg_Library cfg) (BProblem p) of Inl _ \<Rightarrow> [] | Inr encoded \<Rightarrow> encoded),
          op_TaskID = p_TaskID p, op_TaskState = p_TaskState p, op_InvocationID = p_InvocationID p,
          op_InvocationState = p_InvocationState p, op_ReleaseClaim = False\<rparr>)"

definition safeRetryProblemResult :: "'w Config \<Rightarrow> string \<Rightarrow> Problem \<Rightarrow> operationResult" where
  "safeRetryProblemResult cfg requestID p = (problemResult cfg requestID p)\<lparr>op_ReleaseClaim := True\<rparr>"

definition json_response :: "int \<Rightarrow> string \<Rightarrow> operationResult" where
  "json_response status encoded =
     \<lparr>op_Status = status, op_Headers = header_literal [(''Content-Type'', MediaType)], op_Body = encoded,
      op_TaskID = [], op_TaskState = TaskStateOther [], op_InvocationID = [],
      op_InvocationState = InvocationOther [], op_ReleaseClaim = False\<rparr>"

definition jsonResult :: "'w Config \<Rightarrow> int \<Rightarrow> body_value \<Rightarrow> operationResult" where
  "jsonResult cfg status value =
     (case js_Marshal (cfg_Library cfg) value of
        Inl err \<Rightarrow> problemResult cfg [] (problem StatusInternalServerError ErrInternal
          ''Response serialization failed'' ''The service could not serialize its response.'' True)
      | Inr encoded \<Rightarrow>
          (case value of
             BCommit response \<Rightarrow> (json_response status encoded)
               \<lparr>op_TaskID := t_TaskID (cs_Task response), op_TaskState := t_State (cs_Task response)\<rparr>
           | BTask task \<Rightarrow> (json_response status encoded)\<lparr>op_TaskID := t_TaskID task, op_TaskState := t_State task\<rparr>
           | BDirect response \<Rightarrow> (json_response status encoded)
               \<lparr>op_InvocationID := dr_InvocationID response, op_InvocationState := dr_State response\<rparr>
           | _ \<Rightarrow> json_response status encoded))"

definition taskOutcomeUnknownResult :: "'w Config \<Rightarrow> string \<Rightarrow> Task \<Rightarrow> string \<Rightarrow> string \<Rightarrow> operationResult" where
  "taskOutcomeUnknownResult cfg requestID task title detail =
     problemResult cfg requestID
       ((problem StatusInternalServerError ErrOutcomeUnknown title detail False)
          \<lparr>p_TaskID := t_TaskID task, p_TaskState := t_State task\<rparr>)"

definition decodeStrict :: "'w Config \<Rightarrow> 'a strict_decoder \<Rightarrow> string \<Rightarrow> Problem + 'a" where
  "decodeStrict cfg decoder body =
     (case decoder body of
        (Inl err, _) \<Rightarrow> Inl (problem StatusBadRequest ErrInvalidRequest ''Invalid JSON request''
          (lib_ErrText (cfg_Library cfg) err) False)
      | (Inr value, at_end) \<Rightarrow>
          if \<not> at_end
          then Inl (problem StatusBadRequest ErrInvalidRequest ''Invalid JSON request''
            ''Only one JSON value is allowed.'' False)
          else Inr value)"

section \<open>Writing a response\<close>

definition respond :: "headers \<Rightarrow> int \<Rightarrow> string \<Rightarrow> http_response" where
  "respond writer status body = \<lparr>rs_Status = status, rs_Headers = writer, rs_Body = body\<rparr>"

definition writeJSON :: "'w Config \<Rightarrow> headers \<Rightarrow> int \<Rightarrow> body_value \<Rightarrow> (string \<times> string) list \<Rightarrow> http_response" where
  "writeJSON cfg writer status value entries =
     (let writer = foldl (\<lambda>h (name, v). Header_Add h name v) writer entries;
          writer = (if Header_Get writer ''Content-Type'' = [] then Header_Set writer ''Content-Type'' MediaType
                    else writer)
      in respond writer status (js_Encode (cfg_Library cfg) value))"

definition writeProblem :: "'w Config \<Rightarrow> headers \<Rightarrow> string \<Rightarrow> Problem \<Rightarrow> http_response" where
  "writeProblem cfg writer requestID p =
     writeJSON cfg writer (p_Status p) (BProblem (p\<lparr>p_RequestID := requestID\<rparr>))
       [(''Content-Type'', ''application/problem+json''), (''X-Request-ID'', requestID)]"

text \<open>The response that tells a client to reconcile: a 500 with the problem \<open>outcome unknown\<close>.\<close>

definition outcome_unknown :: "'w Config \<Rightarrow> http_response \<Rightarrow> bool" where
  "outcome_unknown cfg r \<longleftrightarrow> (\<exists>writer requestID p. r = writeProblem cfg writer requestID p \<and>
     p_Code p = ErrOutcomeUnknown \<and> p_Status p = StatusInternalServerError)"

lemma outcome_unknownI [intro]:
  "p_Code p = ErrOutcomeUnknown \<Longrightarrow> p_Status p = StatusInternalServerError \<Longrightarrow>
     outcome_unknown cfg (writeProblem cfg writer requestID p)"
  unfolding outcome_unknown_def by blast

text \<open>The headers every stored or written result gets.\<close>

definition result_headers :: "string \<Rightarrow> headers \<Rightarrow> headers" where
  "result_headers requestID h =
     (let h = Header_Set h ''ASCP-Version'' ProtocolVersion;
          h = Header_Set h ''X-Request-ID'' requestID
      in if Header_Get h ''Content-Type'' = [] then Header_Set h ''Content-Type'' MediaType else h)"

definition writeOperationResult :: "headers \<Rightarrow> operationResult \<Rightarrow> string \<Rightarrow> http_response" where
  "writeOperationResult writer result requestID =
     respond (add_headers writer (result_headers requestID (op_Headers result))) (op_Status result) (op_Body result)"

definition writeStoredResponse :: "headers \<Rightarrow> StoredResponse \<Rightarrow> string \<Rightarrow> http_response" where
  "writeStoredResponse writer response requestID =
     respond
       (Header_Set (Header_Set (add_headers writer (sr_Headers response)) ''Idempotency-Replayed'' ''true'')
         ''X-Request-ID'' requestID)
       (sr_StatusCode response) (sr_Body response)"

section \<open>Authentication\<close>

definition request_id :: "'w Config \<Rightarrow> http_request \<Rightarrow> ('w, string) server" where
  "request_id cfg request =
     (let requestID = Header_Get (rq_Headers request) ''X-Request-ID'' in
      if requestID = [] \<or> 128 < length requestID then new_id cfg ''req'' else State_Monad.return requestID)"

definition unauthenticated :: "'w Config \<Rightarrow> headers \<Rightarrow> string \<Rightarrow> http_response" where
  "unauthenticated cfg writer requestID =
     writeProblem cfg (Header_Set writer ''WWW-Authenticate'' ''Bearer realm=\"ascp\"'') requestID
       (problem StatusUnauthorized ErrUnauthenticated ''Authentication required''
         ''The supplied access token is missing, invalid, expired, or not authorized for this service.'' False)"

definition unsupported_version :: "http_request \<Rightarrow> bool" where
  "unsupported_version request \<longleftrightarrow>
     Header_Get (rq_Headers request) ''ASCP-Version'' \<noteq> [] \<and>
     Header_Get (rq_Headers request) ''ASCP-Version'' \<noteq> ProtocolVersion"

definition version_problem :: Problem where
  "version_problem = problem StatusBadRequest ''unsupported_version'' ''Unsupported ASCP version''
     ''The requested protocol version is not supported.'' False"

text \<open>\<open>io.ReadAll\<close> of a \<open>http.MaxBytesReader\<close>: an oversized body is an error.\<close>

definition read_body :: "http_request \<Rightarrow> int \<Rightarrow> string result" where
  "read_body request maximum =
     (case rq_Body request of
        Inl err \<Rightarrow> Inl err
      | Inr body \<Rightarrow> if maximum < int (length body) then Inl (New_error ''http: request body too large'') else Inr body)"

definition authenticateRead ::
  "'w Config \<Rightarrow> headers \<Rightarrow> http_request \<Rightarrow> ('w, http_response + string \<times> Identity) server" where
  "authenticateRead cfg writer request = do {
     requestID \<leftarrow> request_id cfg request;
     identity \<leftarrow> Authenticate cfg request;
     State_Monad.return (case identity of
         Inl err \<Rightarrow> Inl (unauthenticated cfg writer requestID)
       | Inr identity \<Rightarrow> Inr (requestID, identity)) }"

section \<open>Mutations\<close>

text \<open>
  An operation takes the identity, the request ID, the body and the idempotency key. \<open>None\<close>
  stands for a panic, which the wrapper recovers from.
\<close>

type_synonym 'w operation = "Identity \<Rightarrow> string \<Rightarrow> string \<Rightarrow> string \<Rightarrow> ('w, operationResult option) server"

definition unsupported_media :: "'w Config \<Rightarrow> http_request \<Rightarrow> bool" where
  "unsupported_media cfg request \<longleftrightarrow>
     (rq_ContentLength request \<noteq> 0 \<or> Header_Get (rq_Headers request) ''Transfer-Encoding'' \<noteq> []) \<and>
     (case lib_ParseMediaType (cfg_Library cfg) (Header_Get (rq_Headers request) ''Content-Type'') of
        Inl err \<Rightarrow> True
      | Inr mediaType \<Rightarrow> mediaType \<noteq> MediaType \<and> mediaType \<noteq> ''application/json'')"

definition key_problem :: Problem where
  "key_problem =
     (problem StatusBadRequest ErrInvalidRequest ''Invalid Idempotency-Key''
        ''Mutating ASCP requests require an opaque visible-ASCII Idempotency-Key between 16 and 255 bytes, without whitespace.'' False)
     \<lparr>p_FieldErrors := [\<lparr>fe_Pointer = ''/headers/Idempotency-Key'', fe_Code = ''invalid_format'',
        fe_Message = ''must contain 16 to 255 visible ASCII bytes and no whitespace''\<rparr>]\<rparr>"

text \<open>The guards before the claim: the request ID, the identity, the key and the body.\<close>

definition admit ::
  "'w Config \<Rightarrow> headers \<Rightarrow> http_request \<Rightarrow> ('w, http_response + string \<times> Identity \<times> string \<times> string) server"
where
  "admit cfg writer request = do {
     requestID \<leftarrow> request_id cfg request;
     if unsupported_version request
     then State_Monad.return (Inl (writeProblem cfg writer requestID version_problem))
     else do {
       identity \<leftarrow> Authenticate cfg request;
       State_Monad.return (case identity of
           Inl err \<Rightarrow> Inl (unauthenticated cfg writer requestID)
         | Inr identity \<Rightarrow>
             let key = Header_Get (rq_Headers request) ''Idempotency-Key'' in
             if unsupported_media cfg request
             then Inl (writeProblem cfg writer requestID
               (problem StatusUnsupportedMediaType ErrUnsupportedMediaType ''Unsupported media type''
                 ''Use application/ascp+json or application/json for ASCP mutation bodies.'' False))
             else if \<not> validIdempotencyKey key
             then Inl (writeProblem cfg writer requestID key_problem)
             else (case read_body request (cfg_MaximumBodyBytes cfg) of
                 Inl err \<Rightarrow> Inl (writeProblem cfg writer requestID
                   (problem StatusRequestEntityTooLarge ErrInvalidRequest ''Request body too large''
                     ''The request exceeds the service's published maximum body size.'' False))
               | Inr body \<Rightarrow> Inr (requestID, identity, key, body))) } }"

definition idempotency_scope :: "Identity \<Rightarrow> string \<Rightarrow> string \<Rightarrow> string" where
  "idempotency_scope identity verb path =
     er_Type (id_Actor identity) @ ''/'' @ er_ID (id_Actor identity) @ ''|'' @
     er_Type (id_Principal identity) @ ''/'' @ er_ID (id_Principal identity) @ ''|'' @ verb @ ''|'' @ path"

definition request_digest :: "http_request \<Rightarrow> string \<Rightarrow> string" where
  "request_digest request body =
     SHA256Digest (rq_Method request @ newline @ rq_Path request @ newline @ body)"

definition in_progress_problem :: "string \<Rightarrow> string \<Rightarrow> Problem" where
  "in_progress_problem title detail =
     (problem StatusConflict ErrRequestInProgress title detail True)\<lparr>p_RetryAfterMS := 1000\<rparr>"

text \<open>What happens to the result: the claim is released, or the response is stored for replay.\<close>

definition finish_claimed ::
  "'w Config \<Rightarrow> headers \<Rightarrow> string \<Rightarrow> string \<Rightarrow> string \<Rightarrow> string \<Rightarrow> operationResult \<Rightarrow> ('w, http_response) server"
where
  "finish_claimed cfg writer requestID scope key digest result =
     (let headers = result_headers requestID (op_Headers result) in
      if op_ReleaseClaim result
      then do {
        err \<leftarrow> idempotency_release cfg scope key digest;
        State_Monad.return (case err of
            Some e \<Rightarrow> writeProblem cfg writer requestID
              (problem StatusInternalServerError ErrOutcomeUnknown ''Idempotency release is uncertain''
                ''The operation reported a pre-effect retryable failure, but the service could not durably release the request claim. Retry only with the same idempotency key while the provider reconciles it.'' False)
          | None \<Rightarrow> respond (add_headers writer (Header_Set headers ''Idempotency-Released'' ''true''))
              (op_Status result) (op_Body result)) }
      else do {
        now1 \<leftarrow> Now cfg;
        now2 \<leftarrow> Now cfg;
        let headers = Header_Set headers ''Idempotency-Retention-Until''
              (Format_RFC3339 (now1 + cfg_IdempotencyRetention cfg));
        err \<leftarrow> idempotency_complete cfg scope key
          \<lparr>sr_StatusCode = op_Status result, sr_Headers = headers, sr_Body = op_Body result,
           sr_ExpiresAt = now2 + cfg_IdempotencyRetention cfg\<rparr>;
        State_Monad.return (case err of
            Some e \<Rightarrow> writeProblem cfg writer requestID
              ((problem StatusInternalServerError ErrOutcomeUnknown ''Response durability is unknown''
                ''The operation finished, but the service could not durably store its replayable response. Retry only with the same idempotency key while the provider reconciles the original request.'' False)
                \<lparr>p_TaskID := op_TaskID result, p_TaskState := op_TaskState result\<rparr>)
          | None \<Rightarrow> respond (add_headers writer headers) (op_Status result) (op_Body result)) })"

text \<open>The operation of a new claim; a panic leaves the claim in progress.\<close>

definition run_claimed ::
  "'w Config \<Rightarrow> 'w operation \<Rightarrow> headers \<Rightarrow> Identity \<Rightarrow> string \<Rightarrow> string \<Rightarrow> string \<Rightarrow> string \<Rightarrow> string \<Rightarrow>
     ('w, http_response) server"
where
  "run_claimed cfg operation writer identity requestID key body scope digest = do {
     outcome \<leftarrow> operation identity requestID body key;
     case outcome of
       None \<Rightarrow> State_Monad.return (writeProblem cfg writer requestID
         (problem StatusInternalServerError ErrOutcomeUnknown ''Operation outcome is unknown''
           ''The request stopped unexpectedly. Retry only with the same idempotency key while the provider reconciles the original operation.'' False))
     | Some result \<Rightarrow> finish_claimed cfg writer requestID scope key digest result }"

text \<open>The answer of the idempotency backend decides.\<close>

definition answer_claim ::
  "'w Config \<Rightarrow> headers \<Rightarrow> string \<Rightarrow> ('w, http_response) server \<Rightarrow>
     (IdempotencyResult \<times> StoredResponse) result \<Rightarrow> ('w, http_response) server"
where
  "answer_claim cfg writer requestID run claim =
     (case claim of
        Inl err \<Rightarrow> State_Monad.return (writeProblem cfg writer requestID
          ((problem StatusServiceUnavailable ErrServiceUnavailable ''Idempotency service unavailable''
            ''The service could not durably determine whether this mutation may begin. Retry with the same idempotency key.'' True)
            \<lparr>p_RetryAfterMS := 1000\<rparr>))
      | Inr (IdempotencyReplay, replay) \<Rightarrow> State_Monad.return (writeStoredResponse writer replay requestID)
      | Inr (IdempotencyConflict, _) \<Rightarrow> State_Monad.return (writeProblem cfg writer requestID
          (problem StatusConflict ErrIdempotencyConflict ''Idempotency conflict''
            ''The key was already used with a different request payload.'' False))
      | Inr (IdempotencyInProgress, _) \<Rightarrow> State_Monad.return
          (writeProblem cfg (Header_Set writer ''Retry-After'' ''1'') requestID
            (in_progress_problem ''Request is already in progress''
              ''Retry the same request after the indicated delay.''))
      | Inr (IdempotencyNew, _) \<Rightarrow> run)"

definition handleMutating ::
  "'w Config \<Rightarrow> 'w operation \<Rightarrow> headers \<Rightarrow> http_request \<Rightarrow> ('w, http_response) server"
where
  "handleMutating cfg operation writer request =
     attempt (admit cfg writer request) (\<lambda>(requestID, identity, key, body).
       let scope = idempotency_scope identity (rq_Method request) (rq_Path request);
           digest = request_digest request body in
       do {
         claim \<leftarrow> idempotency_begin cfg scope key digest;
         answer_claim cfg writer requestID
           (run_claimed cfg operation writer identity requestID key body scope digest) claim })"

section \<open>Configuration and fixed routes\<close>

text \<open>
  \<open>New\<close>: \<open>missing\<close> says that a required dependency is nil; the defaults for a nil clock and
  file store are values of the record already.
\<close>

definition set_default :: "string \<Rightarrow> string \<Rightarrow> string" where
  "set_default value fallback = (if value = [] then fallback else value)"

definition default_manifest :: "Manifest \<Rightarrow> Manifest" where
  "default_manifest m =
     (let features = (mf_Features m)
            (''three_phase_contract'' \<mapsto> True, ''direct_invocation'' \<mapsto> True,
             ''optional_options_preflight'' \<mapsto> True, ''compact_capability_catalog'' \<mapsto> True,
             ''scoped_file_transfer'' \<mapsto> True, ''mandatory_idempotency'' \<mapsto> True, ''signed_quotes'' \<mapsto> True,
             ''signed_audit_chain'' \<mapsto> True, ''billing_abstraction'' \<mapsto> True);
          features = foldl (\<lambda>f name. if f name = None then f(name \<mapsto> False) else f) features
            [''asynchronous_execution'', ''scheduled_execution'', ''callback_delivery'']
      in m\<lparr>mf_Versions := (if mf_Versions m = [] then [ProtocolVersion] else mf_Versions m),
           mf_Protocol := set_default (mf_Protocol m) ProtocolName,
           mf_JWKSURI := set_default (mf_JWKSURI m) ''/.well-known/jwks.json'',
           mf_CapabilitiesURI := set_default (mf_CapabilitiesURI m) ''/.well-known/ascp/capabilities'',
           mf_OptionsURI := set_default (mf_OptionsURI m) ''/v1/options'',
           mf_InvokeURI := set_default (mf_InvokeURI m) ''/v1/invoke'',
           mf_FilesURI := set_default (mf_FilesURI m) ''/v1/files'',
           mf_Features := features\<rparr>)"

definition New :: "bool \<Rightarrow> 'w Config \<Rightarrow> ('w Config) result" where
  "New missing cfg =
     (if missing
      then Inl (New_error ''authenticator, authorization verifier, service, store, idempotency, audit, billing, and signer are required'')
      else if blank (mf_ServiceID (cfg_Manifest cfg)) \<or> blank (mf_ServiceName (cfg_Manifest cfg))
      then Inl (New_error ''manifest service_id and service_name are required'')
      else Inr (cfg\<lparr>cfg_Manifest := default_manifest (cfg_Manifest cfg),
        cfg_IdempotencyRetention := (if cfg_IdempotencyRetention cfg \<le> 0 then 24 * Hour else cfg_IdempotencyRetention cfg),
        cfg_MaximumBodyBytes := (if cfg_MaximumBodyBytes cfg \<le> 0 then 1048576 else cfg_MaximumBodyBytes cfg)\<rparr>))"

definition handleManifest :: "'w Config \<Rightarrow> headers \<Rightarrow> ('w, http_response) server" where
  "handleManifest cfg writer = do {
     now \<leftarrow> Now cfg;
     State_Monad.return (writeJSON cfg writer StatusOK
       (BManifest ((cfg_Manifest cfg)\<lparr>mf_GeneratedAt := now, mf_ManifestExpiresAt := now + 15 * Minute\<rparr>))
       [(''Cache-Control'', ''public, max-age=60, must-revalidate'')]) }"

definition handleJWKS :: "'w Config \<Rightarrow> headers \<Rightarrow> ('w, http_response) server" where
  "handleJWKS cfg writer = do {
     keys \<leftarrow> signer_keys cfg;
     State_Monad.return (writeJSON cfg writer StatusOK (BJWKS keys)
       [(''Cache-Control'', ''public, max-age=300, must-revalidate'')]) }"

definition handleHealth :: "'w Config \<Rightarrow> headers \<Rightarrow> ('w, http_response) server" where
  "handleHealth cfg writer = do {
     now \<leftarrow> Now cfg;
     State_Monad.return (writeJSON cfg writer StatusOK (BHealth ''ok'' ProtocolVersion now) []) }"

text \<open>The headers \<open>ServeHTTP\<close> sets before it routes the request.\<close>

definition base_headers :: headers where
  "base_headers =
     Header_Set (Header_Set (Header_Set Map.empty ''X-Content-Type-Options'' ''nosniff'')
       ''Cache-Control'' ''no-store'') ''ASCP-Version'' ProtocolVersion"

end
