(* ===== verification/Contract_Flow.thy ===== *)
theory Contract_Flow
  imports Http_Core
begin

text \<open>
  The contract flow of the protocol engine (pkg/server/server.go, and \<open>validateReferences\<close> and
  \<open>reserveBilling\<close> of direct.go): negotiate an offer, prepare a signed quote, commit it, cancel
  the task. An early return of a handler is an \<open>Inl\<close> that \<open>attempt\<close> passes on. A billing
  record that the engine holds is never nil after a reservation succeeded, so it is a
  \<open>BillingRecord\<close> here; the test for a reservation reference stays.
\<close>

section \<open>Shared steps\<close>

definition appendAudit :: "'w Config \<Rightarrow> string \<Rightarrow> string \<Rightarrow> EntityRef \<Rightarrow> audit_data \<Rightarrow> ('w, unit) server" where
  "appendAudit cfg chainID eventType actor data = do {
     _ \<leftarrow> audit_append cfg chainID eventType actor data;
     State_Monad.return () }"

definition answer :: "'w Config \<Rightarrow> string \<Rightarrow> Problem \<Rightarrow> ('w, operationResult + 'a) server" where
  "answer cfg requestID p = State_Monad.return (Inl (problemResult cfg requestID p))"

fun context_problem :: "(error \<Rightarrow> string) \<Rightarrow> int \<Rightarrow> time \<Rightarrow> ContextRef list \<Rightarrow> Problem option" where
  "context_problem err_text index now [] = None"
| "context_problem err_text index now (ref # refs) =
     (case validateContextRef_at ref now of
        Some err \<Rightarrow> Some ((problem StatusUnprocessableEntity ErrValidationFailed ''Invalid context reference''
            ''One or more context references are invalid.'' False)
          \<lparr>p_FieldErrors := [\<lparr>fe_Pointer = ''/context_refs/'' @ decimal_int index,
             fe_Code = ''invalid_context_ref'', fe_Message = err_text err\<rparr>]\<rparr>)
      | None \<Rightarrow> context_problem err_text (index + 1) now refs)"

definition validateReferences ::
  "'w Config \<Rightarrow> Identity \<Rightarrow> ContextRef list \<Rightarrow> FileRef list \<Rightarrow> ('w, Problem option) server" where
  "validateReferences cfg identity contextRefs input_files = do {
     now \<leftarrow> Now cfg;
     case context_problem (lib_ErrText (cfg_Library cfg)) 0 now contextRefs of
       Some p \<Rightarrow> State_Monad.return (Some p)
     | None \<Rightarrow> files_validate cfg identity input_files now }"

definition reserveBilling ::
  "'w Config \<Rightarrow> Identity \<Rightarrow> string \<Rightarrow> string \<Rightarrow> BillingTerms \<Rightarrow> BillingAuthorization option \<Rightarrow> Money \<Rightarrow> string \<Rightarrow>
     ('w, Problem + BillingRecord) server"
where
  "reserveBilling cfg identity contractID bindingDigest terms authorization amount idempotencyKey =
     (if bt_Mode terms = BillingFree
      then State_Monad.return (Inr \<lparr>br_Mode = BillingFree, br_ArrangementRef = [], br_ReservationRef = [],
        br_SettlementRef = [], br_InvoiceRef = [], br_PeriodRef = [], br_Amount = Some amount, br_State = ''not_billed''\<rparr>)
      else do {
        now \<leftarrow> Now cfg;
        case validateBillingAuthorization (lib_ErrText (cfg_Library cfg)) authorization (id_Principal identity)
               (mf_ServiceID (cfg_Manifest cfg)) bindingDigest terms amount now of
          Some p \<Rightarrow> State_Monad.return (Inl p)
        | None \<Rightarrow> do {
            reserved \<leftarrow> billing_reserve cfg (mf_ServiceID (cfg_Manifest cfg)) contractID bindingDigest terms
              authorization amount idempotencyKey;
            State_Monad.return (case reserved of
                Inl err \<Rightarrow> Inl (billingProblem (lib_ErrText (cfg_Library cfg)) err)
              | Inr reservation \<Rightarrow> Inr \<lparr>br_Mode = rv_Mode reservation,
                  br_ArrangementRef = rv_ArrangementRef reservation, br_ReservationRef = rv_Reference reservation,
                  br_SettlementRef = [], br_InvoiceRef = rv_InvoiceRef reservation,
                  br_PeriodRef = rv_PeriodRef reservation, br_Amount = Some (rv_Amount reservation),
                  br_State = rv_State reservation\<rparr>) } })"

definition sign_projection ::
  "'w Config \<Rightarrow> body_value \<Rightarrow> (error \<Rightarrow> 'e) \<Rightarrow> (error \<Rightarrow> 'e) \<Rightarrow> ('w, 'e + Signature) server"
where
  "sign_projection cfg value projection_failed signing_failed =
     (case SigningProjection (js_Marshal (cfg_Library cfg)) (js_Object (cfg_Library cfg)) value of
        Inl err \<Rightarrow> State_Monad.return (Inl (projection_failed err))
      | Inr object \<Rightarrow> do {
          signed_json \<leftarrow> sign_json cfg object;
          State_Monad.return (case signed_json of Inl err \<Rightarrow> Inl (signing_failed err) | Inr sg \<Rightarrow> Inr sg) })"

text \<open>The first of the scopes that the identity does not hold.\<close>

definition missing_scope :: "Identity \<Rightarrow> string list \<Rightarrow> string option" where
  "missing_scope identity scopes = find (\<lambda>scope. \<not> HasScope identity scope) scopes"

section \<open>Negotiation\<close>

definition negotiate_guards :: "'w Config \<Rightarrow> Identity \<Rightarrow> NegotiationRequest \<Rightarrow> Problem option" where
  "negotiate_guards cfg identity input =
     (if nr_Goal input = []
      then Some ((problem StatusUnprocessableEntity ErrValidationFailed ''Validation failed'' ''The goal field is required.'' False)
        \<lparr>p_FieldErrors := [\<lparr>fe_Pointer = ''/goal'', fe_Code = ''required'', fe_Message = ''goal is required''\<rparr>]\<rparr>)
      else case (case nr_Budget input of None \<Rightarrow> None | Some budget \<Rightarrow> ValidateMoney budget) of
        Some err \<Rightarrow> Some ((problem StatusUnprocessableEntity ErrValidationFailed ''Invalid budget''
            ''The budget must use an exact non-negative decimal amount and a valid currency code.'' False)
          \<lparr>p_FieldErrors := [\<lparr>fe_Pointer = ''/budget'', fe_Code = ''invalid_money'',
             fe_Message = lib_ErrText (cfg_Library cfg) err\<rparr>]\<rparr>)
      | None \<Rightarrow>
        if nr_Actor input \<noteq> id_Actor identity \<or> nr_Principal input \<noteq> id_Principal identity
        then Some (problem StatusForbidden ErrForbidden ''Identity mismatch''
          ''The actor and principal must match the authenticated delegation.'' False)
        else None)"

definition negotiation_response ::
  "string \<Rightarrow> string \<Rightarrow> CapabilityOffer \<Rightarrow> time \<Rightarrow> NegotiationResponse" where
  "negotiation_response negotiationID requestID offer expiry =
     \<lparr>ns_NegotiationID = negotiationID, ns_Supported = co_Supported offer, ns_Conditional = co_Conditional offer,
      ns_ReasonCode = co_ReasonCode offer, ns_Reason = co_Reason offer, ns_OfferID = [],
      ns_ResolvedIntent = co_ResolvedIntent offer, ns_Parameters = co_Parameters offer,
      ns_RequiredScopes = co_RequiredScopes offer, ns_BillingOptions = co_BillingOptions offer,
      ns_InputFilePolicy = co_InputFilePolicy offer, ns_EstimatedPrice = co_EstimatedPrice offer,
      ns_OfferExpiresAt = co_ExpiresAt offer, ns_SchemaVersion = co_SchemaVersion offer,
      ns_ServerRequestID = requestID, ns_IdempotencyExpiry = expiry\<rparr>"

text \<open>The branch for a supported capability: the offer is checked and stored; its ID is returned.\<close>

definition store_offer ::
  "'w Config \<Rightarrow> Identity \<Rightarrow> string \<Rightarrow> NegotiationRequest \<Rightarrow> CapabilityOffer \<Rightarrow> string \<Rightarrow>
     ('w, operationResult + string) server"
where
  "store_offer cfg identity requestID input offer negotiationID =
     do {
       expired \<leftarrow> (if IsZero (co_ExpiresAt offer) then State_Monad.return True
         else do { now \<leftarrow> Now cfg; State_Monad.return (\<not> After (co_ExpiresAt offer) now) });
       if expired
         then answer cfg requestID (problem StatusInternalServerError ErrInternal ''Invalid service offer''
           ''The service returned an already-expired capability offer.'' False)
         else case missing_scope identity (co_RequiredScopes offer) of
           Some scope \<Rightarrow> answer cfg requestID (problem StatusForbidden ErrForbidden ''Missing delegated scope''
             (''The authenticated agent lacks required scope: '' @ scope) False)
         | None \<Rightarrow> do {
             offerID \<leftarrow> new_id cfg ''off'';
             err \<leftarrow> store_put_offer cfg
               \<lparr>so_OfferID = offerID, so_NegotiationID = negotiationID, so_Actor = id_Actor identity,
                so_Principal = id_Principal identity, so_ResolvedIntent = co_ResolvedIntent offer,
                so_SchemaVersion = co_SchemaVersion offer, so_RequiredScopes = co_RequiredScopes offer,
                so_Budget = nr_Budget input, so_ExpiresAt = co_ExpiresAt offer\<rparr>;
             case err of
               Some e \<Rightarrow> answer cfg requestID (problem StatusServiceUnavailable ErrServiceUnavailable
                 ''Offer persistence unavailable''
                 ''The service could not durably store the negotiated capability offer.'' True)
             | None \<Rightarrow> State_Monad.return (Inr offerID) } }"

definition negotiate_offer ::
  "'w Config \<Rightarrow> Identity \<Rightarrow> string \<Rightarrow> NegotiationRequest \<Rightarrow> CapabilityOffer \<Rightarrow> ('w, operationResult) server"
where
  "negotiate_offer cfg identity requestID input offer = do {
     negotiationID \<leftarrow> new_id cfg ''neg'';
     now \<leftarrow> Now cfg;
     let response = negotiation_response negotiationID requestID offer (now + cfg_IdempotencyRetention cfg);
     attempt (if co_Supported offer then store_offer cfg identity requestID input offer negotiationID
              else State_Monad.return (Inr []))
       (\<lambda>offerID. do {
          let response = response\<lparr>ns_OfferID := offerID\<rparr>;
          appendAudit cfg negotiationID ''ascp.negotiation.completed'' (id_Actor identity)
            [(''supported'', VBool (ns_Supported response)), (''offer_id'', VText (ns_OfferID response)),
             (''resolved_intent'', VText (ns_ResolvedIntent response))];
          State_Monad.return (jsonResult cfg StatusOK (BNegotiation response)) }) }"

definition negotiate :: "'w Config \<Rightarrow> Identity \<Rightarrow> string \<Rightarrow> string \<Rightarrow> string \<Rightarrow> ('w, operationResult) server" where
  "negotiate cfg identity requestID body key =
     (case decodeStrict cfg (js_Negotiation (cfg_Library cfg)) body of
        Inl p \<Rightarrow> State_Monad.return (problemResult cfg requestID p)
      | Inr input \<Rightarrow>
         (case negotiate_guards cfg identity input of
            Some p \<Rightarrow> State_Monad.return (problemResult cfg requestID p)
          | None \<Rightarrow> do {
              invalid \<leftarrow> validateReferences cfg identity (nr_ContextRefs input) (nr_InputFiles input);
              case invalid of
                Some p \<Rightarrow> State_Monad.return (problemResult cfg requestID p)
              | None \<Rightarrow> do {
                  offered \<leftarrow> service_negotiate cfg identity input;
                  case offered of
                    Inl p \<Rightarrow> State_Monad.return (problemResult cfg requestID p)
                  | Inr offer \<Rightarrow>
                      if (case co_EstimatedPrice offer of None \<Rightarrow> None | Some e \<Rightarrow> validatePriceEstimate e) \<noteq> None
                      then State_Monad.return (problemResult cfg requestID
                        (problem StatusInternalServerError ErrInternal ''Invalid service estimate''
                          ''The service produced an invalid non-binding price estimate.'' False))
                      else negotiate_offer cfg identity requestID input offer } }))"

section \<open>Preparation\<close>

text \<open>The execution window, at the time \<open>now\<close>.\<close>

definition window_problem :: "ExecutionPreferences \<Rightarrow> time \<Rightarrow> Problem option" where
  "window_problem execution now =
     (if (case ep_Deadline execution of None \<Rightarrow> False | Some deadline \<Rightarrow> \<not> After deadline now)
      then Some (problem StatusConflict ErrDeadlineExpired ''Execution deadline expired''
        ''The requested task deadline is already in the past.'' False)
      else case ep_NotBefore execution of None \<Rightarrow> None
      | Some notBefore \<Rightarrow>
          if (case ep_Deadline execution of None \<Rightarrow> False | Some deadline \<Rightarrow> After notBefore deadline)
          then Some (problem StatusUnprocessableEntity ErrValidationFailed ''Invalid execution window''
            ''not_before must not be later than deadline.'' False)
          else if After notBefore (now + Second)
          then Some (problem StatusUnprocessableEntity ErrSchedulingUnsupported ''Scheduling is not enabled''
            ''This reference service accepts immediate execution only.'' False)
          else None)"

definition callback_problem :: "'w Config \<Rightarrow> PrepareRequest \<Rightarrow> Problem option" where
  "callback_problem cfg input =
     (if pr_Callback input \<noteq> None \<and> mf_Features (cfg_Manifest cfg) ''callback_delivery'' \<noteq> Some True
      then Some (problem StatusUnprocessableEntity ErrCallbackUnsupported ''Callback delivery is not enabled''
        ''This service does not accept callback destinations. Use task polling or the signed event endpoint.'' False)
      else None)"

text \<open>The offer the request names, if it may be prepared now.\<close>

definition prepare_offer ::
  "'w Config \<Rightarrow> Identity \<Rightarrow> string \<Rightarrow> PrepareRequest \<Rightarrow> ('w, operationResult + StoredOffer) server"
where
  "prepare_offer cfg identity requestID input = do {
     found \<leftarrow> store_get_offer cfg (pr_OfferID input);
     case found of
       Inl err \<Rightarrow> answer cfg requestID (problem StatusServiceUnavailable ErrServiceUnavailable
         ''Offer store unavailable'' ''The service could not determine the negotiated offer state.'' True)
     | Inr None \<Rightarrow> answer cfg requestID (problem StatusNotFound ErrNotFound ''Offer not found''
         ''The capability offer does not exist.'' False)
     | Inr (Some offer) \<Rightarrow>
         if so_Actor offer \<noteq> id_Actor identity \<or> so_Principal offer \<noteq> id_Principal identity
         then answer cfg requestID (problem StatusForbidden ErrForbidden ''Offer ownership mismatch''
           ''The offer belongs to a different delegation.'' False)
         else do {
           now1 \<leftarrow> Now cfg;
           if After now1 (so_ExpiresAt offer)
           then answer cfg requestID (problem StatusConflict ErrOfferExpired ''Offer expired''
             ''Negotiate the capability again.'' False)
           else if pr_SchemaVersion input \<noteq> so_SchemaVersion offer
           then answer cfg requestID (problem StatusConflict ''schema_version_mismatch'' ''Schema version mismatch''
             ''The prepare request does not match the negotiated parameter contract.'' False)
           else do {
             now \<leftarrow> Now cfg;
             case window_problem (pr_Execution input) now of
               Some p \<Rightarrow> answer cfg requestID p
             | None \<Rightarrow>
                (case callback_problem cfg input of
                   Some p \<Rightarrow> answer cfg requestID p
                 | None \<Rightarrow> do {
                     invalid \<leftarrow> validateReferences cfg identity (pr_ContextRefs input) (pr_InputFiles input);
                     case invalid of
                       Some p \<Rightarrow> answer cfg requestID p
                     | None \<Rightarrow> State_Monad.return (Inr offer) }) } } }"

text \<open>The loop over the client's limits.\<close>

fun limit_problem :: "(error \<Rightarrow> string) \<Rightarrow> Money \<Rightarrow> Money option list \<Rightarrow> Problem option" where
  "limit_problem err_text cap [] = None"
| "limit_problem err_text cap (None # limits) = limit_problem err_text cap limits"
| "limit_problem err_text cap (Some limit # limits) =
     (case CompareMoney limit cap of
        Inl err \<Rightarrow> Some (problem StatusUnprocessableEntity ErrValidationFailed ''Invalid budget'' (err_text err) False)
      | Inr comparison \<Rightarrow>
          if comparison < 0
          then Some (problem StatusConflict ErrBudgetExceeded ''Quote exceeds budget''
            ''The binding price ceiling exceeds the client's authorized budget.'' False)
          else limit_problem err_text cap limits)"

definition prepare_contract ::
  "'w Config \<Rightarrow> Identity \<Rightarrow> string \<Rightarrow> PrepareRequest \<Rightarrow> StoredOffer \<Rightarrow> ('w, operationResult + PreparedContract) server"
where
  "prepare_contract cfg identity requestID input offer = do {
     prepared \<leftarrow> service_prepare cfg identity offer input;
     case prepared of
       Inl p \<Rightarrow> answer cfg requestID p
     | Inr contract \<Rightarrow> do {
         expired \<leftarrow> (if IsZero (pp_ExpiresAt contract) then State_Monad.return True
           else do { now \<leftarrow> Now cfg; State_Monad.return (\<not> After (pp_ExpiresAt contract) now) });
         if expired
         then answer cfg requestID (problem StatusInternalServerError ErrInternal ''Invalid service quote''
           ''The service returned an already-expired quote.'' False)
         else if validatePreparedContract contract \<noteq> None
         then answer cfg requestID (problem StatusInternalServerError ErrInternal ''Invalid service quote''
           ''The service produced contract terms that violate ASCP invariants.'' False)
         else case limit_problem (lib_ErrText (cfg_Library cfg)) (pp_PriceCeiling contract)
                [so_Budget offer, ep_MaxPrice (pr_Execution input)] of
             Some p \<Rightarrow> answer cfg requestID p
           | None \<Rightarrow> State_Monad.return (Inr contract) } }"

definition new_quote ::
  "'w Config \<Rightarrow> Identity \<Rightarrow> PrepareRequest \<Rightarrow> StoredOffer \<Rightarrow> PreparedContract \<Rightarrow> string \<Rightarrow> time \<Rightarrow> Quote"
where
  "new_quote cfg identity input offer contract quoteID now =
     \<lparr>q_ProtocolVersion = ProtocolVersion, q_ServiceID = mf_ServiceID (cfg_Manifest cfg), q_QuoteID = quoteID,
      q_OfferID = so_OfferID offer, q_Intent = so_ResolvedIntent offer, q_Principal = id_Principal identity,
      q_Actor = id_Actor identity, q_NormalizedTask = pp_NormalizedTask contract,
      q_ContextRefs = pr_ContextRefs input, q_InputFiles = pr_InputFiles input, q_Callback = pr_Callback input,
      q_Price = pp_Price contract, q_PriceCeiling = pp_PriceCeiling contract,
      q_PriceBreakdown = pp_PriceBreakdown contract, q_BillingTerms = pp_BillingTerms contract,
      q_Effects = pp_Effects contract, q_Permissions = pp_Permissions contract, q_DataUse = pp_DataUse contract,
      q_RiskClass = pp_RiskClass contract, q_Confirmation = pp_Confirmation contract, q_SLA = pp_SLA contract,
      q_Execution = pr_Execution input, q_IssuedAt = now, q_ExpiresAt = pp_ExpiresAt contract,
      q_RevocableUntil = pp_RevocableUntil contract, q_Signature = zero_Signature\<rparr>"

definition issue_quote :: "'w Config \<Rightarrow> Identity \<Rightarrow> string \<Rightarrow> Quote \<Rightarrow> ('w, operationResult) server" where
  "issue_quote cfg identity requestID quote =
     (if ValidateQuoteSemantics (lib_ParseURL (cfg_Library cfg)) quote \<noteq> None
      then State_Monad.return (problemResult cfg requestID
        (problem StatusInternalServerError ErrInternal ''Invalid service quote''
          ''The service produced a quote that violates ASCP semantic invariants.'' False))
      else attempt
        (sign_projection cfg (BQuote quote)
          (\<lambda>err. problemResult cfg requestID (problem StatusInternalServerError ErrInternal ''Quote signing failed''
             ''The service could not create the signed contract projection.'' True))
          (\<lambda>err. problemResult cfg requestID (problem StatusInternalServerError ErrInternal ''Quote signing failed''
             ''The service could not sign the contract.'' True)))
        (\<lambda>signature. do {
           let quote = quote\<lparr>q_Signature := signature\<rparr>;
           err \<leftarrow> store_put_quote cfg quote;
           case err of
             Some e \<Rightarrow> State_Monad.return (problemResult cfg requestID
               (problem StatusInternalServerError ErrInternal ''Quote persistence failed''
                 ''The service could not persist the signed contract.'' True))
           | None \<Rightarrow> do {
               appendAudit cfg (q_QuoteID quote) ''ascp.quote.prepared'' (id_Actor identity)
                 [(''quote_id'', VText (q_QuoteID quote)), (''digest'', VText (sg_PayloadDigest (q_Signature quote))),
                  (''price'', VMoney (q_Price quote)), (''expires'', VTime (q_ExpiresAt quote))];
               State_Monad.return (jsonResult cfg StatusCreated (BQuote quote)) } }))"

definition prepare :: "'w Config \<Rightarrow> Identity \<Rightarrow> string \<Rightarrow> string \<Rightarrow> string \<Rightarrow> ('w, operationResult) server" where
  "prepare cfg identity requestID body key =
     (case decodeStrict cfg (js_Prepare (cfg_Library cfg)) body of
        Inl p \<Rightarrow> State_Monad.return (problemResult cfg requestID p)
      | Inr input \<Rightarrow>
          if pr_OfferID input = [] \<or> pr_SchemaVersion input = []
          then State_Monad.return (problemResult cfg requestID
            (problem StatusUnprocessableEntity ErrValidationFailed ''Validation failed''
              ''offer_id and schema_version are required.'' False))
          else attempt (prepare_offer cfg identity requestID input) (\<lambda>offer.
            attempt (prepare_contract cfg identity requestID input offer) (\<lambda>contract. do {
              quoteID \<leftarrow> new_id cfg ''quo'';
              now \<leftarrow> Now cfg;
              issue_quote cfg identity requestID (new_quote cfg identity input offer contract quoteID now) })))"

section \<open>Receipts\<close>

definition new_receipt :: "Task \<Rightarrow> Quote \<Rightarrow> ArtifactRef list \<Rightarrow> PriceComponent list \<Rightarrow> string \<Rightarrow> string \<Rightarrow> time \<Rightarrow> Receipt" where
  "new_receipt task quote artifacts billedBreakdown receiptID root0 now =
     \<lparr>rc_ProtocolVersion = ProtocolVersion, rc_ServiceID = q_ServiceID quote, rc_ReceiptID = receiptID,
      rc_TaskID = t_TaskID task, rc_QuoteID = q_QuoteID quote, rc_Outcome = t_State task,
      rc_Artifacts = artifacts, rc_Billing = t_Billing task,
      rc_BilledAmount = (case t_Billing task of None \<Rightarrow> None | Some billing \<Rightarrow> br_Amount billing),
      rc_BilledBreakdown = billedBreakdown, rc_AuditRoot = root0, rc_CompletedAt = now,
      rc_Signature = zero_Signature\<rparr>"

text \<open>The update reads the clock for \<open>UpdatedAt\<close> inside the store; here it is read just before.\<close>

definition attachReceipt ::
  "'w Config \<Rightarrow> Task \<Rightarrow> Quote \<Rightarrow> EntityRef \<Rightarrow> ArtifactRef list \<Rightarrow> PriceComponent list \<Rightarrow> ('w, Task result) server"
where
  "attachReceipt cfg task quote actor artifacts billedBreakdown = do {
     loaded \<leftarrow> audit_root cfg (t_TaskID task);
     case loaded of
       Inl err \<Rightarrow> State_Monad.return (Inl (Errorf ''load audit root: %w'' [AErr err]))
     | Inr root0 \<Rightarrow> do {
         receiptID \<leftarrow> new_id cfg ''rcp'';
         now \<leftarrow> Now cfg;
         let receipt = new_receipt task quote artifacts billedBreakdown receiptID root0 now;
         signature \<leftarrow> sign_projection cfg (BReceipt receipt)
           (\<lambda>err. Errorf ''create receipt signing projection: %w'' [AErr err])
           (\<lambda>err. Errorf ''sign receipt: %w'' [AErr err]);
         case signature of
           Inl err \<Rightarrow> State_Monad.return (Inl err)
         | Inr signature \<Rightarrow> do {
             updatedAt \<leftarrow> Now cfg;
             updated \<leftarrow> store_update_task cfg (t_TaskID task) (\<lambda>current.
               Inr (current\<lparr>t_Receipt := Some (receipt\<lparr>rc_Signature := signature\<rparr>), t_UpdatedAt := updatedAt\<rparr>));
             case updated of
               (_, Some err) \<Rightarrow> State_Monad.return (Inl (Errorf ''persist receipt: %w'' [AErr err]))
             | (task', None) \<Rightarrow> do {
                 appendAudit cfg (t_TaskID task) ''ascp.receipt.issued'' actor
                   [(''receipt_id'', VText (rc_ReceiptID receipt)), (''audit_root'', VText root0)];
                 State_Monad.return (Inr task') } } } }"

section \<open>Commit\<close>

text \<open>The quote the request commits to, if it may be executed now.\<close>

definition commit_guards ::
  "'w Config \<Rightarrow> Identity \<Rightarrow> string \<Rightarrow> CommitRequest \<Rightarrow> ('w, operationResult + Quote) server"
where
  "commit_guards cfg identity requestID input = do {
     found \<leftarrow> store_get_quote cfg (cm_QuoteID input);
     case found of
       Inl err \<Rightarrow> answer cfg requestID (problem StatusServiceUnavailable ErrServiceUnavailable
         ''Quote store unavailable'' ''The service could not determine the signed quote state.'' True)
     | Inr None \<Rightarrow> answer cfg requestID (problem StatusNotFound ErrNotFound ''Quote not found''
         ''The signed quote does not exist.'' False)
     | Inr (Some quote) \<Rightarrow>
         if q_Actor quote \<noteq> id_Actor identity \<or> q_Principal quote \<noteq> id_Principal identity
         then answer cfg requestID (problem StatusForbidden ErrForbidden ''Quote ownership mismatch''
           ''The quote belongs to a different delegation.'' False)
         else do {
           now1 \<leftarrow> Now cfg;
           if After now1 (q_ExpiresAt quote)
           then answer cfg requestID (problem StatusConflict ErrQuoteExpired ''Quote expired''
             ''Prepare a new quote before committing.'' False)
           else do {
             late \<leftarrow> (case ep_Deadline (q_Execution quote) of None \<Rightarrow> State_Monad.return False
               | Some deadline \<Rightarrow> do { now2 \<leftarrow> Now cfg; State_Monad.return (\<not> After deadline now2) });
             if late
             then answer cfg requestID (problem StatusConflict ErrDeadlineExpired ''Execution deadline expired''
               ''Prepare a new quote with a valid execution deadline.'' False)
             else if cm_QuoteDigest input \<noteq> sg_PayloadDigest (q_Signature quote)
             then answer cfg requestID (problem StatusConflict ErrQuoteMismatch ''Quote digest mismatch''
               ''The commit is not bound to the stored signed quote.'' False)
             else do {
               now3 \<leftarrow> Now cfg;
               case validateAuthorization (cm_Authorization input) quote identity now3 of
                 Some p \<Rightarrow> answer cfg requestID p
               | None \<Rightarrow> do {
                   refused \<leftarrow> VerifyAuthorization cfg identity quote (cm_Authorization input);
                   case refused of
                     Some p \<Rightarrow> State_Monad.return (Inl
                       (if p_Retryable p then safeRetryProblemResult cfg requestID p else problemResult cfg requestID p))
                   | None \<Rightarrow>
                      (case missing_scope identity (map pu_Scope (q_Permissions quote)) of
                         Some scope \<Rightarrow> answer cfg requestID (problem StatusForbidden ErrForbidden
                           ''Delegated scope is no longer available''
                           (''The active delegation no longer includes required scope: '' @ scope) False)
                       | None \<Rightarrow> State_Monad.return (Inr quote)) } } } } }"

definition commit_response :: "'w Config \<Rightarrow> int \<Rightarrow> Task \<Rightarrow> time \<Rightarrow> ('w, operationResult) server" where
  "commit_response cfg status task accepted = do {
     now \<leftarrow> Now cfg;
     State_Monad.return (jsonResult cfg status (BCommit
       \<lparr>cs_Task = task, cs_AcceptedAt = accepted, cs_IdempotencyExpiry = now + cfg_IdempotencyRetention cfg\<rparr>)) }"

text \<open>Release of a reservation: the answer says whether nothing stays reserved.\<close>

definition release_reservation :: "'w Config \<Rightarrow> BillingRecord \<Rightarrow> string \<Rightarrow> ('w, bool) server" where
  "release_reservation cfg record key =
     (if br_ReservationRef record = [] then State_Monad.return True
      else do { err \<leftarrow> billing_release cfg (br_ReservationRef record) key; State_Monad.return (err = None) })"

definition voided_billing :: "bool \<Rightarrow> Task \<Rightarrow> Task" where
  "voided_billing voided task =
     (if voided then task\<lparr>t_Billing := map_option (\<lambda>b. b\<lparr>br_State := ''voided''\<rparr>) (t_Billing task)\<rparr> else task)"

text \<open>The last step of a finished task; a receipt that cannot be issued leaves it pending.\<close>

definition commit_receipt ::
  "'w Config \<Rightarrow> Identity \<Rightarrow> Quote \<Rightarrow> time \<Rightarrow> Task \<Rightarrow> ArtifactRef list \<Rightarrow> PriceComponent list \<Rightarrow> ('w, operationResult) server"
where
  "commit_receipt cfg identity quote accepted task artifacts breakdown = do {
     attached \<leftarrow> attachReceipt cfg task quote (id_Actor identity) artifacts breakdown;
     case attached of
       Inl err \<Rightarrow> commit_response cfg StatusAccepted (task\<lparr>t_StatusReason := ''receipt_pending''\<rparr>) accepted
     | Inr task' \<Rightarrow> commit_response cfg StatusCreated task' accepted }"

text \<open>The provider reported a failure \<open>p\<close>.\<close>

definition commit_failed ::
  "'w Config \<Rightarrow> Identity \<Rightarrow> string \<Rightarrow> string \<Rightarrow> Quote \<Rightarrow> BillingRecord \<Rightarrow> time \<Rightarrow> Task \<Rightarrow> Problem \<Rightarrow>
     ('w, operationResult) server"
where
  "commit_failed cfg identity requestID key quote record accepted task p = do {
     voided \<leftarrow> release_reservation cfg record (key @ '':void'');
     if \<not> voided
     then do {
       updatedAt \<leftarrow> Now cfg;
       updated \<leftarrow> store_update_task cfg (t_TaskID task) (\<lambda>current.
         Inr (current\<lparr>t_State := TaskWaitingInput, t_StatusReason := ''billing_release_pending'',
           t_UpdatedAt := updatedAt, t_Progress := 99\<rparr>));
       case updated of
         (task', Some err) \<Rightarrow> State_Monad.return (taskOutcomeUnknownResult cfg requestID task'
           ''Task and billing outcome require reconciliation''
           ''The provider reported failure, but the billing reservation could not be released and the pending state could not be durably recorded. Query the task ID; do not create a new commit.'')
       | (task', None) \<Rightarrow> do {
           appendAudit cfg (t_TaskID task') ''ascp.billing.void_pending'' (id_Actor identity)
             [(''reservation_ref'', VText (br_ReservationRef record)), (''provider_error'', VText (p_Code p))];
           commit_response cfg StatusAccepted task' accepted } }
     else do {
       completedAt \<leftarrow> Now cfg;
       updated \<leftarrow> store_update_task cfg (t_TaskID task) (\<lambda>current.
         Inr (voided_billing voided (current\<lparr>t_State := TaskFailed, t_StatusReason := p_Code p,
           t_UpdatedAt := completedAt, t_CompletedAt := Some completedAt, t_Progress := 100\<rparr>)));
       case updated of
         (task', Some err) \<Rightarrow> State_Monad.return (taskOutcomeUnknownResult cfg requestID task'
           ''Task failure outcome requires reconciliation''
           ''The provider reported failure, but the service could not durably record the final task and billing state. Query the task ID; do not create a new commit.'')
       | (task', None) \<Rightarrow> do {
           appendAudit cfg (t_TaskID task') ''ascp.task.failed'' (id_Actor identity) [(''code'', VText (p_Code p))];
           commit_receipt cfg identity quote accepted task' [] [] } } }"

text \<open>The provider's final price breaks the signed contract.\<close>

definition commit_disputed ::
  "'w Config \<Rightarrow> Identity \<Rightarrow> string \<Rightarrow> string \<Rightarrow> BillingRecord \<Rightarrow> time \<Rightarrow> Task \<Rightarrow> ExecutionResult \<Rightarrow>
     ('w, operationResult) server"
where
  "commit_disputed cfg identity requestID key record accepted task result = do {
     released \<leftarrow> release_reservation cfg record (key @ '':void-invalid-final-price'');
     let voided = (br_ReservationRef record \<noteq> [] \<and> released);
     updatedAt \<leftarrow> Now cfg;
     updated \<leftarrow> store_update_task cfg (t_TaskID task) (\<lambda>current.
       Inr (voided_billing voided (current\<lparr>t_State := TaskDisputed, t_StatusReason := ''invalid_final_price'',
         t_UpdatedAt := updatedAt, t_Artifacts := xr_Artifacts result, t_Progress := 100\<rparr>)));
     case updated of
       (task', Some err) \<Rightarrow> State_Monad.return (taskOutcomeUnknownResult cfg requestID task'
         ''Billing outcome requires reconciliation''
         ''The provider effect completed, but the reported final price violated the signed contract and the dispute state could not be durably recorded.'')
     | (task', None) \<Rightarrow> do {
         appendAudit cfg (t_TaskID task') ''ascp.billing.disputed'' (id_Actor identity)
           [(''reason'', VText ''invalid_final_price'')];
         commit_response cfg StatusAccepted task' accepted } }"

text \<open>The update that binds a settlement to the task.\<close>

definition bind_settlement :: "Settlement \<Rightarrow> Task \<Rightarrow> Task result" where
  "bind_settlement settlement current =
     (case t_Billing current of
        None \<Rightarrow> Inl (New_error ''task billing record is missing'')
      | Some b \<Rightarrow> Inr (current\<lparr>t_Billing := Some (b\<lparr>br_Mode := st_Mode settlement,
          br_ArrangementRef := st_ArrangementRef settlement, br_SettlementRef := st_Reference settlement,
          br_InvoiceRef := st_InvoiceRef settlement, br_PeriodRef := st_PeriodRef settlement,
          br_Amount := Some (st_Amount settlement), br_State := st_State settlement\<rparr>)\<rparr>))"

definition commit_settle ::
  "'w Config \<Rightarrow> Identity \<Rightarrow> string \<Rightarrow> string \<Rightarrow> BillingRecord \<Rightarrow> time \<Rightarrow> Task \<Rightarrow> ExecutionResult \<Rightarrow> Money \<Rightarrow>
     ('w, operationResult + Task) server"
where
  "commit_settle cfg identity requestID key record accepted task result finalPrice =
     (if br_ReservationRef record = [] then State_Monad.return (Inr task)
      else do {
        settled \<leftarrow> billing_settle cfg (br_ReservationRef record) finalPrice (key @ '':settlement'');
        case settled of
          Inl settlementErr \<Rightarrow> do {
            updatedAt \<leftarrow> Now cfg;
            updated \<leftarrow> store_update_task cfg (t_TaskID task) (\<lambda>current.
              Inr (current\<lparr>t_State := TaskWaitingInput, t_StatusReason := ErrBillingUnavailable,
                t_UpdatedAt := updatedAt, t_Artifacts := xr_Artifacts result, t_Progress := 99\<rparr>));
            case updated of
              (task', Some err) \<Rightarrow> State_Monad.return (Inl (taskOutcomeUnknownResult cfg requestID task'
                ''Billing outcome requires reconciliation''
                ''The provider effect completed, but billing settlement and durable task state could not be confirmed. Query the task ID; do not repeat the provider operation.''))
            | (task', None) \<Rightarrow> do {
                appendAudit cfg (t_TaskID task') ''ascp.billing.settlement_pending'' (id_Actor identity)
                  [(''code'', VText ErrBillingUnavailable)];
                pending \<leftarrow> commit_response cfg StatusAccepted task' accepted;
                State_Monad.return (Inl pending) } }
        | Inr settlement \<Rightarrow> do {
            updated \<leftarrow> store_update_task cfg (t_TaskID task) (bind_settlement settlement);
            case updated of
              (task', Some err) \<Rightarrow> State_Monad.return (Inl (taskOutcomeUnknownResult cfg requestID task'
                ''Settled billing requires reconciliation''
                ''The provider effect and billing settlement completed, but the service could not durably bind the settlement to the task. Query the task ID; do not create a new commit.''))
            | (task', None) \<Rightarrow> do {
                appendAudit cfg (t_TaskID task') ''ascp.billing.settled'' (id_Actor identity)
                  [(''settlement_ref'', VText (st_Reference settlement)), (''amount'', VMoney (st_Amount settlement))];
                State_Monad.return (Inr task') } } })"

definition commit_succeeded ::
  "'w Config \<Rightarrow> Identity \<Rightarrow> string \<Rightarrow> Quote \<Rightarrow> time \<Rightarrow> Task \<Rightarrow> ExecutionResult \<Rightarrow> PriceComponent list \<Rightarrow>
     ('w, operationResult) server"
where
  "commit_succeeded cfg identity requestID quote accepted task result finalBreakdown = do {
     completedAt \<leftarrow> Now cfg;
     updated \<leftarrow> store_update_task cfg (t_TaskID task) (\<lambda>current.
       Inr (current\<lparr>t_State := TaskSucceeded, t_UpdatedAt := completedAt, t_CompletedAt := Some completedAt,
         t_Progress := 100, t_Artifacts := xr_Artifacts result\<rparr>));
     case updated of
       (task', Some err) \<Rightarrow> State_Monad.return (taskOutcomeUnknownResult cfg requestID task'
         ''Successful task outcome requires reconciliation''
         ''The provider effect completed, but the service could not durably record the successful task state. Query the task ID; do not repeat the provider operation.'')
     | (task', None) \<Rightarrow> do {
         appendAudit cfg (t_TaskID task') ''ascp.task.succeeded'' (id_Actor identity)
           [(''artifact_count'', VInt (int (length (xr_Artifacts result))))];
         commit_receipt cfg identity quote accepted task' (xr_Artifacts result) finalBreakdown } }"

definition commit_executed ::
  "'w Config \<Rightarrow> Identity \<Rightarrow> string \<Rightarrow> string \<Rightarrow> Quote \<Rightarrow> BillingRecord \<Rightarrow> time \<Rightarrow> Task \<Rightarrow> ExecutionResult \<Rightarrow>
     ('w, operationResult) server"
where
  "commit_executed cfg identity requestID key quote record accepted task result =
     (case resolveFinalCharge quote result of
        Inl finalPriceErr \<Rightarrow> commit_disputed cfg identity requestID key record accepted task result
      | Inr (finalPrice, finalBreakdown) \<Rightarrow>
          attempt (commit_settle cfg identity requestID key record accepted task result finalPrice) (\<lambda>task'.
            commit_succeeded cfg identity requestID quote accepted task' result finalBreakdown))"

text \<open>The stages after the reservation: the task is stored, started and executed.\<close>

definition new_task :: "string \<Rightarrow> CommitRequest \<Rightarrow> Quote \<Rightarrow> BillingRecord \<Rightarrow> time \<Rightarrow> Task" where
  "new_task taskID input quote record now =
     zero_Task\<lparr>t_TaskID := taskID, t_ClientTaskID := cm_ClientTaskID input, t_QuoteID := q_QuoteID quote,
       t_State := TaskAccepted, t_CreatedAt := now, t_UpdatedAt := now, t_Billing := Some record, t_Version := 1\<rparr>"

definition commit_started ::
  "'w Config \<Rightarrow> Identity \<Rightarrow> string \<Rightarrow> string \<Rightarrow> Quote \<Rightarrow> BillingRecord \<Rightarrow> time \<Rightarrow> Task \<Rightarrow> ('w, operationResult) server"
where
  "commit_started cfg identity requestID key quote record accepted task = do {
     startedAt \<leftarrow> Now cfg;
     updated \<leftarrow> store_update_task cfg (t_TaskID task) (\<lambda>current.
       Inr (current\<lparr>t_State := TaskRunning, t_StartedAt := Some startedAt, t_UpdatedAt := startedAt, t_Progress := 1\<rparr>));
     case updated of
       (task', Some err) \<Rightarrow> do {
         _ \<leftarrow> release_reservation cfg record (key @ '':void-start-failed'');
         State_Monad.return (taskOutcomeUnknownResult cfg requestID task'
           ''Task start outcome requires reconciliation''
           ''The task was accepted, but the service could not durably record its start transition. Query the returned task ID; do not create a new commit.'') }
     | (task', None) \<Rightarrow> do {
         appendAudit cfg (t_TaskID task') ''ascp.task.running'' (id_Actor identity) [(''task_id'', VText (t_TaskID task'))];
         executed \<leftarrow> service_execute cfg identity task' quote;
         case executed of
           Inl p \<Rightarrow> commit_failed cfg identity requestID key quote record accepted task' p
         | Inr result \<Rightarrow> commit_executed cfg identity requestID key quote record accepted task' result } }"

definition commit_task ::
  "'w Config \<Rightarrow> Identity \<Rightarrow> string \<Rightarrow> string \<Rightarrow> CommitRequest \<Rightarrow> Quote \<Rightarrow> BillingRecord \<Rightarrow> ('w, operationResult) server"
where
  "commit_task cfg identity requestID key input quote record = do {
     now \<leftarrow> Now cfg;
     taskID \<leftarrow> new_id cfg ''tsk'';
     let task = new_task taskID input quote record now;
     err \<leftarrow> store_put_task cfg task;
     case err of
       Some e \<Rightarrow> do {
         _ \<leftarrow> release_reservation cfg record (key @ '':void'');
         State_Monad.return (problemResult cfg requestID
           ((problem StatusInternalServerError ErrOutcomeUnknown ''Task persistence outcome is unknown''
             ''A billing reservation or task persistence may have partially completed. Retry only with the same idempotency key while the provider reconciles the original commit.'' False)
             \<lparr>p_TaskID := t_TaskID task, p_TaskState := TaskAccepted\<rparr>)) }
     | None \<Rightarrow> do {
         appendAudit cfg (t_TaskID task) ''ascp.task.accepted'' (id_Actor identity)
           [(''task_id'', VText (t_TaskID task)), (''quote_id'', VText (q_QuoteID quote))];
         appendAudit cfg (t_TaskID task) ''ascp.billing.reserved'' (id_Actor identity)
           [(''mode'', VMode (br_Mode record)), (''reservation_ref'', VText (br_ReservationRef record)),
            (''amount'', VOptMoney (br_Amount record)), (''state'', VText (br_State record))];
         commit_started cfg identity requestID key quote record now task } }"

definition commit :: "'w Config \<Rightarrow> Identity \<Rightarrow> string \<Rightarrow> string \<Rightarrow> string \<Rightarrow> ('w, operationResult) server" where
  "commit cfg identity requestID body key =
     (case decodeStrict cfg (js_Commit (cfg_Library cfg)) body of
        Inl p \<Rightarrow> State_Monad.return (problemResult cfg requestID p)
      | Inr input \<Rightarrow> attempt (commit_guards cfg identity requestID input) (\<lambda>quote. do {
          reserved \<leftarrow> reserveBilling cfg identity (q_QuoteID quote) (sg_PayloadDigest (q_Signature quote))
            (q_BillingTerms quote) (cm_BillingAuthorization input) (q_PriceCeiling quote) (key @ '':reserve'');
          case reserved of
            Inl p \<Rightarrow> State_Monad.return
              (if p_Retryable p then safeRetryProblemResult cfg requestID p else problemResult cfg requestID p)
          | Inr record \<Rightarrow> commit_task cfg identity requestID key input quote record }))"

end
