(* ===== verification/Task_Routes.thy ===== *)
theory Task_Routes
  imports Contract_Flow
begin

text \<open>
  The task resource of the protocol engine (pkg/server/server.go): ownership, reads, the event
  stream, the audit chain and cancellation, with the routing of paths below /v1/tasks/.
\<close>

section \<open>Numbers in headers and queries\<close>

text \<open>
  \<open>strconv.ParseUint(s, 10, 64)\<close>: \<open>Inl v\<close> is an error with the value \<open>v\<close> beside it, which is
  0 for a syntax error. A number out of range is recognized while the digits are read.
\<close>

fun ParseUint :: "int \<Rightarrow> string \<Rightarrow> int + int" where
  "ParseUint n [] = Inr n"
| "ParseUint n (c # cs) =
     (if \<not> is_digit c then Inl 0
      else let n' = 10 * n + int (digit_val c) in
        if 2 ^ 64 \<le> n' then Inl (2 ^ 64 - 1) else ParseUint n' cs)"

definition ParseInt :: "string \<Rightarrow> int + int" where
  "ParseInt s =
     (let negative = (s \<noteq> [] \<and> hd s = CHR ''-'');
          digits = (if s \<noteq> [] \<and> (hd s = CHR ''-'' \<or> hd s = CHR ''+'') then tl s else s) in
      if digits = [] then Inl 0
      else case ParseUint 0 digits of
          Inl v \<Rightarrow> if v = 0 then Inl 0 else Inl (if negative then - (2 ^ 63) else 2 ^ 63 - 1)
        | Inr v \<Rightarrow>
            if \<not> negative \<and> 2 ^ 63 \<le> v then Inl (2 ^ 63 - 1)
            else if negative \<and> 2 ^ 63 < v then Inl (- (2 ^ 63))
            else Inr (if negative then - v else v))"

section \<open>Ownership\<close>

definition authorizedTask :: "'w Config \<Rightarrow> Identity \<Rightarrow> string \<Rightarrow> ('w, Problem + Task \<times> Quote) server" where
  "authorizedTask cfg identity taskID = do {
     found \<leftarrow> store_get_task cfg taskID;
     case found of
       Inl err \<Rightarrow> State_Monad.return (Inl (problem StatusServiceUnavailable ErrServiceUnavailable
         ''Task store unavailable'' ''The service could not determine the task state.'' True))
     | Inr None \<Rightarrow> State_Monad.return (Inl (problem StatusNotFound ErrNotFound ''Task not found''
         ''The task does not exist.'' False))
     | Inr (Some task) \<Rightarrow> do {
         quoted \<leftarrow> store_get_quote cfg (t_QuoteID task);
         State_Monad.return (case quoted of
             Inl err \<Rightarrow> Inl (problem StatusServiceUnavailable ErrServiceUnavailable ''Quote store unavailable''
               ''The service could not determine the task's signed quote state.'' True)
           | Inr None \<Rightarrow> Inl (problem StatusInternalServerError ErrInternal ''Task quote missing''
               ''The task's signed quote could not be loaded.'' True)
           | Inr (Some quote) \<Rightarrow>
               if q_Actor quote \<noteq> id_Actor identity \<or> q_Principal quote \<noteq> id_Principal identity
               then Inl (problem StatusForbidden ErrForbidden ''Task ownership mismatch''
                 ''The task belongs to a different delegation.'' False)
               else Inr (task, quote)) } }"

section \<open>Reads\<close>

definition handleGetTask :: "'w Config \<Rightarrow> headers \<Rightarrow> http_request \<Rightarrow> string \<Rightarrow> ('w, http_response) server" where
  "handleGetTask cfg writer request taskID =
     attempt (authenticateRead cfg writer request) (\<lambda>(requestID, identity). do {
       owned \<leftarrow> authorizedTask cfg identity taskID;
       State_Monad.return (case owned of
           Inl p \<Rightarrow> writeProblem cfg writer requestID p
         | Inr (task, quote) \<Rightarrow>
             writeJSON cfg
               (Header_Set (Header_Set writer ''ETag'' (CHR 0x22 # ''v'' @ decimal_int (t_Version task) @ [CHR 0x22]))
                 ''X-Request-ID'' requestID)
               StatusOK (BTask task) []) })"

text \<open>One event of the stream; an event that cannot be marshalled is skipped.\<close>

definition stream_event :: "'w Config \<Rightarrow> AuditEvent \<Rightarrow> string" where
  "stream_event cfg event =
     (case js_Marshal (cfg_Library cfg) (BAuditEvent event) of
        Inl err \<Rightarrow> []
      | Inr encoded \<Rightarrow> ''id: '' @ decimal_int (av_Sequence event) @ newline @ ''event: '' @ av_Type event @ newline @
          ''data: '' @ encoded @ newline @ newline)"

definition last_event_id :: "http_request \<Rightarrow> int" where
  "last_event_id request =
     (let last_id = Header_Get (rq_Headers request) ''Last-Event-ID'' in
      if last_id = [] then 0 else case ParseInt last_id of Inl v \<Rightarrow> v | Inr v \<Rightarrow> v)"

definition chain_unavailable :: "string \<Rightarrow> Problem" where
  "chain_unavailable detail =
     problem StatusServiceUnavailable ErrServiceUnavailable ''Audit store unavailable'' detail True"

definition handleEvents :: "'w Config \<Rightarrow> headers \<Rightarrow> http_request \<Rightarrow> string \<Rightarrow> ('w, http_response) server" where
  "handleEvents cfg writer request taskID =
     attempt (authenticateRead cfg writer request) (\<lambda>(requestID, identity). do {
       owned \<leftarrow> authorizedTask cfg identity taskID;
       case owned of
         Inl p \<Rightarrow> State_Monad.return (writeProblem cfg writer requestID p)
       | Inr _ \<Rightarrow> do {
           listed \<leftarrow> audit_list cfg taskID (last_event_id request);
           State_Monad.return (case listed of
               Inl err \<Rightarrow> writeProblem cfg writer requestID
                 (chain_unavailable ''The service could not load task events.'')
             | Inr events \<Rightarrow> respond
                 (Header_Set (Header_Set writer ''Content-Type'' ''text/event-stream'') ''X-Request-ID'' requestID)
                 StatusOK (concat (map (stream_event cfg) events))) } })"

definition handleAudit :: "'w Config \<Rightarrow> headers \<Rightarrow> http_request \<Rightarrow> string \<Rightarrow> ('w, http_response) server" where
  "handleAudit cfg writer request taskID =
     attempt (authenticateRead cfg writer request) (\<lambda>(requestID, identity). do {
       owned \<leftarrow> authorizedTask cfg identity taskID;
       case owned of
         Inl p \<Rightarrow> State_Monad.return (writeProblem cfg writer requestID p)
       | Inr _ \<Rightarrow> do {
           listed \<leftarrow> audit_list cfg taskID 0;
           case listed of
             Inl err \<Rightarrow> State_Monad.return (writeProblem cfg writer requestID
               (chain_unavailable ''The service could not load the task audit chain.''))
           | Inr events \<Rightarrow> do {
               loaded \<leftarrow> audit_root cfg taskID;
               State_Monad.return (case loaded of
                   Inl err \<Rightarrow> writeProblem cfg writer requestID
                     (chain_unavailable ''The service could not load the task audit root.'')
                 | Inr root0 \<Rightarrow> writeJSON cfg writer StatusOK (BChain ''task_id'' taskID events root0)
                     [(''X-Request-ID'', requestID)]) } } })"

section \<open>Cancellation\<close>

definition finished_state :: "TaskState \<Rightarrow> bool" where
  "finished_state state \<longleftrightarrow> state \<in> {TaskSucceeded, TaskFailed, TaskCancelled, TaskCompensated}"

text \<open>A hold that was neither settled nor absent.\<close>

definition open_hold :: "Task \<Rightarrow> BillingRecord option" where
  "open_hold task =
     (case t_Billing task of None \<Rightarrow> None
      | Some b \<Rightarrow> if br_ReservationRef b \<noteq> [] \<and> br_SettlementRef b = [] then Some b else None)"

definition cancel_task :: "string \<Rightarrow> time \<Rightarrow> Task \<Rightarrow> Task result" where
  "cancel_task reason now current =
     Inr (current\<lparr>t_State := TaskCancelled, t_StatusReason := reason, t_UpdatedAt := now,
       t_CompletedAt := Some now, t_Progress := 100,
       t_Billing := (case open_hold current of None \<Rightarrow> t_Billing current
         | Some b \<Rightarrow> Some (b\<lparr>br_State := ''released''\<rparr>))\<rparr>)"

definition zero_CancelRequest :: CancelRequest where
  "zero_CancelRequest = \<lparr>cn_Reason = [], cn_ExpectedVersion = None\<rparr>"

definition cancel_guards :: "CancelRequest \<Rightarrow> Task \<Rightarrow> Problem option" where
  "cancel_guards input task =
     (if (case cn_ExpectedVersion input of None \<Rightarrow> False | Some v \<Rightarrow> v \<noteq> t_Version task)
      then Some (problem StatusPreconditionFailed ErrPreconditionFailed ''Task version changed''
        ''Read the current task before retrying cancellation.'' True)
      else if finished_state (t_State task)
      then Some (problem StatusConflict ErrTaskNotCancellable ''Task cannot be cancelled''
        ''The task is already in a terminal state.'' False)
      else None)"

text \<open>The service granted the cancellation: the hold is released, then the task is cancelled.\<close>

definition cancel_granted ::
  "'w Config \<Rightarrow> string \<Rightarrow> Identity \<Rightarrow> string \<Rightarrow> string \<Rightarrow> CancelRequest \<Rightarrow> Task \<Rightarrow> ('w, operationResult) server"
where
  "cancel_granted cfg taskID identity requestID key input task = do {
     released \<leftarrow> (case open_hold task of None \<Rightarrow> State_Monad.return None
       | Some b \<Rightarrow> billing_release cfg (br_ReservationRef b) (key @ '':cancel-void''));
     case released of
       Some err \<Rightarrow> State_Monad.return (problemResult cfg requestID
         (billingProblem (lib_ErrText (cfg_Library cfg)) err))
     | None \<Rightarrow> do {
         now \<leftarrow> Now cfg;
         updated \<leftarrow> store_update_task cfg taskID (cancel_task (cn_Reason input) now);
         case updated of
           (_, Some err) \<Rightarrow> State_Monad.return (problemResult cfg requestID
             (problem StatusInternalServerError ErrInternal ''Cancellation failed''
               ''The service could not persist the cancellation transition.'' True))
         | (task', None) \<Rightarrow> do {
             appendAudit cfg taskID ''ascp.task.cancelled'' (id_Actor identity)
               [(''reason'', VText (cn_Reason input))];
             State_Monad.return (jsonResult cfg StatusOK (BTask task')) } } }"

definition cancel_owned ::
  "'w Config \<Rightarrow> string \<Rightarrow> Identity \<Rightarrow> string \<Rightarrow> string \<Rightarrow> CancelRequest \<Rightarrow> Task \<Rightarrow> ('w, operationResult) server"
where
  "cancel_owned cfg taskID identity requestID key input task =
     (case cancel_guards input task of
        Some p \<Rightarrow> State_Monad.return (problemResult cfg requestID p)
      | None \<Rightarrow> do {
          refused \<leftarrow> service_cancel cfg identity task input;
          case refused of
            Some p \<Rightarrow> State_Monad.return (problemResult cfg requestID p)
          | None \<Rightarrow> cancel_granted cfg taskID identity requestID key input task })"

definition cancel :: "'w Config \<Rightarrow> string \<Rightarrow> Identity \<Rightarrow> string \<Rightarrow> string \<Rightarrow> string \<Rightarrow> ('w, operationResult) server" where
  "cancel cfg taskID identity requestID body key =
     (case (if TrimSpace body = [] then Inr zero_CancelRequest
            else decodeStrict cfg (js_Cancel (cfg_Library cfg)) body) of
        Inl p \<Rightarrow> State_Monad.return (problemResult cfg requestID p)
      | Inr input \<Rightarrow> do {
          owned \<leftarrow> authorizedTask cfg identity taskID;
          case owned of
            Inl p \<Rightarrow> State_Monad.return (problemResult cfg requestID p)
          | Inr (task, quote) \<Rightarrow> cancel_owned cfg taskID identity requestID key input task })"

section \<open>Routing\<close>

text \<open>A handler of \<open>handleMutating\<close> that does not panic by itself.\<close>

definition total_operation ::
  "(Identity \<Rightarrow> string \<Rightarrow> string \<Rightarrow> string \<Rightarrow> ('w, operationResult) server) \<Rightarrow> 'w operation" where
  "total_operation op identity requestID body key = do {
     result \<leftarrow> op identity requestID body key;
     State_Monad.return (Some result) }"

definition path_parts :: "string \<Rightarrow> string \<Rightarrow> string list" where
  "path_parts prefix path = Split CHR ''/'' (TrimByte (TrimPrefix path prefix) CHR ''/'')"

definition not_routed :: "'w Config \<Rightarrow> headers \<Rightarrow> string \<Rightarrow> string \<Rightarrow> ('w, http_response) server" where
  "not_routed cfg writer title detail = do {
     requestID \<leftarrow> new_id cfg ''req'';
     State_Monad.return (writeProblem cfg writer requestID (problem StatusNotFound ErrNotFound title detail False)) }"

definition handleTaskRoutes :: "'w Config \<Rightarrow> headers \<Rightarrow> http_request \<Rightarrow> ('w, http_response) server" where
  "handleTaskRoutes cfg writer request =
     (let parts = path_parts ''/v1/tasks/'' (rq_Path request); verb = rq_Method request in
      if parts = [] \<or> hd parts = [] then not_routed cfg writer ''Task not found'' ''A task ID is required.''
      else if length parts = 1 \<and> verb = ''GET'' then handleGetTask cfg writer request (hd parts)
      else if length parts = 2 \<and> parts ! 1 = ''cancel'' \<and> verb = ''POST''
      then handleMutating cfg (total_operation (cancel cfg (hd parts))) writer request
      else if length parts = 2 \<and> parts ! 1 = ''events'' \<and> verb = ''GET'' then handleEvents cfg writer request (hd parts)
      else if length parts = 2 \<and> parts ! 1 = ''audit'' \<and> verb = ''GET'' then handleAudit cfg writer request (hd parts)
      else not_routed cfg writer ''Route not found'' ''The requested task operation is not available.'')"

definition handleNegotiate where
  "handleNegotiate cfg = handleMutating cfg (total_operation (negotiate cfg))"

definition handlePrepare where
  "handlePrepare cfg = handleMutating cfg (total_operation (prepare cfg))"

definition handleCommit where
  "handleCommit cfg = handleMutating cfg (total_operation (commit cfg))"

end
