(* ===== verification/File_Routes.thy ===== *)
theory File_Routes
  imports Task_Routes
begin

text \<open>
  The file resource of the protocol engine (pkg/server/file_routes.go): upload tickets, uploads,
  metadata and downloads, and the header that names a downloaded file.
\<close>

section \<open>Content disposition\<close>

definition backslashes_to_slashes :: "string \<Rightarrow> string" where
  "backslashes_to_slashes s = map (\<lambda>c. if c = CHR 0x5C then CHR ''/'' else c) s"

text \<open>\<open>filepath.Base\<close> of a slash-separated path.\<close>

definition Base :: "string \<Rightarrow> string" where
  "Base path =
     (if path = [] then ''.''
      else let stripped = TrimRight path CHR ''/'';
               last_part = rev (takeWhile (\<lambda>c. c \<noteq> CHR ''/'') (rev stripped))
        in if last_part = [] then ''/'' else last_part)"

text \<open>\<open>url.PathEscape\<close>: a byte that may not stand in a path segment becomes \<open>%XX\<close>.\<close>

definition hex_digit :: "nat \<Rightarrow> char" where
  "hex_digit d = (if d < 10 then char_of (0x30 + d) else char_of (0x37 + d))"

definition segment_char :: "char \<Rightarrow> bool" where
  "segment_char c \<longleftrightarrow> is_digit c \<or> (0x41 \<le> ord c \<and> ord c \<le> 0x5A) \<or> (0x61 \<le> ord c \<and> ord c \<le> 0x7A) \<or>
     c \<in> set ''-_.~$&+:=@''"

definition PathEscape :: "string \<Rightarrow> string" where
  "PathEscape s = concat (map (\<lambda>c. if segment_char c then [c]
     else [CHR ''%'', hex_digit (ord c div 16), hex_digit (ord c mod 16)]) s)"

definition contentDisposition :: "string \<Rightarrow> string \<Rightarrow> string" where
  "contentDisposition disposition name =
     (let disposition = (if disposition \<noteq> ''inline'' then ''attachment'' else disposition);
          name = Base (backslashes_to_slashes name);
          name = (if name = ''.'' \<or> name = ''/'' \<or> name = [] then ''file'' else name)
      in disposition @ ''; filename='' @ [CHR 0x22] @ ''file'' @ [CHR 0x22] @ ''; filename*=UTF-8'' @
         [CHR 0x27, CHR 0x27] @ PathEscape name)"

section \<open>Handlers\<close>

definition publicBaseURL :: "'w Config \<Rightarrow> string" where
  "publicBaseURL cfg =
     (if \<not> blank (mf_BaseURL (cfg_Manifest cfg)) then TrimRight (mf_BaseURL (cfg_Manifest cfg)) CHR ''/'' else [])"

definition prepareUpload :: "'w Config \<Rightarrow> Identity \<Rightarrow> string \<Rightarrow> string \<Rightarrow> string \<Rightarrow> ('w, operationResult) server" where
  "prepareUpload cfg identity requestID body key =
     (case decodeStrict cfg (js_Upload (cfg_Library cfg)) body of
        Inl p \<Rightarrow> State_Monad.return (problemResult cfg requestID p)
      | Inr input \<Rightarrow> do {
          now \<leftarrow> Now cfg;
          prepared \<leftarrow> files_prepare cfg identity input (publicBaseURL cfg) now;
          case prepared of
            Inl p \<Rightarrow> State_Monad.return (problemResult cfg requestID p)
          | Inr ticket \<Rightarrow> do {
              appendAudit cfg (ft_FileID ticket) ''ascp.file.upload_prepared'' (id_Actor identity)
                [(''file_id'', VText (ft_FileID ticket)), (''maximum_bytes'', VInt (ft_MaximumBytes ticket)),
                 (''expires_at'', VTime (ft_ExpiresAt ticket))];
              State_Monad.return (jsonResult cfg StatusCreated (BTicket ticket)) } })"

definition handlePrepareUpload :: "'w Config \<Rightarrow> headers \<Rightarrow> http_request \<Rightarrow> ('w, http_response) server" where
  "handlePrepareUpload cfg = handleMutating cfg (total_operation (prepareUpload cfg))"

text \<open>The checks on an upload request against the prepared metadata \<open>ref\<close>.\<close>

definition upload_request ::
  "'w Config \<Rightarrow> http_request \<Rightarrow> FileRef \<Rightarrow> Problem + string \<times> string \<times> string"
where
  "upload_request cfg request ref =
     (let token = Header_Get (rq_Headers request) ''X-ASCP-Upload-Token'';
          declaredDigest = Header_Get (rq_Headers request) ''X-ASCP-Content-Digest'';
          maximum = (if fr_Size ref < 0 then 0 else fr_Size ref) in
      if token = []
      then Inl (problem StatusForbidden ErrForbidden ''Upload token required''
        ''Provide the short-lived upload token returned by prepare-upload.'' False)
      else if declaredDigest = [] \<or> declaredDigest \<noteq> fr_Digest ref
      then Inl (problem StatusUnprocessableEntity ErrDigestMismatch ''Content digest mismatch''
        ''X-ASCP-Content-Digest must match the digest declared during prepare-upload.'' False)
      else case lib_ParseMediaType (cfg_Library cfg) (Header_Get (rq_Headers request) ''Content-Type'') of
          Inl err \<Rightarrow> Inl (problem StatusUnsupportedMediaType ErrUnsupportedMediaType ''Content-Type required''
            ''Upload content using the media type declared during prepare-upload.'' False)
        | Inr mediaType \<Rightarrow>
            if mediaType = []
            then Inl (problem StatusUnsupportedMediaType ErrUnsupportedMediaType ''Content-Type required''
              ''Upload content using the media type declared during prepare-upload.'' False)
            else (case read_body request (maximum + 1) of
                Inl err \<Rightarrow> Inl (problem StatusRequestEntityTooLarge ErrFileTooLarge ''Upload exceeds declared size''
                  ''The uploaded body is larger than the exact size declared during prepare-upload.'' False)
              | Inr content \<Rightarrow>
                  if maximum < int (length content)
                  then Inl (problem StatusRequestEntityTooLarge ErrFileTooLarge ''Upload exceeds declared size''
                    ''The uploaded body is larger than the exact size declared during prepare-upload.'' False)
                  else Inr (token, mediaType, content)))"

definition handleUploadContent :: "'w Config \<Rightarrow> headers \<Rightarrow> http_request \<Rightarrow> string \<Rightarrow> ('w, http_response) server" where
  "handleUploadContent cfg writer request fileID =
     attempt (authenticateRead cfg writer request) (\<lambda>(requestID, identity). do {
       now \<leftarrow> Now cfg;
       found \<leftarrow> files_get cfg identity fileID now;
       case found of
         Inl p \<Rightarrow> State_Monad.return (writeProblem cfg writer requestID p)
       | Inr ref \<Rightarrow>
          (case upload_request cfg request ref of
             Inl p \<Rightarrow> State_Monad.return (writeProblem cfg writer requestID p)
           | Inr (token, mediaType, content) \<Rightarrow> do {
               now2 \<leftarrow> Now cfg;
               uploaded \<leftarrow> files_upload cfg identity fileID token mediaType content now2;
               case uploaded of
                 Inl p \<Rightarrow> State_Monad.return (writeProblem cfg writer requestID p)
               | Inr stored \<Rightarrow> do {
                   appendAudit cfg fileID ''ascp.file.ready'' (id_Actor identity)
                     [(''file_id'', VText fileID), (''digest'', VText (fr_Digest stored)),
                      (''size'', VInt (fr_Size stored)), (''scan_status'', VText (fr_ScanStatus stored))];
                   State_Monad.return (writeJSON cfg writer StatusCreated (BFileRef stored)
                     [(''X-Request-ID'', requestID)]) } }) })"

definition quoted_text :: "string \<Rightarrow> string" where
  "quoted_text s = CHR 0x22 # s @ [CHR 0x22]"

definition handleGetFile :: "'w Config \<Rightarrow> headers \<Rightarrow> http_request \<Rightarrow> string \<Rightarrow> ('w, http_response) server" where
  "handleGetFile cfg writer request fileID =
     attempt (authenticateRead cfg writer request) (\<lambda>(requestID, identity). do {
       now \<leftarrow> Now cfg;
       found \<leftarrow> files_get cfg identity fileID now;
       State_Monad.return (case found of
           Inl p \<Rightarrow> writeProblem cfg writer requestID p
         | Inr ref \<Rightarrow> writeJSON cfg writer StatusOK (BFileRef ref)
             [(''ETag'', quoted_text (fr_Digest ref)), (''X-Request-ID'', requestID)]) })"

definition download_headers :: "headers \<Rightarrow> string \<Rightarrow> FileRef \<Rightarrow> string \<Rightarrow> headers" where
  "download_headers writer requestID ref content =
     foldl (\<lambda>h (name, v). Header_Set h name v) writer
       [(''Content-Type'', fr_MediaType ref), (''Content-Length'', decimal (length content)),
        (''ETag'', quoted_text (fr_Digest ref)), (''X-ASCP-Content-Digest'', fr_Digest ref),
        (''X-Request-ID'', requestID),
        (''Content-Disposition'', contentDisposition (fr_Disposition ref) (fr_Name ref))]"

definition handleDownloadContent :: "'w Config \<Rightarrow> headers \<Rightarrow> http_request \<Rightarrow> string \<Rightarrow> ('w, http_response) server" where
  "handleDownloadContent cfg writer request fileID =
     attempt (authenticateRead cfg writer request) (\<lambda>(requestID, identity). do {
       now \<leftarrow> Now cfg;
       found \<leftarrow> files_content cfg identity fileID now;
       State_Monad.return (case found of
           Inl p \<Rightarrow> writeProblem cfg writer requestID p
         | Inr (ref, content) \<Rightarrow> respond (download_headers writer requestID ref content) StatusOK content) })"

definition handleFileRoutes :: "'w Config \<Rightarrow> headers \<Rightarrow> http_request \<Rightarrow> ('w, http_response) server" where
  "handleFileRoutes cfg writer request =
     (let parts = path_parts ''/v1/files/'' (rq_Path request); verb = rq_Method request in
      if parts = [] \<or> hd parts = [] then not_routed cfg writer ''File not found'' ''A file ID is required.''
      else if length parts = 1 \<and> verb = ''GET'' then handleGetFile cfg writer request (hd parts)
      else if length parts = 2 \<and> parts ! 1 = ''content'' \<and> verb = ''PUT''
      then handleUploadContent cfg writer request (hd parts)
      else if length parts = 2 \<and> parts ! 1 = ''content'' \<and> verb = ''GET''
      then handleDownloadContent cfg writer request (hd parts)
      else not_routed cfg writer ''Route not found'' ''The requested file operation is not available.'')"

end
