(* ===== verification/Client.thy ===== *)
theory Client
  imports File_Routes
begin

text \<open>
  The client library (pkg/client/client.go): requests to one service origin, responses read
  within limits, and the checks a caller makes on signed documents. An exchange over the
  network is an operation on the world and an event; the client never follows a redirect, so a
  redirect is a response like any other. net/url, the construction of a request and encoding/json
  are the records \<open>net\<close> and \<open>decoders\<close>.
\<close>

section \<open>The network\<close>

text \<open>What the client reads of a parsed URL beyond what the validators read.\<close>

record full_URL = URL +
  u_Path :: string
  u_RawQuery :: string
  u_Fragment :: string

text \<open>
  \<open>url.Parse\<close>, \<open>ResolveReference\<close>, \<open>EscapedPath\<close>, \<open>Hostname\<close>, \<open>String\<close>,
  \<open>strings.EqualFold\<close> (with the folding of Unicode), \<open>net.ParseIP\<close> (the 16 bytes) and the
  error of \<open>http.NewRequest\<close> for a method and a URL.
\<close>

record net =
  nt_Parse :: "string \<Rightarrow> full_URL result"
  nt_Resolve :: "full_URL \<Rightarrow> full_URL \<Rightarrow> full_URL"
  nt_EscapedPath :: "full_URL \<Rightarrow> string"
  nt_Hostname :: "full_URL \<Rightarrow> string"
  nt_Text :: "full_URL \<Rightarrow> string"
  nt_EqualFold :: "string \<Rightarrow> string \<Rightarrow> bool"
  nt_ParseIP :: "string \<Rightarrow> string option"
  nt_NewRequest :: "string \<Rightarrow> string \<Rightarrow> error option"

definition IsAbs :: "full_URL \<Rightarrow> bool" where
  "IsAbs u \<longleftrightarrow> u_Scheme u \<noteq> []"

text \<open>\<open>IP.IsLoopback\<close>: 127.0.0.0/8, also as an IPv4 address in IPv6, or ::1.\<close>

definition IsLoopback :: "string \<Rightarrow> bool" where
  "IsLoopback ip \<longleftrightarrow>
     (if length ip = 16 \<and> take 10 ip = replicate 10 (CHR 0x00) \<and> ip ! 10 = CHR 0xFF \<and> ip ! 11 = CHR 0xFF
      then ip ! 12 = CHR 0x7F
      else ip = replicate 15 (CHR 0x00) @ [CHR 0x01])"

record http_call =
  hc_Method :: string
  hc_URL :: string
  hc_Headers :: headers
  hc_Body :: "string option"

text \<open>The body of a response: the bytes that arrive, and an error instead of the end of the body.\<close>

record http_answer =
  ha_Status :: int
  ha_Data :: string
  ha_ReadError :: "error option"

text \<open>
  What a program around the client does: exchanges, the clock, the random source, the files it
  reads and what it prints. The library itself only makes exchanges.
\<close>

datatype client_event =
    Exchange http_call "http_answer result"
  | Clock time
  | Random string
  | Opened string "string result"
  | Printed string

type_synonym ('w, 'a) client_run = "(client_event, 'w, 'a) traced"

text \<open>A Go error of the client: one it makes, or the problem document of the service.\<close>

datatype client_error = Failure error | Rejected Problem

record 'w Client =
  cl_BaseURL :: string
  cl_Token :: string
  cl_Do :: "http_call \<Rightarrow> ('w, http_answer result) op"

section \<open>Values on the wire\<close>

datatype request_value =
    QOptions OptionsRequest
  | QDirect DirectInvocationRequest
  | QNegotiation NegotiationRequest
  | QPrepare PrepareRequest
  | QCommit CommitRequest
  | QCancel CancelRequest
  | QUpload FileUploadRequest

record decoders =
  de_Request :: "request_value \<Rightarrow> string result"
  de_Problem :: "string \<Rightarrow> Problem result"
  de_Manifest :: "string \<Rightarrow> Manifest result"
  de_Catalog :: "string \<Rightarrow> CapabilityCatalog result"
  de_Options :: "string \<Rightarrow> OptionsResponse result"
  de_Direct :: "string \<Rightarrow> DirectInvocationResponse result"
  de_Negotiation :: "string \<Rightarrow> NegotiationResponse result"
  de_Quote :: "string \<Rightarrow> Quote result"
  de_Commit :: "string \<Rightarrow> CommitResponse result"
  de_Task :: "string \<Rightarrow> Task result"
  de_Chain :: "string \<Rightarrow> (AuditEvent list \<times> string) result"
  de_Ticket :: "string \<Rightarrow> FileUploadTicket result"
  de_FileRef :: "string \<Rightarrow> FileRef result"
  de_JWKS :: "string \<Rightarrow> JWK list result"

section \<open>Construction\<close>

definition isLoopbackHost :: "net \<Rightarrow> string \<Rightarrow> bool" where
  "isLoopbackHost nt host \<longleftrightarrow>
     nt_EqualFold nt host ''localhost'' \<or>
     (case nt_ParseIP nt host of None \<Rightarrow> False | Some ip \<Rightarrow> IsLoopback ip)"

definition New_client :: "net \<Rightarrow> (http_call \<Rightarrow> ('w, http_answer result) op) \<Rightarrow> string \<Rightarrow> string \<Rightarrow> 'w Client result" where
  "New_client nt do0 baseURL token =
     (case nt_Parse nt (TrimRight baseURL (CHR ''/'')) of
        Inl err \<Rightarrow> Inl (Errorf ''invalid ASCP base URL %q'' [AStr baseURL])
      | Inr parsed \<Rightarrow>
          if u_Scheme parsed = [] \<or> u_Host parsed = [] \<or> u_has_User parsed \<or> u_RawQuery parsed \<noteq> [] \<or>
             u_Fragment parsed \<noteq> []
          then Inl (Errorf ''invalid ASCP base URL %q'' [AStr baseURL])
          else if u_Path parsed \<noteq> [] \<and> u_Path parsed \<noteq> ''/''
          then Inl (New_error ''ASCP base URL must not contain a path prefix'')
          else if u_Scheme parsed \<noteq> ''https'' \<and>
             (u_Scheme parsed \<noteq> ''http'' \<or> \<not> isLoopbackHost nt (nt_Hostname nt parsed))
          then Inl (New_error ''ASCP requires HTTPS except for loopback development endpoints'')
          else Inr \<lparr>cl_BaseURL = TrimRight baseURL (CHR ''/''), cl_Token = token, cl_Do = do0\<rparr>)"

section \<open>Requests and responses\<close>

text \<open>\<open>io.ReadAll\<close> of an \<open>io.LimitReader\<close>.\<close>

definition read_limited :: "nat \<Rightarrow> http_answer \<Rightarrow> string result" where
  "read_limited limit response =
     (if limit \<le> length (ha_Data response) then Inr (take limit (ha_Data response))
      else case ha_ReadError response of Some err \<Rightarrow> Inl err | None \<Rightarrow> Inr (ha_Data response))"

definition successful :: "http_answer \<Rightarrow> bool" where
  "successful response \<longleftrightarrow> 200 \<le> ha_Status response \<and> ha_Status response < 300"

definition maximumResponseBytes :: nat where
  "maximumResponseBytes = 4 * 2 ^ 20"

definition send :: "'w Client \<Rightarrow> http_call \<Rightarrow> ('w, http_answer result) client_run" where
  "send c call = perform (cl_Do c call) (Exchange call)"

text \<open>
  The decision on a response. \<open>None\<close> is a response without a body, which leaves the result
  at the zero value of its type.
\<close>

definition read_response ::
  "decoders \<Rightarrow> (string \<Rightarrow> 'a result) \<Rightarrow> http_answer result \<Rightarrow> client_error + 'a option" where
  "read_response de decode outcome =
     (case outcome of
        Inl err \<Rightarrow> Inl (Failure (Errorf ''perform request: %w'' [AErr err]))
      | Inr response \<Rightarrow>
         (case read_limited (maximumResponseBytes + 1) response of
            Inl err \<Rightarrow> Inl (Failure (Errorf ''read response: %w'' [AErr err]))
          | Inr data \<Rightarrow>
              if maximumResponseBytes < length data
              then Inl (Failure (New_error ''ASCP response exceeds the 4 MiB client safety limit''))
              else if \<not> successful response
              then (case de_Problem de data of
                  Inl _ \<Rightarrow> Inl (Failure (Errorf ''ASCP service returned HTTP %d with malformed problem details: %s''
                    [AInt (ha_Status response), AStr (TrimSpace data)]))
                | Inr p \<Rightarrow> Inl (Rejected p))
              else if blank data then Inr None
              else (case decode data of
                  Inl err \<Rightarrow> Inl (Failure (Errorf ''decode response: %w'' [AErr err]))
                | Inr value \<Rightarrow> Inr (Some value))))"

definition doRequest ::
  "decoders \<Rightarrow> 'w Client \<Rightarrow> http_call \<Rightarrow> (string \<Rightarrow> 'a result) \<Rightarrow> ('w, client_error + 'a option) client_run" where
  "doRequest de c call decode = do {
     outcome \<leftarrow> send c call;
     State_Monad.return (read_response de decode outcome) }"

definition set_if :: "bool \<Rightarrow> string \<Rightarrow> string \<Rightarrow> headers \<Rightarrow> headers" where
  "set_if b name v h = (if b then Header_Set h name v else h)"

definition accepted_types :: string where
  "accepted_types = MediaType @ '', application/problem+json''"

definition json_headers :: "'w Client \<Rightarrow> bool \<Rightarrow> string \<Rightarrow> headers" where
  "json_headers c has_body idempotencyKey =
     set_if (idempotencyKey \<noteq> []) ''Idempotency-Key'' idempotencyKey
       (set_if (cl_Token c \<noteq> []) ''Authorization'' (''Bearer '' @ cl_Token c)
         (set_if has_body ''Content-Type'' MediaType
           (Header_Set (Header_Set Map.empty ''Accept'' accepted_types) ''ASCP-Version'' ProtocolVersion)))"

definition doJSON ::
  "net \<Rightarrow> decoders \<Rightarrow> 'w Client \<Rightarrow> string \<Rightarrow> string \<Rightarrow> request_value option \<Rightarrow> string \<Rightarrow> (string \<Rightarrow> 'a result) \<Rightarrow>
     ('w, client_error + 'a option) client_run"
where
  "doJSON nt de c verb path requestBody idempotencyKey decode =
     (case (case requestBody of None \<Rightarrow> Inr None | Some v \<Rightarrow> map_sum id Some (de_Request de v)) of
        Inl err \<Rightarrow> State_Monad.return (Inl (Failure (Errorf ''marshal request: %w'' [AErr err])))
      | Inr body \<Rightarrow>
         (case nt_NewRequest nt verb (cl_BaseURL c @ path) of
            Some err \<Rightarrow> State_Monad.return (Inl (Failure (Errorf ''create request: %w'' [AErr err])))
          | None \<Rightarrow> doRequest de c
              \<lparr>hc_Method = verb, hc_URL = cl_BaseURL c @ path,
               hc_Headers = json_headers c (requestBody \<noteq> None) idempotencyKey, hc_Body = body\<rparr> decode))"

section \<open>Operations\<close>

definition Manifest_of :: "net \<Rightarrow> decoders \<Rightarrow> 'w Client \<Rightarrow> ('w, client_error + Manifest option) client_run" where
  "Manifest_of nt de c = doJSON nt de c ''GET'' ''/.well-known/ascp'' None [] (de_Manifest de)"

text \<open>\<open>url.Values.Encode\<close>: the keys in order, escaped for a query.\<close>

definition query_char :: "char \<Rightarrow> bool" where
  "query_char c \<longleftrightarrow> is_digit c \<or> (0x41 \<le> ord c \<and> ord c \<le> 0x5A) \<or> (0x61 \<le> ord c \<and> ord c \<le> 0x7A) \<or>
     c \<in> set ''-_.~''"

definition QueryEscape :: "string \<Rightarrow> string" where
  "QueryEscape s = concat (map (\<lambda>c. if query_char c then [c] else if c = CHR '' '' then ''+''
     else [CHR ''%'', hex_digit (ord c div 16), hex_digit (ord c mod 16)]) s)"

fun join_query :: "(string \<times> string) list \<Rightarrow> string" where
  "join_query [] = []"
| "join_query [(k, v)] = QueryEscape k @ ''='' @ QueryEscape v"
| "join_query ((k, v) # p # ps) = QueryEscape k @ ''='' @ QueryEscape v @ ''&'' @ join_query (p # ps)"

definition capability_values :: "CapabilityQuery \<Rightarrow> (string \<times> string) list" where
  "capability_values query =
     (if cq_Cursor query = [] then [] else [(''cursor'', cq_Cursor query)]) @
     (if cq_Intent query = [] then [] else [(''intent'', cq_Intent query)]) @
     (if 0 < cq_Limit query then [(''limit'', decimal_int (cq_Limit query))] else []) @
     (if cq_Query query = [] then [] else [(''q'', cq_Query query)])"

definition capability_path :: "CapabilityQuery \<Rightarrow> string" where
  "capability_path query =
     (let encoded = join_query (capability_values query) in
      ''/.well-known/ascp/capabilities'' @ (if encoded = [] then [] else ''?'' @ encoded))"

definition Capabilities ::
  "net \<Rightarrow> decoders \<Rightarrow> 'w Client \<Rightarrow> CapabilityQuery \<Rightarrow> ('w, client_error + CapabilityCatalog option) client_run" where
  "Capabilities nt de c query = doJSON nt de c ''GET'' (capability_path query) None [] (de_Catalog de)"

definition Options ::
  "net \<Rightarrow> decoders \<Rightarrow> 'w Client \<Rightarrow> OptionsRequest \<Rightarrow> ('w, client_error + OptionsResponse option) client_run" where
  "Options nt de c request = doJSON nt de c ''POST'' ''/v1/options'' (Some (QOptions request)) [] (de_Options de)"

definition Invoke ::
  "net \<Rightarrow> decoders \<Rightarrow> 'w Client \<Rightarrow> DirectInvocationRequest \<Rightarrow> string \<Rightarrow>
     ('w, client_error + DirectInvocationResponse option) client_run" where
  "Invoke nt de c request key = doJSON nt de c ''POST'' ''/v1/invoke'' (Some (QDirect request)) key (de_Direct de)"

definition Negotiate ::
  "net \<Rightarrow> decoders \<Rightarrow> 'w Client \<Rightarrow> NegotiationRequest \<Rightarrow> string \<Rightarrow>
     ('w, client_error + NegotiationResponse option) client_run" where
  "Negotiate nt de c request key =
     doJSON nt de c ''POST'' ''/v1/negotiate'' (Some (QNegotiation request)) key (de_Negotiation de)"

definition Prepare_quote ::
  "net \<Rightarrow> decoders \<Rightarrow> 'w Client \<Rightarrow> PrepareRequest \<Rightarrow> string \<Rightarrow> ('w, client_error + Quote option) client_run" where
  "Prepare_quote nt de c request key =
     doJSON nt de c ''POST'' ''/v1/prepare'' (Some (QPrepare request)) key (de_Quote de)"

definition Commit ::
  "net \<Rightarrow> decoders \<Rightarrow> 'w Client \<Rightarrow> CommitRequest \<Rightarrow> string \<Rightarrow> ('w, client_error + CommitResponse option) client_run" where
  "Commit nt de c request key =
     doJSON nt de c ''POST'' ''/v1/commit'' (Some (QCommit request)) key (de_Commit de)"

definition GetTask_of :: "net \<Rightarrow> decoders \<Rightarrow> 'w Client \<Rightarrow> string \<Rightarrow> ('w, client_error + Task option) client_run" where
  "GetTask_of nt de c taskID = doJSON nt de c ''GET'' (''/v1/tasks/'' @ PathEscape taskID) None [] (de_Task de)"

definition Cancel ::
  "net \<Rightarrow> decoders \<Rightarrow> 'w Client \<Rightarrow> string \<Rightarrow> CancelRequest \<Rightarrow> string \<Rightarrow> ('w, client_error + Task option) client_run" where
  "Cancel nt de c taskID request key =
     doJSON nt de c ''POST'' (''/v1/tasks/'' @ PathEscape taskID @ ''/cancel'') (Some (QCancel request)) key (de_Task de)"

definition Audit ::
  "net \<Rightarrow> decoders \<Rightarrow> 'w Client \<Rightarrow> string \<Rightarrow> ('w, client_error + (AuditEvent list \<times> string) option) client_run" where
  "Audit nt de c taskID =
     doJSON nt de c ''GET'' (''/v1/tasks/'' @ PathEscape taskID @ ''/audit'') None [] (de_Chain de)"

definition GetInvocation_of ::
  "net \<Rightarrow> decoders \<Rightarrow> 'w Client \<Rightarrow> string \<Rightarrow> ('w, client_error + DirectInvocationResponse option) client_run" where
  "GetInvocation_of nt de c invocationID =
     doJSON nt de c ''GET'' (''/v1/invocations/'' @ PathEscape invocationID) None [] (de_Direct de)"

definition InvocationAudit ::
  "net \<Rightarrow> decoders \<Rightarrow> 'w Client \<Rightarrow> string \<Rightarrow> ('w, client_error + (AuditEvent list \<times> string) option) client_run" where
  "InvocationAudit nt de c invocationID =
     doJSON nt de c ''GET'' (''/v1/invocations/'' @ PathEscape invocationID @ ''/audit'') None [] (de_Chain de)"

definition PrepareUpload ::
  "net \<Rightarrow> decoders \<Rightarrow> 'w Client \<Rightarrow> FileUploadRequest \<Rightarrow> string \<Rightarrow>
     ('w, client_error + FileUploadTicket option) client_run" where
  "PrepareUpload nt de c request key =
     doJSON nt de c ''POST'' ''/v1/files/prepare-upload'' (Some (QUpload request)) key (de_Ticket de)"

definition GetFile :: "net \<Rightarrow> decoders \<Rightarrow> 'w Client \<Rightarrow> string \<Rightarrow> ('w, client_error + FileRef option) client_run" where
  "GetFile nt de c fileID = doJSON nt de c ''GET'' (''/v1/files/'' @ PathEscape fileID) None [] (de_FileRef de)"

section \<open>Files\<close>

definition same_origin :: "net \<Rightarrow> full_URL \<Rightarrow> full_URL \<Rightarrow> bool" where
  "same_origin nt target base \<longleftrightarrow>
     nt_EqualFold nt (u_Scheme target) (u_Scheme base) \<and> nt_EqualFold nt (u_Host target) (u_Host base)"

definition resolveSameOriginURL :: "net \<Rightarrow> 'w Client \<Rightarrow> string \<Rightarrow> full_URL result" where
  "resolveSameOriginURL nt c rawURL =
     (case nt_Parse nt (cl_BaseURL c) of
        Inl err \<Rightarrow> Inl err
      | Inr base \<Rightarrow>
         (case nt_Parse nt rawURL of
            Inl err \<Rightarrow> Inl (Errorf ''parse service URL: %w'' [AErr err])
          | Inr parsed \<Rightarrow>
              let target = (if IsAbs parsed then parsed else nt_Resolve nt base parsed) in
              if \<not> same_origin nt target base \<or> u_has_User target
              then Inl (New_error ''service URL must remain on the configured ASCP origin'')
              else Inr target))"

definition upload_headers :: "'w Client \<Rightarrow> FileUploadTicket \<Rightarrow> string \<Rightarrow> string \<Rightarrow> headers" where
  "upload_headers c ticket mediaType digest =
     set_if (cl_Token c \<noteq> []) ''Authorization'' (''Bearer '' @ cl_Token c)
       (Header_Set (Header_Set (Header_Set (Header_Set (Header_Set Map.empty
           ''Content-Type'' mediaType) ''X-ASCP-Content-Digest'' digest)
           ''X-ASCP-Upload-Token'' (ft_UploadToken ticket)) ''ASCP-Version'' ProtocolVersion)
           ''Accept'' accepted_types)"

definition UploadFile ::
  "net \<Rightarrow> decoders \<Rightarrow> 'w Client \<Rightarrow> FileUploadTicket \<Rightarrow> string \<Rightarrow> string \<Rightarrow> string \<Rightarrow>
     ('w, client_error + FileRef option) client_run"
where
  "UploadFile nt de c ticket mediaType digest content =
     (case resolveSameOriginURL nt c (ft_UploadURL ticket) of
        Inl err \<Rightarrow> State_Monad.return (Inl (Failure err))
      | Inr uploadURL \<Rightarrow>
         (case nt_NewRequest nt (ft_UploadMethod ticket) (nt_Text nt uploadURL) of
            Some err \<Rightarrow> State_Monad.return (Inl (Failure (Errorf ''create upload request: %w'' [AErr err])))
          | None \<Rightarrow> doRequest de c
              \<lparr>hc_Method = (if ft_UploadMethod ticket = [] then ''GET'' else ft_UploadMethod ticket),
               hc_URL = nt_Text nt uploadURL,
               hc_Headers = upload_headers c ticket mediaType digest, hc_Body = Some content\<rparr> (de_FileRef de)))"

definition download_call :: "'w Client \<Rightarrow> string \<Rightarrow> http_call" where
  "download_call c fileID =
     \<lparr>hc_Method = ''GET'', hc_URL = cl_BaseURL c @ ''/v1/files/'' @ PathEscape fileID @ ''/content'',
      hc_Headers = set_if (cl_Token c \<noteq> []) ''Authorization'' (''Bearer '' @ cl_Token c)
        (Header_Set Map.empty ''ASCP-Version'' ProtocolVersion), hc_Body = None\<rparr>"

text \<open>The bytes of a download, at most \<open>maximumBytes\<close>; a \<open>LimitReader\<close> with a negative limit is empty.\<close>

definition read_download :: "decoders \<Rightarrow> int \<Rightarrow> http_answer result \<Rightarrow> client_error + string" where
  "read_download de maximumBytes outcome =
     (case outcome of
        Inl err \<Rightarrow> Inl (Failure err)
      | Inr response \<Rightarrow>
          if \<not> successful response
          then (case de_Problem de (take (2 ^ 20) (ha_Data response)) of
              Inl _ \<Rightarrow> Inl (Failure (Errorf ''file download returned HTTP %d'' [AInt (ha_Status response)]))
            | Inr p \<Rightarrow> Inl (Rejected p))
          else (case read_limited (nat (wrap64 (maximumBytes + 1))) response of
              Inl err \<Rightarrow> Inl (Failure err)
            | Inr content \<Rightarrow>
                if maximumBytes < int (length content)
                then Inl (Failure (New_error ''download exceeds caller safety limit''))
                else Inr content))"

definition DownloadFile ::
  "net \<Rightarrow> decoders \<Rightarrow> 'w Client \<Rightarrow> string \<Rightarrow> int \<Rightarrow> ('w, client_error + FileRef option \<times> string) client_run" where
  "DownloadFile nt de c fileID maximumBytes =
     (if maximumBytes \<le> 0 then State_Monad.return (Inl (Failure (New_error ''maximumBytes must be positive'')))
      else case nt_NewRequest nt ''GET'' (hc_URL (download_call c fileID)) of
          Some err \<Rightarrow> State_Monad.return (Inl (Failure err))
        | None \<Rightarrow> do {
            outcome \<leftarrow> send c (download_call c fileID);
            case read_download de maximumBytes outcome of
              Inl err \<Rightarrow> State_Monad.return (Inl err)
            | Inr content \<Rightarrow> do {
                found \<leftarrow> GetFile nt de c fileID;
                State_Monad.return (case found of
                    Inl err \<Rightarrow> Inl err
                  | Inr ref \<Rightarrow>
                      if SHA256Digest content \<noteq> (case ref of None \<Rightarrow> [] | Some r \<Rightarrow> fr_Digest r)
                      then Inl (Failure (New_error ''download digest does not match file metadata''))
                      else Inr (ref, content)) } })"

section \<open>Keys\<close>

definition jwks_path :: "net \<Rightarrow> 'w Client \<Rightarrow> string \<Rightarrow> string result" where
  "jwks_path nt c uri =
     (case nt_Parse nt (cl_BaseURL c) of
        Inl err \<Rightarrow> Inl err
      | Inr base \<Rightarrow>
         (case nt_Parse nt uri of
            Inl err \<Rightarrow> Inl (Errorf ''parse JWKS URI: %w'' [AErr err])
          | Inr parsed \<Rightarrow>
              if IsAbs parsed \<and> \<not> same_origin nt parsed base
              then Inl (New_error ''cross-origin JWKS URI requires explicit trust configuration'')
              else let jwksURL = (if IsAbs parsed then parsed else nt_Resolve nt base parsed) in
                Inr (nt_EscapedPath nt jwksURL @
                  (if u_RawQuery jwksURL = [] then [] else ''?'' @ u_RawQuery jwksURL))))"

fun find_key :: "string \<Rightarrow> JWK list \<Rightarrow> string result" where
  "find_key keyID [] = Inl (Errorf ''verification key %q not found'' [AStr keyID])"
| "find_key keyID (key # keys) =
     (if jwk_KeyID key = keyID \<and> jwk_KeyType key = ''OKP'' \<and> jwk_Curve key = ''Ed25519'' \<and> jwk_Alg key = ''EdDSA''
      then (case base64_decode (jwk_X key) of
          None \<Rightarrow> Inl (Errorf ''decode JWK: %w'' [AErr (New_error ''illegal base64 data'')])
        | Some raw \<Rightarrow>
            if length raw \<noteq> PublicKeySize then Inl (New_error ''invalid Ed25519 JWK length'') else Inr raw)
      else find_key keyID keys)"

definition FetchPublicKey :: "net \<Rightarrow> decoders \<Rightarrow> 'w Client \<Rightarrow> string \<Rightarrow> ('w, client_error + string) client_run" where
  "FetchPublicKey nt de c keyID = do {
     found \<leftarrow> Manifest_of nt de c;
     case found of
       Inl err \<Rightarrow> State_Monad.return (Inl err)
     | Inr manifest \<Rightarrow>
        (case jwks_path nt c (case manifest of None \<Rightarrow> [] | Some m \<Rightarrow> mf_JWKSURI m) of
           Inl err \<Rightarrow> State_Monad.return (Inl (Failure err))
         | Inr path \<Rightarrow> do {
             listed \<leftarrow> doJSON nt de c ''GET'' path None [] (de_JWKS de);
             State_Monad.return (case listed of
                 Inl err \<Rightarrow> Inl err
               | Inr keys \<Rightarrow> map_sum Failure id (find_key keyID (case keys of None \<Rightarrow> [] | Some ks \<Rightarrow> ks))) }) }"

section \<open>Signed documents\<close>

text \<open>The functions a check of a signed document needs.\<close>

record verifier =
  vf_ed25519 :: ed25519
  vf_header :: "JWSHeader codec"
  vf_object :: "raw_object codec"
  vf_Marshal :: "body_value \<Rightarrow> string result"
  vf_Object :: "string \<Rightarrow> raw_object option result"
  vf_Request :: "request_value \<Rightarrow> string result"
  vf_ParseURL :: url_parser

definition compareJSON :: "verifier \<Rightarrow> raw_object \<Rightarrow> raw_object \<Rightarrow> string \<Rightarrow> error option" where
  "compareJSON vf left right description =
     (case marshal (vf_object vf) left of
        Inl err \<Rightarrow> Some err
      | Inr leftJSON \<Rightarrow>
         (case marshal (vf_object vf) right of
            Inl err \<Rightarrow> Some err
          | Inr rightJSON \<Rightarrow>
              if leftJSON \<noteq> rightJSON
              then Some (Errorf ''%s response fields do not match the signed payload'' [AStr description]) else None))"

definition verifySignedProjection :: "verifier \<Rightarrow> body_value \<Rightarrow> Signature \<Rightarrow> string \<Rightarrow> string \<Rightarrow> error option" where
  "verifySignedProjection vf value signature publicKey description =
     (case VerifyJSON (vf_ed25519 vf) (vf_header vf) (vf_object vf) signature publicKey of
        Inl err \<Rightarrow> Some err
      | Inr signed_object \<Rightarrow>
          if signed_object ''signature'' \<noteq> None
          then Some (Errorf ''%s signed payload unexpectedly contains the signature envelope'' [AStr description])
          else case SigningProjection (vf_Marshal vf) (vf_Object vf) value of
              Inl err \<Rightarrow> Some (Errorf ''create %s signing projection: %w'' [AStr description, AErr err])
            | Inr expected \<Rightarrow> compareJSON vf expected signed_object description)"

definition VerifyQuote :: "verifier \<Rightarrow> Quote \<Rightarrow> string \<Rightarrow> error option" where
  "VerifyQuote vf quote publicKey =
     (case verifySignedProjection vf (BQuote quote) (q_Signature quote) publicKey ''quote'' of
        Some err \<Rightarrow> Some err
      | None \<Rightarrow> ValidateQuoteSemantics (vf_ParseURL vf) quote)"

definition VerifyQuoteForManifest :: "verifier \<Rightarrow> Quote \<Rightarrow> Manifest \<Rightarrow> string \<Rightarrow> error option" where
  "VerifyQuoteForManifest vf quote manifest publicKey =
     (case VerifyQuote vf quote publicKey of
        Some err \<Rightarrow> Some err
      | None \<Rightarrow>
          if mf_ServiceID manifest = [] \<or> q_ServiceID quote \<noteq> mf_ServiceID manifest
          then Some (New_error ''quote service identity does not match the discovered manifest'')
          else if q_ProtocolVersion quote \<notin> set (mf_Versions manifest)
          then Some (Errorf ''quote protocol version %q is not advertised by the service'' [AStr (q_ProtocolVersion quote)])
          else None)"

definition VerifyReceipt :: "verifier \<Rightarrow> Receipt \<Rightarrow> string \<Rightarrow> error option" where
  "VerifyReceipt vf receipt publicKey =
     verifySignedProjection vf (BReceipt receipt) (rc_Signature receipt) publicKey ''receipt''"

definition VerifyReceiptForQuote :: "verifier \<Rightarrow> Receipt \<Rightarrow> Quote \<Rightarrow> string \<Rightarrow> error option" where
  "VerifyReceiptForQuote vf receipt quote publicKey =
     (case VerifyReceipt vf receipt publicKey of
        Some err \<Rightarrow> Some err
      | None \<Rightarrow> ValidateReceiptAgainstQuote receipt quote)"

definition VerifyInvocationReceipt :: "verifier \<Rightarrow> InvocationReceipt \<Rightarrow> string \<Rightarrow> error option" where
  "VerifyInvocationReceipt vf receipt publicKey =
     (case verifySignedProjection vf (BInvocationReceipt receipt) (ir_Signature receipt) publicKey ''invocation receipt'' of
        Some err \<Rightarrow> Some err
      | None \<Rightarrow> ValidateInvocationReceipt receipt)"

definition VerifyInvocationReceiptForRequest ::
  "verifier \<Rightarrow> InvocationReceipt \<Rightarrow> DirectInvocationRequest \<Rightarrow> string \<Rightarrow> error option" where
  "VerifyInvocationReceiptForRequest vf receipt request publicKey =
     (case VerifyInvocationReceipt vf receipt publicKey of
        Some err \<Rightarrow> Some err
      | None \<Rightarrow>
         (case vf_Request vf (QDirect request) of
            Inl err \<Rightarrow> Some err
          | Inr encoded \<Rightarrow>
              if ir_RequestDigest receipt \<noteq> SHA256Digest encoded
              then Some (New_error ''invocation receipt does not match the outbound request digest'') else None))"

end
