(* ===== verification/Client_Command.thy ===== *)
theory Client_Command
  imports Client
begin

text \<open>
  The demonstration client (cmd/ascp-client/main.go). A program exits at its first error, which is
  its result; standard output, the clock, the random source and the file system are events. The
  flags are a record. A response without a body leaves a result at the zero value of its type.
\<close>

section \<open>Programs around the client\<close>

text \<open>The packages and the environment a program runs with.\<close>

record 'w program =
  pg_net :: net
  pg_decoders :: decoders
  pg_verifier :: verifier
  pg_payload :: "signedEventPayload codec"
  pg_anchor :: anchor_decoder
  pg_Indent :: "body_value \<Rightarrow> string result"
  pg_Do :: "http_call \<Rightarrow> ('w, http_answer result) op"
  pg_Now :: "('w, time) op"
  pg_Random :: "('w, string) op"
  pg_ReadFile :: "string \<Rightarrow> ('w, string result) op"

definition zero_Manifest :: Manifest where
  "zero_Manifest =
     \<lparr>mf_Protocol = [], mf_Versions = [], mf_ServiceID = [], mf_ServiceName = [], mf_BaseURL = [], mf_JWKSURI = [],
      mf_CapabilitiesURI = [], mf_OptionsURI = [], mf_InvokeURI = [], mf_FilesURI = [], mf_DocumentationURI = [],
      mf_PrivacyPolicyURI = [], mf_TermsURI = [], mf_AuthSchemes = [], mf_BillingModes = [], mf_PaymentSchemes = [],
      mf_Features = Map.empty, mf_Limits = Map.empty, mf_GeneratedAt = 0, mf_ManifestExpiresAt = 0\<rparr>"

definition zero_CapabilityCatalog :: CapabilityCatalog where
  "zero_CapabilityCatalog =
     \<lparr>cc_ServiceID = [], cc_Revision = [], cc_Capabilities = [], cc_NextCursor = [], cc_GeneratedAt = 0, cc_ExpiresAt = 0\<rparr>"

definition zero_DirectInvocationResponse :: DirectInvocationResponse where
  "zero_DirectInvocationResponse =
     \<lparr>dr_InvocationID = [], dr_Flow = FlowOther [], dr_Intent = [], dr_State = InvocationOther [], dr_Result = [],
      dr_Artifacts = [], dr_Billing = None,
      dr_Receipt = \<lparr>ir_ProtocolVersion = [], ir_ServiceID = [], ir_ReceiptID = [], ir_InvocationID = [], ir_Intent = [],
        ir_RequestDigest = [], ir_Outcome = InvocationOther [], ir_Artifacts = [], ir_Billing = None, ir_AuditRoot = [],
        ir_CompletedAt = 0, ir_Signature = zero_Signature\<rparr>,
      dr_ServerRequestID = [], dr_IdempotencyExpiry = None\<rparr>"

definition zero_FileUploadTicket :: FileUploadTicket where
  "zero_FileUploadTicket =
     \<lparr>ft_FileID = [], ft_UploadURL = [], ft_UploadMethod = [], ft_UploadToken = [], ft_RequiredHeaders = [],
      ft_MaximumBytes = 0, ft_ExpiresAt = 0\<rparr>"

definition zero_FileRef :: FileRef where
  "zero_FileRef =
     \<lparr>fr_FileID = [], fr_URI = [], fr_Name = [], fr_MediaType = [], fr_Size = 0, fr_Digest = [], fr_Disposition = [],
      fr_Purpose = [], fr_State = [], fr_ScanStatus = [], fr_ExpiresAt = 0\<rparr>"

definition zero_NegotiationResponse :: NegotiationResponse where
  "zero_NegotiationResponse =
     \<lparr>ns_NegotiationID = [], ns_Supported = False, ns_Conditional = False, ns_ReasonCode = [], ns_Reason = [],
      ns_OfferID = [], ns_ResolvedIntent = [], ns_Parameters = [], ns_RequiredScopes = [], ns_BillingOptions = [],
      ns_InputFilePolicy = zero_FilePolicy, ns_EstimatedPrice = None, ns_OfferExpiresAt = 0, ns_SchemaVersion = [],
      ns_ServerRequestID = [], ns_IdempotencyExpiry = 0\<rparr>"

definition zero_CommitResponse :: CommitResponse where
  "zero_CommitResponse = \<lparr>cs_Task = zero_Task, cs_AcceptedAt = 0, cs_IdempotencyExpiry = 0\<rparr>"

definition zero_ExecutionPreferences :: ExecutionPreferences where
  "zero_ExecutionPreferences = q_Execution zero_Quote"

definition zero_BillingPreference :: BillingPreference where
  "zero_BillingPreference = \<lparr>bp_Mode = BillingOther [], bp_ArrangementRef = [], bp_MaximumAmount = None\<rparr>"

section \<open>Steps of a program\<close>

text \<open>The next step runs when this one had no error.\<close>

definition proceed ::
  "('w, client_error + 'a) client_run \<Rightarrow> ('a \<Rightarrow> ('w, client_error + 'b) client_run) \<Rightarrow> ('w, client_error + 'b) client_run" where
  "proceed m f = do { r \<leftarrow> m; case r of Inl err \<Rightarrow> State_Monad.return (Inl err) | Inr a \<Rightarrow> f a }"

definition filled :: "'a \<Rightarrow> client_error + 'a option \<Rightarrow> client_error + 'a" where
  "filled zero r = (case r of Inl err \<Rightarrow> Inl err | Inr None \<Rightarrow> Inr zero | Inr (Some a) \<Rightarrow> Inr a)"

definition requested :: "'a \<Rightarrow> ('w, client_error + 'a option) client_run \<Rightarrow> ('w, client_error + 'a) client_run" where
  "requested zero m = do { r \<leftarrow> m; State_Monad.return (filled zero r) }"

definition fatalIf :: "error option \<Rightarrow> ('w, client_error + unit) client_run" where
  "fatalIf err = State_Monad.return (case err of None \<Rightarrow> Inr () | Some e \<Rightarrow> Inl (Failure e))"

definition print_text :: "string \<Rightarrow> ('w, client_error + unit) client_run" where
  "print_text s = do { perform (\<lambda>w. ((), w)) (\<lambda>_. Printed s); State_Monad.return (Inr ()) }"

definition newline :: string where
  "newline = [CHR 0x0A]"

definition printJSON :: "'w program \<Rightarrow> string \<Rightarrow> body_value \<Rightarrow> ('w, client_error + unit) client_run" where
  "printJSON pg label v =
     (case pg_Indent pg v of
        Inl err \<Rightarrow> fatalIf (Some err)
      | Inr encoded \<Rightarrow> print_text (newline @ ''=== '' @ label @ '' ==='' @ newline @ encoded @ newline))"

definition time_now :: "'w program \<Rightarrow> ('w, client_error + time) client_run" where
  "time_now pg = do { t \<leftarrow> perform (pg_Now pg) Clock; State_Monad.return (Inr t) }"

definition fresh_id :: "'w program \<Rightarrow> string \<Rightarrow> ('w, client_error + string) client_run" where
  "fresh_id pg prefix = do { raw \<leftarrow> perform (pg_Random pg) Random; State_Monad.return (Inr (MustNewID raw prefix)) }"

definition read_file :: "'w program \<Rightarrow> string \<Rightarrow> ('w, client_error + string) client_run" where
  "read_file pg path = do {
     r \<leftarrow> perform (pg_ReadFile pg path) (Opened path);
     State_Monad.return (case r of Inl err \<Rightarrow> Inl (Failure err) | Inr content \<Rightarrow> Inr content) }"

text \<open>\<open>audit.Verify\<close> with the public key of the service.\<close>

definition audit_Verify :: "'w program \<Rightarrow> AuditEvent list \<Rightarrow> string \<Rightarrow> error option" where
  "audit_Verify pg events publicKey =
     Verify Format_RFC3339Nano
       (\<lambda>signature. VerifyJSON (vf_ed25519 (pg_verifier pg)) (vf_header (pg_verifier pg)) (pg_payload pg) signature publicKey) events"

section \<open>The program\<close>

record command_flags =
  fl_BaseURL :: string
  fl_Token :: string
  fl_To :: string
  fl_Subject :: string
  fl_Body :: string
  fl_Attachment :: string
  fl_Billing :: string
  fl_ArrangementRef :: string

text \<open>A conversion of a string to \<open>ascp.BillingMode\<close>.\<close>

definition BillingMode_of :: "string \<Rightarrow> BillingMode" where
  "BillingMode_of s =
     (case find (\<lambda>mode. BillingMode_text mode = s)
         [BillingFree, BillingPayNow, BillingPrepaidBalance, BillingSubscription, BillingPostpaid, BillingMonthlyInvoice,
          BillingClearing, BillingSponsored, BillingExternal] of
        None \<Rightarrow> BillingOther s | Some mode \<Rightarrow> mode)"

definition fileBaseName :: "string \<Rightarrow> string" where
  "fileBaseName path = last (Split (CHR ''/'') (map (\<lambda>c. if c = CHR 0x5C then CHR ''/'' else c) path))"

definition discover_service :: "'w program \<Rightarrow> 'w Client \<Rightarrow> ('w, client_error + Manifest) client_run" where
  "discover_service pg c =
     proceed (requested zero_Manifest (Manifest_of (pg_net pg) (pg_decoders pg) c)) (\<lambda>manifest.
     proceed (requested zero_CapabilityCatalog (Capabilities (pg_net pg) (pg_decoders pg) c
       \<lparr>cq_Query = [], cq_Intent = [], cq_Cursor = [], cq_Limit = 20\<rparr>)) (\<lambda>catalog.
     proceed (printJSON pg ''SERVICE MANIFEST'' (BManifest manifest)) (\<lambda>_.
     proceed (printJSON pg ''COMPACT CAPABILITY CATALOG'' (BCatalog catalog)) (\<lambda>_.
     State_Monad.return (Inr manifest)))))"

definition read_latest :: DirectInvocationRequest where
  "read_latest =
     \<lparr>di_RequestID = [], di_Intent = ''email.latest.read'', di_Goal = [], di_Parameters = [(''include_body'', JBool True)],
      di_ContextRefs = [], di_InputFiles = [], di_Execution = zero_ExecutionPreferences, di_Billing = zero_BillingPreference,
      di_Authorization = None, di_BillingAuthorization = None, di_ClientMetadata = []\<rparr>"

definition direct_stage :: "'w program \<Rightarrow> 'w Client \<Rightarrow> ('w, client_error + unit) client_run" where
  "direct_stage pg c =
     proceed (requested zero_DirectInvocationResponse (Invoke (pg_net pg) (pg_decoders pg) c read_latest [])) (\<lambda>response.
     proceed (FetchPublicKey (pg_net pg) (pg_decoders pg) c (sg_KeyID (ir_Signature (dr_Receipt response)))) (\<lambda>key.
     proceed (fatalIf (VerifyInvocationReceiptForRequest (pg_verifier pg) (dr_Receipt response) read_latest key)) (\<lambda>_.
     proceed (requested ([], []) (InvocationAudit (pg_net pg) (pg_decoders pg) c (dr_InvocationID response))) (\<lambda>(events, _).
     proceed (fatalIf (audit_Verify pg events key)) (\<lambda>_.
     proceed (fatalIf (VerifyInvocationReceiptAnchor (pg_anchor pg) events (dr_Receipt response))) (\<lambda>_.
     printJSON pg ''ONE-CALL DIRECT RESULT'' (BDirect response)))))))"

definition upload_stage :: "'w program \<Rightarrow> 'w Client \<Rightarrow> string \<Rightarrow> ('w, client_error + FileRef list) client_run" where
  "upload_stage pg c path =
     (if blank path then State_Monad.return (Inr [])
      else
        proceed (read_file pg path) (\<lambda>content.
        proceed (fresh_id pg ''idem'') (\<lambda>key.
        proceed (requested zero_FileUploadTicket (PrepareUpload (pg_net pg) (pg_decoders pg) c
          \<lparr>fu_RequestID = [], fu_Name = fileBaseName path, fu_MediaType = ''application/octet-stream'',
           fu_Size = int (length content), fu_Digest = SHA256Digest content, fu_Purpose = ''email_attachment'',
           fu_ExpiresAt = 0\<rparr> key)) (\<lambda>ticket.
        proceed (requested zero_FileRef (UploadFile (pg_net pg) (pg_decoders pg) c ticket ''application/octet-stream''
          (SHA256Digest content) content)) (\<lambda>ref.
        proceed (printJSON pg ''UPLOADED FILE REFERENCE'' (BFileRef ref)) (\<lambda>_.
        State_Monad.return (Inr [ref])))))))"

definition demo_actor :: EntityRef where
  "demo_actor = \<lparr>er_Type = ''agent'', er_ID = ''demo-client''\<rparr>"

definition demo_principal :: EntityRef where
  "demo_principal = \<lparr>er_Type = ''user'', er_ID = ''demo-user''\<rparr>"

definition demo_budget :: Money where
  "demo_budget = \<lparr>m_Currency = ''USD'', m_Amount = ''0.02''\<rparr>"

definition send_negotiation :: "string \<Rightarrow> FileRef list \<Rightarrow> NegotiationRequest" where
  "send_negotiation goal files =
     \<lparr>nr_RequestID = [], nr_Intent = ''email.send'', nr_Goal = goal, nr_Actor = demo_actor, nr_Principal = demo_principal,
      nr_Constraints = [], nr_Budget = Some demo_budget, nr_ContextRefs = [], nr_InputFiles = files, nr_Locale = [],
      nr_Metadata = []\<rparr>"

definition send_preparation ::
  "NegotiationResponse \<Rightarrow> string \<Rightarrow> string \<Rightarrow> string \<Rightarrow> FileRef list \<Rightarrow> BillingMode \<Rightarrow> string \<Rightarrow> PrepareRequest" where
  "send_preparation negotiation recipient subject body files mode arrangementRef =
     \<lparr>pr_RequestID = [], pr_OfferID = ns_OfferID negotiation, pr_SchemaVersion = ns_SchemaVersion negotiation,
      pr_Parameters = [(''recipient'', JStr recipient), (''subject'', JStr subject), (''body'', JStr body)],
      pr_ContextRefs = [], pr_InputFiles = files, pr_Execution = zero_ExecutionPreferences\<lparr>ep_MaxPrice := Some demo_budget\<rparr>,
      pr_Billing = \<lparr>bp_Mode = mode, bp_ArrangementRef = arrangementRef, bp_MaximumAmount = None\<rparr>, pr_Callback = None,
      pr_ClientMetadata = []\<rparr>"

definition negotiate_stage ::
  "'w program \<Rightarrow> 'w Client \<Rightarrow> FileRef list \<Rightarrow> ('w, client_error + NegotiationResponse) client_run" where
  "negotiate_stage pg c files =
     proceed (fresh_id pg ''idem'') (\<lambda>key.
     proceed (requested zero_NegotiationResponse (Negotiate (pg_net pg) (pg_decoders pg) c
       (send_negotiation ''send one email with optional attachments'' files) key)) (\<lambda>negotiation.
     proceed (fatalIf (if ns_Supported negotiation then None
       else Some (Errorf ''service rejected capability: %s'' [AStr (ns_Reason negotiation)]))) (\<lambda>_.
     proceed (printJSON pg ''CONTRACT NEGOTIATION'' (BNegotiation negotiation)) (\<lambda>_.
     State_Monad.return (Inr negotiation)))))"

text \<open>The quote of the service, verified with its key against the manifest.\<close>

definition quote_stage ::
  "'w program \<Rightarrow> 'w Client \<Rightarrow> command_flags \<Rightarrow> Manifest \<Rightarrow> FileRef list \<Rightarrow> NegotiationResponse \<Rightarrow>
     ('w, client_error + Quote \<times> string) client_run"
where
  "quote_stage pg c flags manifest files negotiation =
     proceed (fresh_id pg ''idem'') (\<lambda>key.
     proceed (requested zero_Quote (Prepare_quote (pg_net pg) (pg_decoders pg) c
       (send_preparation negotiation (fl_To flags) (fl_Subject flags) (fl_Body flags) files
          (BillingMode_of (fl_Billing flags)) (fl_ArrangementRef flags)) key)) (\<lambda>quote.
     proceed (FetchPublicKey (pg_net pg) (pg_decoders pg) c (sg_KeyID (q_Signature quote))) (\<lambda>quoteKey.
     proceed (fatalIf (VerifyQuoteForManifest (pg_verifier pg) quote manifest quoteKey)) (\<lambda>_.
     proceed (printJSON pg ''VERIFIED SIGNED QUOTE'' (BQuote quote)) (\<lambda>_.
     State_Monad.return (Inr (quote, quoteKey)))))))"

definition confirmation :: "Quote \<Rightarrow> string \<Rightarrow> time \<Rightarrow> AuthorizationEvidence" where
  "confirmation quote reference now =
     \<lparr>ae_Type = ''explicit_user_confirmation'', ae_Reference = reference, ae_PrincipalID = er_ID demo_principal,
      ae_Audience = q_ServiceID quote, ae_ApprovedAt = now, ae_ExpiresAt = now + 5 * Minute,
      ae_BindingDigest = sg_PayloadDigest (q_Signature quote), ae_PolicyVersion = []\<rparr>"

definition payment :: "Quote \<Rightarrow> string \<Rightarrow> time \<Rightarrow> BillingAuthorization" where
  "payment quote reference now =
     \<lparr>ba_Mode = bt_Mode (q_BillingTerms quote), ba_ArrangementRef = bt_ArrangementRef (q_BillingTerms quote),
      ba_AuthorizationRef = reference, ba_Payer = demo_principal, ba_Audience = q_ServiceID quote,
      ba_MaximumAmount = Some (q_PriceCeiling quote), ba_ExpiresAt = now + 5 * Minute,
      ba_BindingDigest = sg_PayloadDigest (q_Signature quote), ba_Usage = ''single_use''\<rparr>"

definition new_commitment ::
  "Quote \<Rightarrow> AuthorizationEvidence \<Rightarrow> BillingAuthorization option \<Rightarrow> string \<Rightarrow> CommitRequest" where
  "new_commitment quote evidence authorization clientTaskID =
     \<lparr>cm_RequestID = [], cm_QuoteID = q_QuoteID quote, cm_QuoteDigest = sg_PayloadDigest (q_Signature quote),
      cm_Authorization = evidence, cm_BillingAuthorization = authorization, cm_ClientTaskID = clientTaskID, cm_Metadata = []\<rparr>"

definition commitment_stage :: "'w program \<Rightarrow> Quote \<Rightarrow> ('w, client_error + CommitRequest) client_run" where
  "commitment_stage pg quote =
     proceed (time_now pg) (\<lambda>now.
     proceed (fresh_id pg ''approval'') (\<lambda>approval.
     proceed (fresh_id pg ''client-task'') (\<lambda>clientTaskID.
     proceed (if bt_AuthorizationRequired (q_BillingTerms quote)
       then proceed (fresh_id pg ''auth'') (\<lambda>auth. State_Monad.return (Inr (Some (payment quote (''mockpay_'' @ auth) now))))
       else State_Monad.return (Inr None)) (\<lambda>authorization.
     State_Monad.return (Inr (new_commitment quote (confirmation quote (''demo-approval-'' @ approval) now)
       authorization clientTaskID))))))"

definition commit_stage ::
  "'w program \<Rightarrow> 'w Client \<Rightarrow> Quote \<Rightarrow> string \<Rightarrow> ('w, client_error + CommitResponse) client_run" where
  "commit_stage pg c quote quoteKey =
     proceed (commitment_stage pg quote) (\<lambda>commitment.
     proceed (fresh_id pg ''idem'') (\<lambda>key.
     proceed (requested zero_CommitResponse (Commit (pg_net pg) (pg_decoders pg) c commitment key)) (\<lambda>committed.
     proceed (fatalIf (case t_Receipt (cs_Task committed) of None \<Rightarrow> None
       | Some receipt \<Rightarrow> VerifyReceiptForQuote (pg_verifier pg) receipt quote quoteKey)) (\<lambda>_.
     proceed (printJSON pg ''CONTRACT EXECUTION RESULT'' (BCommit committed)) (\<lambda>_.
     State_Monad.return (Inr committed))))))"

definition audit_stage ::
  "'w program \<Rightarrow> 'w Client \<Rightarrow> CommitResponse \<Rightarrow> string \<Rightarrow> ('w, client_error + unit) client_run" where
  "audit_stage pg c committed quoteKey =
     proceed (requested ([], []) (Audit (pg_net pg) (pg_decoders pg) c (t_TaskID (cs_Task committed)))) (\<lambda>(events, root0).
     proceed (fatalIf (audit_Verify pg events quoteKey)) (\<lambda>_.
     proceed (fatalIf (case t_Receipt (cs_Task committed) of None \<Rightarrow> None
       | Some receipt \<Rightarrow> VerifyReceiptAnchor (pg_anchor pg) events receipt)) (\<lambda>_.
     print_text (newline @ ''AUDIT VERIFIED: '' @ decimal (length events) @ '' contract events, root='' @ root0 @ newline))))"

definition main_client :: "'w program \<Rightarrow> command_flags \<Rightarrow> ('w, client_error + unit) client_run" where
  "main_client pg flags =
     (case New_client (pg_net pg) (pg_Do pg) (fl_BaseURL flags) (fl_Token flags) of
        Inl err \<Rightarrow> fatalIf (Some err)
      | Inr c \<Rightarrow>
          proceed (discover_service pg c) (\<lambda>manifest.
          proceed (direct_stage pg c) (\<lambda>_.
          proceed (upload_stage pg c (fl_Attachment flags)) (\<lambda>files.
          proceed (negotiate_stage pg c files) (\<lambda>negotiation.
          proceed (quote_stage pg c flags manifest files negotiation) (\<lambda>(quote, quoteKey).
          proceed (commit_stage pg c quote quoteKey) (\<lambda>committed.
          audit_stage pg c committed quoteKey)))))))"

end
