(* ===== verification/Conformance.thy ===== *)
theory Conformance
  imports Client_Command
begin

text \<open>
  The conformance program (cmd/ascp-conformance/main.go): nine checks of a live service over the
  client library. The first check that fails ends it with its message as the result. Two responses
  are compared as values: a nil and an empty list are one value here.
\<close>

section \<open>Checks\<close>

definition hasCapability :: "CapabilityCatalog \<Rightarrow> string \<Rightarrow> Flow \<Rightarrow> bool" where
  "hasCapability catalog intent flow \<longleftrightarrow>
     list_ex (\<lambda>capability. cd_Intent capability = intent \<and> flow \<in> set (cd_SupportedFlows capability)) (cc_Capabilities catalog)"

definition failing :: "string \<Rightarrow> fmt_arg list \<Rightarrow> ('w, client_error + 'a) client_run" where
  "failing format arguments = State_Monad.return (Inl (Failure (Errorf format arguments)))"

definition required :: "bool \<Rightarrow> string \<Rightarrow> ('w, client_error + unit) client_run" where
  "required holds message = (if holds then State_Monad.return (Inr ()) else failing message [])"

fun client_error_arg :: "client_error \<Rightarrow> fmt_arg" where
  "client_error_arg (Failure err) = AErr err"
| "client_error_arg (Rejected p) = AStr (Problem_Error p)"

definition must :: "string \<Rightarrow> ('w, client_error + 'a) client_run \<Rightarrow> ('w, client_error + 'a) client_run" where
  "must operation m = do {
     r \<leftarrow> m;
     State_Monad.return (case r of
         Inl err \<Rightarrow> Inl (Failure (Errorf ''%s: %v'' [AStr operation, client_error_arg err]))
       | Inr a \<Rightarrow> Inr a) }"

definition must_hold :: "string \<Rightarrow> error option \<Rightarrow> ('w, client_error + unit) client_run" where
  "must_hold operation err = must operation (fatalIf err)"

definition pass :: "string \<Rightarrow> ('w, client_error + unit) client_run" where
  "pass check = print_text (''PASS: '' @ check @ newline)"

text \<open>A call that must be refused with a problem of a given code.\<close>

definition refused :: "string \<Rightarrow> string \<Rightarrow> ('w, client_error + 'a) client_run \<Rightarrow> ('w, client_error + unit) client_run" where
  "refused code message m = do {
     r \<leftarrow> m;
     (case r of
        Inl (Rejected p) \<Rightarrow> if p_Code p = code then State_Monad.return (Inr ())
          else failing message [client_error_arg (Rejected p)]
      | Inl (Failure err) \<Rightarrow> failing message [AErr err]
      | Inr _ \<Rightarrow> failing message [AStr ''<nil>'']) }"

section \<open>The nine checks\<close>

definition check_catalog :: "'w program \<Rightarrow> 'w Client \<Rightarrow> ('w, client_error + unit) client_run" where
  "check_catalog pg c =
     proceed (must ''read capability catalog'' (requested zero_CapabilityCatalog (Capabilities (pg_net pg) (pg_decoders pg) c
       \<lparr>cq_Query = [], cq_Intent = [], cq_Cursor = [], cq_Limit = 20\<rparr>))) (\<lambda>catalog.
     proceed (required (hasCapability catalog ''email.latest.read'' FlowDirect \<and> hasCapability catalog ''email.send'' FlowContract)
       ''capability catalog does not expose both reference flows'') (\<lambda>_.
     pass ''compact capability catalog''))"

definition check_direct :: "'w program \<Rightarrow> 'w Client \<Rightarrow> ('w, client_error + unit) client_run" where
  "check_direct pg c =
     proceed (must ''invoke direct read''
       (requested zero_DirectInvocationResponse (Invoke (pg_net pg) (pg_decoders pg) c read_latest []))) (\<lambda>direct.
     proceed (must ''fetch direct receipt key''
       (FetchPublicKey (pg_net pg) (pg_decoders pg) c (sg_KeyID (ir_Signature (dr_Receipt direct))))) (\<lambda>key.
     proceed (must_hold ''verify direct receipt''
       (VerifyInvocationReceiptForRequest (pg_verifier pg) (dr_Receipt direct) read_latest key)) (\<lambda>_.
     proceed (must ''read direct audit''
       (requested ([], []) (InvocationAudit (pg_net pg) (pg_decoders pg) c (dr_InvocationID direct)))) (\<lambda>(events, root0).
     proceed (must_hold ''verify direct audit'' (audit_Verify pg events key)) (\<lambda>_.
     proceed (must_hold ''verify direct audit anchor''
       (VerifyInvocationReceiptAnchor (pg_anchor pg) events (dr_Receipt direct))) (\<lambda>_.
     proceed (required (root0 \<noteq> []) ''direct audit root is empty'') (\<lambda>_.
     pass ''one-call free direct invocation'')))))))"

definition zero_OptionsResponse :: OptionsResponse where
  "zero_OptionsResponse =
     \<lparr>os_Supported = False, os_ResolvedIntent = [], os_RecommendedFlow = FlowOther [], os_DirectEligible = False,
      os_ReasonCode = [], os_Reason = [], os_Parameters = [], os_MissingParameters = [], os_RequiredScopes = [],
      os_BillingOptions = [], os_InputFilePolicy = zero_FilePolicy, os_EstimatedPrice = None, os_SchemaVersion = [],
      os_ExpiresAt = 0, os_ServerRequestID = []\<rparr>"

definition check_options :: "'w program \<Rightarrow> 'w Client \<Rightarrow> ('w, client_error + unit) client_run" where
  "check_options pg c =
     proceed (must ''read semantic options'' (requested zero_OptionsResponse (Options (pg_net pg) (pg_decoders pg) c
       \<lparr>or_RequestID = [], or_Intent = ''email.send'', or_Goal = [], or_Parameters = [], or_ContextRefs = [],
        or_InputFiles = [], or_Locale = []\<rparr>))) (\<lambda>options.
     proceed (required (\<not> os_DirectEligible options \<and> os_RecommendedFlow options = FlowContract \<and>
         2 \<le> length (os_BillingOptions options) \<and> fp_Accepted (os_InputFilePolicy options))
       ''email.send options omitted contract, billing, or attachment requirements'') (\<lambda>_.
     pass ''optional semantic preflight''))"

definition direct_send :: DirectInvocationRequest where
  "direct_send = read_latest\<lparr>di_Intent := ''email.send'',
     di_Parameters := [(''recipient'', JStr ''conformance@example.com''), (''subject'', JStr ''must not send directly''),
       (''body'', JStr ''This direct request must be rejected.'')]\<rparr>"

definition check_contract_required :: "'w program \<Rightarrow> 'w Client \<Rightarrow> ('w, client_error + unit) client_run" where
  "check_contract_required pg c =
     proceed (refused ErrContractRequired ''expected contract_required for direct email.send, got %v''
       (Invoke (pg_net pg) (pg_decoders pg) c direct_send ''conformance-direct-send-0001'')) (\<lambda>_.
     pass ''unsafe direct task fails closed'')"

definition conformance_content :: string where
  "conformance_content = ''ASCP 0.2 conformance attachment'' @ newline"

definition check_files :: "'w program \<Rightarrow> 'w Client \<Rightarrow> ('w, client_error + FileRef) client_run" where
  "check_files pg c =
     proceed (must ''prepare file upload'' (requested zero_FileUploadTicket (PrepareUpload (pg_net pg) (pg_decoders pg) c
       \<lparr>fu_RequestID = [], fu_Name = ''conformance.txt'', fu_MediaType = ''text/plain'',
        fu_Size = int (length conformance_content), fu_Digest = SHA256Digest conformance_content,
        fu_Purpose = ''email_attachment'', fu_ExpiresAt = 0\<rparr> ''conformance-upload-prepare-0001''))) (\<lambda>ticket.
     proceed (must ''upload file'' (requested zero_FileRef (UploadFile (pg_net pg) (pg_decoders pg) c ticket ''text/plain''
       (SHA256Digest conformance_content) conformance_content))) (\<lambda>fileRef.
     proceed (must ''download staged file''
       (DownloadFile (pg_net pg) (pg_decoders pg) c (fr_FileID fileRef) 1024)) (\<lambda>(downloadedRef, downloaded).
     proceed (required (conformance_content = downloaded \<and>
         fr_Digest (case downloadedRef of None \<Rightarrow> zero_FileRef | Some ref \<Rightarrow> ref) = SHA256Digest conformance_content)
       ''downloaded staged file differs from upload'') (\<lambda>_.
     proceed (pass ''digest-bound file transfer'') (\<lambda>_.
     State_Monad.return (Inr fileRef))))))"

definition check_replay :: "'w program \<Rightarrow> 'w Client \<Rightarrow> FileRef \<Rightarrow> ('w, client_error + NegotiationResponse) client_run" where
  "check_replay pg c fileRef =
     (let request = send_negotiation ''send a conformance-test email'' [fileRef]; key = ''conformance-negotiate-0001'' in
     proceed (must ''negotiate''
       (requested zero_NegotiationResponse (Negotiate (pg_net pg) (pg_decoders pg) c request key))) (\<lambda>first.
     proceed (must ''replay negotiation''
       (requested zero_NegotiationResponse (Negotiate (pg_net pg) (pg_decoders pg) c request key))) (\<lambda>second.
     proceed (required (first = second) ''idempotency replay changed the negotiation response'') (\<lambda>_.
     proceed (refused ErrIdempotencyConflict ''expected idempotency_conflict, got %v''
       (Negotiate (pg_net pg) (pg_decoders pg) c (request\<lparr>nr_Goal := ''different payload under the same key''\<rparr>) key)) (\<lambda>_.
     proceed (pass ''exact replay and conflict detection'') (\<lambda>_.
     State_Monad.return (Inr first)))))))"

definition check_quote ::
  "'w program \<Rightarrow> 'w Client \<Rightarrow> Manifest \<Rightarrow> FileRef \<Rightarrow> NegotiationResponse \<Rightarrow> ('w, client_error + Quote \<times> string) client_run"
where
  "check_quote pg c manifest fileRef first =
     proceed (must ''prepare signed quote'' (requested zero_Quote (Prepare_quote (pg_net pg) (pg_decoders pg) c
       (send_preparation first ''conformance@example.com'' ''ASCP 0.2 conformance test''
          ''This message verifies direct, contract, billing, file, and audit behavior.'' [fileRef]
          BillingSubscription ''subscription_conformance'') ''conformance-prepare-0001''))) (\<lambda>quote.
     proceed (must ''fetch quote verification key''
       (FetchPublicKey (pg_net pg) (pg_decoders pg) c (sg_KeyID (q_Signature quote)))) (\<lambda>publicKey.
     proceed (must_hold ''verify signed quote'' (VerifyQuoteForManifest (pg_verifier pg) quote manifest publicKey)) (\<lambda>_.
     proceed (required (length (q_InputFiles quote) = 1 \<and>
         fr_Digest (hd (q_InputFiles quote)) = SHA256Digest conformance_content \<and>
         bt_Mode (q_BillingTerms quote) = BillingSubscription \<and> \<not> bt_AuthorizationRequired (q_BillingTerms quote))
       ''signed quote did not preserve attachment or subscription terms'') (\<lambda>_.
     proceed (pass ''signed file and standing-billing contract'') (\<lambda>_.
     State_Monad.return (Inr (quote, publicKey)))))))"

definition check_commit ::
  "'w program \<Rightarrow> 'w Client \<Rightarrow> Quote \<Rightarrow> string \<Rightarrow> ('w, client_error + CommitResponse \<times> Receipt) client_run"
where
  "check_commit pg c quote publicKey =
     proceed (time_now pg) (\<lambda>now.
     let request = new_commitment quote (confirmation quote ''demo-approval-conformance'' now) None ''conformance-client-task'' in
     proceed (must ''commit task'' (requested zero_CommitResponse
       (Commit (pg_net pg) (pg_decoders pg) c request ''conformance-commit-000001''))) (\<lambda>committed.
     proceed (must ''replay commit'' (requested zero_CommitResponse
       (Commit (pg_net pg) (pg_decoders pg) c request ''conformance-commit-000001''))) (\<lambda>replayed.
     proceed (required (t_TaskID (cs_Task replayed) = t_TaskID (cs_Task committed))
       ''commit replay created a second task'') (\<lambda>_.
     (case (t_Receipt (cs_Task committed), t_Billing (cs_Task committed)) of
        (Some receipt, Some _) \<Rightarrow>
          proceed (must_hold ''verify signed receipt'' (VerifyReceiptForQuote (pg_verifier pg) receipt quote publicKey)) (\<lambda>_.
          proceed (pass ''quote-bound commit and signed receipt'') (\<lambda>_.
          State_Monad.return (Inr (committed, receipt))))
      | _ \<Rightarrow> failing ''completed task lacks receipt or billing record'' [])))))"

definition check_audit ::
  "'w program \<Rightarrow> 'w Client \<Rightarrow> CommitResponse \<Rightarrow> Receipt \<Rightarrow> string \<Rightarrow> ('w, client_error + unit) client_run" where
  "check_audit pg c committed receipt publicKey =
     proceed (must ''read task audit trail''
       (requested ([], []) (Audit (pg_net pg) (pg_decoders pg) c (t_TaskID (cs_Task committed))))) (\<lambda>(taskEvents, taskRoot).
     proceed (must_hold ''verify task audit trail'' (audit_Verify pg taskEvents publicKey)) (\<lambda>_.
     proceed (must_hold ''verify receipt audit anchor'' (VerifyReceiptAnchor (pg_anchor pg) taskEvents receipt)) (\<lambda>_.
     proceed (required (taskRoot \<noteq> []) ''task audit root is empty'') (\<lambda>_.
     pass (''signed task audit chain ('' @ decimal (length taskEvents) @ '' events)'')))))"

definition main_conformance :: "'w program \<Rightarrow> string \<Rightarrow> string \<Rightarrow> ('w, client_error + unit) client_run" where
  "main_conformance pg baseURL token =
     proceed (must ''construct client''
       (State_Monad.return (map_sum Failure id (New_client (pg_net pg) (pg_Do pg) baseURL token)))) (\<lambda>c.
     proceed (must ''discover service manifest'' (requested zero_Manifest (Manifest_of (pg_net pg) (pg_decoders pg) c))) (\<lambda>manifest.
     proceed (check_catalog pg c) (\<lambda>_.
     proceed (check_direct pg c) (\<lambda>_.
     proceed (check_options pg c) (\<lambda>_.
     proceed (check_contract_required pg c) (\<lambda>_.
     proceed (check_files pg c) (\<lambda>fileRef.
     proceed (check_replay pg c fileRef) (\<lambda>first.
     proceed (check_quote pg c manifest fileRef first) (\<lambda>(quote, publicKey).
     proceed (check_commit pg c quote publicKey) (\<lambda>(committed, receipt).
     proceed (check_audit pg c committed receipt publicKey) (\<lambda>_.
     print_text (newline @ ''ASCP 0.2 reference profile: PASS'' @ newline))))))))))))"

end
