(* ===== verification/Client_Protocol.thy ===== *)
theory Client_Protocol
  imports Client
begin

text \<open>
  What a caller gets from the client library: every request stays on the configured origin,
  downloads are bounded and match their digest, a fetched key is listed for the requested ID,
  and a document that passes a check is the one that was signed.
\<close>

lemma uniform_doJSON: "uniform (doJSON nt de c verb path body key decode)"
  unfolding doJSON_def doRequest_def send_def by (intro uniform_rules)

section \<open>The origin\<close>

definition rooted :: "string \<Rightarrow> bool" where
  "rooted path \<longleftrightarrow> path = [] \<or> hd path = CHR ''/'' \<or> hd path = CHR ''?''"

text \<open>
  An exchange stays on the origin: its URL is the base URL and a rooted path, or the text of a
  URL with the scheme and host of the base URL and no user information.
\<close>

fun on_origin :: "net \<Rightarrow> 'w Client \<Rightarrow> client_event \<Rightarrow> bool" where
  "on_origin nt c (Exchange call r) \<longleftrightarrow>
     (\<exists>path. hc_URL call = cl_BaseURL c @ path \<and> rooted path) \<or>
     (\<exists>base target. nt_Parse nt (cl_BaseURL c) = Inr base \<and> same_origin nt target base \<and> \<not> u_has_User target \<and>
        hc_URL call = nt_Text nt target)"
| "on_origin nt c _ = True"

text \<open>
  What net/url documents of paths: the path of a URL on an origin, and of a reference resolved
  against the base, is empty or starts with a slash.
\<close>

definition rooted_paths :: "net \<Rightarrow> 'w Client \<Rightarrow> bool" where
  "rooted_paths nt c \<longleftrightarrow>
     (\<forall>base uri u. nt_Parse nt (cl_BaseURL c) = Inr base \<longrightarrow> nt_Parse nt uri = Inr u \<longrightarrow>
        (IsAbs u \<and> same_origin nt u base \<longrightarrow> rooted (nt_EscapedPath nt u)) \<and>
        (\<not> IsAbs u \<longrightarrow> rooted (nt_EscapedPath nt (nt_Resolve nt base u))))"

lemma rooted_slash [simp]: "rooted (CHR ''/'' # path)"
  by (simp add: rooted_def)

lemma rooted_query: "rooted path \<Longrightarrow> rooted (path @ CHR ''?'' # query)"
  by (cases path) (auto simp: rooted_def)

lemma doRequest_origin: "(\<And>r. on_origin nt c (Exchange call r)) \<Longrightarrow> emits (on_origin nt c) (doRequest de c call decode)"
  unfolding doRequest_def send_def by (intro emits_bind emits_perform emits_return)

lemma doJSON_origin:
  assumes "rooted path"
  shows "emits (on_origin nt c) (doJSON nt de c verb path body key decode)"
  unfolding doJSON_def using assms
  by (intro emits_case_sum emits_case_option emits_return doRequest_origin) auto

lemma operations_origin:
  "emits (on_origin nt c) (Manifest_of nt de c)" "emits (on_origin nt c) (Capabilities nt de c query)"
  "emits (on_origin nt c) (Options nt de c opt)" "emits (on_origin nt c) (Invoke nt de c direct key)"
  "emits (on_origin nt c) (Negotiate nt de c negotiation key)" "emits (on_origin nt c) (Prepare_quote nt de c input key)"
  "emits (on_origin nt c) (Commit nt de c commitment key)" "emits (on_origin nt c) (GetTask_of nt de c i)"
  "emits (on_origin nt c) (Cancel nt de c i cancellation key)" "emits (on_origin nt c) (Audit nt de c i)"
  "emits (on_origin nt c) (GetInvocation_of nt de c i)" "emits (on_origin nt c) (InvocationAudit nt de c i)"
  "emits (on_origin nt c) (PrepareUpload nt de c up key)" "emits (on_origin nt c) (GetFile nt de c i)"
  unfolding Manifest_of_def Capabilities_def Options_def Invoke_def Negotiate_def Prepare_quote_def Commit_def GetTask_of_def
    Cancel_def Audit_def GetInvocation_of_def InvocationAudit_def PrepareUpload_def GetFile_def capability_path_def Let_def
  by (rule doJSON_origin, simp)+

lemma resolved_origin:
  assumes "resolveSameOriginURL nt c uri = Inr target"
  shows "\<exists>base. nt_Parse nt (cl_BaseURL c) = Inr base \<and> same_origin nt target base \<and> \<not> u_has_User target"
  using assms by (auto simp: resolveSameOriginURL_def Let_def split: sum.splits if_splits)

lemma UploadFile_origin: "emits (on_origin nt c) (UploadFile nt de c ticket mediaType digest content)"
proof (cases "resolveSameOriginURL nt c (ft_UploadURL ticket)")
  case (Inr target)
  from resolved_origin [OF Inr] show ?thesis
    unfolding UploadFile_def Inr sum.case
    by (intro emits_case_option emits_return doRequest_origin) auto
qed (simp add: UploadFile_def emits_return)

lemma DownloadFile_origin: "emits (on_origin nt c) (DownloadFile nt de c fileID maximumBytes)"
  unfolding DownloadFile_def send_def
  by (intro emits_if emits_case_option emits_bind emits_case_sum emits_return emits_perform operations_origin)
    (auto simp: download_call_def)

lemma jwks_path_rooted: "rooted_paths nt c \<Longrightarrow> jwks_path nt c uri = Inr path \<Longrightarrow> rooted path"
  unfolding jwks_path_def rooted_paths_def Let_def
  by (auto split: sum.splits if_splits intro!: rooted_query)

lemma FetchPublicKey_origin:
  assumes "rooted_paths nt c"
  shows "emits (on_origin nt c) (FetchPublicKey nt de c keyID)"
  unfolding FetchPublicKey_def
proof (rule emits_bind [OF operations_origin(1)], rule emits_case_sum [OF emits_return])
  fix manifest
  show "emits (on_origin nt c)
     (case jwks_path nt c (case manifest of None \<Rightarrow> [] | Some m \<Rightarrow> mf_JWKSURI m) of
        Inl err \<Rightarrow> State_Monad.return (Inl (Failure err))
      | Inr path \<Rightarrow> do {
          listed \<leftarrow> doJSON nt de c ''GET'' path None [] (de_JWKS de);
          State_Monad.return (case listed of Inl err \<Rightarrow> Inl err
            | Inr keys \<Rightarrow> map_sum Failure id (find_key keyID (case keys of None \<Rightarrow> [] | Some ks \<Rightarrow> ks))) })"
    by (cases "jwks_path nt c (case manifest of None \<Rightarrow> [] | Some m \<Rightarrow> mf_JWKSURI m)")
       (auto intro!: emits_return emits_bind doJSON_origin dest: jwks_path_rooted [OF assms])
qed

section \<open>Plaintext only on this machine\<close>

lemma New_client_Inr:
  "New_client nt do0 baseURL token = Inr c \<longleftrightarrow>
     (\<exists>u. nt_Parse nt (TrimRight baseURL (CHR ''/'')) = Inr u \<and> u_Host u \<noteq> [] \<and> \<not> u_has_User u \<and> u_RawQuery u = [] \<and>
        u_Fragment u = [] \<and> (u_Path u = [] \<or> u_Path u = ''/'') \<and>
        (u_Scheme u = ''https'' \<or> u_Scheme u = ''http'' \<and> isLoopbackHost nt (nt_Hostname nt u)) \<and>
        c = \<lparr>cl_BaseURL = TrimRight baseURL (CHR ''/''), cl_Token = token, cl_Do = do0\<rparr>)"
  unfolding New_client_def by (auto split: sum.splits if_splits)

section \<open>Reading\<close>

lemma read_limited_length: "read_limited limit a = Inr s \<Longrightarrow> length s \<le> limit"
  by (auto simp: read_limited_def split: if_splits option.splits)

lemma read_download_bound: "read_download de maximumBytes r = Inr content \<Longrightarrow> int (length content) \<le> maximumBytes"
  by (auto simp: read_download_def split: sum.splits if_splits)

lemma DownloadFile_checked:
  "yields (DownloadFile nt de c fileID maximumBytes)
     (\<lambda>a. \<forall>ref content. a = Inr (ref, content) \<longrightarrow> 0 < maximumBytes \<and> int (length content) \<le> maximumBytes \<and>
        (\<exists>r. ref = Some r \<and> fr_Digest r = SHA256Digest content))"
  unfolding DownloadFile_def GetFile_def send_def
  by (intro yields_rules yields_uniform uniform_perform uniform_doJSON)
    (auto split: sum.splits option.splits if_splits dest: read_download_bound simp: SHA256Digest_not_Nil)

section \<open>Keys\<close>

lemma find_key_listed:
  "find_key keyID keys = Inr raw \<Longrightarrow>
     length raw = PublicKeySize \<and> (\<exists>key\<in>set keys. jwk_KeyID key = keyID \<and> jwk_Alg key = ''EdDSA'' \<and> base64_decode (jwk_X key) = Some raw)"
  by (induction keyID keys rule: find_key.induct) (auto split: if_splits option.splits)

text \<open>The published key set of a signer leads back to its key.\<close>

lemma find_key_published: "length (sn_publicKey s) = PublicKeySize \<Longrightarrow> find_key (sn_keyID s) (JWKS s) = Inr (sn_publicKey s)"
  by (simp add: JWKS_def base64_roundtrip)

section \<open>Signed documents\<close>

text \<open>The JSON of the signing projection.\<close>

definition projected :: "verifier \<Rightarrow> body_value \<Rightarrow> string \<Rightarrow> bool" where
  "projected vf v json \<longleftrightarrow>
     (\<exists>object. SigningProjection (vf_Marshal vf) (vf_Object vf) v = Inr object \<and> marshal (vf_object vf) object = Inr json)"

lemma compareJSON_None:
  "compareJSON vf a b d = None \<longleftrightarrow> (\<exists>json. marshal (vf_object vf) a = Inr json \<and> marshal (vf_object vf) b = Inr json)"
  by (auto simp: compareJSON_def split: sum.splits)

lemma verifySignedProjection_None:
  "verifySignedProjection vf v sg pk d = None \<longleftrightarrow>
     (\<exists>object json. VerifyJSON (vf_ed25519 vf) (vf_header vf) (vf_object vf) sg pk = Inr object \<and> object ''signature'' = None \<and>
        marshal (vf_object vf) object = Inr json \<and> projected vf v json)"
  by (auto simp: verifySignedProjection_def projected_def compareJSON_None split: sum.splits)

text \<open>What a client accepts is covered by the signature, field by field as JSON.\<close>

lemma projection_covered:
  assumes "verifySignedProjection vf v sg pk d = None"
  obtains object json where "signed_document (vf_ed25519 vf) (vf_header vf) (vf_object vf) sg pk object"
    "object ''signature'' = None" "marshal (vf_object vf) object = Inr json" "projected vf v json"
  using assms unfolding verifySignedProjection_None VerifyJSON_iff by blast

lemma accepted_projections:
  assumes "verifySignedProjection vf v sg pk d = None" "verifySignedProjection vf v' sg' pk' d' = None"
    and "sg_PayloadDigest sg = sg_PayloadDigest sg'"
  shows "(\<exists>json. projected vf v json \<and> projected vf v' json) \<or> payloads_collide sg sg'"
proof -
  from assms(1,2) obtain a b j j' where
    "VerifyJSON (vf_ed25519 vf) (vf_header vf) (vf_object vf) sg pk = Inr a" "marshal (vf_object vf) a = Inr j" "projected vf v j"
    "VerifyJSON (vf_ed25519 vf) (vf_header vf) (vf_object vf) sg' pk' = Inr b" "marshal (vf_object vf) b = Inr j'" "projected vf v' j'"
    unfolding verifySignedProjection_None by blast
  with verified_digest_binds [OF _ _ assms(3)] show ?thesis by (metis sum.inject(2))
qed

lemma VerifyQuote_None:
  "VerifyQuote vf q pk = None \<longleftrightarrow> verifySignedProjection vf (BQuote q) (q_Signature q) pk ''quote'' = None \<and> wf_quote (vf_ParseURL vf) q"
  by (auto simp: VerifyQuote_def ValidateQuoteSemantics_wf split: option.splits)

lemma VerifyQuoteForManifest_None:
  "VerifyQuoteForManifest vf q m pk = None \<longleftrightarrow> VerifyQuote vf q pk = None \<and> mf_ServiceID m \<noteq> [] \<and>
     q_ServiceID q = mf_ServiceID m \<and> q_ProtocolVersion q \<in> set (mf_Versions m)"
  by (auto simp: VerifyQuoteForManifest_def split: option.splits)

lemma VerifyReceiptForQuote_None:
  "VerifyReceiptForQuote vf r q pk = None \<longleftrightarrow>
     verifySignedProjection vf (BReceipt r) (rc_Signature r) pk ''receipt'' = None \<and> wf_receipt r q"
  by (auto simp: VerifyReceiptForQuote_def VerifyReceipt_def ValidateReceiptAgainstQuote_wf split: option.splits)

lemma VerifyInvocationReceiptForRequest_None:
  "VerifyInvocationReceiptForRequest vf r request pk = None \<longleftrightarrow>
     verifySignedProjection vf (BInvocationReceipt r) (ir_Signature r) pk ''invocation receipt'' = None \<and>
     ValidateInvocationReceipt r = None \<and>
     (\<exists>encoded. vf_Request vf (QDirect request) = Inr encoded \<and> ir_RequestDigest r = SHA256Digest encoded)"
  by (auto simp: VerifyInvocationReceiptForRequest_def VerifyInvocationReceipt_def split: option.splits sum.splits)

end
