(* ===== verification/Program_Protocol.thy ===== *)
theory Program_Protocol
  imports Conformance Client_Protocol
begin

text \<open>
  What the programs around the client library do with what they receive. The machine \<open>remember\<close>
  keeps the whole history of a run as its phase and refuses an event that its history does not
  justify: a commitment is sent only after the quote it names was received and verified.
\<close>

section \<open>Histories\<close>

definition remember :: "('e list \<Rightarrow> 'e \<Rightarrow> bool) \<Rightarrow> 'e list \<Rightarrow> 'e \<Rightarrow> 'e list option" where
  "remember P h e = (if P h e then Some (h @ [e]) else None)"

lemma remember_advance: "advance (remember P) h es = Some h' \<Longrightarrow> h' = h @ es"
  by (induction es arbitrary: h) (fastforce simp: remember_def split: if_splits)+

lemma remembered_before:
  assumes "advance (remember P) [] (before @ e # after) = Some h"
  shows "P before e"
proof -
  from advance_prefix [OF assms] obtain q q' where "advance (remember P) [] before = Some q" "remember P q e = Some q'"
    by blast
  with remember_advance [OF this(1)] show ?thesis by (auto simp: remember_def split: if_splits)
qed

text \<open>The run is justified, the history grows, and a value that is reached satisfies \<open>R\<close>.\<close>

definition knows ::
  "(client_event list \<Rightarrow> client_event \<Rightarrow> bool) \<Rightarrow> client_event list \<Rightarrow> ('w, client_error + 'a) client_run \<Rightarrow>
     ('a \<Rightarrow> client_event list \<Rightarrow> bool) \<Rightarrow> bool"
where
  "knows P h m R \<longleftrightarrow> follows (remember P) h m (\<lambda>a h'. set h \<subseteq> set h' \<and> (\<forall>v. a = Inr v \<longrightarrow> R v h'))"

lemma knows_mono: "knows P h m R \<Longrightarrow> (\<And>v h'. set h \<subseteq> set h' \<Longrightarrow> R v h' \<Longrightarrow> S v h') \<Longrightarrow> knows P h m S"
  unfolding knows_def by (erule follows_mono) auto

lemma knows_return: "(\<And>v. a = Inr v \<Longrightarrow> R v h) \<Longrightarrow> knows P h (State_Monad.return a) R"
  unfolding knows_def by (rule follows_return) auto

lemma knows_proceed:
  fixes m :: "('w, client_error + 'b) client_run"
  assumes "knows P h m R" "\<And>v h'. set h \<subseteq> set h' \<Longrightarrow> R v h' \<Longrightarrow> knows P h' (f v) S"
  shows "knows P h (proceed m f) S"
  unfolding knows_def proceed_def
proof (rule follows_then [OF assms(1) [unfolded knows_def]])
  fix a :: "client_error + 'b" and h'
  assume "set h \<subseteq> set h' \<and> (\<forall>v. a = Inr v \<longrightarrow> R v h')"
  then have grown: "set h \<subseteq> set h'" and at: "a = Inr v \<Longrightarrow> R v h'" for v by auto
  show "follows (remember P) h' (case a of Inl err \<Rightarrow> State_Monad.return (Inl err) | Inr x \<Rightarrow> f x)
      (\<lambda>a h'. set h \<subseteq> set h' \<and> (\<forall>v. a = Inr v \<longrightarrow> S v h'))"
  proof (cases a)
    case (Inr b)
    with assms(2) [OF grown at] have "knows P h' (f b) S" by blast
    then show ?thesis unfolding Inr sum.case knows_def by (rule follows_mono) (use grown in blast)
  qed (use grown in \<open>simp add: follows_return\<close>)
qed

text \<open>A part of a run whose events need no justification.\<close>

lemma knows_quiet:
  assumes "emits (\<lambda>e. \<forall>h. P h e) m"
  shows "knows P h m (\<lambda>_ _. True)"
  unfolding knows_def
proof (rule followsI)
  fix tr w
  have quiet: "advance (\<lambda>p e. if \<forall>h. P h e then Some () else None) () es = Some p \<Longrightarrow> advance (remember P) h es = Some (h @ es)"
    for es p h
    by (induction es arbitrary: h) (auto simp: remember_def split: if_splits)
  from assms obtain a es w' p where "run_state m (tr, w) = (a, (tr @ es, w'))"
    "advance (\<lambda>p e. if \<forall>h. P h e then Some () else None) () es = Some p"
    unfolding emits_def follows_def by metis
  with quiet show "\<exists>a es w' h'. run_state m (tr, w) = (a, tr @ es, w') \<and> advance (remember P) h es = Some h' \<and>
      set h \<subseteq> set h' \<and> (\<forall>v. a = Inr v \<longrightarrow> True)"
    by (metis Un_upper1 set_append)
qed

lemma knows_fatalIf: "knows P h (fatalIf err) (\<lambda>_ h'. err = None)"
  unfolding fatalIf_def by (rule knows_return) (simp split: option.splits)

section \<open>What was received\<close>

definition received :: "decoders \<Rightarrow> 'w Client \<Rightarrow> string \<Rightarrow> (string \<Rightarrow> 'a result) \<Rightarrow> 'a \<Rightarrow> client_event list \<Rightarrow> 'a \<Rightarrow> bool" where
  "received de c path decode zero h v \<longleftrightarrow>
     (\<exists>call r. Exchange call r \<in> set h \<and> hc_URL call = cl_BaseURL c @ path \<and> filled zero (read_response de decode r) = Inr v)"

lemma received_mono: "received de c path decode zero h v \<Longrightarrow> set h \<subseteq> set h' \<Longrightarrow> received de c path decode zero h' v"
  unfolding received_def by blast


text \<open>A request whose exchange is justified.\<close>

lemma doJSON_received:
  assumes "\<And>body r. (case requestBody of None \<Rightarrow> Inr None | Some v \<Rightarrow> map_sum id Some (de_Request de v)) = Inr body \<Longrightarrow>
      P h (Exchange \<lparr>hc_Method = verb, hc_URL = cl_BaseURL c @ path,
        hc_Headers = json_headers c (requestBody \<noteq> None) key, hc_Body = body\<rparr> r)"
  shows "follows (remember P) h (doJSON nt de c verb path requestBody key decode)
      (\<lambda>a h'. set h \<subseteq> set h' \<and> (\<forall>v. filled zero a = Inr v \<longrightarrow> received de c path decode zero h' v))"
proof -
  let ?call = "\<lambda>body. \<lparr>hc_Method = verb, hc_URL = cl_BaseURL c @ path,
      hc_Headers = json_headers c (requestBody \<noteq> None) key, hc_Body = body\<rparr>"
  have sent: "follows (remember P) h (doRequest de c (?call body) decode)
      (\<lambda>a h'. set h \<subseteq> set h' \<and> (\<forall>v. filled zero a = Inr v \<longrightarrow> received de c path decode zero h' v))"
    if "\<And>r. P h (Exchange (?call body) r)" for body
    unfolding doRequest_def send_def
    by (rule follows_bind, rule follows_call)
       (use that in \<open>fastforce simp: remember_def received_def intro!: follows_return\<close>)
  show ?thesis
    unfolding doJSON_def
    by (intro follows_case_sum follows_case_option follows_return sent assms) (auto simp: filled_def split: option.splits)
qed

lemma knows_requested:
  assumes "\<And>body r. (case requestBody of None \<Rightarrow> Inr None | Some v \<Rightarrow> map_sum id Some (de_Request de v)) = Inr body \<Longrightarrow>
      P h (Exchange \<lparr>hc_Method = verb, hc_URL = cl_BaseURL c @ path,
        hc_Headers = json_headers c (requestBody \<noteq> None) key, hc_Body = body\<rparr> r)"
  shows "knows P h (requested zero (doJSON nt de c verb path requestBody key decode)) (\<lambda>v h'. received de c path decode zero h' v)"
  unfolding knows_def requested_def
  by (rule follows_then, rule doJSON_received [where zero = zero], rule assms, assumption) (auto intro: follows_return)

section \<open>Commitments\<close>

definition committing :: "'w Client \<Rightarrow> http_call \<Rightarrow> bool" where
  "committing c call \<longleftrightarrow> hc_Method call = ''POST'' \<and> hc_URL call = cl_BaseURL c @ ''/v1/commit'' \<and>
     Header_Get (hc_Headers call) ''Content-Type'' = MediaType"

text \<open>The commitment names the quote and pays at most its signed ceiling, once, if it pays at all.\<close>

definition binds_quote :: "Quote \<Rightarrow> CommitRequest \<Rightarrow> bool" where
  "binds_quote quote commitment \<longleftrightarrow>
     (let digest = sg_PayloadDigest (q_Signature quote) in
      cm_QuoteID commitment = q_QuoteID quote \<and> cm_QuoteDigest commitment = digest \<and>
      ae_BindingDigest (cm_Authorization commitment) = digest \<and> ae_Audience (cm_Authorization commitment) = q_ServiceID quote \<and>
      (\<forall>ba. cm_BillingAuthorization commitment = Some ba \<longrightarrow>
         bt_AuthorizationRequired (q_BillingTerms quote) \<and> ba_Mode ba = bt_Mode (q_BillingTerms quote) \<and>
         ba_MaximumAmount ba = Some (q_PriceCeiling quote) \<and> ba_BindingDigest ba = digest \<and>
         ba_Audience ba = q_ServiceID quote \<and> ba_Usage ba = ''single_use''))"

text \<open>A quote that was received from the service and verified with a key the service published.\<close>

definition verified_quote :: "'w program \<Rightarrow> 'w Client \<Rightarrow> client_event list \<Rightarrow> Quote \<Rightarrow> string \<Rightarrow> bool" where
  "verified_quote pg c h quote key \<longleftrightarrow>
     (\<exists>manifest keyPath keys.
        received (pg_decoders pg) c ''/.well-known/ascp'' (de_Manifest (pg_decoders pg)) zero_Manifest h manifest \<and>
        received (pg_decoders pg) c ''/v1/prepare'' (de_Quote (pg_decoders pg)) zero_Quote h quote \<and>
        received (pg_decoders pg) c keyPath (de_JWKS (pg_decoders pg)) [] h keys \<and>
        find_key (sg_KeyID (q_Signature quote)) keys = Inr key \<and>
        VerifyQuoteForManifest (pg_verifier pg) quote manifest key = None)"

fun justified :: "'w program \<Rightarrow> 'w Client \<Rightarrow> client_event list \<Rightarrow> client_event \<Rightarrow> bool" where
  "justified pg c h (Exchange call r) \<longleftrightarrow>
     (committing c call \<longrightarrow> (\<exists>quote key commitment. verified_quote pg c h quote key \<and> binds_quote quote commitment \<and>
        map_sum id Some (de_Request (pg_decoders pg) (QCommit commitment)) = Inr (hc_Body call)))"
| "justified pg c h _ = True"

lemma verified_quote_mono: "verified_quote pg c h quote key \<Longrightarrow> set h \<subseteq> set h' \<Longrightarrow> verified_quote pg c h' quote key"
  unfolding verified_quote_def by (meson received_mono)

lemma new_commitment_binds:
  "binds_quote quote (new_commitment quote (confirmation quote reference now) None i)"
  "bt_AuthorizationRequired (q_BillingTerms quote) \<Longrightarrow>
     binds_quote quote (new_commitment quote (confirmation quote reference now) (Some (payment quote reference' now')) i)"
  by (simp_all add: binds_quote_def new_commitment_def confirmation_def payment_def Let_def)

section \<open>Steps without a commitment\<close>

abbreviation quiet :: "'w program \<Rightarrow> 'w Client \<Rightarrow> client_event \<Rightarrow> bool" where
  "quiet pg c \<equiv> \<lambda>e. \<forall>h. justified pg c h e"

lemma emits_proceed: "emits P m \<Longrightarrow> (\<And>a. emits P (f a)) \<Longrightarrow> emits P (proceed m f)"
  unfolding proceed_def by (intro emits_bind emits_case_sum emits_return)

lemma emits_requested: "emits P m \<Longrightarrow> emits P (requested zero m)"
  unfolding requested_def by (intro emits_bind emits_return)

lemma emits_must: "emits P m \<Longrightarrow> emits P (must operation m)"
  unfolding must_def by (intro emits_bind emits_return)

lemma emits_refused: "emits P m \<Longrightarrow> emits P (refused code message m)"
  unfolding refused_def failing_def
proof (rule emits_bind)
  fix r :: "client_error + 'b"
  show "emits P (case r of Inl (Failure err) \<Rightarrow> State_Monad.return (Inl (Failure (Errorf message [AErr err])))
      | Inl (Rejected p) \<Rightarrow> if p_Code p = code then State_Monad.return (Inr ())
          else State_Monad.return (Inl (Failure (Errorf message [client_error_arg (Rejected p)])))
      | Inr _ \<Rightarrow> State_Monad.return (Inl (Failure (Errorf message [AStr ''<nil>'']))))"
    by (auto intro: emits_return split: sum.split client_error.split)
qed

lemma emits_pure:
  "emits P (fatalIf err)" "emits P (must_hold operation err)" "emits P (failing message arguments)"
  "emits P (required b message)"
  unfolding must_hold_def must_def required_def failing_def fatalIf_def by (intro emits_bind emits_return emits_if)+

lemma emits_local:
  "emits (quiet pg c) (print_text s)" "emits (quiet pg c) (printJSON pg label v)" "emits (quiet pg c) (time_now pg)"
  "emits (quiet pg c) (fresh_id pg prefix)" "emits (quiet pg c) (read_file pg path)" "emits (quiet pg c) (pass check)"
  unfolding print_text_def printJSON_def time_now_def fresh_id_def read_file_def pass_def
  by (intro emits_case_sum emits_bind emits_perform emits_return emits_pure; simp)+

lemma doJSON_quiet: "verb \<noteq> ''POST'' \<or> path \<noteq> ''/v1/commit'' \<Longrightarrow>
    emits (quiet pg c) (doJSON nt de c verb path body key decode)"
  unfolding doJSON_def doRequest_def send_def
  by (intro emits_case_sum emits_case_option emits_return emits_bind emits_perform) (auto simp: committing_def)

lemma calls_quiet:
  "emits (quiet pg c) (Manifest_of nt de c)" "emits (quiet pg c) (Capabilities nt de c query)"
  "emits (quiet pg c) (Options nt de c opt)" "emits (quiet pg c) (Invoke nt de c direct key)"
  "emits (quiet pg c) (Negotiate nt de c negotiation key)" "emits (quiet pg c) (Prepare_quote nt de c input key)"
  "emits (quiet pg c) (Audit nt de c i)" "emits (quiet pg c) (InvocationAudit nt de c i)"
  "emits (quiet pg c) (PrepareUpload nt de c up key)" "emits (quiet pg c) (GetFile nt de c i)"
  unfolding Manifest_of_def Capabilities_def Options_def Invoke_def Negotiate_def Prepare_quote_def
    Audit_def InvocationAudit_def PrepareUpload_def GetFile_def
  by (rule doJSON_quiet, simp)+

lemma FetchPublicKey_quiet: "emits (quiet pg c) (FetchPublicKey nt de c keyID)"
  unfolding FetchPublicKey_def
  by (intro emits_bind calls_quiet emits_case_sum emits_return doJSON_quiet) simp

lemma DownloadFile_quiet: "emits (quiet pg c) (DownloadFile nt de c fileID maximumBytes)"
  unfolding DownloadFile_def send_def
  by (intro emits_if emits_case_option emits_bind emits_case_sum emits_return emits_perform calls_quiet)
    (auto simp: download_call_def committing_def)

lemma Header_Get_Set: "Header_Get (Header_Set h name v) name' =
    (if canonical_name True name' = canonical_name True name then v else Header_Get h name')"
  by (simp add: Header_Get_def Header_Set_def)

lemma client_header_names:
  "canonical_name True ''Content-Type'' = ''Content-Type''" "canonical_name True ''Accept'' = ''Accept''"
  "canonical_name True ''ASCP-Version'' = ''Ascp-Version''" "canonical_name True ''Authorization'' = ''Authorization''"
  "canonical_name True ''X-ASCP-Content-Digest'' = ''X-Ascp-Content-Digest''"
  "canonical_name True ''X-ASCP-Upload-Token'' = ''X-Ascp-Upload-Token''"
  by (simp_all add: upper_char_def lower_char_def ord_def char_of_def bit_0)

lemma upload_content_type: "Header_Get (upload_headers c ticket mediaType digest) ''Content-Type'' = mediaType"
  by (simp add: upload_headers_def set_if_def Header_Get_Set client_header_names del: canonical_name.simps)

lemma UploadFile_quiet: "mediaType \<noteq> MediaType \<Longrightarrow> emits (quiet pg c) (UploadFile nt de c ticket mediaType digest content)"
  unfolding UploadFile_def doRequest_def send_def
  by (intro emits_case_sum emits_case_option emits_return emits_bind emits_perform)
    (auto simp: committing_def upload_content_type)

lemma other_media: "''application/octet-stream'' \<noteq> MediaType" "''text/plain'' \<noteq> MediaType"
  by (simp_all add: MediaType_def)

lemmas quiet_rules = emits_proceed emits_requested emits_must emits_refused emits_pure emits_local calls_quiet FetchPublicKey_quiet
  DownloadFile_quiet UploadFile_quiet [OF other_media(1)] UploadFile_quiet [OF other_media(2)] emits_return emits_if
  emits_case_prod emits_let

lemma client_stages_quiet:
  "emits (quiet pg c) (direct_stage pg c)" "emits (quiet pg c) (upload_stage pg c path)"
  "emits (quiet pg c) (negotiate_stage pg c files)" "emits (quiet pg c) (audit_stage pg c committed key)"
  "emits (quiet pg c) (commitment_stage pg quote)"
  unfolding direct_stage_def upload_stage_def negotiate_stage_def audit_stage_def commitment_stage_def
  by (rule quiet_rules)+

lemma checks_quiet:
  "emits (quiet pg c) (check_catalog pg c)" "emits (quiet pg c) (check_direct pg c)" "emits (quiet pg c) (check_options pg c)"
  "emits (quiet pg c) (check_contract_required pg c)" "emits (quiet pg c) (check_files pg c)"
  "emits (quiet pg c) (check_replay pg c fileRef)" "emits (quiet pg c) (check_audit pg c committed receipt key)"
  unfolding check_catalog_def check_direct_def check_options_def check_contract_required_def check_files_def check_replay_def
    check_audit_def
  by (rule quiet_rules)+

section \<open>The stages with a quote\<close>

lemma map_sum_Inr: "map_sum f id x = Inr v \<longleftrightarrow> x = Inr v"
  by (cases x) auto

lemma knows_manifest:
  "knows (justified pg c) h (requested zero_Manifest (Manifest_of nt (pg_decoders pg) c))
     (\<lambda>m h'. received (pg_decoders pg) c ''/.well-known/ascp'' (de_Manifest (pg_decoders pg)) zero_Manifest h' m)"
  unfolding Manifest_of_def by (rule knows_requested) (simp add: committing_def)

lemma knows_key:
  "knows (justified pg c) h (FetchPublicKey nt (pg_decoders pg) c keyID)
     (\<lambda>key h'. \<exists>path keys. received (pg_decoders pg) c path (de_JWKS (pg_decoders pg)) [] h' keys \<and> find_key keyID keys = Inr key)"
  unfolding knows_def FetchPublicKey_def Manifest_of_def
proof (rule follows_then [OF doJSON_received [where zero = zero_Manifest]], simp add: committing_def,
    rule follows_case_sum, simp add: follows_return, rule follows_case_sum, simp add: follows_return,
    rule follows_then [OF doJSON_received [where zero = "[]"]], simp add: committing_def, rule follows_return)
  fix a :: "client_error + Manifest option" and h' listed h'' path
  assume "set h \<subseteq> set h' \<and> (\<forall>v. filled zero_Manifest a = Inr v \<longrightarrow>
      received (pg_decoders pg) c ''/.well-known/ascp'' (de_Manifest (pg_decoders pg)) zero_Manifest h' v)"
    "set h' \<subseteq> set h'' \<and> (\<forall>v. filled [] listed = Inr v \<longrightarrow> received (pg_decoders pg) c path (de_JWKS (pg_decoders pg)) [] h'' v)"
  then show "set h \<subseteq> set h'' \<and> (\<forall>v. (case listed of Inl err \<Rightarrow> Inl err
      | Inr keys \<Rightarrow> map_sum Failure id (find_key keyID (case keys of None \<Rightarrow> [] | Some ks \<Rightarrow> ks))) = Inr v \<longrightarrow>
      (\<exists>path keys. received (pg_decoders pg) c path (de_JWKS (pg_decoders pg)) [] h'' keys \<and> find_key keyID keys = Inr v))"
    by (cases listed) (auto simp: filled_def map_sum_Inr split: option.splits)
qed

lemma knows_weaken: "knows P h m R \<Longrightarrow> knows P h m (\<lambda>_ _. True)"
  by (erule knows_mono) simp

text \<open>A quote that was asked for, its key and the check of both.\<close>

lemma knows_quote:
  assumes manifest: "received (pg_decoders pg) c ''/.well-known/ascp'' (de_Manifest (pg_decoders pg)) zero_Manifest h manifest"
    and asked: "knows (justified pg c) h asked
      (\<lambda>quote h'. received (pg_decoders pg) c ''/v1/prepare'' (de_Quote (pg_decoders pg)) zero_Quote h' quote)"
    and fetched: "\<And>quote h'. knows (justified pg c) h' (fetched quote) (\<lambda>key h'. \<exists>path keys.
      received (pg_decoders pg) c path (de_JWKS (pg_decoders pg)) [] h' keys \<and>
      find_key (sg_KeyID (q_Signature quote)) keys = Inr key)"
    and checked: "\<And>quote key h'. knows (justified pg c) h' (checked quote key)
      (\<lambda>_ _. VerifyQuoteForManifest (pg_verifier pg) quote manifest key = None)"
    and rest: "\<And>quote key h'. set h \<subseteq> set h' \<Longrightarrow> verified_quote pg c h' quote key \<Longrightarrow> knows (justified pg c) h' (f quote key) R"
  shows "knows (justified pg c) h
     (proceed asked (\<lambda>quote. proceed (fetched quote) (\<lambda>key. proceed (checked quote key) (\<lambda>_. f quote key)))) R"
proof (rule knows_proceed [OF asked], rule knows_proceed [OF fetched], rule knows_proceed [OF checked])
  fix quote :: Quote and h1 key h2 u h3
  assume "set h \<subseteq> set h1" "set h1 \<subseteq> set h2" "set h2 \<subseteq> set h3"
    "received (pg_decoders pg) c ''/v1/prepare'' (de_Quote (pg_decoders pg)) zero_Quote h1 quote"
    "\<exists>path keys. received (pg_decoders pg) c path (de_JWKS (pg_decoders pg)) [] h2 keys \<and>
       find_key (sg_KeyID (q_Signature quote)) keys = Inr key"
    "VerifyQuoteForManifest (pg_verifier pg) quote manifest key = None"
  with manifest have "verified_quote pg c h3 quote key" "set h \<subseteq> set h3"
    unfolding verified_quote_def by (meson received_mono subset_trans)+
  then show "knows (justified pg c) h3 (f quote key) R" by (intro rest)
qed

lemma knows_asked:
  "knows (justified pg c) h (requested zero_Quote (Prepare_quote nt (pg_decoders pg) c input ikey))
     (\<lambda>quote h'. received (pg_decoders pg) c ''/v1/prepare'' (de_Quote (pg_decoders pg)) zero_Quote h' quote)"
  unfolding Prepare_quote_def by (rule knows_requested) (simp add: committing_def)

lemma knows_must: "knows P h m R \<Longrightarrow> knows P h (must operation m) R"
  unfolding must_def knows_def by (erule follows_then) (auto intro!: follows_return split: sum.splits)

lemma knows_must_hold: "knows P h (must_hold operation err) (\<lambda>_ h'. err = None)"
  unfolding must_hold_def by (rule knows_must [OF knows_fatalIf])

lemma knows_commit:
  assumes "verified_quote pg c h quote key" "binds_quote quote commitment"
  shows "knows (justified pg c) h (requested zero (Commit nt (pg_decoders pg) c commitment ikey))
    (\<lambda>committed h'. received (pg_decoders pg) c ''/v1/commit'' (de_Commit (pg_decoders pg)) zero h' committed)"
  unfolding Commit_def
  by (rule knows_requested) (use assms in \<open>auto simp: committing_def\<close>)

text \<open>A step whose value does not matter for what follows.\<close>

lemma knows_after: "emits (\<lambda>e. \<forall>h. P h e) m \<Longrightarrow> (\<And>v h'. set h \<subseteq> set h' \<Longrightarrow> knows P h' (f v) R) \<Longrightarrow> knows P h (proceed m f) R"
  by (rule knows_proceed [OF knows_quiet])

lemma knows_commitment: "knows (justified pg c) h (commitment_stage pg quote) (\<lambda>commitment _. binds_quote quote commitment)"
  unfolding commitment_stage_def
proof (rule knows_after [OF emits_local(3)] knows_after [OF emits_local(4)])+
  fix now approval clientTaskID and h :: "client_event list"
  have "knows (justified pg c) h (if bt_AuthorizationRequired (q_BillingTerms quote)
       then proceed (fresh_id pg ''auth'') (\<lambda>auth. State_Monad.return (Inr (Some (payment quote (''mockpay_'' @ auth) now))))
       else State_Monad.return (Inr None))
     (\<lambda>ba _. ba = None \<or> bt_AuthorizationRequired (q_BillingTerms quote) \<and> (\<exists>auth. ba = Some (payment quote auth now)))"
    by (auto intro!: knows_after [OF emits_local(4)] knows_return)
  then show "knows (justified pg c) h (proceed (if bt_AuthorizationRequired (q_BillingTerms quote)
       then proceed (fresh_id pg ''auth'') (\<lambda>auth. State_Monad.return (Inr (Some (payment quote (''mockpay_'' @ auth) now))))
       else State_Monad.return (Inr None)) (\<lambda>authorization.
     State_Monad.return (Inr (new_commitment quote (confirmation quote (''demo-approval-'' @ approval) now)
       authorization clientTaskID)))) (\<lambda>commitment _. binds_quote quote commitment)"
    by (rule knows_proceed) (auto intro!: knows_return new_commitment_binds)
qed

lemma knows_commit_stage: "verified_quote pg c h quote key \<Longrightarrow> knows (justified pg c) h (commit_stage pg c quote key) (\<lambda>_ _. True)"
  unfolding commit_stage_def
proof (rule knows_proceed [OF knows_commitment], rule knows_after [OF emits_local(4)], rule knows_proceed [OF knows_commit])
  fix commitment h1 ikey h2
  assume "verified_quote pg c h quote key" "set h \<subseteq> set h1" "set h1 \<subseteq> set h2"
  then show "verified_quote pg c h2 quote key" by (meson verified_quote_mono)
qed (assumption, rule knows_quiet, (rule quiet_rules)+)

lemma knows_main_client:
  assumes "New_client (pg_net pg) (pg_Do pg) (fl_BaseURL flags) (fl_Token flags) = Inr c"
  shows "knows (justified pg c) [] (main_client pg flags) (\<lambda>_ _. True)"
proof -
  have discover: "knows (justified pg c) h (discover_service pg c)
      (\<lambda>m h'. received (pg_decoders pg) c ''/.well-known/ascp'' (de_Manifest (pg_decoders pg)) zero_Manifest h' m)" for h
    unfolding discover_service_def
    by (rule knows_proceed [OF knows_manifest], (rule knows_after, rule quiet_rules, (rule calls_quiet)?)+, rule knows_return)
       (simp, meson received_mono subset_trans)
  have quote: "knows (justified pg c) h (quote_stage pg c flags manifest files negotiation)
      (\<lambda>(quote, key) h'. verified_quote pg c h' quote key)"
    if "received (pg_decoders pg) c ''/.well-known/ascp'' (de_Manifest (pg_decoders pg)) zero_Manifest h manifest"
    for h manifest files negotiation
    unfolding quote_stage_def
    by (rule knows_after [OF emits_local(4)],
        rule knows_quote [OF received_mono [OF that] knows_asked knows_key knows_fatalIf], assumption,
        rule knows_after [OF emits_local(2)], rule knows_return) (auto intro: verified_quote_mono)
  show ?thesis
    unfolding main_client_def assms sum.case
    by (rule knows_proceed [OF discover], rule knows_after [OF client_stages_quiet(1)],
        rule knows_after [OF client_stages_quiet(2)], rule knows_after [OF client_stages_quiet(3)],
        rule knows_proceed [OF quote], meson received_mono subset_trans, clarify,
        rule knows_proceed [OF knows_commit_stage], assumption, rule knows_quiet [OF client_stages_quiet(4)])
qed

lemma check_quote_verified:
  assumes "received (pg_decoders pg) c ''/.well-known/ascp'' (de_Manifest (pg_decoders pg)) zero_Manifest h manifest"
  shows "knows (justified pg c) h (check_quote pg c manifest fileRef first)
      (\<lambda>(quote, key) h'. verified_quote pg c h' quote key)"
  unfolding check_quote_def
  by (rule knows_quote [OF assms knows_must [OF knows_asked] knows_must [OF knows_key] knows_must_hold],
      rule knows_after [OF emits_pure(4)], rule knows_after [OF emits_local(6)], rule knows_return)
    (auto intro: verified_quote_mono)

lemma knows_required: "knows P h (required b message) (\<lambda>_ _. b)"
  unfolding required_def failing_def by (auto intro: knows_return)

lemma check_commit_verified:
  assumes "verified_quote pg c h quote key"
  shows "knows (justified pg c) h (check_commit pg c quote key) (\<lambda>(committed, receipt) h'.
    received (pg_decoders pg) c ''/v1/commit'' (de_Commit (pg_decoders pg)) zero_CommitResponse h' committed \<and>
    t_Receipt (cs_Task committed) = Some receipt \<and> VerifyReceiptForQuote (pg_verifier pg) receipt quote key = None)"
    (is "knows _ _ _ ?verified")
proof -
  have commit: "knows (justified pg c) h' (must operation (requested zero_CommitResponse (Commit nt (pg_decoders pg) c
      (new_commitment quote (confirmation quote reference now) None i) ikey)))
      (\<lambda>committed h''. received (pg_decoders pg) c ''/v1/commit'' (de_Commit (pg_decoders pg)) zero_CommitResponse h'' committed)"
    if "set h \<subseteq> set h'" for h' operation nt reference now i ikey
    by (rule knows_must, rule knows_commit [OF verified_quote_mono [OF assms that] new_commitment_binds(1)])
  have rest: "knows (justified pg c) h'
      (case (t_Receipt (cs_Task committed), t_Billing (cs_Task committed)) of
          (Some receipt, Some _) \<Rightarrow>
            proceed (must_hold ''verify signed receipt'' (VerifyReceiptForQuote (pg_verifier pg) receipt quote key)) (\<lambda>_.
            proceed (pass ''quote-bound commit and signed receipt'') (\<lambda>_.
            State_Monad.return (Inr (committed, receipt))))
        | _ \<Rightarrow> failing ''completed task lacks receipt or billing record'' []) ?verified"
    if "received (pg_decoders pg) c ''/v1/commit'' (de_Commit (pg_decoders pg)) zero_CommitResponse h' committed" for h' committed
    using that
    by (cases "t_Receipt (cs_Task committed)"; cases "t_Billing (cs_Task committed)";
        auto simp: failing_def intro!: knows_return knows_proceed [OF knows_must_hold] knows_after [OF emits_local(6)];
        meson received_mono subset_trans)
  show ?thesis
    unfolding check_commit_def Let_def
    by (rule knows_after [OF emits_local(3)], rule knows_proceed [OF commit], assumption,
        rule knows_proceed [OF commit], rule subset_trans, assumption, assumption,
        rule knows_proceed [OF knows_required], rule rest, meson received_mono subset_trans)
qed

lemma check_audit_verified:
  "knows (justified pg c) h (check_audit pg c committed receipt key) (\<lambda>_ h'. \<exists>events root0.
     received (pg_decoders pg) c (''/v1/tasks/'' @ PathEscape (t_TaskID (cs_Task committed)) @ ''/audit'')
       (de_Chain (pg_decoders pg)) ([], []) h' (events, root0) \<and>
     audit_Verify pg events key = None \<and> VerifyReceiptAnchor (pg_anchor pg) events receipt = None \<and> root0 \<noteq> [])"
  unfolding check_audit_def Audit_def
proof (rule knows_proceed [OF knows_must [OF knows_requested]], simp add: committing_def, clarify,
    rule knows_proceed [OF knows_must_hold], rule knows_proceed [OF knows_must_hold], rule knows_proceed [OF knows_required])
  fix events root0 h1 h2 h3 h4
  assume "received (pg_decoders pg) c (''/v1/tasks/'' @ PathEscape (t_TaskID (cs_Task committed)) @ ''/audit'')
       (de_Chain (pg_decoders pg)) ([], []) h1 (events, root0)" "set h1 \<subseteq> set h2" "set h2 \<subseteq> set h3" "set h3 \<subseteq> set h4"
    "audit_Verify pg events key = None" "VerifyReceiptAnchor (pg_anchor pg) events receipt = None" "root0 \<noteq> []"
  then show "knows (justified pg c) h4 (pass (''signed task audit chain ('' @ decimal (length events) @ '' events)''))
     (\<lambda>_ h'. \<exists>events root0.
     received (pg_decoders pg) c (''/v1/tasks/'' @ PathEscape (t_TaskID (cs_Task committed)) @ ''/audit'')
       (de_Chain (pg_decoders pg)) ([], []) h' (events, root0) \<and>
     audit_Verify pg events key = None \<and> VerifyReceiptAnchor (pg_anchor pg) events receipt = None \<and> root0 \<noteq> [])"
    by (intro knows_mono [OF knows_quiet [OF emits_local(6)]]) (meson received_mono subset_trans)
qed

text \<open>What a passed profile established: a verified quote, its receipt and an anchored audit chain.\<close>

definition conforming :: "'w program \<Rightarrow> 'w Client \<Rightarrow> client_event list \<Rightarrow> bool" where
  "conforming pg c h \<longleftrightarrow> (\<exists>quote key committed receipt events root0.
     verified_quote pg c h quote key \<and>
     received (pg_decoders pg) c ''/v1/commit'' (de_Commit (pg_decoders pg)) zero_CommitResponse h committed \<and>
     t_Receipt (cs_Task committed) = Some receipt \<and> VerifyReceiptForQuote (pg_verifier pg) receipt quote key = None \<and>
     received (pg_decoders pg) c (''/v1/tasks/'' @ PathEscape (t_TaskID (cs_Task committed)) @ ''/audit'')
       (de_Chain (pg_decoders pg)) ([], []) h (events, root0) \<and>
     audit_Verify pg events key = None \<and> VerifyReceiptAnchor (pg_anchor pg) events receipt = None)"

lemma knows_main_conformance:
  assumes "New_client (pg_net pg) (pg_Do pg) baseURL token = Inr c"
  shows "knows (justified pg c) [] (main_conformance pg baseURL token) (\<lambda>_. conforming pg c)"
proof -
  have client: "knows (justified pg c) [] (must ''construct client''
      (State_Monad.return (map_sum Failure id (New_client (pg_net pg) (pg_Do pg) baseURL token)))) (\<lambda>c' _. c' = c)"
    by (rule knows_must, rule knows_return) (simp add: assms)
  have finish: "knows (justified pg c) h4 (print_text s) (\<lambda>_. conforming pg c)"
    if "verified_quote pg c h1 quote key" "set h1 \<subseteq> set h2" "set h2 \<subseteq> set h3" "set h3 \<subseteq> set h4"
      "received (pg_decoders pg) c ''/v1/commit'' (de_Commit (pg_decoders pg)) zero_CommitResponse h2 committed"
      "t_Receipt (cs_Task committed) = Some receipt" "VerifyReceiptForQuote (pg_verifier pg) receipt quote key = None"
      "\<exists>events root0. received (pg_decoders pg) c (''/v1/tasks/'' @ PathEscape (t_TaskID (cs_Task committed)) @ ''/audit'')
         (de_Chain (pg_decoders pg)) ([], []) h3 (events, root0) \<and>
       audit_Verify pg events key = None \<and> VerifyReceiptAnchor (pg_anchor pg) events receipt = None \<and> root0 \<noteq> []"
    for h1 h2 h3 h4 quote key committed receipt s
  proof (rule knows_mono [OF knows_quiet [OF emits_local(1)]])
    fix h'
    assume "set h4 \<subseteq> set h'"
    with that(2-4) have grown: "set h1 \<subseteq> set h'" "set h2 \<subseteq> set h'" "set h3 \<subseteq> set h'" by auto
    with that show "conforming pg c h'"
      unfolding conforming_def by (meson verified_quote_mono received_mono)
  qed
  show ?thesis
    unfolding main_conformance_def
    by (rule knows_proceed [OF client], hypsubst, rule knows_proceed [OF knows_must [OF knows_manifest]],
        rule knows_after [OF checks_quiet(1)], rule knows_after [OF checks_quiet(2)], rule knows_after [OF checks_quiet(3)],
        rule knows_after [OF checks_quiet(4)], rule knows_after [OF checks_quiet(5)], rule knows_after [OF checks_quiet(6)],
        rule knows_proceed [OF check_quote_verified], meson received_mono subset_trans, clarify,
        rule knows_proceed [OF check_commit_verified], assumption, clarify,
        rule knows_proceed [OF check_audit_verified], rule finish)
       (assumption | rule subset_refl)+
qed

text \<open>Every commitment in a run of a justified program.\<close>

lemma commitment_justified:
  assumes "knows (justified pg c) [] m R" "events_of m w = before @ Exchange call r # after" "committing c call"
  shows "\<exists>quote key commitment. verified_quote pg c before quote key \<and> binds_quote quote commitment \<and>
    map_sum id Some (de_Request (pg_decoders pg) (QCommit commitment)) = Inr (hc_Body call)"
proof -
  from follows_run [OF assms(1) [unfolded knows_def], of w] assms(2)
  obtain h where "advance (remember (justified pg c)) [] (before @ Exchange call r # after) = Some h" by metis
  from remembered_before [OF this] assms(3) show ?thesis by simp
qed

end
