(* ===== verification/Program_Runs.thy ===== *)
theory Program_Runs
  imports Program_Protocol
begin

text \<open>
  The runs of the programs are bounded: neither loops over the network nor retries, so a run ends
  after a fixed number of exchanges whatever the service answers.
\<close>

fun is_exchange :: "client_event \<Rightarrow> bool" where
  "is_exchange (Exchange call r) = True"
| "is_exchange _ = False"

definition exchanges :: "client_event list \<Rightarrow> nat" where
  "exchanges es = length (filter is_exchange es)"

definition at_most :: "nat \<Rightarrow> ('w, 'a) client_run \<Rightarrow> bool" where
  "at_most n m \<longleftrightarrow> (\<forall>w. runs w m (\<lambda>a es w'. exchanges es \<le> n))"

lemma at_most_events: "at_most n m \<Longrightarrow> exchanges (events_of m w) \<le> n"
  unfolding at_most_def by (drule spec, drule runs_result) assumption

lemma at_most_weaken: "at_most k m \<Longrightarrow> k \<le> n \<Longrightarrow> at_most n m"
  unfolding at_most_def by (rule allI, rule runs_mono, erule spec) simp

lemma at_most_return: "at_most 0 (State_Monad.return a)"
  by (simp add: at_most_def runs_return exchanges_def)

lemma at_most_bind:
  assumes "at_most k m" "\<And>a. at_most n (f a)"
  shows "at_most (k + n) (State_Monad.bind m f)"
  unfolding at_most_def
proof (rule allI, rule runs_bind, rule runs_mono [OF spec [OF assms(1) [unfolded at_most_def]]])
  fix w a es w'
  assume "exchanges es \<le> k"
  then show "runs w' (f a) (\<lambda>b ds w''. exchanges (es @ ds) \<le> k + n)"
    by (intro runs_mono [OF spec [OF assms(2) [unfolded at_most_def]]]) (simp add: exchanges_def)
qed

lemma at_most_perform: "(\<And>r. \<not> is_exchange (ev r)) \<Longrightarrow> at_most 0 (perform m ev)"
  unfolding at_most_def by (rule allI, rule runs_perform) (simp add: exchanges_def)

lemma at_most_send: "at_most 1 (send c call)"
  unfolding at_most_def send_def by (rule allI, rule runs_perform) (simp add: exchanges_def)

lemma at_most_max: "at_most k m \<Longrightarrow> at_most (max k n) m" "at_most n m \<Longrightarrow> at_most (max k n) m"
  by (erule at_most_weaken, simp)+

lemma at_most_case_sum:
  "(\<And>a. at_most k (f a)) \<Longrightarrow> (\<And>b. at_most n (g b)) \<Longrightarrow> at_most (max k n) (case x of Inl a \<Rightarrow> f a | Inr b \<Rightarrow> g b)"
  by (cases x) (simp_all add: at_most_max)

lemma at_most_case_option:
  "at_most k m \<Longrightarrow> (\<And>a. at_most n (f a)) \<Longrightarrow> at_most (max k n) (case x of None \<Rightarrow> m | Some a \<Rightarrow> f a)"
  by (cases x) (simp_all add: at_most_max)

lemma at_most_if: "at_most k m \<Longrightarrow> at_most n m' \<Longrightarrow> at_most (max k n) (if b then m else m')"
  by (simp add: at_most_max)

lemma at_most_case_prod: "(\<And>a b. at_most n (f a b)) \<Longrightarrow> at_most n (case x of (a, b) \<Rightarrow> f a b)"
  by (cases x) auto

section \<open>The library\<close>

lemma at_most_doJSON: "at_most 1 (doJSON nt de c verb path body key decode)"
  unfolding doJSON_def doRequest_def
  by (rule at_most_weaken, (rule at_most_case_sum at_most_case_option at_most_return at_most_bind at_most_send)+) simp

lemma at_most_operations:
  "at_most 1 (Manifest_of nt de c)" "at_most 1 (Capabilities nt de c query)" "at_most 1 (Options nt de c opt)"
  "at_most 1 (Invoke nt de c direct key)" "at_most 1 (Negotiate nt de c negotiation key)"
  "at_most 1 (Prepare_quote nt de c input key)" "at_most 1 (Commit nt de c commitment key)"
  "at_most 1 (Audit nt de c i)" "at_most 1 (InvocationAudit nt de c i)" "at_most 1 (PrepareUpload nt de c up key)"
  "at_most 1 (GetFile nt de c i)"
  unfolding Manifest_of_def Capabilities_def Options_def Invoke_def Negotiate_def Prepare_quote_def Commit_def
    Audit_def InvocationAudit_def PrepareUpload_def GetFile_def
  by (rule at_most_doJSON)+

lemma at_most_UploadFile: "at_most 1 (UploadFile nt de c ticket mediaType digest content)"
  unfolding UploadFile_def doRequest_def
  by (rule at_most_weaken, (rule at_most_case_sum at_most_case_option at_most_return at_most_bind at_most_send)+) simp

lemma at_most_DownloadFile: "at_most 2 (DownloadFile nt de c fileID maximumBytes)"
  unfolding DownloadFile_def
  by (rule at_most_weaken, (rule at_most_if at_most_case_sum at_most_case_option at_most_return at_most_bind at_most_send
      at_most_operations)+) simp

lemma at_most_FetchPublicKey: "at_most 2 (FetchPublicKey nt de c keyID)"
  unfolding FetchPublicKey_def
  by (rule at_most_weaken, (rule at_most_case_sum at_most_return at_most_operations at_most_doJSON at_most_bind)+) simp

section \<open>The programs\<close>

lemma at_most_proceed: "at_most k m \<Longrightarrow> (\<And>a. at_most n (f a)) \<Longrightarrow> at_most (k + n) (proceed m f)"
  unfolding proceed_def
  by (rule at_most_bind, assumption, rule at_most_weaken, rule at_most_case_sum, rule at_most_return) auto

lemma at_most_wrapped:
  "at_most k m \<Longrightarrow> at_most k (requested zero m)" "at_most k m' \<Longrightarrow> at_most k (must operation m')"
  unfolding requested_def must_def by (rule at_most_weaken, rule at_most_bind, assumption, rule at_most_return, simp)+

lemma at_most_pure:
  "at_most 0 (fatalIf err)" "at_most 0 (must_hold operation err)" "at_most 0 (failing message arguments)"
  "at_most 0 (required b message)"
  unfolding must_hold_def required_def failing_def
  by (rule at_most_wrapped at_most_return | simp add: fatalIf_def at_most_return)+

lemma at_most_refused: "at_most k m \<Longrightarrow> at_most k (refused code message m)"
  unfolding refused_def failing_def
proof (rule at_most_weaken [of "k + 0"], rule at_most_bind)
  fix r :: "client_error + 'b"
  show "at_most 0 (case r of Inl (Failure err) \<Rightarrow> State_Monad.return (Inl (Failure (Errorf message [AErr err])))
      | Inl (Rejected p) \<Rightarrow> if p_Code p = code then State_Monad.return (Inr ())
          else State_Monad.return (Inl (Failure (Errorf message [client_error_arg (Rejected p)])))
      | Inr _ \<Rightarrow> State_Monad.return (Inl (Failure (Errorf message [AStr ''<nil>'']))))"
    by (auto intro: at_most_return split: sum.split client_error.split)
qed simp_all

lemma at_most_local:
  "at_most 0 (print_text s)" "at_most 0 (printJSON pg label v)" "at_most 0 (time_now pg)"
  "at_most 0 (fresh_id pg prefix)" "at_most 0 (read_file pg path)" "at_most 0 (pass check)"
proof -
  have printed: "at_most 0 (print_text s)" for s
    unfolding print_text_def by (rule at_most_weaken, rule at_most_bind [OF at_most_perform at_most_return]) simp_all
  then show "at_most 0 (print_text s)" "at_most 0 (printJSON pg label v)" "at_most 0 (pass check)"
    by (auto simp: printJSON_def pass_def at_most_pure split: sum.split)
  show "at_most 0 (time_now pg)" "at_most 0 (fresh_id pg prefix)" "at_most 0 (read_file pg path)"
    unfolding time_now_def fresh_id_def read_file_def
    by (rule at_most_weaken, rule at_most_bind [OF at_most_perform at_most_return], simp, simp)+
qed

lemmas at_most_rules = at_most_proceed at_most_wrapped at_most_pure at_most_refused at_most_local at_most_operations
  at_most_UploadFile at_most_DownloadFile at_most_FetchPublicKey at_most_if at_most_case_prod at_most_return

lemma at_most_main_client: "at_most 14 (main_client pg flags)"
  unfolding main_client_def discover_service_def direct_stage_def upload_stage_def negotiate_stage_def quote_stage_def
    commit_stage_def commitment_stage_def audit_stage_def
  by (rule at_most_weaken, (rule at_most_rules at_most_case_sum)+) simp

lemma at_most_check_commit: "at_most 2 (check_commit pg c quote key)"
  unfolding check_commit_def Let_def
  by (rule at_most_weaken, (rule at_most_rules at_most_case_option)+) simp

lemma at_most_main_conformance: "at_most 21 (main_conformance pg baseURL token)"
  unfolding main_conformance_def check_catalog_def check_direct_def check_options_def check_contract_required_def
    check_files_def check_replay_def check_quote_def check_audit_def Let_def
  by (rule at_most_weaken, (rule at_most_check_commit at_most_rules)+) simp

end
