(* ===== verification/Mutation_Protocol.thy ===== *)
theory Mutation_Protocol
  imports Http_Core
begin

text \<open>
  What the wrapper of every mutation makes of an idempotency backend with the laws of the locale
  \<open>idempotency_backend\<close>: the operation of a new claim runs once and its answer is stored, unless
  the operation gives the claim back; the same request gets that answer again, another request with the key is refused.
\<close>

section \<open>Bookkeeping\<close>

text \<open>The calls the wrapper makes itself.\<close>

definition bookkeeping :: "event \<Rightarrow> bool" where
  "bookkeeping e \<longleftrightarrow> (case e of EvNow _ \<Rightarrow> True | EvRandom _ \<Rightarrow> True | EvAuthenticate _ _ \<Rightarrow> True |
     EvBegin _ _ _ _ \<Rightarrow> True | EvComplete _ _ _ _ \<Rightarrow> True | EvUnclaim _ _ _ _ \<Rightarrow> True | _ \<Rightarrow> False)"

lemma bookkeeping_simps [simp]:
  "bookkeeping (EvNow t)" "bookkeeping (EvRandom raw)" "bookkeeping (EvAuthenticate request i)"
  "bookkeeping (EvBegin scope key d a)" "bookkeeping (EvComplete scope key resp err)" "bookkeeping (EvUnclaim scope key d err)"
  by (simp_all add: bookkeeping_def)

lemma admit_bookkeeping: "emits bookkeeping (admit cfg writer request)"
  unfolding admit_def request_id_def new_id_def Authenticate_def Let_def by (rule emits_rules bookkeeping_simps)+

lemma emits_claim_case:
  "emits P m1 \<Longrightarrow> emits P m2 \<Longrightarrow> emits P m3 \<Longrightarrow> emits P m4 \<Longrightarrow>
     emits P (case x of IdempotencyNew \<Rightarrow> m1 | IdempotencyReplay \<Rightarrow> m2 | IdempotencyConflict \<Rightarrow> m3 | IdempotencyInProgress \<Rightarrow> m4)"
  by (cases x) auto

lemma released_header: "''true'' \<in> set (header_values (add_headers writer (Header_Set h ''Idempotency-Released'' ''true''))
    ''Idempotency-Released'')"
proof -
  have "canonical_name True ''Idempotency-Released'' = ''Idempotency-Released''" by code_simp
  then show ?thesis by (simp add: add_headers_def Header_Set_def header_values_def del: canonical_name.simps)
qed

section \<open>The wrapper over a backend\<close>

text \<open>
  \<open>claims w\<close> is the backend's state in the world, \<open>store_clock w\<close> the time its next claim
  reads. The other calls of the wrapper leave the backend alone.
\<close>

locale claimed_mutations =
  idempotency_backend begin_op complete_op release_op claimed stored
  for begin_op :: "time \<Rightarrow> time \<Rightarrow> 'k \<Rightarrow> string \<Rightarrow> duration \<Rightarrow> 's \<Rightarrow> (IdempotencyResult \<times> StoredResponse) \<times> 's"
    and complete_op :: "'k \<Rightarrow> StoredResponse \<Rightarrow> 's \<Rightarrow> error option \<times> 's"
    and release_op :: "'k \<Rightarrow> string \<Rightarrow> 's \<Rightarrow> error option \<times> 's"
    and claimed :: "'s \<Rightarrow> 'k \<Rightarrow> string option"
    and stored :: "'s \<Rightarrow> 'k \<Rightarrow> (string \<times> StoredResponse) option" +
  fixes cfg :: "'w Config"
    and claims :: "'w \<Rightarrow> 's"
    and store_clock :: "'w \<Rightarrow> time"
    and key_of :: "string \<Rightarrow> string \<Rightarrow> 'k"
  assumes begin_call: "\<exists>u w'. idem_Begin (cfg_Idempotency cfg) scope key d r w =
        (Inr (fst (begin_op (store_clock w) u (key_of scope key) d r (claims w))), w') \<and>
      claims w' = snd (begin_op (store_clock w) u (key_of scope key) d r (claims w))"
    and complete_call: "\<exists>w'. idem_Complete (cfg_Idempotency cfg) scope key resp w =
        (fst (complete_op (key_of scope key) resp (claims w)), w') \<and>
      claims w' = snd (complete_op (key_of scope key) resp (claims w))"
    and release_call: "\<exists>w'. idem_Release (cfg_Idempotency cfg) scope key d w =
        (fst (release_op (key_of scope key) d (claims w)), w') \<and>
      claims w' = snd (release_op (key_of scope key) d (claims w))"
    and now_claims: "claims (snd (cfg_Now cfg w)) = claims w"
    and random_claims: "claims (snd (cfg_Random cfg w)) = claims w"
    and authenticate_claims: "claims (snd (cfg_Authenticator cfg request w)) = claims w"
begin

definition claim_key :: "http_request \<Rightarrow> Identity \<Rightarrow> string \<Rightarrow> 'k" where
  "claim_key request identity key = key_of (idempotency_scope identity (rq_Method request) (rq_Path request)) key"

lemma runs_Now: "(\<And>t w'. claims w' = claims w \<Longrightarrow> Q t [EvNow t] w') \<Longrightarrow> runs w (Now cfg) Q"
  unfolding Now_def using now_claims [of w] by (intro runs_perform) auto

lemma runs_request_id: "(\<And>i es w'. claims w' = claims w \<Longrightarrow> Q i es w') \<Longrightarrow> runs w (request_id cfg request) Q"
  unfolding request_id_def new_id_def Let_def using random_claims [of w]
  by (auto intro!: runs_bind runs_perform runs_return)

lemma admit_claims: "runs w (admit cfg writer request) (\<lambda>_ _ w'. claims w' = claims w)"
proof -
  have auth: "runs w' (Authenticate cfg request) (\<lambda>_ _ w''. claims w'' = claims w)" if "claims w' = claims w" for w'
    unfolding Authenticate_def using authenticate_claims [of request w'] that by (intro runs_perform) auto
  show ?thesis
    unfolding admit_def
    by (rule runs_bind, rule runs_request_id) (auto intro!: runs_return runs_bind runs_mono [OF auth])
qed

lemma uniform_admit: "uniform (admit cfg writer request)"
  unfolding admit_def request_id_def new_id_def Authenticate_def Let_def by (rule uniform_rules)+

lemma admit_runs:
  "runs w (admit cfg writer request)
     (\<lambda>r es w'. r = result_of (admit cfg writer request) w \<and> w' = world_after (admit cfg writer request) w \<and>
        es = events_of (admit cfg writer request) w \<and> claims w' = claims w)"
  using uniform_runs [OF uniform_admit] admit_claims unfolding runs_def by (metis prod.inject)

lemma claims_after_admit: "claims (world_after (admit cfg writer request) w) = claims w"
  using runs_result [OF admit_claims] .

text \<open>The claim, by what the backend holds for its key.\<close>

lemma begin_runs:
  assumes "\<And>u. Q (fst (begin_op (store_clock w) u (key_of scope key) d (cfg_IdempotencyRetention cfg) (claims w)))
      (snd (begin_op (store_clock w) u (key_of scope key) d (cfg_IdempotencyRetention cfg) (claims w)))"
  shows "runs w (idempotency_begin cfg scope key d) (\<lambda>r es w'. \<exists>a. r = Inr a \<and> es = [EvBegin scope key d (Inr a)] \<and> Q a (claims w'))"
  unfolding idempotency_begin_def
proof (rule runs_perform)
  fix r w'
  assume call: "idem_Begin (cfg_Idempotency cfg) scope key d (cfg_IdempotencyRetention cfg) w = (r, w')"
  obtain u where "r = Inr (fst (begin_op (store_clock w) u (key_of scope key) d (cfg_IdempotencyRetention cfg) (claims w)))"
    "claims w' = snd (begin_op (store_clock w) u (key_of scope key) d (cfg_IdempotencyRetention cfg) (claims w))"
    using begin_call [of scope key d "cfg_IdempotencyRetention cfg" w] call by auto
  with assms [of u] show "\<exists>a. r = Inr a \<and> [EvBegin scope key d r] = [EvBegin scope key d (Inr a)] \<and> Q a (claims w')"
    by simp
qed

lemma complete_runs:
  assumes "claimed (claims w) (key_of scope key) = Some d"
  shows "runs w (idempotency_complete cfg scope key resp)
     (\<lambda>r es w'. r = None \<and> (\<exists>resp'. stored (claims w') (key_of scope key) = Some (d, resp') \<and>
        sr_StatusCode resp' = sr_StatusCode resp \<and> sr_Headers resp' = sr_Headers resp \<and> sr_Body resp' = sr_Body resp \<and>
        (sr_ExpiresAt resp \<noteq> 0 \<longrightarrow> resp' = resp)))"
  unfolding idempotency_complete_def
  using complete_call [of scope key resp w] complete_ok [of "claims w" "key_of scope key" d zero_StoredResponse resp] assms
  by (intro runs_perform) auto

lemma release_runs:
  assumes "claimed (claims w) (key_of scope key) = Some d"
  shows "runs w (idempotency_release cfg scope key d)
     (\<lambda>r es w'. r = None \<and> claimed (claims w') (key_of scope key) = None \<and> stored (claims w') (key_of scope key) = None)"
  unfolding idempotency_release_def
  using release_call [of scope key d w] release_held [OF assms] by (intro runs_perform) auto

text \<open>A mutation that was admitted, up to its claim.\<close>

lemma mutating_runs:
  assumes "result_of (admit cfg writer request) w = Inr (requestID, identity, key, body)"
    and "scope = idempotency_scope identity (rq_Method request) (rq_Path request)" "digest = request_digest request body"
    and "runs (world_after (admit cfg writer request) w)
        (do { claim \<leftarrow> idempotency_begin cfg scope key digest;
           answer_claim cfg writer requestID
             (run_claimed cfg operation writer identity requestID key body scope digest) claim })
        (\<lambda>r es w'. Q r (events_of (admit cfg writer request) w @ es) w')"
  shows "runs w (handleMutating cfg operation writer request) Q"
  unfolding handleMutating_def
proof (rule runs_attempt, rule runs_mono [OF admit_runs], elim conjE, hypsubst)
  show "case result_of (admit cfg writer request) w of
      Inl a \<Rightarrow> Q a (events_of (admit cfg writer request) w) (world_after (admit cfg writer request) w)
    | Inr b \<Rightarrow> runs (world_after (admit cfg writer request) w)
        ((\<lambda>(requestID, identity, key, body).
          let scope = idempotency_scope identity (rq_Method request) (rq_Path request); digest = request_digest request body
          in do { claim \<leftarrow> idempotency_begin cfg scope key digest;
             answer_claim cfg writer requestID
               (run_claimed cfg operation writer identity requestID key body scope digest) claim }) b)
        (\<lambda>c ds w''. Q c (events_of (admit cfg writer request) w @ ds) w'')"
    unfolding assms(1) using assms(4) by (simp only: sum.case prod.case Let_def assms(2,3))
qed

text \<open>The same request again, while its response is kept: the stored response, and no operation.\<close>

lemma replays:
  assumes "result_of (admit cfg writer request) w = Inr (requestID, identity, key, body)"
    and "stored (claims w) (claim_key request identity key) = Some (request_digest request body, resp)"
    and "sr_ExpiresAt resp = 0 \<or> store_clock (world_after (admit cfg writer request) w) \<le> sr_ExpiresAt resp"
  shows "runs w (handleMutating cfg operation writer request)
     (\<lambda>r es w'. r = writeStoredResponse writer resp requestID \<and> claims w' = claims w \<and>
        (\<exists>scope d a. es = events_of (admit cfg writer request) w @ [EvBegin scope key d a]))"
proof (rule mutating_runs [OF assms(1) refl refl], rule runs_bind, rule runs_mono [OF begin_runs])
  let ?w = "world_after (admit cfg writer request) w"
  fix u
  show "(\<lambda>a s. a = (IdempotencyReplay, resp) \<and> s = claims w)
      (fst (begin_op (store_clock ?w) u (key_of (idempotency_scope identity (rq_Method request) (rq_Path request)) key)
         (request_digest request body) (cfg_IdempotencyRetention cfg) (claims ?w)))
      (snd (begin_op (store_clock ?w) u (key_of (idempotency_scope identity (rq_Method request) (rq_Path request)) key)
         (request_digest request body) (cfg_IdempotencyRetention cfg) (claims ?w)))"
    using begin_stored [OF assms(2,3)] by (simp add: claims_after_admit claim_key_def)
qed (auto simp: answer_claim_def intro!: runs_return)

text \<open>A key that is bound: in progress, or used for another request.\<close>

lemma refuses:
  assumes "result_of (admit cfg writer request) w = Inr (requestID, identity, key, body)"
    and "claimed (claims w) (claim_key request identity key) = Some d \<or>
      d \<noteq> request_digest request body \<and> stored (claims w) (claim_key request identity key) = Some (d, resp)"
  shows "runs w (handleMutating cfg operation writer request)
     (\<lambda>r es w'. rs_Status r = StatusConflict \<and> claims w' = claims w \<and>
        (\<exists>scope d a. es = events_of (admit cfg writer request) w @ [EvBegin scope key d a]))"
proof (rule mutating_runs [OF assms(1) refl refl], rule runs_bind, rule runs_mono [OF begin_runs])
  let ?w = "world_after (admit cfg writer request) w"
  fix u
  show "(\<lambda>a s. fst a \<in> {IdempotencyConflict, IdempotencyInProgress} \<and> s = claims w)
      (fst (begin_op (store_clock ?w) u (key_of (idempotency_scope identity (rq_Method request) (rq_Path request)) key)
         (request_digest request body) (cfg_IdempotencyRetention cfg) (claims ?w)))
      (snd (begin_op (store_clock ?w) u (key_of (idempotency_scope identity (rq_Method request) (rq_Path request)) key)
         (request_digest request body) (cfg_IdempotencyRetention cfg) (claims ?w)))"
    using assms(2) begin_held begin_conflict by (auto simp: claims_after_admit claim_key_def)
qed (auto simp: answer_claim_def writeProblem_def writeJSON_def respond_def Let_def problem_sel in_progress_problem_def intro!: runs_return)

text \<open>
  A free key: the operation runs, and then its answer is stored and written, or, when the operation
  asks for it, the claim is given back and the response says so, or the operation stopped
  unexpectedly, the claim stays and the response asks the client to reconcile.
\<close>

definition claim_settled ::
  "http_request \<Rightarrow> Identity \<Rightarrow> string \<Rightarrow> string \<Rightarrow> operationResult option \<Rightarrow> http_response \<Rightarrow> 's \<Rightarrow> bool"
where
  "claim_settled request identity key digest outcome r s \<longleftrightarrow>
     (case outcome of
        None \<Rightarrow> claimed s (claim_key request identity key) = Some digest \<and> outcome_unknown cfg r
      | Some result \<Rightarrow> rs_Status r = op_Status result \<and> rs_Body r = op_Body result \<and>
          (if op_ReleaseClaim result
           then claimed s (claim_key request identity key) = None \<and> stored s (claim_key request identity key) = None \<and>
             ''true'' \<in> set (header_values (rs_Headers r) ''Idempotency-Released'')
           else \<exists>resp. stored s (claim_key request identity key) = Some (digest, resp) \<and>
             sr_StatusCode resp = op_Status result \<and> sr_Body resp = op_Body result))"

lemma finish_runs:
  assumes "claimed (claims w) (claim_key request identity key) = Some digest"
    and "scope = idempotency_scope identity (rq_Method request) (rq_Path request)"
  shows "runs w (finish_claimed cfg writer requestID scope key digest result)
     (\<lambda>r es w'. claim_settled request identity key digest (Some result) r (claims w') \<and> list_all bookkeeping es)"
proof (cases "op_ReleaseClaim result")
  case True
  have held: "claimed (claims w) (key_of scope key) = Some digest"
    using assms by (simp add: claim_key_def)
  have "runs w (idempotency_release cfg scope key digest) (\<lambda>err es w'. err = None \<and> list_all bookkeeping es \<and>
      claimed (claims w') (key_of scope key) = None \<and> stored (claims w') (key_of scope key) = None)"
    by (rule runs_emits [where P = bookkeeping, OF _ release_runs [OF held]]) (auto simp: idempotency_release_def intro: emits_perform)
  then show ?thesis
    unfolding finish_claimed_def Let_def using True
    by (simp, intro runs_bind) (erule runs_mono, auto intro!: runs_return simp: claim_settled_def assms(2) claim_key_def
      respond_def released_header)
next
  case False
  have held: "claimed (claims w') (key_of scope key) = Some digest" if "claims w' = claims w" for w'
    using assms that by (simp add: claim_key_def)
  have complete: "runs w' (idempotency_complete cfg scope key resp) (\<lambda>err es w''. err = None \<and> list_all bookkeeping es \<and>
      (\<exists>resp'. stored (claims w'') (key_of scope key) = Some (digest, resp') \<and>
        sr_StatusCode resp' = sr_StatusCode resp \<and> sr_Body resp' = sr_Body resp))"
    if "claims w' = claims w" for w' resp
    by (rule runs_emits [where P = bookkeeping, OF _ complete_runs [OF held [OF that]]])
       (auto simp: idempotency_complete_def intro: emits_perform)
  show ?thesis
    unfolding finish_claimed_def Let_def using False
    by (simp, intro runs_bind runs_Now runs_mono [OF complete] runs_return)
       (auto simp: claim_settled_def assms(2) claim_key_def respond_def)
qed

lemma run_claimed_runs:
  assumes "claimed (claims w) (claim_key request identity key) = Some digest"
    and "scope = idempotency_scope identity (rq_Method request) (rq_Path request)"
    and "runs w (operation identity requestID body key) (\<lambda>outcome es w'. claims w' = claims w \<and> Q outcome es)"
  shows "runs w (run_claimed cfg operation writer identity requestID key body scope digest)
     (\<lambda>r es w'. \<exists>outcome ds after. es = ds @ after \<and> Q outcome ds \<and> list_all bookkeeping after \<and>
        claim_settled request identity key digest outcome r (claims w'))"
  unfolding run_claimed_def
proof (rule runs_bind, rule runs_mono [OF assms(3)])
  fix outcome ds w'
  assume Q: "claims w' = claims w \<and> Q outcome ds"
  with assms(1) have held: "claimed (claims w') (claim_key request identity key) = Some digest" by simp
  have "runs w' (case outcome of None \<Rightarrow> State_Monad.return (writeProblem cfg writer requestID
         (problem StatusInternalServerError ErrOutcomeUnknown ''Operation outcome is unknown''
           ''The request stopped unexpectedly. Retry only with the same idempotency key while the provider reconciles the original operation.'' False))
     | Some result \<Rightarrow> finish_claimed cfg writer requestID scope key digest result)
     (\<lambda>r after w''. claim_settled request identity key digest outcome r (claims w'') \<and> list_all bookkeeping after)"
    using finish_runs [OF held assms(2)] held
    by (cases outcome)
       (auto simp: claim_settled_def outcome_unknown_def intro!: runs_return exI [of _ writer] exI [of _ requestID])
  then show "runs w' (case outcome of None \<Rightarrow> State_Monad.return (writeProblem cfg writer requestID
         (problem StatusInternalServerError ErrOutcomeUnknown ''Operation outcome is unknown''
           ''The request stopped unexpectedly. Retry only with the same idempotency key while the provider reconciles the original operation.'' False))
     | Some result \<Rightarrow> finish_claimed cfg writer requestID scope key digest result)
     (\<lambda>r es w''. \<exists>outcome ds' after. ds @ es = ds' @ after \<and> Q outcome ds' \<and> list_all bookkeeping after \<and>
        claim_settled request identity key digest outcome r (claims w''))"
    by (rule runs_mono) (use Q in blast)
qed

lemma answers_once:
  assumes "result_of (admit cfg writer request) w = Inr (requestID, identity, key, body)"
    and "claimed (claims w) (claim_key request identity key) = None"
    and "stored (claims w) (claim_key request identity key) = None"
    and "\<And>w. runs w (operation identity requestID body key) (\<lambda>outcome es w'. claims w' = claims w \<and> Q outcome es)"
  shows "runs w (handleMutating cfg operation writer request)
     (\<lambda>r es w'. \<exists>scope d a outcome ds after.
        es = events_of (admit cfg writer request) w @ EvBegin scope key d a # ds @ after \<and>
        Q outcome ds \<and> list_all bookkeeping after \<and>
        claim_settled request identity key (request_digest request body) outcome r (claims w'))"
proof (rule mutating_runs [OF assms(1) refl refl], rule runs_bind, rule runs_mono [OF begin_runs])
  let ?w = "world_after (admit cfg writer request) w"
  let ?scope = "idempotency_scope identity (rq_Method request) (rq_Path request)"
  fix u
  show "(\<lambda>a s. fst a = IdempotencyNew \<and> claimed s (claim_key request identity key) = Some (request_digest request body))
      (fst (begin_op (store_clock ?w) u (key_of ?scope key)
         (request_digest request body) (cfg_IdempotencyRetention cfg) (claims ?w)))
      (snd (begin_op (store_clock ?w) u (key_of ?scope key)
         (request_digest request body) (cfg_IdempotencyRetention cfg) (claims ?w)))"
    using begin_free [OF assms(2,3), of "store_clock ?w" u "request_digest request body" "cfg_IdempotencyRetention cfg"]
    by (auto simp: claims_after_admit claim_key_def)
next
  let ?scope = "idempotency_scope identity (rq_Method request) (rq_Path request)"
  let ?d = "request_digest request body"
  fix claim :: "(IdempotencyResult \<times> StoredResponse) result" and es w'
  assume "\<exists>a. claim = Inr a \<and> es = [EvBegin ?scope key ?d (Inr a)] \<and> fst a = IdempotencyNew \<and>
    claimed (claims w') (claim_key request identity key) = Some ?d"
  then obtain old where new: "claim = Inr (IdempotencyNew, old)" "es = [EvBegin ?scope key ?d claim]"
    and held: "claimed (claims w') (claim_key request identity key) = Some ?d" by auto
  show "runs w' (answer_claim cfg writer requestID
       (run_claimed cfg operation writer identity requestID key body ?scope ?d) claim)
     (\<lambda>r ds w''. \<exists>scope d a outcome ds' after.
        events_of (admit cfg writer request) w @ es @ ds =
          events_of (admit cfg writer request) w @ EvBegin scope key d a # ds' @ after \<and>
        Q outcome ds' \<and> list_all bookkeeping after \<and>
        claim_settled request identity key ?d outcome r (claims w''))"
    unfolding new(2) unfolding new(1) answer_claim_def
    by (simp, rule runs_mono [OF run_claimed_runs [where operation = operation, OF held refl assms(4)]]) auto
qed

end

end
