(* ===== verification/Email_Service.thy ===== *)
theory Email_Service
  imports Contract_Rules Calendar "HOL-Library.List_Lexorder" "HOL-Library.Char_ord"
begin

text \<open>
  The reference email service (internal/email/service.go), the provider behind the protocol
  engine: the capability catalog, the free one-call read of the newest message, and the sending
  of a message under a contract. The clock readings, the draws of the random source and
  \<open>mail.ParseAddress\<close> are arguments; the state is the mailbox.
\<close>

section \<open>Text\<close>

text \<open>
  \<open>strings.ToLower\<close> on UTF-8: the two letters outside ASCII whose lower case is in ASCII, the
  Kelvin sign and the dotted capital I, and the ASCII letters. The lower case of every other
  character is outside ASCII; the comparisons below cannot tell it from the character itself.
\<close>

fun ToLower :: "string \<Rightarrow> string" where
  "ToLower (c # d # e # cs) =
     (if [c, d, e] = [CHR 0xE2, CHR 0x84, CHR 0xAA] then CHR ''k'' # ToLower cs
      else if [c, d] = [CHR 0xC4, CHR 0xB0] then CHR ''i'' # ToLower (e # cs)
      else lower_char c # ToLower (d # e # cs))"
| "ToLower [c, d] = (if [c, d] = [CHR 0xC4, CHR 0xB0] then ''i'' else [lower_char c, lower_char d])"
| "ToLower [c] = [lower_char c]"
| "ToLower [] = []"

fun Contains :: "string \<Rightarrow> string \<Rightarrow> bool" where
  "Contains s t \<longleftrightarrow> HasPrefix s t \<or> (case s of [] \<Rightarrow> False | c # cs \<Rightarrow> Contains cs t)"

declare Contains.simps [simp del]

text \<open>The Chinese words for newest, send and send one, in UTF-8.\<close>

definition newest_zh :: string where
  "newest_zh = [CHR 0xE6, CHR 0x9C, CHR 0x80, CHR 0xE6, CHR 0x96, CHR 0xB0]"

definition send_zh :: string where
  "send_zh = [CHR 0xE5, CHR 0x8F, CHR 0x91, CHR 0xE9, CHR 0x80, CHR 0x81]"

definition send_one_zh :: string where
  "send_one_zh = [CHR 0xE5, CHR 0x8F, CHR 0x91, CHR 0xE4, CHR 0xB8, CHR 0x80, CHR 0xE5, CHR 0xB0, CHR 0x81]"

definition resolveIntent :: "string \<Rightarrow> string \<Rightarrow> string" where
  "resolveIntent intent goal =
     (if TrimSpace intent \<noteq> [] then TrimSpace intent
      else let lower = ToLower goal in
        if Contains lower ''latest'' \<or> Contains lower ''newest'' \<or> Contains lower newest_zh
        then ''email.latest.read''
        else if Contains lower ''send'' \<or> Contains lower send_zh \<or> Contains lower send_one_zh
        then ''email.send''
        else [])"

text \<open>A value of a parameter object, and the number of its names.\<close>

definition member :: "json_map \<Rightarrow> string \<Rightarrow> json option" where
  "member entries name = map_of entries name"

definition json_text :: "json option \<Rightarrow> string option" where
  "json_text v = (case v of Some (JStr s) \<Rightarrow> Some s | _ \<Rightarrow> None)"

definition text_or_empty :: "json option \<Rightarrow> string" where
  "text_or_empty v = (case json_text v of Some s \<Rightarrow> s | None \<Rightarrow> [])"

definition map_size :: "json_map \<Rightarrow> nat" where
  "map_size entries = length (remdups (map fst entries))"

section \<open>The mailbox\<close>

record Message =
  mg_ID :: string
  mg_TaskID :: string
  mg_From :: string
  mg_To :: string
  mg_Subject :: string
  mg_Body :: string
  mg_Attachments :: "FileRef list"
  mg_OccurredAt :: time

record Mailbox =
  mb_messages :: "string \<rightharpoonup> Message"
  mb_inbox :: "Message list"

definition welcome_message :: "time \<Rightarrow> Message" where
  "welcome_message now =
     \<lparr>mg_ID = ''msg_reference_welcome'', mg_TaskID = [], mg_From = ''service@example.test'',
      mg_To = ''demo-user@example.test'', mg_Subject = ''Welcome to the ASCP reference mailbox'',
      mg_Body = ''This message is returned by the one-call email.latest.read capability.'',
      mg_Attachments = [], mg_OccurredAt = now - Hour\<rparr>"

definition NewService :: "time \<Rightarrow> Mailbox" where
  "NewService now = \<lparr>mb_messages = Map.empty, mb_inbox = [welcome_message now]\<rparr>"

section \<open>What the service offers\<close>

definition sendParameters :: "ParameterDefinition list" where
  "sendParameters =
     (let schema = (\<lambda>maximum. ''{\"type\":\"string\",\"minLength\":1,\"maxLength\":'' @ decimal_int maximum @ ''}'') in
      [\<lparr>pd_Name = ''recipient'', pd_Description = ''RFC 5322 recipient address'', pd_Required = True,
        pd_Sensitive = True, pd_Schema = schema 320\<rparr>,
       \<lparr>pd_Name = ''subject'', pd_Description = ''Email subject'', pd_Required = True,
        pd_Sensitive = False, pd_Schema = schema 200\<rparr>,
       \<lparr>pd_Name = ''body'', pd_Description = ''Plain-text email body'', pd_Required = True,
        pd_Sensitive = True, pd_Schema = schema 10000\<rparr>])"

definition sendFilePolicy :: FilePolicy where
  "sendFilePolicy =
     \<lparr>fp_Accepted = True, fp_MaximumFiles = 10, fp_MaximumFileBytes = 10 * 2 ^ 20,
      fp_MaximumTotalBytes = 25 * 2 ^ 20,
      fp_AllowedMediaTypes = [''text/*'', ''image/*'', ''application/pdf'', ''application/zip'',
        ''application/octet-stream''],
      fp_InlineMaximumBytes = 0, fp_UploadSupported = True, fp_ReferenceSupported = True,
      fp_MalwareScanRequired = True\<rparr>"

definition supportedSendBillingModes :: "BillingMode list" where
  "supportedSendBillingModes =
     [BillingPayNow, BillingPrepaidBalance, BillingSubscription, BillingPostpaid, BillingMonthlyInvoice,
      BillingClearing, BillingSponsored, BillingExternal]"

abbreviation billing_option :: "BillingMode \<Rightarrow> bool \<Rightarrow> bool \<Rightarrow> string \<Rightarrow> string \<Rightarrow> BillingOption" where
  "billing_option mode arrangement authorization timing description \<equiv>
     \<lparr>bo_Mode = mode, bo_ArrangementRequired = arrangement, bo_AuthorizationRequired = authorization,
      bo_SettlementTiming = timing, bo_Description = description\<rparr>"

definition sendBillingOptions :: "BillingOption list" where
  "sendBillingOptions =
     [billing_option BillingPayNow False True ''after_success'' ''Reserve at commit and settle after delivery'',
      billing_option BillingPrepaidBalance True False ''after_success'' ''Deduct from an existing prepaid balance'',
      billing_option BillingSubscription True False ''periodic'' ''Record usage against an included subscription'',
      billing_option BillingPostpaid True False ''periodic'' ''Record usage against a postpaid account'',
      billing_option BillingMonthlyInvoice True False ''invoice'' ''Append a line item to the monthly invoice'',
      billing_option BillingClearing True False ''periodic'' ''Settle through a unified platform clearing account'',
      billing_option BillingSponsored True False ''periodic'' ''Charge a sponsor relationship'',
      billing_option BillingExternal True False ''external''
        ''The provider records service while settlement occurs outside ASCP'']"

definition read_capability :: CapabilityDescriptor where
  "read_capability =
     \<lparr>cd_Intent = ''email.latest.read'', cd_Version = ''email.latest.read/1'',
      cd_Summary = ''Read the newest visible email'',
      cd_Description = ''Returns the newest message as a compact inline result and attachment references.'',
      cd_Category = ''email'', cd_DefaultFlow = FlowDirect, cd_SupportedFlows = [FlowDirect],
      cd_SideEffectClass = ''read_only'', cd_RiskClass = ''low_private_data_access'',
      cd_RequiredScopes = [''email.read''], cd_BillingModes = [BillingFree],
      cd_ParameterNames = [''include_body''], cd_OptionsSupported = True, cd_InputFilePolicy = zero_FilePolicy,
      cd_OutputModes = [''inline'', ''artifact_ref''], cd_MaximumInlineBytes = 32 * 2 ^ 10,
      cd_Deprecated = False, cd_DocumentationURI = []\<rparr>"

definition send_capability :: CapabilityDescriptor where
  "send_capability =
     \<lparr>cd_Intent = ''email.send'', cd_Version = ''email.send/2'',
      cd_Summary = ''Send one email with optional attachments'',
      cd_Description = ''Creates a signed service contract before irreversible delivery.'',
      cd_Category = ''email'', cd_DefaultFlow = FlowContract, cd_SupportedFlows = [FlowContract],
      cd_SideEffectClass = ''irreversible_external_communication'',
      cd_RiskClass = ''medium_irreversible_communication'', cd_RequiredScopes = [''email.send''],
      cd_BillingModes = supportedSendBillingModes, cd_ParameterNames = [''recipient'', ''subject'', ''body''],
      cd_OptionsSupported = True, cd_InputFilePolicy = sendFilePolicy, cd_OutputModes = [''artifact_ref''],
      cd_MaximumInlineBytes = 0, cd_Deprecated = False, cd_DocumentationURI = []\<rparr>"

definition capability_matches :: "string \<Rightarrow> string \<Rightarrow> CapabilityDescriptor \<Rightarrow> bool" where
  "capability_matches needle intent capability \<longleftrightarrow>
     (intent = [] \<or> HasPrefix (ToLower (cd_Intent capability)) intent) \<and>
     (needle = [] \<or>
        Contains (ToLower (cd_Intent capability @ '' '' @ cd_Summary capability @ '' '' @ cd_Description capability)) needle)"

text \<open>\<open>Capabilities\<close>; the catalog's intents are distinct, so \<open>sort.Slice\<close> has one result.\<close>

definition email_Capabilities :: "time \<Rightarrow> CapabilityQuery \<Rightarrow> CapabilityCatalog" where
  "email_Capabilities now query =
     (let needle = ToLower (TrimSpace (cq_Query query)); intent = ToLower (TrimSpace (cq_Intent query));
          matching = sort_key cd_Intent (filter (capability_matches needle intent) [read_capability, send_capability]);
          limit = (if cq_Limit query \<le> 0 \<or> 100 < cq_Limit query then 20 else cq_Limit query)
      in \<lparr>cc_ServiceID = ''urn:ascp:service:reference-email'', cc_Revision = ''email-capabilities/2'',
          cc_Capabilities = (if limit < int (length matching) then take (nat limit) matching else matching),
          cc_NextCursor = [], cc_GeneratedAt = now, cc_ExpiresAt = now + 15 * Minute\<rparr>)"

definition send_estimate :: "string \<Rightarrow> PriceEstimate" where
  "send_estimate basis =
     \<lparr>pe_Minimum = \<lparr>m_Currency = ''USD'', m_Amount = ''0.00''\<rparr>,
      pe_Maximum = \<lparr>m_Currency = ''USD'', m_Amount = ''0.01''\<rparr>, pe_Basis = basis\<rparr>"

definition email_Options :: "time \<Rightarrow> Identity \<Rightarrow> OptionsRequest \<Rightarrow> OptionsResponse" where
  "email_Options now identity request =
     (let intent = resolveIntent (or_Intent request) (or_Goal request) in
      if intent = ''email.latest.read''
      then let missing = (if HasScope identity ''email.read'' then [] else [''delegated_scope:email.read'']) in
        \<lparr>os_Supported = True, os_ResolvedIntent = intent, os_RecommendedFlow = FlowDirect,
         os_DirectEligible = (missing = []), os_ReasonCode = [], os_Reason = [],
         os_Parameters = [\<lparr>pd_Name = ''include_body'',
           pd_Description = ''Whether to include the small message body inline'', pd_Required = False,
           pd_Sensitive = False, pd_Schema = ''{\"type\":\"boolean\",\"default\":true}''\<rparr>],
         os_MissingParameters = missing, os_RequiredScopes = [''email.read''],
         os_BillingOptions = [billing_option BillingFree False False ''none'' ''No service charge''],
         os_InputFilePolicy = zero_FilePolicy, os_EstimatedPrice = None,
         os_SchemaVersion = ''email.latest.read/1'', os_ExpiresAt = now + 10 * Minute, os_ServerRequestID = []\<rparr>
      else if intent = ''email.send''
      then
        \<lparr>os_Supported = True, os_ResolvedIntent = intent, os_RecommendedFlow = FlowContract,
         os_DirectEligible = False, os_ReasonCode = ErrContractRequired,
         os_Reason = ''Sending external email is irreversible and requires a signed quote and independent approval.'',
         os_Parameters = sendParameters, os_MissingParameters = [], os_RequiredScopes = [''email.send''],
         os_BillingOptions = sendBillingOptions, os_InputFilePolicy = sendFilePolicy,
         os_EstimatedPrice = Some (send_estimate
           ''one message; subscription or sponsor arrangements may include the fee''),
         os_SchemaVersion = ''email.send/2'', os_ExpiresAt = now + 10 * Minute, os_ServerRequestID = []\<rparr>
      else
        \<lparr>os_Supported = False, os_ResolvedIntent = [], os_RecommendedFlow = FlowOther [],
         os_DirectEligible = False, os_ReasonCode = ErrUnsupportedIntent,
         os_Reason = ''The reference service supports email.latest.read and email.send.'',
         os_Parameters = [], os_MissingParameters = [], os_RequiredScopes = [], os_BillingOptions = [],
         os_InputFilePolicy = zero_FilePolicy, os_EstimatedPrice = None, os_SchemaVersion = [],
         os_ExpiresAt = 0, os_ServerRequestID = []\<rparr>)"

section \<open>The direct read\<close>

definition zero_DirectPlan :: DirectPlan where
  "zero_DirectPlan =
     \<lparr>dp_Eligible = False, dp_ReasonCode = [], dp_Reason = [], dp_ResolvedIntent = [], dp_NormalizedTask = [],
      dp_RequiredScopes = [], dp_AuthorizationRequired = False, dp_BillingTerms = zero_BillingTerms,
      dp_Price = zero_Money, dp_PriceCeiling = zero_Money, dp_PriceBreakdown = [], dp_Effects = [],
      dp_Permissions = [],
      dp_DataUse = \<lparr>du_Categories = [], du_Purposes = [], du_RetentionSeconds = 0, du_TrainingAllowed = False,
        du_ThirdPartySharing = False, du_Region = []\<rparr>,
      dp_RiskClass = [], dp_IdempotencyRequired = False,
      dp_SLA = \<lparr>sl_ExpectedCompletionSeconds = 0, sl_MaximumCompletionSeconds = 0, sl_AvailabilityBasisPoints = 0\<rparr>\<rparr>"

definition read_plan :: "string \<Rightarrow> bool \<Rightarrow> DirectPlan" where
  "read_plan intent includeBody =
     zero_DirectPlan
       \<lparr>dp_Eligible := True, dp_ResolvedIntent := intent,
        dp_NormalizedTask := [(''intent'', JStr intent), (''include_body'', JBool includeBody)],
        dp_RequiredScopes := [''email.read''],
        dp_BillingTerms := zero_BillingTerms\<lparr>bt_Mode := BillingFree, bt_SettlementTiming := ''none''\<rparr>,
        dp_Price := \<lparr>m_Currency = ''USD'', m_Amount = ''0.00''\<rparr>,
        dp_PriceCeiling := \<lparr>m_Currency = ''USD'', m_Amount = ''0.00''\<rparr>,
        dp_Effects := [\<lparr>ef_Type = ''email.read'', ef_Target = ''latest-visible-message'',
          ef_Summary = ''Read the newest email visible to the authenticated principal'', ef_Reversible = True\<rparr>],
        dp_Permissions := [\<lparr>pu_Scope = ''email.read'', pu_Purpose = ''Read the newest visible message''\<rparr>],
        dp_DataUse := \<lparr>du_Categories = [''mailbox_metadata'', ''message_content'', ''attachment_metadata''],
          du_Purposes = [''answer_user_request'', ''security_audit''], du_RetentionSeconds = 0,
          du_TrainingAllowed = False, du_ThirdPartySharing = False, du_Region = ''service-configured''\<rparr>,
        dp_RiskClass := ''low_private_data_access'', dp_IdempotencyRequired := False,
        dp_SLA := \<lparr>sl_ExpectedCompletionSeconds = 1, sl_MaximumCompletionSeconds = 5,
          sl_AvailabilityBasisPoints = 0\<rparr>\<rparr>"

definition email_PlanDirect :: "DirectInvocationRequest \<Rightarrow> Problem + DirectPlan" where
  "email_PlanDirect request =
     (let intent = resolveIntent (di_Intent request) (di_Goal request) in
      if intent \<noteq> ''email.latest.read''
      then Inr (zero_DirectPlan\<lparr>dp_ReasonCode := ErrContractRequired,
        dp_Reason := ''This intent requires full contract flow.'', dp_ResolvedIntent := intent\<rparr>)
      else if di_InputFiles request \<noteq> []
      then Inl (validationProblem ''/input_files'' ''email.latest.read does not accept input files'')
      else case (case member (di_Parameters request) ''include_body'' of
            None \<Rightarrow> Some True | Some (JBool b) \<Rightarrow> Some b | Some _ \<Rightarrow> None) of
          None \<Rightarrow> Inl (validationProblem ''/parameters/include_body'' ''include_body must be a boolean'')
        | Some includeBody \<Rightarrow>
            if 1 < map_size (di_Parameters request)
            then Inl (validationProblem ''/parameters'' ''only include_body is accepted'')
            else Inr (read_plan intent includeBody))"

definition optionalTime :: "time \<Rightarrow> time option" where
  "optionalTime t = (if IsZero t then None else Some t)"

definition attachmentArtifacts :: "FileRef list \<Rightarrow> ArtifactRef list" where
  "attachmentArtifacts files = map (\<lambda>file.
     \<lparr>ar_URI = fr_URI file, ar_MediaType = fr_MediaType file, ar_Digest = fr_Digest file, ar_Size = fr_Size file,
      ar_Name = fr_Name file, ar_Disposition = fr_Disposition file, ar_Relationship = ''attachment'',
      ar_ExpiresAt = optionalTime (fr_ExpiresAt file)\<rparr>) files"

text \<open>The loop for the newest message: the earlier of two equally new ones stays.\<close>

definition newest :: "Message \<Rightarrow> Message list \<Rightarrow> Message" where
  "newest first messages =
     foldl (\<lambda>latest candidate. if After (mg_OccurredAt candidate) (mg_OccurredAt latest) then candidate else latest)
       first messages"

text \<open>A time in a JSON object is its text.\<close>

definition read_result :: "bool \<Rightarrow> Message \<Rightarrow> json_map" where
  "read_result includeBody latest =
     [(''found'', JBool True), (''message_id'', JStr (mg_ID latest)), (''from'', JStr (mg_From latest)),
      (''to'', JStr (mg_To latest)), (''subject'', JStr (mg_Subject latest)),
      (''received_at'', JStr (Format_RFC3339Nano (mg_OccurredAt latest)))] @
     (if includeBody then [(''body'', JStr (mg_Body latest))] else [])"

definition email_ExecuteDirect :: "DirectPlan \<Rightarrow> Mailbox \<Rightarrow> Problem + DirectExecutionResult" where
  "email_ExecuteDirect plan box =
     (if dp_ResolvedIntent plan \<noteq> ''email.latest.read''
      then Inl (providerProblem StatusPreconditionFailed ErrDirectNotAllowed
        ''direct execution plan is not an email read'' False)
      else case mb_inbox box of
          [] \<Rightarrow> Inr \<lparr>dx_Result = [(''found'', JBool False)], dx_Artifacts = [], dx_FinalPrice = None,
                    dx_FinalPriceBreakdown = []\<rparr>
        | first # others \<Rightarrow>
            let latest = newest first others;
                includeBody = (member (dp_NormalizedTask plan) ''include_body'' = Some (JBool True))
            in Inr \<lparr>dx_Result = read_result includeBody latest,
                    dx_Artifacts = attachmentArtifacts (mg_Attachments latest), dx_FinalPrice = None,
                    dx_FinalPriceBreakdown = []\<rparr>)"

section \<open>The contract\<close>

definition email_Negotiate :: "time \<Rightarrow> NegotiationRequest \<Rightarrow> CapabilityOffer" where
  "email_Negotiate now request =
     (if resolveIntent (nr_Intent request) (nr_Goal request) \<noteq> ''email.send''
      then
        \<lparr>co_Supported = False, co_Conditional = False, co_ReasonCode = ''intent_not_supported'',
         co_Reason = ''The contract profile supports email.send; use direct invocation for email.latest.read.'',
         co_ResolvedIntent = [], co_Parameters = [], co_RequiredScopes = [], co_BillingOptions = [],
         co_InputFilePolicy = zero_FilePolicy, co_EstimatedPrice = None, co_SchemaVersion = [], co_ExpiresAt = 0\<rparr>
      else
        \<lparr>co_Supported = True, co_Conditional = False, co_ReasonCode = [], co_Reason = [],
         co_ResolvedIntent = ''email.send'', co_Parameters = sendParameters, co_RequiredScopes = [''email.send''],
         co_BillingOptions = sendBillingOptions, co_InputFilePolicy = sendFilePolicy,
         co_EstimatedPrice = Some (send_estimate ''one message''), co_SchemaVersion = ''email.send/2'',
         co_ExpiresAt = now + 10 * Minute\<rparr>)"

definition arranged_terms :: "BillingMode \<Rightarrow> string \<Rightarrow> string \<Rightarrow> string \<Rightarrow> BillingTerms" where
  "arranged_terms mode arrangementRef timing period =
     zero_BillingTerms\<lparr>bt_Mode := mode, bt_UsageUnit := ''message'', bt_ArrangementRequired := True,
       bt_ArrangementRef := arrangementRef, bt_SettlementTiming := timing, bt_BillingPeriod := period\<rparr>"

fun send_terms :: "BillingMode \<Rightarrow> string \<Rightarrow> (BillingTerms \<times> string) option" where
  "send_terms BillingPayNow ref = Some (zero_BillingTerms
     \<lparr>bt_Mode := BillingPayNow, bt_UsageUnit := ''message'', bt_AuthorizationRequired := True,
      bt_SettlementTiming := ''after_success'', bt_AcceptedSchemes := [''urn:ascp:billing:mock-pay-now''],
      bt_AuthorizationMode := ''tokenized_per_call'', bt_CaptureMode := ''settle_on_success''\<rparr>, ''0.01'')"
| "send_terms BillingPrepaidBalance ref = Some (arranged_terms BillingPrepaidBalance ref ''after_success'' [], ''0.01'')"
| "send_terms BillingSubscription ref =
     Some (arranged_terms BillingSubscription ref ''periodic'' ''provider_plan_period'', ''0.00'')"
| "send_terms BillingPostpaid ref =
     Some (arranged_terms BillingPostpaid ref ''periodic'' ''provider_account_period'', ''0.01'')"
| "send_terms BillingMonthlyInvoice ref = Some (arranged_terms BillingMonthlyInvoice ref ''invoice'' ''P1M'', ''0.01'')"
| "send_terms BillingClearing ref = Some (arranged_terms BillingClearing ref ''periodic'' [], ''0.01'')"
| "send_terms BillingSponsored ref = Some (arranged_terms BillingSponsored ref ''periodic'' [], ''0.00'')"
| "send_terms BillingExternal ref = Some (arranged_terms BillingExternal ref ''external'' [], ''0.01'')"
| "send_terms _ ref = None"

definition sendBillingTerms :: "BillingMode \<Rightarrow> string \<Rightarrow> Problem + BillingTerms \<times> Money" where
  "sendBillingTerms mode arrangementRef =
     (case send_terms mode arrangementRef of
        None \<Rightarrow> Inl (providerProblem StatusUnprocessableEntity ErrBillingModeUnsupported
          ''selected billing mode is not supported for email.send'' False)
      | Some (terms, amount) \<Rightarrow>
          if bt_ArrangementRequired terms \<and> blank arrangementRef
          then Inl ((providerProblem StatusPreconditionRequired ErrBillingRequired
              ''the selected billing mode requires billing.arrangement_ref'' False)
            \<lparr>p_FieldErrors := [\<lparr>fe_Pointer = ''/billing/arrangement_ref'', fe_Code = ''required'',
               fe_Message = ''arrangement_ref is required for this billing mode''\<rparr>]\<rparr>)
          else Inr (terms, \<lparr>m_Currency = ''USD'', m_Amount = amount\<rparr>))"

text \<open>The loop over the attachments, with the total size in an \<open>int64\<close>.\<close>

fun check_attachments :: "(error \<Rightarrow> string) \<Rightarrow> int \<Rightarrow> int \<Rightarrow> FileRef list \<Rightarrow> Problem + int" where
  "check_attachments err_text index total_bytes [] = Inr total_bytes"
| "check_attachments err_text index total_bytes (file # files) =
     (case ValidateFileRef file of
        Some err \<Rightarrow> Inl (validationProblem (''/input_files/'' @ decimal_int index) (err_text err))
      | None \<Rightarrow>
          if fp_MaximumFileBytes sendFilePolicy < fr_Size file
          then Inl (validationProblem (''/input_files/'' @ decimal_int index @ ''/size'')
            ''attachment exceeds the per-file limit'')
          else check_attachments err_text (index + 1) (wrap64 (total_bytes + fr_Size file)) files)"

definition validateAttachmentPolicy :: "(error \<Rightarrow> string) \<Rightarrow> FileRef list \<Rightarrow> Problem option" where
  "validateAttachmentPolicy err_text files =
     (if fp_MaximumFiles sendFilePolicy < int (length files)
      then Some (validationProblem ''/input_files'' ''too many attachments'')
      else case check_attachments err_text 0 0 files of
          Inl p \<Rightarrow> Some p
        | Inr total_bytes \<Rightarrow>
            if fp_MaximumTotalBytes sendFilePolicy < total_bytes
            then Some (validationProblem ''/input_files'' ''attachments exceed the total size limit'')
            else None)"

text \<open>The three text parameters: a value that is no text, or a refused one, is a problem.\<close>

definition send_parameters ::
  "(string \<Rightarrow> string result) \<Rightarrow> json_map \<Rightarrow> Problem + string \<times> string \<times> string" where
  "send_parameters parse_address parameters =
     (case json_text (member parameters ''recipient'') of
        None \<Rightarrow> Inl (validationProblem ''/parameters/recipient'' ''recipient is required'')
      | Some recipient \<Rightarrow>
          if blank recipient then Inl (validationProblem ''/parameters/recipient'' ''recipient is required'')
          else if parse_address recipient \<noteq> Inr recipient
          then Inl (validationProblem ''/parameters/recipient'' ''recipient must be a valid canonical email address'')
          else (case json_text (member parameters ''subject'') of
              None \<Rightarrow> Inl (validationProblem ''/parameters/subject'' ''subject must contain 1 to 200 bytes'')
            | Some subject \<Rightarrow>
                if blank subject \<or> 200 < length subject
                then Inl (validationProblem ''/parameters/subject'' ''subject must contain 1 to 200 bytes'')
                else (case json_text (member parameters ''body'') of
                    None \<Rightarrow> Inl (validationProblem ''/parameters/body'' ''body must contain 1 to 10000 bytes'')
                  | Some body \<Rightarrow>
                      if blank body \<or> 10000 < length body
                      then Inl (validationProblem ''/parameters/body'' ''body must contain 1 to 10000 bytes'')
                      else if map_size parameters \<noteq> 3
                      then Inl (validationProblem ''/parameters'' ''only recipient, subject, and body are accepted'')
                      else Inr (recipient, subject, body))))"

definition send_contract ::
  "time \<Rightarrow> StoredOffer \<Rightarrow> FileRef list \<Rightarrow> string \<Rightarrow> string \<Rightarrow> string \<Rightarrow> BillingTerms \<Rightarrow> Money \<Rightarrow> PreparedContract" where
  "send_contract now offer files recipient subject body terms price =
     \<lparr>pp_NormalizedTask =
        [(''intent'', JStr (so_ResolvedIntent offer)), (''recipient'', JStr recipient), (''subject'', JStr subject),
         (''body'', JStr body), (''attachment_ids'', JArr (map (\<lambda>file. JStr (fr_FileID file)) files)),
         (''provider_mode'', JStr ''demo'')],
      pp_Price = price, pp_PriceCeiling = price,
      pp_PriceBreakdown =
        (if m_Amount price \<noteq> ''0.00'' \<and> m_Amount price \<noteq> ''0''
         then [\<lparr>pc_Type = ''service_fee'', pc_Description = ''Reference mail delivery fee'', pc_Amount = price\<rparr>]
         else []),
      pp_BillingTerms = terms,
      pp_Effects = [\<lparr>ef_Type = ''email.send'', ef_Target = recipient,
        ef_Summary = ''Send one email with '' @ decimal (length files) @ '' attachment(s) to '' @ recipient,
        ef_Reversible = False\<rparr>],
      pp_Permissions = [\<lparr>pu_Scope = ''email.send'',
        pu_Purpose = ''Deliver the explicitly quoted message and attachments''\<rparr>],
      pp_DataUse = \<lparr>du_Categories = [''email_address'', ''message_content'', ''attachment_content''],
        du_Purposes = [''message_delivery'', ''abuse_prevention'', ''security_audit''], du_RetentionSeconds = 86400,
        du_TrainingAllowed = False, du_ThirdPartySharing = False, du_Region = ''service-configured''\<rparr>,
      pp_RiskClass = ''medium_irreversible_communication'',
      pp_Confirmation = \<lparr>cf_Required = True, cf_Mode = ''explicit_user_or_enterprise_policy'',
        cf_Text = ''Send the quoted email. Delivery is irreversible.''\<rparr>,
      pp_SLA = \<lparr>sl_ExpectedCompletionSeconds = 2, sl_MaximumCompletionSeconds = 30,
        sl_AvailabilityBasisPoints = 0\<rparr>,
      pp_ExpiresAt = now + 5 * Minute, pp_RevocableUntil = None\<rparr>"

definition email_Prepare ::
  "(string \<Rightarrow> string result) \<Rightarrow> (error \<Rightarrow> string) \<Rightarrow> time \<Rightarrow> StoredOffer \<Rightarrow> PrepareRequest \<Rightarrow> Problem + PreparedContract"
where
  "email_Prepare parse_address err_text now offer request =
     (case send_parameters parse_address (pr_Parameters request) of
        Inl p \<Rightarrow> Inl p
      | Inr (recipient, subject, body) \<Rightarrow>
         (case validateAttachmentPolicy err_text (pr_InputFiles request) of
            Some p \<Rightarrow> Inl p
          | None \<Rightarrow>
             let mode = (if BillingMode_text (bp_Mode (pr_Billing request)) = [] then BillingPayNow
                         else bp_Mode (pr_Billing request)) in
             (case sendBillingTerms mode (bp_ArrangementRef (pr_Billing request)) of
                Inl p \<Rightarrow> Inl p
              | Inr (terms, price) \<Rightarrow>
                  Inr (send_contract now offer (pr_InputFiles request) recipient subject body terms price))))"

section \<open>Delivery\<close>

definition executionResult :: "Message \<Rightarrow> ExecutionResult" where
  "executionResult message =
     \<lparr>xr_Artifacts =
        \<lparr>ar_URI = ''email://messages/'' @ mg_ID message, ar_MediaType = ''message/rfc822'', ar_Digest = [],
         ar_Size = 0, ar_Name = ''sent-message.eml'', ar_Disposition = ''inline'',
         ar_Relationship = ''primary_result'', ar_ExpiresAt = None\<rparr> # attachmentArtifacts (mg_Attachments message),
      xr_Metadata = [(''sent_at'', JStr (Format_RFC3339Nano (mg_OccurredAt message)))],
      xr_FinalPrice = None, xr_FinalPriceBreakdown = []\<rparr>"

definition email_Execute :: "string \<Rightarrow> time \<Rightarrow> Task \<Rightarrow> Quote \<Rightarrow> Mailbox \<Rightarrow> (Problem + ExecutionResult) \<times> Mailbox" where
  "email_Execute raw now task quote box =
     (case mb_messages box (t_TaskID task) of
        Some existing \<Rightarrow> (Inr (executionResult existing), box)
      | None \<Rightarrow>
          let recipient = text_or_empty (member (q_NormalizedTask quote) ''recipient'');
              subject = text_or_empty (member (q_NormalizedTask quote) ''subject'');
              body = text_or_empty (member (q_NormalizedTask quote) ''body'') in
          if recipient = [] \<or> subject = [] \<or> body = []
          then (Inl (providerProblem StatusInternalServerError ErrInternal ''normalized task is incomplete'' True), box)
          else
            let message = \<lparr>mg_ID = MustNewID raw ''msg'', mg_TaskID = t_TaskID task,
                  mg_From = ''demo-user@example.test'', mg_To = recipient, mg_Subject = subject, mg_Body = body,
                  mg_Attachments = q_InputFiles quote, mg_OccurredAt = now\<rparr>
            in (Inr (executionResult message),
                box\<lparr>mb_messages := (mb_messages box)(t_TaskID task \<mapsto> message),
                    mb_inbox := mb_inbox box @ [message]\<rparr>))"

definition email_Cancel :: "Task \<Rightarrow> Problem option" where
  "email_Cancel task =
     (if t_State task = TaskAccepted \<or> t_State task = TaskScheduled then None
      else Some (providerProblem StatusConflict ErrTaskNotCancellable ''email delivery has already started'' False))"

section \<open>Contracts and plans pass the engine's checks\<close>

lemma cents_amounts: "valid_amount ''0.01''" "valid_amount ''0.00''" "amount_rat ''0.00'' = 0"
proof -
  have parts: "decimal_parts ''0'' ''01''" "decimal_parts ''0'' ''00''"
    by (simp_all add: decimal_parts_def is_digit_def ord_def)
  show "valid_amount ''0.01''"
    unfolding valid_amount_def by (rule exI [of _ "''0''"], rule exI [of _ "''01''"]) (simp add: amount_text_def parts)
  show "valid_amount ''0.00''"
    unfolding valid_amount_def by (rule exI [of _ "''0''"], rule exI [of _ "''00''"]) (simp add: amount_text_def parts)
  show "amount_rat ''0.00'' = 0"
    using amount_rat_amount [OF parts(2)] by (simp add: amount_text_def digits_val_def digit_val_def ord_def)
qed

lemma cents:
  "ValidateMoney \<lparr>m_Currency = ''USD'', m_Amount = ''0.01''\<rparr> = None"
  "ValidateMoney \<lparr>m_Currency = ''USD'', m_Amount = ''0.00''\<rparr> = None"
  "money_value \<lparr>m_Currency = ''USD'', m_Amount = ''0.00''\<rparr> = 0"
  by (simp_all add: ValidateMoney_iff currencyCodePattern_def is_upper_def ord_def cents_amounts money_value_def)

lemma not_blank_texts:
  "\<not> blank ''after_success''" "\<not> blank ''periodic''" "\<not> blank ''invoice''" "\<not> blank ''external''" "\<not> blank ''none''"
  "\<not> blank ''email.send''" "\<not> blank ''email.read''" "\<not> blank ''service_fee''" "\<not> blank ''email.latest.read''"
  "\<not> blank ''low_private_data_access''" "\<not> blank ''medium_irreversible_communication''"
  "\<not> blank ''explicit_user_or_enterprise_policy''"
  by (rule visible_start; simp add: visible_def ord_def)+

lemma sendBillingTerms_ok:
  assumes "sendBillingTerms mode ref = Inr (terms, price)"
  shows "wf_terms terms price \<and> \<not> bt_VariablePriceAllowed terms \<and> bt_Mode terms = mode \<and>
    m_Currency price = ''USD'' \<and> m_Amount price \<in> {''0.00'', ''0.01''}"
  using assms unfolding sendBillingTerms_def
  by (cases mode)
     (auto simp: arranged_terms_def zero_BillingTerms_def wf_terms_def not_blank_texts split: if_splits)

lemma send_contract_wf:
  assumes "wf_terms terms price" "\<not> bt_VariablePriceAllowed terms" "m_Currency price = ''USD''"
    and "m_Amount price \<in> {''0.00'', ''0.01''}"
  shows "wf_contract (send_contract now offer files recipient subject body terms price)"
proof -
  have price: "price = \<lparr>m_Currency = ''USD'', m_Amount = ''0.00''\<rparr> \<or> price = \<lparr>m_Currency = ''USD'', m_Amount = ''0.01''\<rparr>"
    using assms(3,4) by (cases price) auto
  then have "ValidateMoney price = None" using cents by auto
  moreover have "\<not> blank (''Send one email with '' @ x)" for x
    by (simp add: visible_start visible_def ord_def)
  ultimately show ?thesis
    using assms price unfolding wf_contract_def send_contract_def
    by (auto simp: not_blank_texts priced_def breakdown_ok_def)
qed

lemma email_Prepare_wf:
  assumes "email_Prepare parse_address err_text now offer request = Inr c"
  shows "wf_contract c \<and> pp_ExpiresAt c = now + 5 * Minute \<and> \<not> bt_VariablePriceAllowed (pp_BillingTerms c)"
proof -
  obtain recipient subject body terms price mode where
    "sendBillingTerms mode (bp_ArrangementRef (pr_Billing request)) = Inr (terms, price)"
    and c: "c = send_contract now offer (pr_InputFiles request) recipient subject body terms price"
    using assms unfolding email_Prepare_def Let_def by (auto split: sum.splits option.splits)
  note ok = sendBillingTerms_ok [OF this(1)]
  then have "wf_contract c" unfolding c by (intro send_contract_wf) auto
  with ok show ?thesis by (simp add: c send_contract_def)
qed

lemma read_plan_wf: "intent = ''email.latest.read'' \<Longrightarrow> wf_plan (read_plan intent b)"
  unfolding wf_plan_def read_plan_def zero_DirectPlan_def
  by (simp add: not_blank_texts priced_def wf_terms_def zero_BillingTerms_def cents)

lemma email_PlanDirect_wf:
  assumes "email_PlanDirect request = Inr plan" "dp_Eligible plan"
  shows "wf_plan plan \<and> dp_ResolvedIntent plan = ''email.latest.read'' \<and> bt_Mode (dp_BillingTerms plan) = BillingFree \<and>
    money_value (dp_PriceCeiling plan) = 0 \<and> list_all ef_Reversible (dp_Effects plan)"
proof -
  have "\<exists>b. plan = read_plan ''email.latest.read'' b"
    using assms unfolding email_PlanDirect_def Let_def
    by (auto simp: zero_DirectPlan_def split: if_splits option.splits json.splits)
  then show ?thesis using read_plan_wf by (auto simp: read_plan_def zero_BillingTerms_def cents)
qed

section \<open>Attachments\<close>

lemma check_attachments_iff:
  assumes "0 \<le> total_bytes" "total_bytes + 10485760 * int (length files) < 2 ^ 63"
  shows "check_attachments err_text index total_bytes files = Inr u \<longleftrightarrow>
     list_all (\<lambda>file. ValidateFileRef file = None \<and> fr_Size file \<le> 10485760) files \<and>
     u = total_bytes + (\<Sum>file \<leftarrow> files. fr_Size file)"
  using assms
proof (induction files arbitrary: index total_bytes)
  case (Cons f files)
  show ?case
  proof (cases "ValidateFileRef f = None \<and> fr_Size f \<le> 10485760")
    case True
    then have "0 \<le> fr_Size f" by (simp add: ValidateFileRef_wf wf_file_ref_def)
    with True Cons show ?thesis
      by (auto simp: sendFilePolicy_def wrap64_id algebra_simps)
  next
    case False
    then show ?thesis by (auto simp: sendFilePolicy_def split: option.splits)
  qed
qed auto

lemma validateAttachmentPolicy_iff:
  "validateAttachmentPolicy err_text files = None \<longleftrightarrow>
     length files \<le> 10 \<and> list_all (\<lambda>file. ValidateFileRef file = None \<and> fr_Size file \<le> 10485760) files \<and>
     (\<Sum>file \<leftarrow> files. fr_Size file) \<le> 26214400"
proof (cases "length files \<le> 10")
  case True
  then have "0 + 10485760 * int (length files) < (2 :: int) ^ 63" by simp
  note iff = check_attachments_iff [OF order_refl this, of err_text 0]
  show ?thesis
  proof (cases "check_attachments err_text 0 0 files")
    case (Inl p)
    with iff [of "\<Sum>file \<leftarrow> files. fr_Size file"]
    have "\<not> list_all (\<lambda>file. ValidateFileRef file = None \<and> fr_Size file \<le> 10485760) files" by simp
    with Inl show ?thesis by (simp add: validateAttachmentPolicy_def sendFilePolicy_def)
  next
    case (Inr u)
    with iff [of u] show ?thesis
      using True by (auto simp: validateAttachmentPolicy_def sendFilePolicy_def)
  qed
qed (simp add: validateAttachmentPolicy_def sendFilePolicy_def)

section \<open>One delivery for each task\<close>

type_synonym execution = "string \<times> time \<times> Task \<times> Quote"

definition execute_call :: "execution \<Rightarrow> Mailbox \<Rightarrow> Mailbox" where
  "execute_call e box = (case e of (raw, now, task, quote) \<Rightarrow> snd (email_Execute raw now task quote box))"

text \<open>The messages sent for a task: those after the first one of the inbox.\<close>

definition sent_for :: "Mailbox \<Rightarrow> string \<Rightarrow> Message list" where
  "sent_for box taskID = filter (\<lambda>m. mg_TaskID m = taskID) (tl (mb_inbox box))"

definition mailbox_ok :: "Mailbox \<Rightarrow> bool" where
  "mailbox_ok box \<longleftrightarrow> mb_inbox box \<noteq> [] \<and>
     (\<forall>i. sent_for box i = (case mb_messages box i of None \<Rightarrow> [] | Some m \<Rightarrow> [m]))"

lemma NewService_ok: "mailbox_ok (NewService now)"
  by (simp add: mailbox_ok_def NewService_def sent_for_def)

lemma email_Execute_cases:
  obtains (known) m where "mb_messages box (t_TaskID task) = Some m"
      "email_Execute raw now task quote box = (Inr (executionResult m), box)"
  | (refused) p where "mb_messages box (t_TaskID task) = None" "email_Execute raw now task quote box = (Inl p, box)"
  | (sent) m where "mb_messages box (t_TaskID task) = None" "mg_TaskID m = t_TaskID task"
      "mg_To m = text_or_empty (member (q_NormalizedTask quote) ''recipient'')"
      "mg_Subject m = text_or_empty (member (q_NormalizedTask quote) ''subject'')"
      "mg_Body m = text_or_empty (member (q_NormalizedTask quote) ''body'')" "mg_Attachments m = q_InputFiles quote"
      "email_Execute raw now task quote box = (Inr (executionResult m),
         box\<lparr>mb_messages := (mb_messages box)(t_TaskID task \<mapsto> m), mb_inbox := mb_inbox box @ [m]\<rparr>)"
proof (cases "mb_messages box (t_TaskID task)")
  case None
  show thesis
  proof (cases "fst (email_Execute raw now task quote box)")
    case (Inl p)
    with None show thesis
      by (intro refused [of p]) (auto simp: email_Execute_def Let_def split: if_splits)
  next
    case (Inr r)
    let ?m = "\<lparr>mg_ID = MustNewID raw ''msg'', mg_TaskID = t_TaskID task,
      mg_From = ''demo-user@example.test'', mg_To = text_or_empty (member (q_NormalizedTask quote) ''recipient''),
      mg_Subject = text_or_empty (member (q_NormalizedTask quote) ''subject''),
      mg_Body = text_or_empty (member (q_NormalizedTask quote) ''body''), mg_Attachments = q_InputFiles quote,
      mg_OccurredAt = now\<rparr>"
    from None Inr show thesis
      by (intro sent [of ?m]) (auto simp: email_Execute_def Let_def split: if_splits)
  qed
qed (auto intro: known simp: email_Execute_def)

lemma execute_call_ok:
  assumes "mailbox_ok box"
  shows "mailbox_ok (execute_call e box)"
proof -
  obtain raw now task quote where e: "e = (raw, now, task, quote)" by (metis prod_cases4)
  show ?thesis
  proof (cases rule: email_Execute_cases [of box task raw now quote])
    case (sent m)
    with assms show ?thesis by (auto simp: e execute_call_def mailbox_ok_def sent_for_def)
  qed (use assms in \<open>simp_all add: e execute_call_def\<close>)
qed

lemma executions_ok: "mailbox_ok box \<Longrightarrow> mailbox_ok (fold execute_call es box)"
  by (induction es arbitrary: box) (simp_all add: execute_call_ok)

lemma execute_call_keeps: "mb_messages box i = Some m \<Longrightarrow> mb_messages (execute_call e box) i = Some m"
proof -
  assume m: "mb_messages box i = Some m"
  obtain raw now task quote where e: "e = (raw, now, task, quote)" by (metis prod_cases4)
  show ?thesis
    by (cases rule: email_Execute_cases [of box task raw now quote])
       (use m in \<open>auto simp: e execute_call_def\<close>)
qed

lemma executions_keep: "mb_messages box i = Some m \<Longrightarrow> mb_messages (fold execute_call es box) i = Some m"
  by (induction es arbitrary: box) (simp_all add: execute_call_keeps)

lemma executed_known:
  "email_Execute raw now task quote box = (Inr r, box') \<Longrightarrow>
     \<exists>m. mb_messages box' (t_TaskID task) = Some m \<and> r = executionResult m"
  by (cases rule: email_Execute_cases [of box task raw now quote]) auto

end
