(* ===== verification/Reference_Server.thy ===== *)
theory Reference_Server
  imports Mutation_Protocol File_Routes Email_Service
begin

text \<open>
  The reference server of cmd/ascp-server/main.go: the protocol engine wired to the in-memory
  implementations of its interfaces and to the email service. Its world holds their states, the
  clock and the random source. Every reading of the clock and every draw takes the next value; an
  operation that reads or draws on one of its branches only does so here on all of them, and the
  values left over are not used. The functions of the standard library are parameters, and a
  random source that fails is left out. The interpretation at the end shows that the retry
  properties of the wrapper of mutations hold of this server.
\<close>

section \<open>The world\<close>

record world =
  rw_clock :: "nat \<Rightarrow> time"
  rw_ticks :: nat
  rw_random :: "nat \<Rightarrow> string"
  rw_draws :: nat
  rw_records :: MemoryStore
  rw_claims :: IdempotencyStore
  rw_log :: audit_log
  rw_billing :: MockProcessor
  rw_files :: MemoryFileStore
  rw_mailbox :: Mailbox

definition tick :: "(world, time) op" where
  "tick w = (rw_clock w (rw_ticks w), w\<lparr>rw_ticks := rw_ticks w + 1\<rparr>)"

definition draw :: "(world, string) op" where
  "draw w = (rw_random w (rw_draws w), w\<lparr>rw_draws := rw_draws w + 1\<rparr>)"

text \<open>An operation on one of the states.\<close>

definition on_records :: "(MemoryStore, 'a) op \<Rightarrow> (world, 'a) op" where
  "on_records m w = (let (r, s) = m (rw_records w) in (r, w\<lparr>rw_records := s\<rparr>))"

definition on_claims :: "(IdempotencyStore, 'a) op \<Rightarrow> (world, 'a) op" where
  "on_claims m w = (let (r, s) = m (rw_claims w) in (r, w\<lparr>rw_claims := s\<rparr>))"

definition on_log :: "(audit_log, 'a) op \<Rightarrow> (world, 'a) op" where
  "on_log m w = (let (r, s) = m (rw_log w) in (r, w\<lparr>rw_log := s\<rparr>))"

definition on_billing :: "(MockProcessor, 'a) op \<Rightarrow> (world, 'a) op" where
  "on_billing m w = (let (r, s) = m (rw_billing w) in (r, w\<lparr>rw_billing := s\<rparr>))"

definition on_files :: "(MemoryFileStore, 'a) op \<Rightarrow> (world, 'a) op" where
  "on_files m w = (let (r, s) = m (rw_files w) in (r, w\<lparr>rw_files := s\<rparr>))"

definition on_mailbox :: "(Mailbox, 'a) op \<Rightarrow> (world, 'a) op" where
  "on_mailbox m w = (let (r, s) = m (rw_mailbox w) in (r, w\<lparr>rw_mailbox := s\<rparr>))"

definition reading :: "('s \<Rightarrow> 'a) \<Rightarrow> ('s, 'a) op" where
  "reading f s = (f s, s)"

section \<open>The wiring\<close>

text \<open>The values of the environment variables, and the functions of the standard library the server uses.\<close>

record environment =
  en_BaseURL :: string
  en_Token :: string
  en_Signer :: Signer
  en_ParseAddress :: "string \<Rightarrow> string result"
  en_Library :: Library
  en_ed25519 :: ed25519
  en_header_codec :: "JWSHeader codec"
  en_object_codec :: "raw_object codec"
  en_payload_codec :: "signedEventPayload codec"
  en_audit_data :: "audit_data \<Rightarrow> string result"
  en_clone_invocation :: "InvocationRecord copier"
  en_clone_quote :: "Quote copier"
  en_clone_task :: "Task copier"

definition reference_store :: "environment \<Rightarrow> world Store" where
  "reference_store env =
     \<lparr>db_PutInvocation = (\<lambda>r. on_records (PutInvocation (en_clone_invocation env) r)),
      db_GetInvocation = (\<lambda>i. on_records (reading (GetInvocation (en_clone_invocation env) i))),
      db_PutOffer = (\<lambda>r. on_records (PutOffer r)),
      db_GetOffer = (\<lambda>i. on_records (reading (GetOffer i))),
      db_PutQuote = (\<lambda>r. on_records (PutQuote (en_clone_quote env) r)),
      db_GetQuote = (\<lambda>i. on_records (reading (GetQuote (en_clone_quote env) i))),
      db_PutTask = (\<lambda>r. on_records (PutTask (en_clone_task env) r)),
      db_GetTask = (\<lambda>i. on_records (reading (GetTask (en_clone_task env) i))),
      db_UpdateTask = (\<lambda>i f. on_records (UpdateTask (en_clone_task env) i f))\<rparr>"

definition reference_begin ::
  "string \<Rightarrow> string \<Rightarrow> string \<Rightarrow> duration \<Rightarrow> (world, (IdempotencyResult \<times> StoredResponse) result) op" where
  "reference_begin scope key digest retention w =
     (let (now1, w) = tick w; (now2, w) = tick w; (r, w) = on_claims (Begin now1 now2 scope key digest retention) w
      in (Inr r, w))"

definition reference_idempotency :: "world IdempotencyBackend" where
  "reference_idempotency =
     \<lparr>idem_Begin = reference_begin,
      idem_Complete = (\<lambda>scope key response. on_claims (Complete scope key response)),
      idem_Release = (\<lambda>scope key digest. on_claims (Release scope key digest))\<rparr>"

definition reference_append ::
  "environment \<Rightarrow> string \<Rightarrow> string \<Rightarrow> EntityRef \<Rightarrow> audit_data \<Rightarrow> (world, AuditEvent result) op" where
  "reference_append env resourceID eventType actor data w =
     (let (raw, w) = draw w; (now, w) = tick w; (signed_at, w) = tick w in
      on_log (Append_with Format_RFC3339Nano
        (SignJSON (en_ed25519 env) (en_header_codec env) (en_payload_codec env) (en_Signer env))
        (Some raw, now, signed_at) resourceID eventType actor (en_audit_data env data)) w)"

definition reference_audit :: "environment \<Rightarrow> world AuditStore" where
  "reference_audit env =
     \<lparr>aud_Append = reference_append env,
      aud_List = (\<lambda>resourceID after. on_log (reading (\<lambda>l. Inr (List_events resourceID after l)))),
      aud_Root = (\<lambda>resourceID. on_log (reading (\<lambda>l. Inr (Root l resourceID))))\<rparr>"

definition reference_reserve ::
  "environment \<Rightarrow> string \<Rightarrow> string \<Rightarrow> string \<Rightarrow> BillingTerms \<Rightarrow> BillingAuthorization option \<Rightarrow> Money \<Rightarrow> string \<Rightarrow>
     (world, billing_error + Reservation) op" where
  "reference_reserve env serviceID contractID bindingDigest terms authorization amount key w =
     (let (now1, w) = tick w; (now2, w) = tick w; (raw, w) = draw w in
      on_billing (Reserve (lib_ErrText (en_Library env)) now1 now2 raw serviceID contractID bindingDigest terms
        authorization amount key) w)"

definition reference_settle ::
  "environment \<Rightarrow> string \<Rightarrow> Money \<Rightarrow> string \<Rightarrow> (world, billing_error + Settlement) op" where
  "reference_settle env ref amount key w =
     (let (raw, w) = draw w in on_billing (Settle (lib_ErrText (en_Library env)) raw ref amount key) w)"

definition reference_billing :: "environment \<Rightarrow> world Processor" where
  "reference_billing env =
     \<lparr>bill_Reserve = reference_reserve env, bill_Settle = reference_settle env,
      bill_Release = (\<lambda>ref key. on_billing (Release_hold ref key))\<rparr>"

definition reference_upload_ticket ::
  "environment \<Rightarrow> Identity \<Rightarrow> FileUploadRequest \<Rightarrow> string \<Rightarrow> time \<Rightarrow> (world, Problem + FileUploadTicket) op" where
  "reference_upload_ticket env identity input baseURL now w =
     (let (raw, w) = draw w; (buffer, w) = draw w in
      on_files (Prepare (lib_ParseMediaType (en_Library env)) raw (Some buffer) identity input baseURL now) w)"

definition reference_files :: "environment \<Rightarrow> world FileStore" where
  "reference_files env =
     \<lparr>fs_Prepare = reference_upload_ticket env,
      fs_Upload = (\<lambda>identity fileID token mediaType content now.
        on_files (Upload (lib_ParseMediaType (en_Library env)) identity fileID token mediaType content now)),
      fs_Get = (\<lambda>identity fileID now. on_files (reading (Get identity fileID now))),
      fs_Content = (\<lambda>identity fileID now. on_files (reading (Content identity fileID now))),
      fs_Validate = (\<lambda>identity refs now. on_files (reading (Validate identity refs now)))\<rparr>"

definition reference_sign :: "environment \<Rightarrow> raw_object \<Rightarrow> (world, Signature result) op" where
  "reference_sign env object w =
     (let (now, w) = tick w in
      (SignJSON (en_ed25519 env) (en_header_codec env) (en_object_codec env) (en_Signer env) now object, w))"

definition reference_signer :: "environment \<Rightarrow> world ContractSigner" where
  "reference_signer env =
     \<lparr>sig_SignJSON = reference_sign env, sig_JWKS = reading (\<lambda>w. JWKS (en_Signer env))\<rparr>"

definition reference_execute :: "Task \<Rightarrow> Quote \<Rightarrow> (world, Problem + ExecutionResult) op" where
  "reference_execute task quote w =
     (let (raw, w) = draw w; (now, w) = tick w in on_mailbox (email_Execute raw now task quote) w)"

definition at_tick :: "(time \<Rightarrow> 'a) \<Rightarrow> (world, 'a) op" where
  "at_tick f w = (let (now, w) = tick w in (f now, w))"

definition reference_service :: "environment \<Rightarrow> world Service" where
  "reference_service env =
     \<lparr>svc_Capabilities = (\<lambda>i query. at_tick (\<lambda>now. Inr (email_Capabilities now query))),
      svc_Options = (\<lambda>i request. at_tick (\<lambda>now. Inr (email_Options now i request))),
      svc_PlanDirect = (\<lambda>i request. reading (\<lambda>w. email_PlanDirect request)),
      svc_ExecuteDirect = (\<lambda>i invocationID request plan. on_mailbox (reading (email_ExecuteDirect plan))),
      svc_Negotiate = (\<lambda>i request. at_tick (\<lambda>now. Inr (email_Negotiate now request))),
      svc_Prepare = (\<lambda>i offer request. at_tick (\<lambda>now.
        email_Prepare (en_ParseAddress env) (lib_ErrText (en_Library env)) now offer request)),
      svc_Execute = (\<lambda>i. reference_execute),
      svc_Cancel = (\<lambda>i task request. reading (\<lambda>w. email_Cancel task))\<rparr>"

definition getenv_or :: "(string \<Rightarrow> string) \<Rightarrow> string \<Rightarrow> string \<Rightarrow> string" where
  "getenv_or getenv name fallback = (let value = TrimSpace (getenv name) in if value = [] then fallback else value)"

definition base_url :: "(string \<Rightarrow> string) \<Rightarrow> string" where
  "base_url getenv = TrimRight (getenv_or getenv ''ASCP_BASE_URL'' ''http://localhost:8080'') (CHR ''/'')"

definition demo_token :: "(string \<Rightarrow> string) \<Rightarrow> string" where
  "demo_token getenv = getenv_or getenv ''ASCP_DEMO_TOKEN'' ''ascp-demo-token''"

definition demo_identity :: Identity where
  "demo_identity =
     \<lparr>id_Actor = \<lparr>er_Type = ''agent'', er_ID = ''demo-client''\<rparr>,
      id_Principal = \<lparr>er_Type = ''user'', er_ID = ''demo-user''\<rparr>,
      id_Scopes = [''email.read'' \<mapsto> True, ''email.send'' \<mapsto> True]\<rparr>"

definition reference_manifest :: "string \<Rightarrow> Manifest" where
  "reference_manifest baseURL =
     \<lparr>mf_Protocol = [], mf_Versions = [],
      mf_ServiceID = ''urn:ascp:service:reference-email'', mf_ServiceName = ''ASCP reference email service'',
      mf_BaseURL = baseURL, mf_JWKSURI = baseURL @ ''/.well-known/jwks.json'',
      mf_CapabilitiesURI = baseURL @ ''/.well-known/ascp/capabilities'',
      mf_OptionsURI = baseURL @ ''/v1/options'', mf_InvokeURI = baseURL @ ''/v1/invoke'',
      mf_FilesURI = baseURL @ ''/v1/files'',
      mf_DocumentationURI = ''https://github.com/LuoShenKui/agent-service-contract-protocol'',
      mf_PrivacyPolicyURI = [], mf_TermsURI = [], mf_AuthSchemes = [''bearer-demo''],
      mf_BillingModes = [BillingFree, BillingPayNow, BillingPrepaidBalance, BillingSubscription, BillingPostpaid,
        BillingMonthlyInvoice, BillingClearing, BillingSponsored, BillingExternal],
      mf_PaymentSchemes = [''urn:ascp:billing:mock-pay-now''], mf_Features = Map.empty,
      mf_Limits = [''maximum_body_bytes'' \<mapsto> 1048576, ''idempotency_retention_sec'' \<mapsto> 86400],
      mf_GeneratedAt = 0, mf_ManifestExpiresAt = 0\<rparr>"

definition reference_config :: "environment \<Rightarrow> world Config" where
  "reference_config env =
     \<lparr>cfg_Manifest = reference_manifest (en_BaseURL env),
      cfg_Authenticator = (\<lambda>request. reading (\<lambda>w.
        StaticAuthenticate (en_Token env) demo_identity (Header_Get (rq_Headers request) ''Authorization''))),
      cfg_Authorization = (\<lambda>identity quote evidence. reading (\<lambda>w. DemoVerify identity quote evidence)),
      cfg_Service = reference_service env,
      cfg_Store = reference_store env,
      cfg_Idempotency = reference_idempotency,
      cfg_Audit = reference_audit env,
      cfg_Billing = reference_billing env,
      cfg_Files = reference_files env,
      cfg_Signer = reference_signer env,
      cfg_IdempotencyRetention = 0,
      cfg_MaximumBodyBytes = 0,
      cfg_Now = tick,
      cfg_Random = draw,
      cfg_Library = en_Library env\<rparr>"

text \<open>The engine that \<open>New\<close> makes of the configuration.\<close>

definition reference_engine :: "environment \<Rightarrow> world Config" where
  "reference_engine env = (reference_config env)
     \<lparr>cfg_Manifest := default_manifest (reference_manifest (en_BaseURL env)),
      cfg_IdempotencyRetention := 24 * Hour, cfg_MaximumBodyBytes := 1048576\<rparr>"

text \<open>The state before the first request.\<close>

definition initial_world :: "(nat \<Rightarrow> time) \<Rightarrow> (nat \<Rightarrow> string) \<Rightarrow> world" where
  "initial_world clock random =
     \<lparr>rw_clock = clock, rw_ticks = 1, rw_random = random, rw_draws = 0, rw_records = NewMemoryStore,
      rw_claims = NewIdempotencyStore, rw_log = NewLog, rw_billing = NewMockProcessor,
      rw_files = NewMemoryFileStore (10 * 2 ^ 20), rw_mailbox = NewService (clock 0)\<rparr>"

section \<open>The engine over the in-memory backends\<close>

lemma reference_engine_New: "New False (reference_config env) = Inr (reference_engine env)"
proof -
  have "\<not> blank ''urn:ascp:service:reference-email''" "\<not> blank ''ASCP reference email service''"
    by (rule visible_not_blank; simp add: visible_def ord_def)+
  then show ?thesis
    by (simp add: New_def reference_config_def reference_engine_def reference_manifest_def)
qed

lemmas on_defs = on_records_def on_claims_def on_log_def on_billing_def on_files_def on_mailbox_def
  reading_def tick_def draw_def Let_def

lemma on_other [simp]:
  "rw_claims (snd (on_records m w)) = rw_claims w" "rw_claims (snd (on_log l w)) = rw_claims w"
  "rw_claims (snd (on_billing b w)) = rw_claims w" "rw_claims (snd (on_files f w)) = rw_claims w"
  "rw_claims (snd (on_mailbox s w)) = rw_claims w" "rw_claims (snd (tick w)) = rw_claims w"
  "rw_claims (snd (draw w)) = rw_claims w" "rw_claims (snd (reading g w)) = rw_claims w"
  by (simp_all add: on_defs split: prod.splits)

lemma reference_other [simp]:
  "rw_claims (snd (reference_append env r e a d w)) = rw_claims w"
  "rw_claims (snd (reference_reserve env x1 x2 x3 x4 x5 x6 x7 w)) = rw_claims w"
  "rw_claims (snd (reference_settle env y1 y2 y3 w)) = rw_claims w"
  "rw_claims (snd (reference_upload_ticket env z1 z2 z3 z4 w)) = rw_claims w"
  "rw_claims (snd (reference_sign env object w)) = rw_claims w"
  "rw_claims (snd (reference_execute t q w)) = rw_claims w" "rw_claims (snd (at_tick h w)) = rw_claims w"
  by (simp_all add: reference_execute_def at_tick_def reference_append_def reference_reserve_def reference_settle_def
      reference_upload_ticket_def reference_sign_def on_defs split: prod.splits)

lemmas reference_parts = reference_engine_def reference_config_def reference_store_def reference_idempotency_def
  reference_audit_def reference_billing_def reference_files_def reference_signer_def reference_service_def

text \<open>The time the next claim reads.\<close>

definition claim_clock :: "world \<Rightarrow> time" where
  "claim_clock w = rw_clock w (rw_ticks w)"

interpretation reference: claimed_mutations Begin_at Complete_at Release_at claimed_entry stored_entry
  "reference_engine env" rw_claims claim_clock storageKey for env
proof
  fix scope key d w and r :: duration
  show "\<exists>u w'. idem_Begin (cfg_Idempotency (reference_engine env)) scope key d r w =
      (Inr (fst (Begin_at (claim_clock w) u (storageKey scope key) d r (rw_claims w))), w') \<and>
    rw_claims w' = snd (Begin_at (claim_clock w) u (storageKey scope key) d r (rw_claims w))"
    by (rule exI [of _ "rw_clock w (rw_ticks w + 1)"])
       (simp add: reference_parts reference_begin_def on_defs claim_clock_def Begin_def split: prod.splits)
next
  fix scope key resp w
  show "\<exists>w'. idem_Complete (cfg_Idempotency (reference_engine env)) scope key resp w =
      (fst (Complete_at (storageKey scope key) resp (rw_claims w)), w') \<and>
    rw_claims w' = snd (Complete_at (storageKey scope key) resp (rw_claims w))"
    by (simp add: reference_parts on_defs Complete_def split: prod.splits)
next
  fix scope key d w
  show "\<exists>w'. idem_Release (cfg_Idempotency (reference_engine env)) scope key d w =
      (fst (Release_at (storageKey scope key) d (rw_claims w)), w') \<and>
    rw_claims w' = snd (Release_at (storageKey scope key) d (rw_claims w))"
    by (simp add: reference_parts on_defs Release_def split: prod.splits)
qed (simp_all add: reference_parts)

section \<open>The operations of a mutation leave the claims alone\<close>

lemma leaves_calls:
  "leaves rw_claims (Now (reference_engine env))"
  "leaves rw_claims (new_id (reference_engine env) prefix)"
  "leaves rw_claims (VerifyAuthorization (reference_engine env) i q e)"
  "leaves rw_claims (service_negotiate (reference_engine env) i nr)"
  "leaves rw_claims (service_prepare (reference_engine env) i offer pr)"
  "leaves rw_claims (service_execute (reference_engine env) i t q)"
  "leaves rw_claims (service_cancel (reference_engine env) i t cn)"
  "leaves rw_claims (store_put_offer (reference_engine env) offer)"
  "leaves rw_claims (store_get_offer (reference_engine env) key)"
  "leaves rw_claims (store_put_quote (reference_engine env) q)"
  "leaves rw_claims (store_get_quote (reference_engine env) key)"
  "leaves rw_claims (store_put_task (reference_engine env) t)"
  "leaves rw_claims (store_get_task (reference_engine env) key)"
  "leaves rw_claims (store_update_task (reference_engine env) key f)"
  "leaves rw_claims (audit_append (reference_engine env) key event_type actor data)"
  "leaves rw_claims (audit_root (reference_engine env) key)"
  "leaves rw_claims (billing_reserve (reference_engine env) x1 x2 x3 x4 x5 x6 x7)"
  "leaves rw_claims (billing_settle (reference_engine env) y1 y2 y3)"
  "leaves rw_claims (billing_release (reference_engine env) z1 z2)"
  "leaves rw_claims (files_prepare (reference_engine env) i fu base now)"
  "leaves rw_claims (files_validate (reference_engine env) i refs now)"
  "leaves rw_claims (sign_json (reference_engine env) object)"
  unfolding call_defs
  by (rule leaves_perform leaves_bind leaves_return | simp add: reference_parts)+

lemma leaves_commit: "leaves rw_claims (total_operation (commit (reference_engine env)) i requestID body key)"
  unfolding total_operation_def commit_def commit_task_def commit_started_def commit_executed_def commit_succeeded_def
    commit_settle_def commit_disputed_def commit_failed_def commit_receipt_def commit_response_def commit_guards_def
    release_reservation_def attachReceipt_def sign_projection_def reserveBilling_def answer_def appendAudit_def
  by (rule leaves_rules leaves_calls)+

lemma leaves_operations:
  "leaves rw_claims (total_operation (negotiate (reference_engine env)) i requestID body key)"
  "leaves rw_claims (total_operation (prepare (reference_engine env)) i requestID body key)"
  "leaves rw_claims (total_operation (cancel (reference_engine env) taskID) i requestID body key)"
  "leaves rw_claims (total_operation (prepareUpload (reference_engine env)) i requestID body key)"
  unfolding total_operation_def negotiate_def negotiate_offer_def store_offer_def prepare_def prepare_offer_def
    prepare_contract_def issue_quote_def cancel_def cancel_owned_def cancel_granted_def authorizedTask_def prepareUpload_def
    release_reservation_def validateReferences_def sign_projection_def answer_def appendAudit_def
  by (rule leaves_rules leaves_calls)+

end
