(* ===== verification/Contract_Protocol.thy ===== *)
theory Contract_Protocol
  imports Task_Routes
begin

text \<open>
  The protocol that a commit follows, whatever its dependencies do and answer. The events of a
  commit are read as actions; \<open>contract_step\<close> is the machine of a commit with the quote, the
  hold and the execution result in its phases. That \<open>commit\<close> follows the machine is proved stage
  by stage; what happened before an event is then read off the phase the machine is in.
\<close>

section \<open>Actions\<close>

datatype action =
    Quiet
  | Reads time
  | Loads "Quote option"
  | Verifies Identity Quote AuthorizationEvidence "Problem option"
  | Reserves string string BillingTerms Money "billing_error + Reservation"
  | Places Task bool
  | Moves "Task \<Rightarrow> Task result" bool
  | Executes Quote "ExecutionResult option"
  | Settles string Money bool
  | Releases string bool
  | Foreign

definition answered :: "'e + 'a \<Rightarrow> 'a option" where
  "answered r = (case r of Inl _ \<Rightarrow> None | Inr a \<Rightarrow> Some a)"

definition action_of :: "event \<Rightarrow> action" where
  "action_of e =
     (case e of
        EvNow t \<Rightarrow> Reads t
      | EvRandom _ \<Rightarrow> Quiet
      | EvAudit _ _ _ _ \<Rightarrow> Quiet
      | EvAuditRoot _ _ \<Rightarrow> Quiet
      | EvSign _ _ \<Rightarrow> Quiet
      | EvGetQuote _ r \<Rightarrow> Loads (case r of Inl _ \<Rightarrow> None | Inr found \<Rightarrow> found)
      | EvVerify identity q a r \<Rightarrow> Verifies identity q a r
      | EvReserve _ contractID digest terms _ amount _ r \<Rightarrow>
          Reserves contractID digest terms amount r
      | EvPutTask task r \<Rightarrow> Places task (r = None)
      | EvUpdateTask _ f r \<Rightarrow> Moves f (snd r = None)
      | EvExecute _ q r \<Rightarrow> Executes q (answered r)
      | EvSettle ref amount _ r \<Rightarrow> Settles ref amount (answered r \<noteq> None)
      | EvRelease ref _ r \<Rightarrow> Releases ref (r = None)
      | _ \<Rightarrow> Foreign)"

text \<open>What an update does to the state of a task.\<close>

definition moves_to :: "TaskState \<Rightarrow> (Task \<Rightarrow> Task result) \<Rightarrow> bool" where
  "moves_to s f \<longleftrightarrow> (\<forall>t t'. f t = Inr t' \<longrightarrow> t_State t' = s)"

definition keeps_state :: "(Task \<Rightarrow> Task result) \<Rightarrow> bool" where
  "keeps_state f \<longleftrightarrow> (\<forall>t t'. f t = Inr t' \<longrightarrow> t_State t' = t_State t)"

section \<open>The machine\<close>

text \<open>
  A hold is the reference of a reservation; the empty reference stands for a free quote, which
  has nothing to settle or release. \<open>Refused\<close> ends a commit at its guards, \<open>Unapproved\<close> at the
  verifier and \<open>Unreserved\<close> at the billing processor, with what they answered; \<open>Orphaned\<close> ends one
  whose task was not stored or started.
\<close>

datatype phase =
    Idle
  | Refused
  | Unapproved Problem
  | Unreserved billing_error
  | Quoted Quote
  | Fresh Quote "time list"
  | Approved Quote
  | Held Quote string
  | Orphaned Quote string
  | Aborted
  | Placed Quote string
  | Running Quote string
  | Failing Quote string
  | Delivered Quote string ExecutionResult
  | Charged Quote string ExecutionResult
  | Closing TaskState
  | Ended TaskState

definition in_time :: "Quote \<Rightarrow> time list \<Rightarrow> bool" where
  "in_time q clock \<longleftrightarrow>
     (case ep_Deadline (q_Execution q) of None \<Rightarrow> True | Some deadline \<Rightarrow> \<exists>t\<in>set clock. After deadline t)"

definition owned_by :: "Identity \<Rightarrow> Quote \<Rightarrow> bool" where
  "owned_by identity q \<longleftrightarrow> q_Actor q = id_Actor identity \<and> q_Principal q = id_Principal identity"

text \<open>The delegation covers every permission of the quote.\<close>

definition in_scope :: "Identity \<Rightarrow> Quote \<Rightarrow> bool" where
  "in_scope identity q \<longleftrightarrow> (\<forall>p\<in>set (q_Permissions q). HasScope identity (pu_Scope p))"

lemma missing_scope_None: "missing_scope identity scopes = None \<longleftrightarrow> (\<forall>scope\<in>set scopes. HasScope identity scope)"
  by (auto simp: missing_scope_def find_None_iff)

definition agreed :: "Quote \<Rightarrow> ExecutionResult \<Rightarrow> Money option" where
  "agreed q result = map_option fst (answered (resolveFinalCharge q result))"

definition contract_step :: "Identity \<Rightarrow> phase \<Rightarrow> action \<Rightarrow> phase option" where
  "contract_step identity p a =
     (case a of
        Quiet \<Rightarrow> Some p
      | Reads t \<Rightarrow> Some (case p of
            Quoted q \<Rightarrow> if After t (q_ExpiresAt q) then Refused else Fresh q [t]
          | Fresh q clock \<Rightarrow> Fresh q (t # clock)
          | _ \<Rightarrow> p)
      | Loads found \<Rightarrow> (case p of
            Idle \<Rightarrow> Some (case found of None \<Rightarrow> Refused | Some q \<Rightarrow> if owned_by identity q then Quoted q else Refused)
          | _ \<Rightarrow> None)
      | Verifies identity' q' evidence refused \<Rightarrow> (case p of
            Fresh q clock \<Rightarrow>
              if identity' = identity \<and> q' = q \<and> in_time q clock \<and>
                 validateAuthorization evidence q identity (hd clock) = None
              then Some (case refused of None \<Rightarrow> Approved q | Some p \<Rightarrow> Unapproved p) else None
          | _ \<Rightarrow> None)
      | Reserves contractID digest terms amount answer0 \<Rightarrow> (case p of
            Approved q \<Rightarrow>
              if in_scope identity q \<and> bt_Mode (q_BillingTerms q) \<noteq> BillingFree \<and> contractID = q_QuoteID q \<and>
                 digest = sg_PayloadDigest (q_Signature q) \<and> terms = q_BillingTerms q \<and>
                 amount = q_PriceCeiling q
              then Some (case answer0 of Inl err \<Rightarrow> Unreserved err | Inr rv \<Rightarrow> Held q (rv_Reference rv)) else None
          | _ \<Rightarrow> None)
      | Places task ok \<Rightarrow> (case p of
            Approved q \<Rightarrow>
              if in_scope identity q \<and> bt_Mode (q_BillingTerms q) = BillingFree \<and> t_QuoteID task = q_QuoteID q \<and>
                 t_State task = TaskAccepted
              then Some (if ok then Placed q [] else Orphaned q []) else None
          | Held q ref \<Rightarrow>
              if t_QuoteID task = q_QuoteID q \<and> t_State task = TaskAccepted
              then Some (if ok then Placed q ref else Orphaned q ref) else None
          | _ \<Rightarrow> None)
      | Moves f ok \<Rightarrow> (case p of
            Placed q ref \<Rightarrow> if moves_to TaskRunning f then Some (if ok then Running q ref else Orphaned q ref) else None
          | Failing q ref \<Rightarrow>
              if ref = [] \<and> moves_to TaskFailed f then Some (if ok then Ended TaskFailed else Aborted) else None
          | Delivered q ref result \<Rightarrow>
              let s = (if agreed q result = None then TaskDisputed else TaskSucceeded) in
              if ref = [] \<and> moves_to s f then Some (if ok then Ended s else Aborted) else None
          | Charged q ref result \<Rightarrow> if keeps_state f then Some (if ok then Closing TaskSucceeded else Aborted) else None
          | Closing s \<Rightarrow> if moves_to s f then Some (if ok then Ended s else Aborted) else None
          | Ended s \<Rightarrow> if keeps_state f then Some p else None
          | _ \<Rightarrow> None)
      | Executes q' result \<Rightarrow> (case p of
            Running q ref \<Rightarrow>
              if q' = q then Some (case result of None \<Rightarrow> Failing q ref | Some r \<Rightarrow> Delivered q ref r) else None
          | _ \<Rightarrow> None)
      | Settles ref' amount ok \<Rightarrow> (case p of
            Delivered q ref result \<Rightarrow>
              if ref' = ref \<and> ref \<noteq> [] \<and> agreed q result = Some amount
              then Some (if ok then Charged q ref result else Closing TaskWaitingInput) else None
          | _ \<Rightarrow> None)
      | Releases ref' ok \<Rightarrow> (case p of
            Orphaned q ref \<Rightarrow> if ref' = ref \<and> ref \<noteq> [] then Some Aborted else None
          | Failing q ref \<Rightarrow>
              if ref' = ref \<and> ref \<noteq> [] then Some (Closing (if ok then TaskFailed else TaskWaitingInput)) else None
          | Delivered q ref result \<Rightarrow>
              if ref' = ref \<and> ref \<noteq> [] \<and> agreed q result = None then Some (Closing TaskDisputed) else None
          | _ \<Rightarrow> None)
      | Foreign \<Rightarrow> None)"

definition contract_machine :: "Identity \<Rightarrow> phase \<Rightarrow> event \<Rightarrow> phase option" where
  "contract_machine identity p e = contract_step identity p (action_of e)"

section \<open>Rules for the calls of the contract flow\<close>

lemma ReleaseClaim_simps [simp]:
  "\<not> op_ReleaseClaim (problemResult cfg requestID p)"
  "op_ReleaseClaim (safeRetryProblemResult cfg requestID p)"
  "\<not> op_ReleaseClaim (taskOutcomeUnknownResult cfg requestID task title detail)"
  "\<not> op_ReleaseClaim (jsonResult cfg status v)"
  by (auto simp: problemResult_def safeRetryProblemResult_def taskOutcomeUnknownResult_def jsonResult_def
      json_response_def Let_def split: sum.split body_value.split)

lemma follows_Now:
  "(\<And>t. case contract_step i p (Reads t) of None \<Rightarrow> False | Some p' \<Rightarrow> Q t p') \<Longrightarrow>
     follows (contract_machine i) p (Now cfg) Q"
  unfolding Now_def by (rule follows_call) (simp add: contract_machine_def action_of_def)

lemma follows_new_id: "(\<And>a. Q a p) \<Longrightarrow> follows (contract_machine i) p (new_id cfg prefix) Q"
  unfolding new_id_def by (rule wp follows_call | simp add: contract_machine_def action_of_def contract_step_def)+

lemma follows_appendAudit: "Q () p \<Longrightarrow> follows (contract_machine i) p (appendAudit cfg chainID type0 actor data) Q"
  unfolding appendAudit_def audit_append_def
  by (rule wp follows_call | simp add: contract_machine_def action_of_def contract_step_def)+

lemma follows_audit_root: "(\<And>a. Q a p) \<Longrightarrow> follows (contract_machine i) p (audit_root cfg chainID) Q"
  unfolding audit_root_def by (rule follows_call) (simp add: contract_machine_def action_of_def contract_step_def)

lemma follows_sign_projection: "(\<And>a. Q a p) \<Longrightarrow> follows (contract_machine i) p (sign_projection cfg v f g) Q"
  unfolding sign_projection_def sign_json_def
  by (rule wp follows_call | simp add: contract_machine_def action_of_def contract_step_def)+

lemma follows_update:
  assumes "\<And>task'. case contract_step i p (Moves f True) of None \<Rightarrow> False | Some p' \<Rightarrow> Q (task', None) p'"
    and "\<And>task' err. case contract_step i p (Moves f False) of None \<Rightarrow> False | Some p' \<Rightarrow> Q (task', Some err) p'"
  shows "follows (contract_machine i) p (store_update_task cfg taskID f) Q"
  unfolding store_update_task_def
proof (rule follows_call)
  fix r :: "Task \<times> error option"
  obtain task' err where r: "r = (task', err)" by (cases r)
  show "case contract_machine i p (EvUpdateTask taskID f r) of None \<Rightarrow> False | Some p' \<Rightarrow> Q r p'"
  proof (cases err)
    case None
    from assms(1) [of task'] show ?thesis unfolding r None by (simp add: contract_machine_def action_of_def)
  next
    case (Some e)
    from assms(2) [of task' e] show ?thesis unfolding r Some by (simp add: contract_machine_def action_of_def)
  qed
qed

lemma follows_release_reservation:
  assumes "br_ReservationRef record = [] \<Longrightarrow> Q True p"
    and "\<And>ok. br_ReservationRef record \<noteq> [] \<Longrightarrow>
      case contract_step i p (Releases (br_ReservationRef record) ok) of None \<Rightarrow> False | Some p' \<Rightarrow> Q ok p'"
  shows "follows (contract_machine i) p (release_reservation cfg record key) Q"
proof (cases "br_ReservationRef record = []")
  case True
  with assms(1) show ?thesis by (auto simp: release_reservation_def intro: follows_return)
next
  case False
  have "follows (contract_machine i) p (billing_release cfg (br_ReservationRef record) key) (\<lambda>err. Q (err = None))"
    unfolding billing_release_def
  proof (rule follows_call)
    fix r
    show "case contract_machine i p (EvRelease (br_ReservationRef record) key r) of None \<Rightarrow> False | Some p' \<Rightarrow> Q (r = None) p'"
      using assms(2) [OF False, of "r = None"] by (simp add: contract_machine_def action_of_def)
  qed
  with False show ?thesis
    by (auto simp: release_reservation_def intro!: follows_bind intro: follows_return elim!: follows_mono)
qed

lemmas contract_rules =
  follows_Now follows_new_id follows_appendAudit follows_audit_root follows_sign_projection follows_update
  follows_release_reservation wp conjI impI allI

section \<open>The stages follow the machine\<close>

text \<open>What every stage after the reservation ends with: no claim is released.\<close>

definition finished :: "operationResult \<Rightarrow> phase \<Rightarrow> bool" where
  "finished r p \<longleftrightarrow> \<not> op_ReleaseClaim r \<and>
     (p = Aborted \<or> (\<exists>q. p = Orphaned q []) \<or> (\<exists>s. p = Ended s))"

lemma finished_simps [simp]:
  "finished r Aborted \<longleftrightarrow> \<not> op_ReleaseClaim r"
  "finished r (Orphaned q ref) \<longleftrightarrow> \<not> op_ReleaseClaim r \<and> ref = []"
  "finished r (Ended s) \<longleftrightarrow> \<not> op_ReleaseClaim r"
  by (simp_all add: finished_def)

lemma attachReceipt_follows:
  "(\<And>a. Q a (Ended s)) \<Longrightarrow>
     follows (contract_machine i) (Ended s) (attachReceipt cfg task q actor artifacts bd) Q"
  unfolding attachReceipt_def Let_def
  by (rule contract_rules | simp add: contract_step_def keeps_state_def)+

lemma commit_response_follows:
  "follows (contract_machine i) (Ended s) (commit_response cfg status task accepted) finished"
  unfolding commit_response_def by (rule contract_rules | simp add: contract_step_def)+

lemma commit_receipt_follows:
  "follows (contract_machine i) (Ended s) (commit_receipt cfg identity q accepted task artifacts bd) finished"
  unfolding commit_receipt_def
  by (rule attachReceipt_follows commit_response_follows contract_rules | simp)+

lemmas stage_rules = commit_receipt_follows commit_response_follows contract_rules

lemma commit_failed_follows:
  "follows (contract_machine i) (Failing q (br_ReservationRef record))
     (commit_failed cfg identity requestID key quote record accepted task p) finished"
  unfolding commit_failed_def voided_billing_def
  by (rule stage_rules | simp add: contract_step_def moves_to_def)+

lemma commit_disputed_follows:
  assumes "agreed q result = None"
  shows "follows (contract_machine i) (Delivered q (br_ReservationRef record) result)
     (commit_disputed cfg identity requestID key record accepted task result) finished"
  unfolding commit_disputed_def voided_billing_def Let_def
  by (rule stage_rules | simp add: contract_step_def moves_to_def assms)+

lemma commit_succeeded_follows:
  assumes "\<And>ok f. moves_to TaskSucceeded f \<Longrightarrow>
    contract_step i p (Moves f ok) = Some (if ok then Ended TaskSucceeded else Aborted)"
    and "\<And>t. contract_step i p (Reads t) = Some p"
  shows "follows (contract_machine i) p
     (commit_succeeded cfg identity requestID quote accepted task result bd) finished"
  unfolding commit_succeeded_def
  by (rule stage_rules | simp add: assms moves_to_def)+

lemma commit_settle_follows:
  assumes "agreed q result = Some amount"
  shows "follows (contract_machine i) (Delivered q (br_ReservationRef record) result)
     (commit_settle cfg identity requestID key record accepted task result amount)
     (\<lambda>r p. case r of Inl done0 \<Rightarrow> finished done0 p
        | Inr _ \<Rightarrow> p = (if br_ReservationRef record = [] then Delivered q [] result else Closing TaskSucceeded))"
proof -
  have keeps: "keeps_state (bind_settlement settlement)" for settlement
    by (auto simp: keeps_state_def bind_settlement_def split: option.splits)
  show ?thesis
    unfolding commit_settle_def billing_settle_def
    by (rule follows_either stage_rules follows_mono [OF commit_response_follows]
        | simp add: contract_step_def contract_machine_def action_of_def answered_def moves_to_def keeps assms)+
qed

lemma commit_executed_follows:
  "follows (contract_machine i) (Delivered q (br_ReservationRef record) result)
     (commit_executed cfg identity requestID key q record accepted task result) finished"
proof (cases "resolveFinalCharge q result")
  case (Inl err)
  then show ?thesis
    by (auto simp: commit_executed_def agreed_def answered_def intro: commit_disputed_follows)
next
  case (Inr charge)
  obtain amount bd where charge: "charge = (amount, bd)" by (cases charge)
  with Inr have "agreed q result = Some amount" by (simp add: agreed_def answered_def)
  then show ?thesis
    unfolding commit_executed_def Inr charge
    by (auto intro!: follows_attempt follows_mono [OF commit_settle_follows] commit_succeeded_follows
        simp: contract_step_def split: sum.splits)
qed

lemma commit_started_follows:
  "follows (contract_machine i) (Placed q (br_ReservationRef record))
     (commit_started cfg identity requestID key q record accepted task) finished"
  unfolding commit_started_def service_execute_def
  by (rule commit_failed_follows commit_executed_follows follows_either stage_rules
      | simp add: contract_step_def contract_machine_def action_of_def answered_def moves_to_def)+

lemma commit_task_follows:
  assumes "\<And>task ok. t_QuoteID task = q_QuoteID q \<Longrightarrow> t_State task = TaskAccepted \<Longrightarrow>
      contract_step i p (Places task ok) =
        Some (if ok then Placed q (br_ReservationRef record) else Orphaned q (br_ReservationRef record))"
    and "\<And>t. contract_step i p (Reads t) = Some p"
  shows "follows (contract_machine i) p (commit_task cfg identity requestID key input q record) finished"
proof -
  let ?task = "\<lambda>taskID now. new_task taskID input q record now"
  have "case contract_machine i p (EvPutTask (?task taskID now) r) of None \<Rightarrow> False
      | Some p' \<Rightarrow> p' = (if r = None then Placed q (br_ReservationRef record) else Orphaned q (br_ReservationRef record))"
    for taskID now r
    by (simp add: contract_machine_def action_of_def assms(1) new_task_def)
  then have put: "follows (contract_machine i) p (store_put_task cfg (?task taskID now))
      (\<lambda>r p'. p' = (if r = None then Placed q (br_ReservationRef record) else Orphaned q (br_ReservationRef record)))"
    for taskID now
    unfolding store_put_task_def by (rule follows_call)
  have release: "contract_step i (Orphaned q ref) (Releases ref ok) = (if ref \<noteq> [] then Some Aborted else None)" for ref ok
    by (simp add: contract_step_def)
  show ?thesis
    unfolding commit_task_def Let_def
    by (rule commit_started_follows follows_mono [OF put] stage_rules
        | simp add: release assms(2))+
qed

text \<open>
  A released claim: the verifier or the billing processor answered that nothing happened yet and
  that the request may be tried again.
\<close>

definition may_retry :: "phase \<Rightarrow> bool" where
  "may_retry p \<longleftrightarrow> (\<exists>pb. p = Unapproved pb \<and> p_Retryable pb) \<or> (\<exists>reason. p = Unreserved (TemporaryError reason))"

lemma may_retry_simps [simp]:
  "may_retry (Unapproved pb) \<longleftrightarrow> p_Retryable pb"
  "may_retry (Unreserved err) \<longleftrightarrow> (\<exists>reason. err = TemporaryError reason)"
  by (auto simp: may_retry_def)

lemma reserveBilling_follows:
  assumes "identity = i" "in_scope i q"
  shows "follows (contract_machine i) (Approved q)
     (reserveBilling cfg identity (q_QuoteID q) (sg_PayloadDigest (q_Signature q)) (q_BillingTerms q)
        authorization (q_PriceCeiling q) key)
     (\<lambda>r p. case r of Inl pb \<Rightarrow> p_Retryable pb \<longrightarrow> may_retry p
        | Inr record \<Rightarrow> if bt_Mode (q_BillingTerms q) = BillingFree then p = Approved q \<and> br_ReservationRef record = []
            else p = Held q (br_ReservationRef record))"
  unfolding reserveBilling_def billing_reserve_def
  by (rule follows_either stage_rules
      | simp add: contract_step_def contract_machine_def action_of_def assms(2) validateBillingAuthorization_not_retryable)+

lemma commit_guards_follows:
  "follows (contract_machine i) Idle (commit_guards cfg i requestID input)
     (\<lambda>r p. case r of Inl refusal \<Rightarrow> op_ReleaseClaim refusal \<longrightarrow> may_retry p
        | Inr q \<Rightarrow> p = Approved q \<and> in_scope i q)"
  unfolding commit_guards_def store_get_quote_def VerifyAuthorization_def answer_def
  apply (rule follows_either stage_rules follows_call
    | simp add: contract_step_def contract_machine_def action_of_def answered_def owned_by_def in_time_def
        in_scope_def missing_scope_None)+
  done

lemma commit_follows:
  "follows (contract_machine i) Idle (commit cfg i requestID body key)
     (\<lambda>r p. op_ReleaseClaim r \<longrightarrow> may_retry p)"
proof -
  have task: "follows (contract_machine i) p (commit_task cfg i requestID key input q hold)
      (\<lambda>r p. op_ReleaseClaim r \<longrightarrow> may_retry p)"
    if "in_scope i q" "if bt_Mode (q_BillingTerms q) = BillingFree then p = Approved q \<and> br_ReservationRef hold = []
        else p = Held q (br_ReservationRef hold)" for p q input hold
    by (rule follows_mono [OF commit_task_follows])
       (use that in \<open>auto simp: contract_step_def finished_def split: if_splits\<close>)
  have reserve: "follows (contract_machine i) (Approved q)
     (reserveBilling cfg i (q_QuoteID q) (sg_PayloadDigest (q_Signature q)) (q_BillingTerms q)
        authorization (q_PriceCeiling q) k)
     (\<lambda>r p. follows (contract_machine i) p
        (case r of Inl p \<Rightarrow> State_Monad.return
             (if p_Retryable p then safeRetryProblemResult cfg requestID p else problemResult cfg requestID p)
         | Inr hold \<Rightarrow> commit_task cfg i requestID key input q hold)
        (\<lambda>r p. op_ReleaseClaim r \<longrightarrow> may_retry p))"
    if "in_scope i q" for q authorization k input
    by (rule follows_mono [OF reserveBilling_follows [OF refl that]])
       (auto intro!: task follows_return that split: sum.splits if_splits)
  show ?thesis
    unfolding commit_def
    by (rule follows_attempt follows_mono [OF commit_guards_follows] reserve stage_rules
       | simp split: sum.split)+
qed

section \<open>What the phases say about the events\<close>

definition executions :: "event list \<Rightarrow> (Task \<times> Quote) list" where
  "executions es = concat (map (\<lambda>e. case e of EvExecute task q _ \<Rightarrow> [(task, q)] | _ \<Rightarrow> []) es)"

definition settlements :: "event list \<Rightarrow> (string \<times> Money) list" where
  "settlements es = concat (map (\<lambda>e. case e of EvSettle ref amount _ _ \<Rightarrow> [(ref, amount)] | _ \<Rightarrow> []) es)"

definition releases :: "event list \<Rightarrow> string list" where
  "releases es = concat (map (\<lambda>e. case e of EvRelease ref _ _ \<Rightarrow> [ref] | _ \<Rightarrow> []) es)"

definition holds_taken :: "event list \<Rightarrow> string list" where
  "holds_taken es = concat (map (\<lambda>e. case e of EvReserve _ _ _ _ _ _ _ (Inr rv) \<Rightarrow> [rv_Reference rv] | _ \<Rightarrow> []) es)"

definition reservations :: "event list \<Rightarrow> (billing_error + Reservation) list" where
  "reservations es = concat (map (\<lambda>e. case e of EvReserve _ _ _ _ _ _ _ r \<Rightarrow> [r] | _ \<Rightarrow> []) es)"

definition stored_tasks :: "event list \<Rightarrow> Task list" where
  "stored_tasks es = concat (map (\<lambda>e. case e of EvPutTask task _ \<Rightarrow> [task] | _ \<Rightarrow> []) es)"

lemmas event_lists = executions_def settlements_def releases_def holds_taken_def reservations_def stored_tasks_def

definition loaded :: "Identity \<Rightarrow> event list \<Rightarrow> Quote \<Rightarrow> bool" where
  "loaded identity es q \<longleftrightarrow> owned_by identity q \<and> (\<exists>i. EvGetQuote i (Inr (Some q)) \<in> set es)"

definition consented :: "Identity \<Rightarrow> event list \<Rightarrow> Quote \<Rightarrow> bool" where
  "consented identity es q \<longleftrightarrow> loaded identity es q \<and>
     (\<exists>t. EvNow t \<in> set es \<and> \<not> After t (q_ExpiresAt q)) \<and>
     (\<forall>deadline. ep_Deadline (q_Execution q) = Some deadline \<longrightarrow> (\<exists>t. EvNow t \<in> set es \<and> After deadline t)) \<and>
     (\<exists>t a. EvNow t \<in> set es \<and> validateAuthorization a q identity t = None \<and> EvVerify identity q a None \<in> set es)"

text \<open>The hold covers the signed ceiling of the quote and is bound to the quote's digest.\<close>

definition secured :: "event list \<Rightarrow> Quote \<Rightarrow> string \<Rightarrow> bool" where
  "secured es q ref \<longleftrightarrow>
     (if bt_Mode (q_BillingTerms q) = BillingFree then ref = [] \<and> holds_taken es = []
      else holds_taken es = [ref] \<and>
        (\<exists>s a key rv. EvReserve s (q_QuoteID q) (sg_PayloadDigest (q_Signature q)) (q_BillingTerms q) a
            (q_PriceCeiling q) key (Inr rv) \<in> set es \<and> rv_Reference rv = ref))"

definition untouched :: "event list \<Rightarrow> bool" where
  "untouched es \<longleftrightarrow> executions es = [] \<and> settlements es = [] \<and> releases es = [] \<and>
     holds_taken es = [] \<and> stored_tasks es = []"

definition disposed_once :: "event list \<Rightarrow> bool" where
  "disposed_once es \<longleftrightarrow> length (executions es) \<le> 1 \<and> length (settlements es) + length (releases es) \<le> 1 \<and>
     length (holds_taken es) \<le> 1"

definition delivered :: "event list \<Rightarrow> Quote \<Rightarrow> ExecutionResult \<Rightarrow> bool" where
  "delivered es q result \<longleftrightarrow> (\<exists>task. EvExecute task q (Inr result) \<in> set es)"

text \<open>The processor settled the hold with the final price that the quote allows for the result.\<close>

definition charged :: "event list \<Rightarrow> Quote \<Rightarrow> string \<Rightarrow> ExecutionResult \<Rightarrow> bool" where
  "charged es q ref result \<longleftrightarrow> (\<exists>amount bd key st.
     resolveFinalCharge q result = Inr (amount, bd) \<and> EvSettle ref amount key (Inr st) \<in> set es)"

definition paid :: "event list \<Rightarrow> bool" where
  "paid es \<longleftrightarrow> (\<exists>q ref result. secured es q ref \<and> delivered es q result \<and> charged es q ref result)"

text \<open>The provider delivered a result with a price that the quote does not allow.\<close>

definition overpriced :: "event list \<Rightarrow> bool" where
  "overpriced es \<longleftrightarrow> (\<exists>q result err. delivered es q result \<and> resolveFinalCharge q result = Inl err)"

text \<open>
  Nothing happened that a second run would repeat: the verifier asked for a retry before anything
  was reserved, or the only call to the processor answered a temporary error, which by its contract
  reserved nothing; no call had an unknown outcome.
\<close>

definition retry_safe :: "event list \<Rightarrow> bool" where
  "retry_safe es \<longleftrightarrow> untouched es \<and>
     (reservations es = [] \<and> (\<exists>identity q a p. EvVerify identity q a (Some p) \<in> set es \<and> p_Retryable p) \<or>
      (\<exists>reason. reservations es = [Inl (TemporaryError reason)]))"

text \<open>What the machine's phase tells about the events that led to it.\<close>

definition history :: "Identity \<Rightarrow> event list \<Rightarrow> phase \<Rightarrow> bool" where
  "history identity es p \<longleftrightarrow>
     (case p of
        Idle \<Rightarrow> untouched es \<and> reservations es = []
      | Refused \<Rightarrow> untouched es
      | Unapproved pb \<Rightarrow> untouched es \<and> reservations es = [] \<and>
          (\<exists>identity q a. EvVerify identity q a (Some pb) \<in> set es)
      | Unreserved err \<Rightarrow> untouched es \<and> reservations es = [Inl err]
      | Quoted q \<Rightarrow> untouched es \<and> reservations es = [] \<and> loaded identity es q
      | Fresh q clock \<Rightarrow> untouched es \<and> reservations es = [] \<and> loaded identity es q \<and> clock \<noteq> [] \<and>
          (\<forall>t\<in>set clock. EvNow t \<in> set es) \<and> (\<exists>t\<in>set clock. \<not> After t (q_ExpiresAt q))
      | Approved q \<Rightarrow> untouched es \<and> reservations es = [] \<and> consented identity es q
      | Held q ref \<Rightarrow> consented identity es q \<and> in_scope identity q \<and> secured es q ref \<and>
          executions es = [] \<and> settlements es = [] \<and> releases es = []
      | Orphaned q ref \<Rightarrow> executions es = [] \<and> settlements es = [] \<and> releases es = [] \<and> secured es q ref
      | Placed q ref \<Rightarrow> consented identity es q \<and> in_scope identity q \<and> secured es q ref \<and>
          executions es = [] \<and> settlements es = [] \<and> releases es = []
      | Running q ref \<Rightarrow> consented identity es q \<and> in_scope identity q \<and> secured es q ref \<and>
          executions es = [] \<and> settlements es = [] \<and> releases es = []
      | Failing q ref \<Rightarrow> secured es q ref \<and> length (executions es) = 1 \<and> settlements es = [] \<and> releases es = []
      | Delivered q ref result \<Rightarrow> secured es q ref \<and> length (executions es) = 1 \<and> settlements es = [] \<and>
          releases es = [] \<and> delivered es q result
      | Charged q ref result \<Rightarrow> secured es q ref \<and> disposed_once es \<and> delivered es q result \<and>
          charged es q ref result
      | Closing s \<Rightarrow> disposed_once es \<and> (s = TaskDisputed \<longrightarrow> overpriced es) \<and>
          (s = TaskSucceeded \<longrightarrow> paid es)
      | _ \<Rightarrow> disposed_once es)"

lemma event_lists_Nil [simp]:
  "executions [] = []" "settlements [] = []" "releases [] = []" "holds_taken [] = []" "reservations [] = []" "stored_tasks [] = []"
  by (simp_all add: event_lists)


lemma event_lists_snoc:
  "executions (es @ [e]) = executions es @ (case e of EvExecute task q _ \<Rightarrow> [(task, q)] | _ \<Rightarrow> [])"
  "settlements (es @ [e]) = settlements es @ (case e of EvSettle ref amount _ _ \<Rightarrow> [(ref, amount)] | _ \<Rightarrow> [])"
  "releases (es @ [e]) = releases es @ (case e of EvRelease ref _ _ \<Rightarrow> [ref] | _ \<Rightarrow> [])"
  "holds_taken (es @ [e]) = holds_taken es @
     (case e of EvReserve _ _ _ _ _ _ _ (Inr rv) \<Rightarrow> [rv_Reference rv] | _ \<Rightarrow> [])"
  "reservations (es @ [e]) = reservations es @ (case e of EvReserve _ _ _ _ _ _ _ r \<Rightarrow> [r] | _ \<Rightarrow> [])"
  "stored_tasks (es @ [e]) = stored_tasks es @ (case e of EvPutTask task _ \<Rightarrow> [task] | _ \<Rightarrow> [])"
  by (simp_all add: event_lists)

lemma facts_snoc:
  "loaded i es q \<Longrightarrow> loaded i (es @ [e]) q"
  "consented i es q \<Longrightarrow> consented i (es @ [e]) q"
  "delivered es q result \<Longrightarrow> delivered (es @ [e]) q result"
  "secured es q ref \<Longrightarrow> holds_taken (es @ [e]) = holds_taken es \<Longrightarrow> secured (es @ [e]) q ref"
  "charged es q ref result \<Longrightarrow> charged (es @ [e]) q ref result"
  "overpriced es \<Longrightarrow> overpriced (es @ [e])"
  unfolding loaded_def consented_def delivered_def secured_def charged_def overpriced_def
  by (auto split: if_splits)

lemma paid_snoc: "paid es \<Longrightarrow> holds_taken (es @ [e]) = holds_taken es \<Longrightarrow> paid (es @ [e])"
  unfolding paid_def using facts_snoc(3-5) by blast


lemmas history_simps =
  contract_machine_def action_of_def contract_step_def answered_def history_def event_lists_snoc facts_snoc paid_snoc
  untouched_def disposed_once_def

lemma secured_free: "bt_Mode (q_BillingTerms q) = BillingFree \<Longrightarrow> holds_taken es = [] \<Longrightarrow> secured es q []"
  by (simp add: secured_def)

lemma secured_reserved:
  assumes "bt_Mode (q_BillingTerms q) \<noteq> BillingFree" "holds_taken es = []"
  shows "secured (es @ [EvReserve s (q_QuoteID q) (sg_PayloadDigest (q_Signature q)) (q_BillingTerms q) a
    (q_PriceCeiling q) key (Inr rv)]) q (rv_Reference rv)"
  unfolding secured_def using assms by (simp add: event_lists_snoc, blast)

lemma charged_settled:
  "map_option fst (answered (resolveFinalCharge q result)) = Some amount \<Longrightarrow>
     charged (es @ [EvSettle ref amount key (Inr st)]) q ref result"
  unfolding charged_def answered_def by (auto split: sum.splits)

lemma paidI: "secured es q ref \<Longrightarrow> delivered es q result \<Longrightarrow> charged es q ref result \<Longrightarrow> paid es"
  unfolding paid_def by blast

lemma paid_after:
  "secured es q ref \<Longrightarrow> delivered es q result \<Longrightarrow> charged es q ref result \<Longrightarrow>
     paid (es @ [EvUpdateTask k f r])"
  by (rule paid_snoc [OF paidI]) (simp_all add: event_lists_snoc)

lemma overpriced_delivered: "delivered es q result \<Longrightarrow> agreed q result = None \<Longrightarrow> overpriced es"
  unfolding overpriced_def agreed_def answered_def by (auto split: sum.splits)

lemma overpriced_after: "delivered es q result \<Longrightarrow> agreed q result = None \<Longrightarrow> overpriced (es @ [e])"
  by (rule facts_snoc(6) [OF overpriced_delivered])

text \<open>The two ways to an empty hold.\<close>

lemma secured_unsettled:
  assumes "secured es q []"
  shows "bt_Mode (q_BillingTerms q) = BillingFree \<and> holds_taken es = [] \<or>
    (\<exists>s a key rv. holds_taken es = [[]] \<and> rv_Reference rv = [] \<and>
       EvReserve s (q_QuoteID q) (sg_PayloadDigest (q_Signature q)) (q_BillingTerms q) a (q_PriceCeiling q) key (Inr rv)
         \<in> set es)"
  using assms unfolding secured_def by (auto split: if_splits)

lemma secured_length: "secured es q ref \<Longrightarrow> length (holds_taken es) \<le> Suc 0"
  by (auto simp: secured_def split: if_splits)

lemma consented_verified:
  assumes "loaded i es q" "clock \<noteq> []" "\<forall>t\<in>set clock. EvNow t \<in> set es"
    "\<exists>t\<in>set clock. \<not> After t (q_ExpiresAt q)" "in_time q clock" "validateAuthorization a q i (hd clock) = None"
  shows "consented i (es @ [EvVerify i q a None]) q"
proof -
  have "\<exists>t. EvNow t \<in> set es \<and> After t0 t" if "ep_Deadline (q_Execution q) = Some t0" for t0
    using assms(3,5) that by (auto simp: in_time_def)
  moreover have "EvNow (hd clock) \<in> set es" using assms(2,3) by simp
  ultimately show ?thesis
    using assms(1,3,4,6) unfolding consented_def loaded_def by (simp, blast)
qed

lemma history_step:
  assumes "history i es p" "contract_machine i p e = Some p'"
  shows "history i (es @ [e]) p'"
proof (cases e)
  case (EvNow t)
  then show ?thesis using assms by (auto simp: history_simps split: phase.splits if_splits)
next
  case (EvVerify identity q a r)
  then show ?thesis using assms
    by (cases p) (auto simp: history_simps ex_disj_distrib split: if_splits option.splits intro!: consented_verified)
next
  case (EvGetQuote k r)
  then show ?thesis using assms
    by (cases p) (auto simp: history_simps loaded_def split: if_splits option.splits sum.splits)
next
  case (EvPutTask task r)
  then show ?thesis using assms
    by (cases p) (auto simp: history_simps secured_free split: if_splits)
next
  case (EvUpdateTask k f r)
  then show ?thesis using assms
    by (cases p) (auto simp: history_simps Let_def intro: secured_length paid_after split: if_splits)
next
  case (EvExecute task q r)
  then show ?thesis using assms
    by (cases p) (auto simp: history_simps delivered_def intro: secured_length split: if_splits option.splits sum.splits)
next
  case (EvReserve s k d terms a amount key r)
  then show ?thesis using assms
    by (cases p) (auto simp: history_simps secured_reserved split: if_splits option.splits sum.splits)
next
  case (EvSettle ref amount key r)
  then show ?thesis using assms
    by (cases p) (auto simp: history_simps charged_settled agreed_def intro: secured_length split: if_splits option.splits sum.splits)
next
  case (EvRelease ref key r)
  then show ?thesis using assms
    by (cases p) (auto simp: history_simps intro: secured_length overpriced_after split: if_splits)
qed (use assms in \<open>simp_all add: history_simps split: phase.splits\<close>)

lemma history_reached:
  assumes "advance (contract_machine i) Idle es = Some p"
  shows "history i es p"
proof (rule advance_history [OF _ _ assms])
  show "history i [] Idle" by (simp add: history_def untouched_def)
qed (rule history_step)

lemma commit_history:
  assumes "events_of (commit cfg i requestID body key) w = before @ e # after"
  obtains p p' where "history i before p" "contract_machine i p e = Some p'" "history i (before @ [e]) p'"
proof -
  obtain q where "advance (contract_machine i) Idle (before @ e # after) = Some q"
    using follows_run [OF commit_follows, of i cfg requestID body key w] assms by metis
  then obtain p p' where p: "advance (contract_machine i) Idle before = Some p" "contract_machine i p e = Some p'"
    by (blast dest: advance_prefix)
  from p(1) have "history i before p" by (rule history_reached)
  then show ?thesis using that history_step p(2) by blast
qed

lemma history_disposed: "history i es p \<Longrightarrow> disposed_once es"
  by (auto simp: history_def untouched_def disposed_once_def secured_def split: phase.splits if_splits)

lemma commit_disposed: "disposed_once (events_of (commit cfg i requestID body key) w)"
proof -
  obtain q where "advance (contract_machine i) Idle (events_of (commit cfg i requestID body key) w) = Some q"
    using follows_run [OF commit_follows, of i cfg requestID body key w] by metis
  then show ?thesis by (blast intro: history_disposed history_reached)
qed

text \<open>What a released claim tells about the run.\<close>

lemma may_retry_safe:
  assumes "advance (contract_machine i) Idle es = Some p" "may_retry p"
  shows "retry_safe es"
  using history_reached [OF assms(1)] assms(2) unfolding may_retry_def retry_safe_def history_def by fastforce

lemma commit_retry_safe:
  assumes "op_ReleaseClaim (result_of (commit cfg i requestID body key) w)"
  shows "retry_safe (events_of (commit cfg i requestID body key) w)"
  using follows_run [OF commit_follows, of i cfg requestID body key w] assms may_retry_safe by metis

end
