(* ===== verification/Offer_Protocol.thy ===== *)
theory Offer_Protocol
  imports Contract_Protocol
begin

text \<open>
  What negotiation stores as an offer and preparation stores as a quote: two small machines
  whose phases carry the offer, the contract and the signature.
\<close>

section \<open>Negotiation\<close>

datatype offer_phase = Negotiating "time list" | Offered NegotiationRequest CapabilityOffer "time list" | Offer_over

text \<open>An offer that may be stored: it is bound to the identity that asked, who holds every scope
  it needs, and it was not expired at one of the times read.\<close>

definition storable_offer ::
  "Identity \<Rightarrow> NegotiationRequest \<Rightarrow> CapabilityOffer \<Rightarrow> time list \<Rightarrow> StoredOffer \<Rightarrow> bool"
where
  "storable_offer identity input offer clock s \<longleftrightarrow>
     so_Actor s = id_Actor identity \<and> so_Principal s = id_Principal identity \<and>
     nr_Actor input = id_Actor identity \<and> nr_Principal input = id_Principal identity \<and>
     so_Budget s = nr_Budget input \<and> (\<forall>budget. nr_Budget input = Some budget \<longrightarrow> ValidateMoney budget = None) \<and>
     so_RequiredScopes s = co_RequiredScopes offer \<and> (\<forall>scope\<in>set (co_RequiredScopes offer). HasScope identity scope) \<and>
     co_Supported offer \<and> so_ExpiresAt s = co_ExpiresAt offer \<and> (\<exists>t\<in>set clock. After (so_ExpiresAt s) t)"

definition negotiate_step :: "Identity \<Rightarrow> offer_phase \<Rightarrow> event \<Rightarrow> offer_phase option" where
  "negotiate_step identity p e =
     (case e of
        EvNow t \<Rightarrow> Some (case p of Negotiating clock \<Rightarrow> Negotiating (t # clock)
          | Offered input offer clock \<Rightarrow> Offered input offer (t # clock) | _ \<Rightarrow> p)
      | EvRandom _ \<Rightarrow> Some p
      | EvAudit _ _ _ _ \<Rightarrow> Some p
      | EvFileValidate _ _ \<Rightarrow> Some p
      | EvNegotiate input r \<Rightarrow> (case p of
            Negotiating clock \<Rightarrow> Some (case r of Inl _ \<Rightarrow> Offer_over | Inr offer \<Rightarrow> Offered input offer clock)
          | _ \<Rightarrow> None)
      | EvPutOffer s _ \<Rightarrow> (case p of
            Offered input offer clock \<Rightarrow>
              if storable_offer identity input offer clock s then Some Offer_over else None
          | _ \<Rightarrow> None)
      | _ \<Rightarrow> None)"

lemma negotiate_guards_None:
  "negotiate_guards cfg identity input = None \<longleftrightarrow>
     nr_Goal input \<noteq> [] \<and> (\<forall>budget. nr_Budget input = Some budget \<longrightarrow> ValidateMoney budget = None) \<and>
     nr_Actor input = id_Actor identity \<and> nr_Principal input = id_Principal identity"
  by (auto simp: negotiate_guards_def split: option.splits)

lemma store_offer_follows:
  assumes "negotiate_guards cfg identity input = None" "co_Supported offer"
  shows "follows (negotiate_step identity) (Offered input offer clock)
     (store_offer cfg identity requestID input offer negotiationID)
     (\<lambda>r p. case r of Inl _ \<Rightarrow> True | Inr _ \<Rightarrow> p = Offer_over)"
proof -
  have guards: "nr_Actor input = id_Actor identity" "nr_Principal input = id_Principal identity"
    "\<forall>budget. nr_Budget input = Some budget \<longrightarrow> ValidateMoney budget = None"
    using assms(1) by (simp_all add: negotiate_guards_None)
  show ?thesis
    unfolding store_offer_def answer_def call_defs
    by (rule wp follows_call conjI impI allI
        | simp add: negotiate_step_def storable_offer_def missing_scope_None guards assms(2))+
qed

lemma negotiate_offer_follows:
  assumes "negotiate_guards cfg identity input = None"
  shows "follows (negotiate_step identity) (Offered input offer clock)
     (negotiate_offer cfg identity requestID input offer) (\<lambda>_ _. True)"
proof -
  have audit: "follows (negotiate_step identity) p (appendAudit cfg chainID type0 actor data) (\<lambda>_ _. True)"
    for p chainID type0 actor data
    unfolding appendAudit_def audit_append_def by (rule wp follows_call | simp add: negotiate_step_def)+
  have branch: "follows (negotiate_step identity) (Offered input offer clock')
      (if co_Supported offer then store_offer cfg identity requestID input offer negotiationID
       else State_Monad.return (Inr [])) (\<lambda>r p. case r of Inl _ \<Rightarrow> True | Inr _ \<Rightarrow> True)" for clock' negotiationID
    by (rule follows_if; auto intro: follows_return follows_mono [OF store_offer_follows [OF assms]] split: sum.splits)
  show ?thesis
    unfolding negotiate_offer_def Let_def new_id_def Now_def
    by (rule follows_attempt_then [OF branch] follows_then [OF audit] wp follows_call
        | simp add: negotiate_step_def split del: if_split)+
qed

lemma negotiate_follows:
  "follows (negotiate_step identity) (Negotiating []) (negotiate cfg identity requestID body key) (\<lambda>_ _. True)"
  unfolding negotiate_def validateReferences_def service_negotiate_def Now_def files_validate_def
  by (rule wp follows_either follows_call negotiate_offer_follows conjI impI allI
      | simp add: negotiate_step_def)+


section \<open>Preparation\<close>

datatype quote_phase =
    Seeking
  | Found StoredOffer
  | Contracted StoredOffer PrepareRequest PreparedContract "time list" "string list"
  | Sealed StoredOffer PrepareRequest PreparedContract "time list" "string list" raw_object Signature
  | Quote_over

text \<open>
  A quote that may be stored: every field comes from the delegation, the manifest, the stored offer,
  the request or the contract the service prepared; the quote satisfies the protocol's semantics,
  every limit of the client covers its ceiling, and its signature is the signer's answer for the
  projection of the quote without one. The times and random texts are those read since the contract.
\<close>

definition storable_quote ::
  "'w Config \<Rightarrow> Identity \<Rightarrow> StoredOffer \<Rightarrow> PrepareRequest \<Rightarrow> PreparedContract \<Rightarrow> raw_object \<Rightarrow> Signature \<Rightarrow> Quote \<Rightarrow> bool"
where
  "storable_quote cfg identity offer input contract object signature q \<longleftrightarrow>
     q_ProtocolVersion q = ProtocolVersion \<and> q_ServiceID q = mf_ServiceID (cfg_Manifest cfg) \<and>
     q_Actor q = id_Actor identity \<and> q_Principal q = id_Principal identity \<and>
     q_OfferID q = so_OfferID offer \<and> q_Intent q = so_ResolvedIntent offer \<and>
     q_ContextRefs q = pr_ContextRefs input \<and> q_InputFiles q = pr_InputFiles input \<and>
     q_Callback q = pr_Callback input \<and> q_Execution q = pr_Execution input \<and>
     q_NormalizedTask q = pp_NormalizedTask contract \<and>
     q_Price q = pp_Price contract \<and> q_PriceCeiling q = pp_PriceCeiling contract \<and>
     q_PriceBreakdown q = pp_PriceBreakdown contract \<and> q_BillingTerms q = pp_BillingTerms contract \<and>
     q_Effects q = pp_Effects contract \<and> q_Permissions q = pp_Permissions contract \<and>
     q_DataUse q = pp_DataUse contract \<and> q_RiskClass q = pp_RiskClass contract \<and>
     q_Confirmation q = pp_Confirmation contract \<and> q_SLA q = pp_SLA contract \<and>
     q_ExpiresAt q = pp_ExpiresAt contract \<and> q_RevocableUntil q = pp_RevocableUntil contract \<and>
     wf_contract contract \<and> ValidateQuoteSemantics (lib_ParseURL (cfg_Library cfg)) q = None \<and>
     (\<forall>limit. Some limit \<in> {so_Budget offer, ep_MaxPrice (pr_Execution input)} \<longrightarrow> covers limit (q_PriceCeiling q)) \<and>
     q_Signature q = signature \<and>
     SigningProjection (js_Marshal (cfg_Library cfg)) (js_Object (cfg_Library cfg))
       (BQuote (q\<lparr>q_Signature := zero_Signature\<rparr>)) = Inr object"

definition named_quote :: "time list \<Rightarrow> string list \<Rightarrow> Quote \<Rightarrow> bool" where
  "named_quote clock randoms q \<longleftrightarrow> q_IssuedAt q \<in> set clock \<and> (\<exists>raw\<in>set randoms. q_QuoteID q = MustNewID raw ''quo'')"

definition prepare_step :: "'w Config \<Rightarrow> Identity \<Rightarrow> string \<Rightarrow> quote_phase \<Rightarrow> event \<Rightarrow> quote_phase option" where
  "prepare_step cfg identity body p e =
     (case e of
        EvNow t \<Rightarrow> Some (case p of
            Contracted offer input contract clock randoms \<Rightarrow> Contracted offer input contract (t # clock) randoms | _ \<Rightarrow> p)
      | EvRandom raw \<Rightarrow> Some (case p of
            Contracted offer input contract clock randoms \<Rightarrow> Contracted offer input contract clock (raw # randoms) | _ \<Rightarrow> p)
      | EvAudit _ _ _ _ \<Rightarrow> Some p
      | EvFileValidate _ _ \<Rightarrow> Some p
      | EvGetOffer _ r \<Rightarrow> (case p of
            Seeking \<Rightarrow> Some (case r of
                Inr (Some offer) \<Rightarrow>
                  if so_Actor offer = id_Actor identity \<and> so_Principal offer = id_Principal identity
                  then Found offer else Quote_over
              | _ \<Rightarrow> Quote_over)
          | _ \<Rightarrow> None)
      | EvPrepare offer' input r \<Rightarrow> (case p of
            Found offer \<Rightarrow>
              if offer' = offer \<and> pr_SchemaVersion input = so_SchemaVersion offer \<and>
                 decodeStrict cfg (js_Prepare (cfg_Library cfg)) body = Inr input
              then Some (case r of Inl _ \<Rightarrow> Quote_over | Inr contract \<Rightarrow> Contracted offer input contract [] []) else None
          | _ \<Rightarrow> None)
      | EvSign object r \<Rightarrow> (case p of
            Contracted offer input contract clock randoms \<Rightarrow>
              Some (case r of Inl _ \<Rightarrow> Quote_over
                | Inr signature \<Rightarrow> Sealed offer input contract clock randoms object signature)
          | _ \<Rightarrow> None)
      | EvPutQuote q _ \<Rightarrow> (case p of
            Sealed offer input contract clock randoms object signature \<Rightarrow>
              if storable_quote cfg identity offer input contract object signature q \<and> named_quote clock randoms q
              then Some Quote_over else None
          | _ \<Rightarrow> None)
      | _ \<Rightarrow> None)"

lemma limit_problem_None:
  "limit_problem err_text cap limits = None \<longleftrightarrow> (\<forall>limit. Some limit \<in> set limits \<longrightarrow> covers limit cap)"
  by (induction err_text cap limits rule: limit_problem.induct)
     (auto simp: covers_iff not_less split: sum.splits)

lemma ValidateQuoteSemantics_signature:
  "ValidateQuoteSemantics parse (q\<lparr>q_Signature := s\<rparr>) = None \<longleftrightarrow> ValidateQuoteSemantics parse q = None"
  by (simp add: ValidateQuoteSemantics_wf wf_quote_def identity_ok_def content_ok_def timing_ok_def price_ok_def)

lemma issue_quote_follows:
  assumes "validatePreparedContract contract = None"
    and "limit_problem (lib_ErrText (cfg_Library cfg)) (pp_PriceCeiling contract)
           [so_Budget offer, ep_MaxPrice (pr_Execution input)] = None"
    and "now \<in> set clock" "raw \<in> set randoms" "quoteID = MustNewID raw ''quo''"
  shows "follows (prepare_step cfg identity body) (Contracted offer input contract clock randoms)
     (issue_quote cfg identity requestID (new_quote cfg identity input offer contract quoteID now)) (\<lambda>_ _. True)"
proof -
  have limits: "\<forall>limit. Some limit \<in> {so_Budget offer, ep_MaxPrice (pr_Execution input)} \<longrightarrow>
      covers limit (pp_PriceCeiling contract)"
    using assms(2) by (auto simp: limit_problem_None)
  have wf: "wf_contract contract" using assms(1) by (simp add: validatePreparedContract_iff)
  let ?q = "new_quote cfg identity input offer contract quoteID now"
  have zero: "q_Signature ?q = zero_Signature" by (simp add: new_quote_def)
  have named: "named_quote clock randoms (?q\<lparr>q_Signature := signature\<rparr>)" for signature
    using assms(3-) by (auto simp: named_quote_def new_quote_def)
  have ok: "storable_quote cfg identity offer input contract object signature (?q\<lparr>q_Signature := signature\<rparr>)"
    if "ValidateQuoteSemantics (lib_ParseURL (cfg_Library cfg)) ?q = None"
      "SigningProjection (js_Marshal (cfg_Library cfg)) (js_Object (cfg_Library cfg)) (BQuote ?q) = Inr object"
    for object signature
    using that limits wf zero by (simp add: storable_quote_def ValidateQuoteSemantics_signature)
      (simp add: new_quote_def)
  show ?thesis
    unfolding issue_quote_def sign_projection_def sign_json_def store_put_quote_def appendAudit_def audit_append_def Let_def
    by (rule wp follows_either follows_call conjI impI allI | simp add: prepare_step_def ok named)+
qed

lemma prepare_offer_follows:
  "follows (prepare_step cfg identity body) Seeking (prepare_offer cfg identity requestID input)
     (\<lambda>r p. case r of Inl _ \<Rightarrow> True
        | Inr offer \<Rightarrow> p = Found offer \<and> pr_SchemaVersion input = so_SchemaVersion offer)"
  unfolding prepare_offer_def answer_def validateReferences_def files_validate_def store_get_offer_def Now_def
  by (rule wp follows_either follows_call conjI impI allI | simp add: prepare_step_def split: option.split)+

lemma prepare_contract_follows:
  assumes "pr_SchemaVersion input = so_SchemaVersion offer" "decodeStrict cfg (js_Prepare (cfg_Library cfg)) body = Inr input"
  shows "follows (prepare_step cfg identity body) (Found offer) (prepare_contract cfg identity requestID input offer)
     (\<lambda>r p. case r of Inl _ \<Rightarrow> True
        | Inr contract \<Rightarrow> (\<exists>clock. p = Contracted offer input contract clock []) \<and> validatePreparedContract contract = None \<and>
            limit_problem (lib_ErrText (cfg_Library cfg)) (pp_PriceCeiling contract)
              [so_Budget offer, ep_MaxPrice (pr_Execution input)] = None)"
  unfolding prepare_contract_def answer_def service_prepare_def Now_def
  by (rule wp follows_either follows_call conjI impI allI | simp add: prepare_step_def assms)+

lemma prepare_follows:
  "follows (prepare_step cfg identity body) Seeking (prepare cfg identity requestID body key) (\<lambda>_ _. True)"
proof -
  have issue: "follows (prepare_step cfg identity body) (Contracted offer input contract clock [])
      (do { quoteID \<leftarrow> new_id cfg ''quo''; now \<leftarrow> Now cfg;
        issue_quote cfg identity requestID (new_quote cfg identity input offer contract quoteID now) }) (\<lambda>_ _. True)"
    if "validatePreparedContract contract = None" "limit_problem (lib_ErrText (cfg_Library cfg)) (pp_PriceCeiling contract)
           [so_Budget offer, ep_MaxPrice (pr_Execution input)] = None" for offer input contract clock
    unfolding new_id_def Now_def
    by (rule wp follows_call issue_quote_follows [OF that] | simp add: prepare_step_def)+
  show ?thesis
    unfolding prepare_def
    by ((elim conjE exE, hypsubst)
       | rule follows_attempt_then [OF prepare_offer_follows] follows_attempt_then [OF prepare_contract_follows] issue wp
       | simp)+
qed

section \<open>What the phases say about the events\<close>

definition quote_history :: "(PrepareRequest \<Rightarrow> bool) \<Rightarrow> Identity \<Rightarrow> event list \<Rightarrow> quote_phase \<Rightarrow> bool" where
  "quote_history decoded identity es p \<longleftrightarrow>
     (let found = (\<lambda>offer. so_Actor offer = id_Actor identity \<and> so_Principal offer = id_Principal identity \<and>
            (\<exists>i. EvGetOffer i (Inr (Some offer)) \<in> set es)) in
      case p of
        Found offer \<Rightarrow> found offer
      | Contracted offer input contract clock randoms \<Rightarrow> found offer \<and> EvPrepare offer input (Inr contract) \<in> set es \<and>
          decoded input \<and> (\<forall>t\<in>set clock. EvNow t \<in> set es) \<and> (\<forall>raw\<in>set randoms. EvRandom raw \<in> set es)
      | Sealed offer input contract clock randoms object signature \<Rightarrow> found offer \<and>
          EvPrepare offer input (Inr contract) \<in> set es \<and> EvSign object (Inr signature) \<in> set es \<and>
          decoded input \<and> (\<forall>t\<in>set clock. EvNow t \<in> set es) \<and> (\<forall>raw\<in>set randoms. EvRandom raw \<in> set es)
      | _ \<Rightarrow> True)"

lemma quote_history_reached:
  assumes "advance (prepare_step cfg identity body) Seeking es = Some p"
  shows "quote_history (\<lambda>input. decodeStrict cfg (js_Prepare (cfg_Library cfg)) body = Inr input) identity es p"
    (is "quote_history ?decoded identity es p")
proof (rule advance_history [OF _ _ assms])
  show "quote_history ?decoded identity [] Seeking" by (simp add: quote_history_def)
next
  fix es p e p'
  assume "quote_history ?decoded identity es p" "prepare_step cfg identity body p e = Some p'"
  then show "quote_history ?decoded identity (es @ [e]) p'"
    by (cases e; cases p)
       (auto simp: prepare_step_def quote_history_def Let_def split: if_splits sum.splits option.splits)
qed

lemma prepare_history:
  assumes "events_of (prepare cfg identity requestID body key) w = before @ EvPutQuote q r # after"
  obtains offer input contract object raw where
    "so_Actor offer = id_Actor identity" "so_Principal offer = id_Principal identity"
    "\<exists>i. EvGetOffer i (Inr (Some offer)) \<in> set before"
    "decodeStrict cfg (js_Prepare (cfg_Library cfg)) body = Inr input" "EvPrepare offer input (Inr contract) \<in> set before"
    "EvNow (q_IssuedAt q) \<in> set before" "EvRandom raw \<in> set before" "q_QuoteID q = MustNewID raw ''quo''"
    "EvSign object (Inr (q_Signature q)) \<in> set before"
    "storable_quote cfg identity offer input contract object (q_Signature q) q"
proof -
  obtain p0 where "advance (prepare_step cfg identity body) Seeking (before @ EvPutQuote q r # after) = Some p0"
    using follows_run [OF prepare_follows, of cfg identity body requestID key w] assms by metis
  then obtain p p' where p: "advance (prepare_step cfg identity body) Seeking before = Some p"
    "prepare_step cfg identity body p (EvPutQuote q r) = Some p'"
    by (blast dest: advance_prefix)
  from quote_history_reached [OF p(1)] p(2) show ?thesis
    by (cases p) (auto simp: prepare_step_def quote_history_def storable_quote_def named_quote_def split: if_splits intro!: that)
qed

end
