(* ===== verification/Direct_Flow.thy ===== *)
theory Direct_Flow
  imports Task_Routes
begin

text \<open>
  The direct flow of the protocol engine (pkg/server/direct.go): the capability catalog, the
  preflight, the one-call invocation with its billing and receipt, and the invocation resource.
\<close>

section \<open>Results\<close>

definition invocation_result ::
  "'w Config \<Rightarrow> string \<Rightarrow> string \<Rightarrow> InvocationState \<Rightarrow> Problem \<Rightarrow> operationResult" where
  "invocation_result cfg requestID invocationID state p =
     (problemResult cfg requestID p)\<lparr>op_InvocationID := invocationID, op_InvocationState := state\<rparr>"

definition invocation_problem :: "string \<Rightarrow> InvocationState \<Rightarrow> Problem \<Rightarrow> Problem" where
  "invocation_problem invocationID state p = p\<lparr>p_InvocationID := invocationID, p_InvocationState := state\<rparr>"

definition directUnknownResult ::
  "'w Config \<Rightarrow> string \<Rightarrow> string \<Rightarrow> InvocationState \<Rightarrow> string \<Rightarrow> string \<Rightarrow> operationResult" where
  "directUnknownResult cfg requestID invocationID state title detail =
     invocation_result cfg requestID invocationID state
       (invocation_problem invocationID state
         (problem StatusInternalServerError ErrOutcomeUnknown title detail False))"

definition directBillingKey :: "string \<Rightarrow> string \<Rightarrow> string \<Rightarrow> string" where
  "directBillingKey clientKey invocationID suffix0 =
     (if clientKey = [] then invocationID @ '':'' @ suffix0 else clientKey @ '':'' @ suffix0)"

definition idempotencyExpiry :: "time \<Rightarrow> duration \<Rightarrow> string \<Rightarrow> time option" where
  "idempotencyExpiry now retention key = (if key = [] then None else Some (now + retention))"

section \<open>Execution\<close>

text \<open>The provider refused or failed with \<open>p\<close>.\<close>

definition direct_failed ::
  "'w Config \<Rightarrow> Identity \<Rightarrow> string \<Rightarrow> string \<Rightarrow> BillingRecord \<Rightarrow> string \<Rightarrow> Problem \<Rightarrow> ('w, operationResult) server"
where
  "direct_failed cfg identity requestID invocationID record key p = do {
     released \<leftarrow> (if br_ReservationRef record = [] then State_Monad.return None
       else billing_release cfg (br_ReservationRef record) (directBillingKey key invocationID ''release''));
     case released of
       Some err \<Rightarrow> State_Monad.return (invocation_result cfg requestID invocationID InvocationAccepted
         (invocation_problem invocationID InvocationAccepted (billingProblem (lib_ErrText (cfg_Library cfg)) err)))
     | None \<Rightarrow> do {
         appendAudit cfg invocationID ''ascp.invocation.failed'' (id_Actor identity) [(''code'', VText (p_Code p))];
         State_Monad.return (invocation_result cfg requestID invocationID InvocationFailed
           (invocation_problem invocationID InvocationFailed p)) } }"

definition direct_bad_price ::
  "'w Config \<Rightarrow> string \<Rightarrow> string \<Rightarrow> BillingRecord \<Rightarrow> string \<Rightarrow> error \<Rightarrow> ('w, operationResult) server"
where
  "direct_bad_price cfg requestID invocationID record key err = do {
     _ \<leftarrow> (if br_ReservationRef record = [] then State_Monad.return None
       else billing_release cfg (br_ReservationRef record) (directBillingKey key invocationID ''release-invalid-price''));
     State_Monad.return (invocation_result cfg requestID invocationID InvocationFailed
       (invocation_problem invocationID InvocationFailed
         (problem StatusInternalServerError ErrSettlementFailed ''Invalid direct billing result''
           (lib_ErrText (cfg_Library cfg) err) False))) }"

definition settled_record :: "Settlement \<Rightarrow> BillingRecord \<Rightarrow> BillingRecord" where
  "settled_record settlement record =
     record\<lparr>br_Mode := st_Mode settlement, br_ArrangementRef := st_ArrangementRef settlement,
       br_SettlementRef := st_Reference settlement, br_InvoiceRef := st_InvoiceRef settlement,
       br_PeriodRef := st_PeriodRef settlement, br_Amount := Some (st_Amount settlement),
       br_State := st_State settlement\<rparr>"

text \<open>Settlement: the state of the invocation, the HTTP status and the billing record after it.\<close>

definition direct_settle ::
  "'w Config \<Rightarrow> Identity \<Rightarrow> string \<Rightarrow> BillingRecord \<Rightarrow> string \<Rightarrow> Money \<Rightarrow>
     ('w, InvocationState \<times> int \<times> BillingRecord) server"
where
  "direct_settle cfg identity invocationID record key finalPrice =
     (if br_ReservationRef record = [] then State_Monad.return (InvocationSucceeded, StatusOK, record)
      else do {
        settled \<leftarrow> billing_settle cfg (br_ReservationRef record) finalPrice (directBillingKey key invocationID ''settle'');
        case settled of
          Inl err \<Rightarrow> do {
            appendAudit cfg invocationID ''ascp.billing.settlement_pending'' (id_Actor identity)
              [(''error'', VText (Billing_Error_text (lib_ErrText (cfg_Library cfg)) err))];
            State_Monad.return (InvocationAccepted, StatusAccepted, record\<lparr>br_State := ErrSettlementPending\<rparr>) }
        | Inr settlement \<Rightarrow> do {
            appendAudit cfg invocationID ''ascp.billing.settled'' (id_Actor identity)
              [(''settlement_ref'', VText (st_Reference settlement)), (''state'', VText (st_State settlement)),
               (''amount'', VMoney (st_Amount settlement))];
            State_Monad.return (InvocationSucceeded, StatusOK, settled_record settlement record) } })"

definition new_invocation_receipt ::
  "'w Config \<Rightarrow> string \<Rightarrow> DirectPlan \<Rightarrow> string \<Rightarrow> InvocationState \<Rightarrow> ArtifactRef list \<Rightarrow> BillingRecord \<Rightarrow>
     string \<Rightarrow> string \<Rightarrow> time \<Rightarrow> InvocationReceipt"
where
  "new_invocation_receipt cfg invocationID plan requestDigest state artifacts record root0 receiptID now =
     \<lparr>ir_ProtocolVersion = ProtocolVersion, ir_ServiceID = mf_ServiceID (cfg_Manifest cfg),
      ir_ReceiptID = receiptID, ir_InvocationID = invocationID, ir_Intent = dp_ResolvedIntent plan,
      ir_RequestDigest = requestDigest, ir_Outcome = state, ir_Artifacts = artifacts,
      ir_Billing = Some record, ir_AuditRoot = root0, ir_CompletedAt = now, ir_Signature = zero_Signature\<rparr>"

text \<open>The audit root, the receipt and the stored record of a finished invocation.\<close>

definition direct_record ::
  "'w Config \<Rightarrow> Identity \<Rightarrow> string \<Rightarrow> string \<Rightarrow> DirectPlan \<Rightarrow> string \<Rightarrow> string \<Rightarrow> DirectExecutionResult \<Rightarrow>
     InvocationState \<Rightarrow> int \<Rightarrow> BillingRecord \<Rightarrow> ('w, operationResult) server"
where
  "direct_record cfg identity requestID invocationID plan requestDigest key executed state status record = do {
     appendAudit cfg invocationID (''ascp.invocation.'' @ InvocationState_text state) (id_Actor identity)
       [(''artifact_count'', VInt (int (length (dx_Artifacts executed))))];
     loaded \<leftarrow> audit_root cfg invocationID;
     case loaded of
       Inl err \<Rightarrow> State_Monad.return (directUnknownResult cfg requestID invocationID state
         ''Invocation audit outcome is unknown''
         ''The provider completed the invocation but could not load its audit root.'')
     | Inr root0 \<Rightarrow> do {
         receiptID \<leftarrow> new_id cfg ''irc'';
         completedAt \<leftarrow> Now cfg;
         let receipt = new_invocation_receipt cfg invocationID plan requestDigest state (dx_Artifacts executed)
               record root0 receiptID completedAt;
         attempt
           (sign_projection cfg (BInvocationReceipt receipt)
             (\<lambda>err. directUnknownResult cfg requestID invocationID state ''Invocation receipt projection failed''
                (lib_ErrText (cfg_Library cfg) err))
             (\<lambda>err. directUnknownResult cfg requestID invocationID state ''Invocation receipt signing failed''
                (lib_ErrText (cfg_Library cfg) err)))
           (\<lambda>signature. do {
              now \<leftarrow> Now cfg;
              let response = \<lparr>dr_InvocationID = invocationID, dr_Flow = FlowDirect, dr_Intent = dp_ResolvedIntent plan,
                    dr_State = state, dr_Result = dx_Result executed, dr_Artifacts = dx_Artifacts executed,
                    dr_Billing = Some record, dr_Receipt = receipt\<lparr>ir_Signature := signature\<rparr>,
                    dr_ServerRequestID = requestID,
                    dr_IdempotencyExpiry = idempotencyExpiry now (cfg_IdempotencyRetention cfg) key\<rparr>;
              err \<leftarrow> store_put_invocation cfg
                \<lparr>iv_InvocationID = invocationID, iv_Actor = id_Actor identity, iv_Principal = id_Principal identity,
                 iv_RequestDigest = requestDigest, iv_Response = response\<rparr>;
              case err of
                Some e \<Rightarrow> State_Monad.return (directUnknownResult cfg requestID invocationID state
                  ''Invocation persistence outcome is unknown'' (lib_ErrText (cfg_Library cfg) e))
              | None \<Rightarrow> do {
                  appendAudit cfg invocationID ''ascp.invocation.receipt.issued'' (id_Actor identity)
                    [(''receipt_id'', VText receiptID), (''audit_root'', VText root0)];
                  State_Monad.return ((jsonResult cfg status (BDirect response))
                    \<lparr>op_InvocationID := invocationID, op_InvocationState := state\<rparr>) } }) } }"

definition direct_executed ::
  "'w Config \<Rightarrow> Identity \<Rightarrow> string \<Rightarrow> string \<Rightarrow> DirectPlan \<Rightarrow> string \<Rightarrow> string \<Rightarrow> BillingRecord \<Rightarrow>
     DirectExecutionResult \<Rightarrow> ('w, operationResult) server"
where
  "direct_executed cfg identity requestID invocationID plan requestDigest key record executed =
     (case resolveDirectPrice plan executed of
        Inl err \<Rightarrow> direct_bad_price cfg requestID invocationID record key err
      | Inr (finalPrice, finalBreakdown) \<Rightarrow> do {
          (state, status, record') \<leftarrow> direct_settle cfg identity invocationID record key finalPrice;
          direct_record cfg identity requestID invocationID plan requestDigest key executed state status record' })"

definition executeDirect ::
  "'w Config \<Rightarrow> Identity \<Rightarrow> string \<Rightarrow> DirectInvocationRequest \<Rightarrow> DirectPlan \<Rightarrow> string \<Rightarrow> string \<Rightarrow>
     ('w, operationResult) server"
where
  "executeDirect cfg identity requestID input plan requestDigest key = do {
     invocationID \<leftarrow> new_id cfg ''inv'';
     appendAudit cfg invocationID ''ascp.invocation.accepted'' (id_Actor identity)
       [(''intent'', VText (dp_ResolvedIntent plan)), (''request_digest'', VText requestDigest)];
     reserved \<leftarrow> reserveBilling cfg identity invocationID requestDigest (dp_BillingTerms plan)
       (di_BillingAuthorization input) (dp_PriceCeiling plan) (directBillingKey key invocationID ''reserve'');
     case reserved of
       Inl p \<Rightarrow> State_Monad.return (invocation_result cfg requestID invocationID InvocationFailed p)
     | Inr record \<Rightarrow> do {
         appendAudit cfg invocationID ''ascp.billing.reserved'' (id_Actor identity)
           [(''mode'', VMode (br_Mode record)), (''reservation_ref'', VText (br_ReservationRef record)),
            (''amount'', VOptMoney (br_Amount record))];
         result \<leftarrow> service_execute_direct cfg identity invocationID input plan;
         case result of
           Inl p \<Rightarrow> direct_failed cfg identity requestID invocationID record key p
         | Inr executed \<Rightarrow>
             direct_executed cfg identity requestID invocationID plan requestDigest key record executed } }"

section \<open>The invocation request\<close>

definition read_problem :: "'w Config \<Rightarrow> http_request \<Rightarrow> Problem + string" where
  "read_problem cfg request =
     (let mediaType = Header_Get (rq_Headers request) ''Content-Type'' in
      if unsupported_version request then Inl version_problem
      else if mediaType \<noteq> MediaType \<and> \<not> HasPrefix mediaType ''application/json''
      then Inl (problem StatusUnsupportedMediaType ErrUnsupportedMediaType ''Unsupported media type''
        ''Use application/ascp+json or application/json.'' False)
      else case read_body request (cfg_MaximumBodyBytes cfg) of
          Inl err \<Rightarrow> Inl (problem StatusRequestEntityTooLarge ErrInvalidRequest ''Request body too large''
            ''The request exceeds the service's maximum JSON body size.'' False)
        | Inr body \<Rightarrow> Inr body)"

definition readAuthenticatedJSON ::
  "'w Config \<Rightarrow> headers \<Rightarrow> http_request \<Rightarrow> ('w, http_response + string \<times> Identity \<times> string) server"
where
  "readAuthenticatedJSON cfg writer request = do {
     authenticated \<leftarrow> authenticateRead cfg writer request;
     State_Monad.return (case authenticated of
         Inl response \<Rightarrow> Inl response
       | Inr (requestID, identity) \<Rightarrow>
          (case read_problem cfg request of
             Inl p \<Rightarrow> Inl (writeProblem cfg writer requestID p)
           | Inr body \<Rightarrow> Inr (requestID, identity, body))) }"

text \<open>The decision on a plan before anything is claimed: \<open>None\<close> lets the invocation go on.\<close>

definition contract_required :: "'w Config \<Rightarrow> DirectPlan \<Rightarrow> Problem" where
  "contract_required cfg plan =
     (problem StatusConflict (if dp_ReasonCode plan = [] then ErrContractRequired else dp_ReasonCode plan)
        ''Full contract flow required'' (dp_Reason plan) False)
     \<lparr>p_Extensions := [(''resolved_intent'', JStr (dp_ResolvedIntent plan)),
        (''options_uri'', JStr (mf_OptionsURI (cfg_Manifest cfg))), (''negotiate_uri'', JStr ''/v1/negotiate'')]\<rparr>"

definition plan_problem :: "'w Config \<Rightarrow> Identity \<Rightarrow> DirectPlan \<Rightarrow> Problem option" where
  "plan_problem cfg identity plan =
     (if \<not> dp_Eligible plan then Some (contract_required cfg plan)
      else if validateDirectPlan plan \<noteq> None
      then Some (problem StatusInternalServerError ErrInternal ''Invalid direct plan''
        ''The platform agent produced a direct plan that violates ASCP invariants.'' False)
      else case missing_scope identity (dp_RequiredScopes plan) of
          Some scope \<Rightarrow> Some (problem StatusForbidden ErrForbidden ''Missing delegated scope''
            (''The authenticated agent lacks required scope: '' @ scope) False)
        | None \<Rightarrow> None)"

definition approval_problem ::
  "'w Config \<Rightarrow> Identity \<Rightarrow> DirectInvocationRequest \<Rightarrow> DirectPlan \<Rightarrow> string \<Rightarrow> ('w, Problem option) server"
where
  "approval_problem cfg identity input plan requestDigest =
     (if \<not> dp_AuthorizationRequired plan then State_Monad.return None
      else case di_Authorization input of
          None \<Rightarrow> State_Monad.return (Some (problem StatusForbidden ErrAuthorizationRequired ''Authorization required''
            ''This direct invocation requires independent approval bound to the request digest.'' False))
        | Some evidence \<Rightarrow> do {
            now \<leftarrow> Now cfg;
            State_Monad.return (validateDirectAuthorization evidence identity
              (mf_ServiceID (cfg_Manifest cfg)) requestDigest now) })"

definition direct_key_problem :: "DirectPlan \<Rightarrow> string \<Rightarrow> Problem option" where
  "direct_key_problem plan key =
     (if dp_IdempotencyRequired plan \<and> \<not> validIdempotencyKey key
      then Some (problem StatusBadRequest ErrInvalidRequest ''Idempotency-Key required''
        ''This direct invocation can create a side effect or billing record and requires a 16-255 byte visible-ASCII Idempotency-Key.'' False)
      else if key \<noteq> [] \<and> \<not> validIdempotencyKey key
      then Some (problem StatusBadRequest ErrInvalidRequest ''Invalid Idempotency-Key''
        ''Idempotency-Key must contain 16 to 255 visible ASCII bytes without whitespace.'' False)
      else None)"

text \<open>Everything \<open>handleInvoke\<close> checks before the claim; \<open>Inl\<close> is the refusal.\<close>

definition invoke_guards ::
  "'w Config \<Rightarrow> Identity \<Rightarrow> string \<Rightarrow> string \<Rightarrow> ('w, Problem + DirectInvocationRequest \<times> DirectPlan) server"
where
  "invoke_guards cfg identity body key =
     (case decodeStrict cfg (js_Direct (cfg_Library cfg)) body of
        Inl p \<Rightarrow> State_Monad.return (Inl p)
      | Inr input \<Rightarrow>
          if blank (di_Intent input) \<and> blank (di_Goal input)
          then State_Monad.return (Inl (problem StatusUnprocessableEntity ErrValidationFailed ''Intent or goal required''
            ''Provide intent or goal for direct invocation.'' False))
          else do {
            invalid \<leftarrow> validateReferences cfg identity (di_ContextRefs input) (di_InputFiles input);
            case invalid of
              Some p \<Rightarrow> State_Monad.return (Inl p)
            | None \<Rightarrow> do {
                planned \<leftarrow> service_plan_direct cfg identity input;
                case planned of
                  Inl p \<Rightarrow> State_Monad.return (Inl p)
                | Inr plan \<Rightarrow>
                   (case plan_problem cfg identity plan of
                      Some p \<Rightarrow> State_Monad.return (Inl p)
                    | None \<Rightarrow> do {
                        refused \<leftarrow> approval_problem cfg identity input plan (SHA256Digest body);
                        State_Monad.return (case refused of
                            Some p \<Rightarrow> Inl p
                          | None \<Rightarrow> (case direct_key_problem plan key of
                                Some p \<Rightarrow> Inl p
                              | None \<Rightarrow> Inr (input, plan))) }) } })"

text \<open>The claim of the key: \<open>Inl\<close> is the response that ends the request.\<close>

definition claim_invocation ::
  "'w Config \<Rightarrow> headers \<Rightarrow> string \<Rightarrow> string \<Rightarrow> string \<Rightarrow> string \<Rightarrow> ('w, http_response + unit) server"
where
  "claim_invocation cfg writer requestID scope key digest = do {
     claim \<leftarrow> idempotency_begin cfg scope key digest;
     State_Monad.return (case claim of
         Inl err \<Rightarrow> Inl (writeProblem cfg writer requestID
           (problem StatusServiceUnavailable ErrServiceUnavailable ''Idempotency service unavailable''
             ''The service could not safely determine whether this invocation may begin.'' True))
       | Inr (IdempotencyReplay, replay) \<Rightarrow> Inl (writeStoredResponse writer replay requestID)
       | Inr (IdempotencyConflict, _) \<Rightarrow> Inl (writeProblem cfg writer requestID
           (problem StatusConflict ErrIdempotencyConflict ''Idempotency conflict''
             ''The same key was already used with a different invocation request.'' False))
       | Inr (IdempotencyInProgress, _) \<Rightarrow> Inl (writeProblem cfg writer requestID
           (in_progress_problem ''Invocation already in progress''
             ''Retry the identical request with the same idempotency key after the indicated delay.''))
       | Inr (IdempotencyNew, _) \<Rightarrow> Inr ()) }"

definition finish_invocation ::
  "'w Config \<Rightarrow> headers \<Rightarrow> string \<Rightarrow> string \<Rightarrow> string \<Rightarrow> string \<Rightarrow> operationResult \<Rightarrow> ('w, http_response) server"
where
  "finish_invocation cfg writer requestID scope key digest result =
     (if key = [] then State_Monad.return (writeOperationResult writer result requestID)
      else if op_ReleaseClaim result
      then do {
        _ \<leftarrow> idempotency_release cfg scope key digest;
        State_Monad.return (writeOperationResult writer result requestID) }
      else do {
        now \<leftarrow> Now cfg;
        err \<leftarrow> idempotency_complete cfg scope key
          \<lparr>sr_StatusCode = op_Status result, sr_Headers = op_Headers result, sr_Body = op_Body result,
           sr_ExpiresAt = now + cfg_IdempotencyRetention cfg\<rparr>;
        State_Monad.return (case err of
            Some e \<Rightarrow> writeProblem cfg writer requestID (invocation_problem (op_InvocationID result) (op_InvocationState result)
              (problem StatusInternalServerError ErrOutcomeUnknown ''Invocation replay state is unknown''
                ''The invocation may have completed, but its replay record could not be persisted. Do not create a new request; reconcile by invocation ID.'' False))
          | None \<Rightarrow> writeOperationResult writer result requestID) })"

definition handleInvoke :: "'w Config \<Rightarrow> headers \<Rightarrow> http_request \<Rightarrow> ('w, http_response) server" where
  "handleInvoke cfg writer request =
     attempt (readAuthenticatedJSON cfg writer request) (\<lambda>(requestID, identity, body). do {
       let key = Header_Get (rq_Headers request) ''Idempotency-Key'';
       let scope = idempotency_scope identity ''POST'' ''/v1/invoke'';
       let digest = SHA256Digest body;
       checked \<leftarrow> invoke_guards cfg identity body key;
       case checked of
         Inl p \<Rightarrow> State_Monad.return (writeProblem cfg writer requestID p)
       | Inr (input, plan) \<Rightarrow>
           attempt (if key = [] then State_Monad.return (Inr ())
                    else claim_invocation cfg writer requestID scope key digest)
             (\<lambda>_. do {
                result \<leftarrow> executeDirect cfg identity requestID input plan digest key;
                finish_invocation cfg writer requestID scope key digest result }) })"

section \<open>Catalog and preflight\<close>

definition handleInvokeOptions :: "'w Config \<Rightarrow> headers \<Rightarrow> http_response" where
  "handleInvokeOptions cfg writer =
     respond
       (Header_Set (Header_Set (Header_Set (Header_Set writer ''Allow'' ''OPTIONS, POST'')
           ''Accept-Post'' (MediaType @ '', application/json''))
           ''ASCP-Options-URI'' (mf_OptionsURI (cfg_Manifest cfg)))
         ''ASCP-Capabilities-URI'' (mf_CapabilitiesURI (cfg_Manifest cfg)))
       204 []"

definition handleOptions :: "'w Config \<Rightarrow> headers \<Rightarrow> http_request \<Rightarrow> ('w, http_response) server" where
  "handleOptions cfg writer request =
     attempt (readAuthenticatedJSON cfg writer request) (\<lambda>(requestID, identity, body).
       case decodeStrict cfg (js_Options (cfg_Library cfg)) body of
         Inl p \<Rightarrow> State_Monad.return (writeProblem cfg writer requestID p)
       | Inr input \<Rightarrow>
           if blank (or_Intent input) \<and> blank (or_Goal input)
           then State_Monad.return (writeProblem cfg writer requestID
             (problem StatusUnprocessableEntity ErrValidationFailed ''Intent or goal required''
               ''Provide intent or goal for semantic preflight.'' False))
           else do {
             invalid \<leftarrow> validateReferences cfg identity (or_ContextRefs input) (or_InputFiles input);
             case invalid of
               Some p \<Rightarrow> State_Monad.return (writeProblem cfg writer requestID p)
             | None \<Rightarrow> do {
                 response \<leftarrow> service_options cfg identity input;
                 State_Monad.return (case response of
                     Inl p \<Rightarrow> writeProblem cfg writer requestID p
                   | Inr options \<Rightarrow> writeJSON cfg writer StatusOK
                       (BOptions (options\<lparr>os_ServerRequestID := requestID\<rparr>)) [(''X-Request-ID'', requestID)]) } })"

text \<open>The query parameter \<open>limit\<close>: 0 when absent, an error when it is not between 1 and 100.\<close>

definition query_limit :: "http_request \<Rightarrow> int option" where
  "query_limit request =
     (let raw = rq_Query request ''limit'' in
      if raw = [] then Some 0
      else case ParseInt raw of
          Inl _ \<Rightarrow> None
        | Inr parsed \<Rightarrow> if parsed < 1 \<or> 100 < parsed then None else Some parsed)"

text \<open>The catalog with its defaults, read at \<open>now\<close> when the service set no time.\<close>

definition complete_catalog :: "'w Config \<Rightarrow> time \<Rightarrow> CapabilityCatalog \<Rightarrow> CapabilityCatalog" where
  "complete_catalog cfg generated catalog =
     catalog\<lparr>cc_ServiceID := mf_ServiceID (cfg_Manifest cfg), cc_GeneratedAt := generated,
       cc_ExpiresAt := (if IsZero (cc_ExpiresAt catalog) \<or> \<not> After (cc_ExpiresAt catalog) generated
         then generated + 15 * Minute else cc_ExpiresAt catalog)\<rparr>"

definition catalog_response :: "'w Config \<Rightarrow> headers \<Rightarrow> http_request \<Rightarrow> string \<Rightarrow> CapabilityCatalog \<Rightarrow> http_response" where
  "catalog_response cfg writer request requestID catalog =
     (case js_Marshal (cfg_Library cfg) (BCatalog catalog) of
        Inl err \<Rightarrow> writeProblem cfg writer requestID
          (problem StatusInternalServerError ErrInternal ''Capability serialization failed''
            ''The service could not serialize its capability catalog.'' True)
      | Inr encoded \<Rightarrow>
          let etag = CHR 0x22 # SHA256Digest encoded @ [CHR 0x22];
              cacheControl = ''private, max-age=300, must-revalidate'' in
          if Header_Get (rq_Headers request) ''If-None-Match'' = etag
          then respond (Header_Set (Header_Set (Header_Set writer ''ETag'' etag) ''Cache-Control'' cacheControl)
            ''X-Request-ID'' requestID) 304 []
          else writeJSON cfg writer StatusOK (BCatalog catalog)
            [(''ETag'', etag), (''Cache-Control'', cacheControl), (''X-Request-ID'', requestID)])"

definition handleCapabilities :: "'w Config \<Rightarrow> headers \<Rightarrow> http_request \<Rightarrow> ('w, http_response) server" where
  "handleCapabilities cfg writer request =
     attempt (authenticateRead cfg writer request) (\<lambda>(requestID, identity).
       case query_limit request of
         None \<Rightarrow> State_Monad.return (writeProblem cfg writer requestID
           (problem StatusBadRequest ErrInvalidRequest ''Invalid capability limit''
             ''limit must be an integer between 1 and 100.'' False))
       | Some limit \<Rightarrow> do {
           listed \<leftarrow> service_capabilities cfg identity
             \<lparr>cq_Query = rq_Query request ''q'', cq_Intent = rq_Query request ''intent'',
              cq_Cursor = rq_Query request ''cursor'', cq_Limit = limit\<rparr>;
           case listed of
             Inl p \<Rightarrow> State_Monad.return (writeProblem cfg writer requestID p)
           | Inr catalog \<Rightarrow> do {
               generated \<leftarrow> (if IsZero (cc_GeneratedAt catalog) then Now cfg
                 else State_Monad.return (cc_GeneratedAt catalog));
               State_Monad.return (catalog_response cfg writer request requestID
                 (complete_catalog cfg generated catalog)) } })"

section \<open>The invocation resource\<close>

definition authorizedInvocation :: "'w Config \<Rightarrow> Identity \<Rightarrow> string \<Rightarrow> ('w, Problem + InvocationRecord) server" where
  "authorizedInvocation cfg identity invocationID = do {
     found \<leftarrow> store_get_invocation cfg invocationID;
     State_Monad.return (case found of
         Inl err \<Rightarrow> Inl (problem StatusServiceUnavailable ErrServiceUnavailable ''Invocation store unavailable''
           ''The service could not determine the invocation state.'' True)
       | Inr None \<Rightarrow> Inl (problem StatusNotFound ErrNotFound ''Invocation not found''
           ''The invocation does not exist.'' False)
       | Inr (Some record) \<Rightarrow>
           if iv_Actor record \<noteq> id_Actor identity \<or> iv_Principal record \<noteq> id_Principal identity
           then Inl (problem StatusForbidden ErrForbidden ''Invocation ownership mismatch''
             ''The invocation belongs to a different delegation.'' False)
           else Inr record) }"

definition handleGetInvocation :: "'w Config \<Rightarrow> headers \<Rightarrow> http_request \<Rightarrow> string \<Rightarrow> ('w, http_response) server" where
  "handleGetInvocation cfg writer request invocationID =
     attempt (authenticateRead cfg writer request) (\<lambda>(requestID, identity). do {
       owned \<leftarrow> authorizedInvocation cfg identity invocationID;
       State_Monad.return (case owned of
           Inl p \<Rightarrow> writeProblem cfg writer requestID p
         | Inr record \<Rightarrow> writeJSON cfg writer StatusOK (BDirect (iv_Response record))
             [(''X-Request-ID'', requestID)]) })"

definition handleInvocationAudit :: "'w Config \<Rightarrow> headers \<Rightarrow> http_request \<Rightarrow> string \<Rightarrow> ('w, http_response) server" where
  "handleInvocationAudit cfg writer request invocationID =
     attempt (authenticateRead cfg writer request) (\<lambda>(requestID, identity). do {
       owned \<leftarrow> authorizedInvocation cfg identity invocationID;
       case owned of
         Inl p \<Rightarrow> State_Monad.return (writeProblem cfg writer requestID p)
       | Inr _ \<Rightarrow> do {
           listed \<leftarrow> audit_list cfg invocationID 0;
           case listed of
             Inl err \<Rightarrow> State_Monad.return (writeProblem cfg writer requestID
               (chain_unavailable ''The service could not load the invocation audit chain.''))
           | Inr events \<Rightarrow> do {
               loaded \<leftarrow> audit_root cfg invocationID;
               State_Monad.return (case loaded of
                   Inl err \<Rightarrow> writeProblem cfg writer requestID
                     (chain_unavailable ''The service could not load the invocation audit root.'')
                 | Inr root0 \<Rightarrow> writeJSON cfg writer StatusOK (BChain ''invocation_id'' invocationID events root0)
                     [(''X-Request-ID'', requestID)]) } } })"

definition handleInvocationRoutes :: "'w Config \<Rightarrow> headers \<Rightarrow> http_request \<Rightarrow> ('w, http_response) server" where
  "handleInvocationRoutes cfg writer request =
     (let parts = path_parts ''/v1/invocations/'' (rq_Path request); verb = rq_Method request in
      if parts = [] \<or> hd parts = []
      then not_routed cfg writer ''Invocation not found'' ''An invocation ID is required.''
      else if length parts = 1 \<and> verb = ''GET'' then handleGetInvocation cfg writer request (hd parts)
      else if length parts = 2 \<and> parts ! 1 = ''audit'' \<and> verb = ''GET''
      then handleInvocationAudit cfg writer request (hd parts)
      else not_routed cfg writer ''Route not found'' ''The requested invocation operation is not available.'')"

end
