(* ===== verification/Server_Routes.thy ===== *)
theory Server_Routes
  imports Direct_Flow File_Routes
begin

text \<open>
  The routes of the server (pkg/server/server.go, \<open>ServeHTTP\<close> and \<open>registerRoutes\<close>) and two
  properties of every request: nothing but the clock and the random source is used before the
  request is authenticated, and the safe methods of HTTP only read.
\<close>

section \<open>Routing\<close>

text \<open>
  \<open>http.ServeMux\<close>, for paths without percent encoding: a pattern with the method GET also takes
  HEAD, the longer pattern wins, and a path that is not in its clean form is redirected.
  \<open>mux_reply\<close> is the answer of the mux itself, when no pattern takes the request.
\<close>

definition clean_path :: "string \<Rightarrow> bool" where
  "clean_path path \<longleftrightarrow>
     (case path of
        [] \<Rightarrow> False
      | c # cs \<Rightarrow> c = CHR ''/'' \<and>
          list_all (\<lambda>s. s \<noteq> [] \<and> s \<noteq> ''.'' \<and> s \<noteq> ''..'') (butlast (Split CHR ''/'' cs)) \<and>
          last (Split CHR ''/'' cs) \<noteq> ''.'' \<and> last (Split CHR ''/'' cs) \<noteq> ''..'')"

definition on_route :: "string \<Rightarrow> string \<Rightarrow> http_request \<Rightarrow> bool" where
  "on_route verb path request \<longleftrightarrow>
     rq_Path request = path \<and> (rq_Method request = verb \<or> verb = ''GET'' \<and> rq_Method request = ''HEAD'')"

definition route ::
  "'w Config \<Rightarrow> (headers \<Rightarrow> http_request \<Rightarrow> http_response) \<Rightarrow> headers \<Rightarrow> http_request \<Rightarrow> ('w, http_response) server"
where
  "route cfg mux_reply writer request =
     (if rq_Method request \<noteq> ''CONNECT'' \<and> \<not> clean_path (rq_Path request)
      then State_Monad.return (mux_reply writer request)
      else if on_route ''GET'' ''/.well-known/ascp'' request then handleManifest cfg writer
      else if on_route ''GET'' ''/.well-known/ascp/capabilities'' request then handleCapabilities cfg writer request
      else if on_route ''GET'' ''/.well-known/jwks.json'' request then handleJWKS cfg writer
      else if on_route ''GET'' ''/healthz'' request then handleHealth cfg writer
      else if on_route ''OPTIONS'' ''/v1/invoke'' request then State_Monad.return (handleInvokeOptions cfg writer)
      else if on_route ''POST'' ''/v1/options'' request then handleOptions cfg writer request
      else if on_route ''POST'' ''/v1/invoke'' request then handleInvoke cfg writer request
      else if on_route ''POST'' ''/v1/negotiate'' request then handleNegotiate cfg writer request
      else if on_route ''POST'' ''/v1/prepare'' request then handlePrepare cfg writer request
      else if on_route ''POST'' ''/v1/commit'' request then handleCommit cfg writer request
      else if HasPrefix (rq_Path request) ''/v1/tasks/'' then handleTaskRoutes cfg writer request
      else if HasPrefix (rq_Path request) ''/v1/invocations/'' then handleInvocationRoutes cfg writer request
      else if on_route ''POST'' ''/v1/files/prepare-upload'' request then handlePrepareUpload cfg writer request
      else if HasPrefix (rq_Path request) ''/v1/files/'' then handleFileRoutes cfg writer request
      else State_Monad.return (mux_reply writer request))"

definition ServeHTTP ::
  "'w Config \<Rightarrow> (headers \<Rightarrow> http_request \<Rightarrow> http_response) \<Rightarrow> http_request \<Rightarrow> ('w, http_response) server" where
  "ServeHTTP cfg mux_reply request = route cfg mux_reply base_headers request"

section \<open>Nothing before authentication\<close>

text \<open>The events a caller without an identity can cause.\<close>

fun anonymous :: "http_request \<Rightarrow> event \<Rightarrow> bool" where
  "anonymous request (EvNow t) = True"
| "anonymous request (EvRandom raw) = True"
| "anonymous request (EvKeys keys) = True"
| "anonymous request (EvAuthenticate request' r) \<longleftrightarrow> request' = request"
| "anonymous request _ = False"

text \<open>The phase is the identity of the caller, once there is one.\<close>

definition authentication_step :: "http_request \<Rightarrow> Identity option \<Rightarrow> event \<Rightarrow> Identity option option" where
  "authentication_step request p e =
     (case p of
        Some i \<Rightarrow> Some (Some i)
      | None \<Rightarrow>
          if anonymous request e
          then Some (case e of EvAuthenticate request' (Inr i) \<Rightarrow> Some i | _ \<Rightarrow> None)
          else None)"

lemma known_follows: "uniform m \<Longrightarrow> follows (authentication_step request) (Some i) m (\<lambda>a q. q \<noteq> None)"
  by (rule follows_mono [OF uniform_follows]) (auto simp: authentication_step_def)

definition authenticated_only :: "http_request \<Rightarrow> ('w, 'a) server \<Rightarrow> bool" where
  "authenticated_only request m \<longleftrightarrow> follows (authentication_step request) None m (\<lambda>_ _. True)"

lemma only_return: "authenticated_only request (State_Monad.return a)"
  by (auto simp: authenticated_only_def intro: follows_return)

lemma follows_anonymous:
  assumes "\<And>r. anonymous request (ev r)" "\<And>r rq x. ev r \<noteq> EvAuthenticate rq x"
  shows "follows (authentication_step request) None (perform m ev) (\<lambda>_ q. q = None)"
proof (rule follows_call)
  fix r
  show "case authentication_step request None (ev r) of None \<Rightarrow> False | Some q \<Rightarrow> q = None"
    using assms(1) [of r] assms(2) [of r] by (cases "ev r") (auto simp: authentication_step_def)
qed

lemma new_id_follows: "follows (authentication_step request) None (new_id cfg prefix) (\<lambda>_ q. q = None)"
  unfolding new_id_def by (rule follows_then [OF follows_anonymous]) (auto intro: follows_return)

lemma request_id_follows: "follows (authentication_step request) None (request_id cfg request) (\<lambda>_ q. q = None)"
  unfolding request_id_def Let_def
  by (rule follows_if) (auto intro: follows_return new_id_follows)

lemma Authenticate_follows:
  "follows (authentication_step request) None (Authenticate cfg request)
     (\<lambda>r q. case r of Inl err \<Rightarrow> q = None | Inr i \<Rightarrow> q = Some i)"
  unfolding Authenticate_def by (rule follows_either) (simp_all add: authentication_step_def)

text \<open>A handler that authenticates first may do anything afterwards.\<close>

lemma authenticateRead_follows:
  "follows (authentication_step request) None (authenticateRead cfg writer request)
     (\<lambda>r q. case r of Inl response \<Rightarrow> q = None | Inr (requestID, i) \<Rightarrow> q = Some i)"
  unfolding authenticateRead_def
  by (rule follows_then [OF request_id_follows], hypsubst, rule follows_then [OF Authenticate_follows])
     (auto intro!: follows_return split: sum.splits)

lemma admit_follows:
  "follows (authentication_step request) None (admit cfg writer request)
     (\<lambda>r q. case r of Inl response \<Rightarrow> True | Inr (requestID, i, key, body) \<Rightarrow> q = Some i)"
  unfolding admit_def
  by (rule follows_then [OF request_id_follows], hypsubst, rule follows_if, rule follows_return, simp,
      rule follows_then [OF Authenticate_follows])
     (auto intro!: follows_return simp: Let_def split: sum.splits)

lemma read_follows:
  "follows (authentication_step request) None (readAuthenticatedJSON cfg writer request)
     (\<lambda>r q. case r of Inl response \<Rightarrow> True | Inr (requestID, i, body) \<Rightarrow> q = Some i)"
  unfolding readAuthenticatedJSON_def
  by (rule follows_then [OF authenticateRead_follows]) (auto intro!: follows_return split: sum.splits)

lemma only_after:
  assumes "follows (authentication_step request) None m (\<lambda>r q. case r of Inl response \<Rightarrow> True | Inr b \<Rightarrow> q = Some (who b))"
    and "\<And>b. uniform (f b)"
  shows "authenticated_only request (attempt m f)"
  unfolding authenticated_only_def
  by (rule follows_attempt_then [OF assms(1)]) (auto intro: follows_mono [OF known_follows] assms(2))

lemma only_after_read: "(\<And>requestID i. uniform (f (requestID, i))) \<Longrightarrow> authenticated_only request (attempt (authenticateRead cfg writer request) f)"
  by (rule only_after [where who = snd, OF follows_mono [OF authenticateRead_follows]]) (auto split: sum.splits)

lemma only_after_json:
  "(\<And>requestID i body. uniform (f (requestID, i, body))) \<Longrightarrow>
     authenticated_only request (attempt (readAuthenticatedJSON cfg writer request) f)"
  by (rule only_after [where who = "\<lambda>(requestID, i, body). i", OF follows_mono [OF read_follows]])
     (auto split: sum.splits)

lemma only_after_admit:
  "(\<And>requestID i key body. uniform (f (requestID, i, key, body))) \<Longrightarrow>
     authenticated_only request (attempt (admit cfg writer request) f)"
  by (rule only_after [where who = "\<lambda>(requestID, i, key, body). i", OF follows_mono [OF admit_follows]])
     (auto split: sum.splits)

lemmas only_rules = only_after_read only_after_json only_after_admit only_return

section \<open>The handlers do not read the trace\<close>

lemmas handler_defs = call_defs answer_def appendAudit_def validateReferences_def reserveBilling_def sign_projection_def
  release_reservation_def

lemma uniform_contract:
  "uniform (total_operation (negotiate cfg) i requestID body key)"
  "uniform (total_operation (prepare cfg) i requestID body key)"
  "uniform (total_operation (cancel cfg taskID) i requestID body key)"
  "uniform (total_operation (prepareUpload cfg) i requestID body key)"
  unfolding total_operation_def negotiate_def negotiate_offer_def store_offer_def prepare_def prepare_offer_def
    prepare_contract_def issue_quote_def cancel_def cancel_owned_def cancel_granted_def authorizedTask_def prepareUpload_def handler_defs
  by (rule uniform_rules)+

lemma uniform_commit: "uniform (total_operation (commit cfg) i requestID body key)"
  unfolding total_operation_def commit_def commit_task_def commit_started_def commit_executed_def commit_succeeded_def
    commit_settle_def commit_disputed_def commit_failed_def commit_receipt_def commit_response_def commit_guards_def
    attachReceipt_def handler_defs
  by (rule uniform_rules)+

lemma uniform_case_claim:
  "uniform m1 \<Longrightarrow> uniform m2 \<Longrightarrow> uniform m3 \<Longrightarrow> uniform m4 \<Longrightarrow>
     uniform (case x of IdempotencyNew \<Rightarrow> m1 | IdempotencyReplay \<Rightarrow> m2 | IdempotencyConflict \<Rightarrow> m3 | IdempotencyInProgress \<Rightarrow> m4)"
  by (cases x) auto

lemma uniform_claimed: "(\<And>i requestID body key. uniform (operation i requestID body key)) \<Longrightarrow>
    uniform (idempotency_begin cfg scope key digest \<bind> (\<lambda>claim. answer_claim cfg writer requestID
      (run_claimed cfg operation writer identity requestID key body scope digest) claim))"
  unfolding answer_claim_def run_claimed_def finish_claimed_def call_defs
  by (rule uniform_rules uniform_case_claim | assumption)+

lemma only_mutating: "(\<And>i requestID body key. uniform (operation i requestID body key)) \<Longrightarrow>
    authenticated_only request (handleMutating cfg operation writer request)"
  unfolding handleMutating_def by (rule only_after_admit) (simp add: Let_def uniform_claimed)

lemma only_invoke: "authenticated_only request (handleInvoke cfg writer request)"
  unfolding handleInvoke_def invoke_guards_def approval_problem_def claim_invocation_def executeDirect_def direct_failed_def
    direct_executed_def direct_bad_price_def direct_settle_def direct_record_def finish_invocation_def handler_defs
  by (rule only_rules uniform_rules | simp only: prod.case)+

lemma only_reads:
  "authenticated_only request (handleCapabilities cfg writer request)"
  "authenticated_only request (handleOptions cfg writer request)"
  "authenticated_only request (handleGetTask cfg writer request i)"
  "authenticated_only request (handleEvents cfg writer request i)"
  "authenticated_only request (handleAudit cfg writer request i)"
  "authenticated_only request (handleGetInvocation cfg writer request i)"
  "authenticated_only request (handleInvocationAudit cfg writer request i)"
  "authenticated_only request (handleUploadContent cfg writer request i)"
  "authenticated_only request (handleGetFile cfg writer request i)"
  "authenticated_only request (handleDownloadContent cfg writer request i)"
  unfolding handleCapabilities_def handleOptions_def handleGetTask_def handleEvents_def handleAudit_def
    handleGetInvocation_def handleInvocationAudit_def handleUploadContent_def handleGetFile_def handleDownloadContent_def
    authorizedTask_def authorizedInvocation_def handler_defs
  by (rule only_rules uniform_rules | simp only: prod.case)+

lemma only_public:
  "authenticated_only request (handleManifest cfg writer)" "authenticated_only request (handleJWKS cfg writer)"
  "authenticated_only request (handleHealth cfg writer)"
  unfolding authenticated_only_def handleManifest_def handleJWKS_def handleHealth_def Now_def signer_keys_def
  by (rule follows_then [OF follows_anonymous], simp, simp, rule follows_return, simp)+

lemma only_not_routed: "authenticated_only request (not_routed cfg writer title detail)"
  unfolding authenticated_only_def not_routed_def
  by (rule follows_then [OF new_id_follows], rule follows_return, simp)

lemma only_if: "authenticated_only request m \<Longrightarrow> authenticated_only request n \<Longrightarrow> authenticated_only request (if b then m else n)"
  by simp

lemma ServeHTTP_authenticated: "authenticated_only request (ServeHTTP cfg mux_reply request)"
  unfolding ServeHTTP_def route_def handleTaskRoutes_def handleInvocationRoutes_def handleFileRoutes_def
    handleNegotiate_def handlePrepare_def handleCommit_def handlePrepareUpload_def Let_def
  by (rule only_if only_return only_reads only_public only_not_routed only_invoke only_mutating
      uniform_contract uniform_commit)+

lemma caller_known:
  assumes "advance (authentication_step request) None es = Some p"
  shows "case p of None \<Rightarrow> list_all (anonymous request) es | Some i \<Rightarrow> EvAuthenticate request (Inr i) \<in> set es"
proof (rule advance_history [OF _ _ assms])
  fix es p e p'
  assume "case p of None \<Rightarrow> list_all (anonymous request) es | Some i \<Rightarrow> EvAuthenticate request (Inr i) \<in> set es"
    and "authentication_step request p e = Some p'"
  then show "case p' of None \<Rightarrow> list_all (anonymous request) (es @ [e])
    | Some i \<Rightarrow> EvAuthenticate request (Inr i) \<in> set (es @ [e])"
    by (cases e) (auto simp: authentication_step_def split: option.splits if_splits sum.splits)
qed simp

lemma authenticated_before:
  assumes "authenticated_only request m" "events_of m w = before @ e # after" "\<not> anonymous request e"
  shows "\<exists>i. EvAuthenticate request (Inr i) \<in> set before"
proof -
  obtain p' where "advance (authentication_step request) None (before @ e # after) = Some p'"
    using follows_run [OF assms(1) [unfolded authenticated_only_def], of w] assms(2) by metis
  from advance_prefix [OF this] obtain p p'' where
    "advance (authentication_step request) None before = Some p" "authentication_step request p e = Some p''"
    by blast
  with caller_known [OF this(1)] assms(3) show ?thesis
    by (auto simp: authentication_step_def split: option.splits)
qed

section \<open>Safe methods\<close>

text \<open>The calls that only read.\<close>

fun reads :: "event \<Rightarrow> bool" where
  "reads (EvNow t) = True"
| "reads (EvRandom raw) = True"
| "reads (EvAuthenticate request r) = True"
| "reads EvService = True"
| "reads (EvGetTask i r) = True"
| "reads (EvGetQuote i r) = True"
| "reads (EvGetInvocation i r) = True"
| "reads (EvAuditList i n r) = True"
| "reads (EvAuditRoot i r) = True"
| "reads (EvFileGet i r) = True"
| "reads (EvFileContent i r) = True"
| "reads (EvKeys keys) = True"
| "reads _ = False"

lemmas read_handler_defs = handleManifest_def handleJWKS_def handleHealth_def not_routed_def handleCapabilities_def
  handleGetTask_def handleEvents_def handleAudit_def handleGetInvocation_def handleInvocationAudit_def handleGetFile_def
  handleDownloadContent_def authenticateRead_def request_id_def authorizedTask_def authorizedInvocation_def call_defs

lemma handler_reads:
  "emits reads (handleManifest cfg writer)" "emits reads (handleJWKS cfg writer)" "emits reads (handleHealth cfg writer)"
  "emits reads (not_routed cfg writer title detail)" "emits reads (handleCapabilities cfg writer request)"
  "emits reads (handleGetTask cfg writer request i)" "emits reads (handleEvents cfg writer request i)"
  "emits reads (handleAudit cfg writer request i)" "emits reads (handleGetInvocation cfg writer request i)"
  "emits reads (handleInvocationAudit cfg writer request i)" "emits reads (handleGetFile cfg writer request i)"
  "emits reads (handleDownloadContent cfg writer request i)"
  unfolding read_handler_defs by (rule emits_rules | simp only: reads.simps)+

lemma ServeHTTP_reads:
  assumes "rq_Method request = ''GET'' \<or> rq_Method request = ''HEAD'' \<or> rq_Method request = ''OPTIONS''"
  shows "emits reads (ServeHTTP cfg mux_reply request)"
proof -
  have post: "\<not> on_route ''POST'' path request" "rq_Method request \<noteq> ''POST''" "rq_Method request \<noteq> ''PUT''" for path
    using assms by (auto simp: on_route_def)
  show ?thesis
    unfolding ServeHTTP_def route_def handleTaskRoutes_def handleInvocationRoutes_def handleFileRoutes_def Let_def
    by (simp only: post simp_thms if_False) (rule emits_if emits_return handler_reads)+
qed

end
