(* ===== verification/Agreement.thy ===== *)
theory Agreement
  imports Client_Protocol Reference_Server Offer_Protocol Server_Routes
begin

text \<open>
  The engine and the client library composed: every document that a route of the engine stores as
  signed carries the answer of the signer for its own projection, so that the client's checks of the
  signature accept it. The locale \<open>honest_signer\<close> states what the engine needs of its signer.
\<close>

section \<open>Sealed documents\<close>

fun sealed_as :: "Signature \<Rightarrow> body_value \<Rightarrow> body_value" where
  "sealed_as sg (BQuote q) = BQuote (q\<lparr>q_Signature := sg\<rparr>)"
| "sealed_as sg (BReceipt r) = BReceipt (r\<lparr>rc_Signature := sg\<rparr>)"
| "sealed_as sg (BInvocationReceipt r) = BInvocationReceipt (r\<lparr>ir_Signature := sg\<rparr>)"
| "sealed_as sg v = v"

fun seal_of :: "body_value \<Rightarrow> Signature" where
  "seal_of (BQuote q) = q_Signature q"
| "seal_of (BReceipt r) = rc_Signature r"
| "seal_of (BInvocationReceipt r) = ir_Signature r"
| "seal_of _ = zero_Signature"

lemma sealed_again [simp]: "sealed_as sg (sealed_as sg' v) = sealed_as sg v"
  by (cases v) simp_all

lemma sealed_self: "sealed_as (seal_of v) v = v"
  by (cases v) simp_all

text \<open>The document carries a signature that \<open>signs\<close> allows for its projection without one.\<close>

definition sealed :: "'w Config \<Rightarrow> (raw_object \<Rightarrow> Signature result \<Rightarrow> bool) \<Rightarrow> body_value \<Rightarrow> bool" where
  "sealed cfg signs v \<longleftrightarrow>
     (\<exists>object. SigningProjection (js_Marshal (cfg_Library cfg)) (js_Object (cfg_Library cfg)) (sealed_as zero_Signature v) = Inr object \<and>
        signs object (Inr (seal_of v)))"

text \<open>Every document an event stores is sealed, and a quote satisfies the semantics of the protocol.\<close>

fun seals :: "'w Config \<Rightarrow> (raw_object \<Rightarrow> Signature result \<Rightarrow> bool) \<Rightarrow> event \<Rightarrow> bool" where
  "seals cfg signs (EvPutQuote q r) \<longleftrightarrow> sealed cfg signs (BQuote q) \<and>
     ValidateQuoteSemantics (lib_ParseURL (cfg_Library cfg)) q = None \<and> q_ServiceID q = mf_ServiceID (cfg_Manifest cfg)"
| "seals cfg signs (EvPutInvocation kept r) \<longleftrightarrow> sealed cfg signs (BInvocationReceipt (dr_Receipt (iv_Response kept)))"
| "seals cfg signs (EvPutTask t r) \<longleftrightarrow> t_Receipt t = None"
| "seals cfg signs (EvUpdateTask i f r) \<longleftrightarrow>
     (\<forall>t t'. f t = Inr t' \<longrightarrow> t_Receipt t' = t_Receipt t \<or> (\<exists>rc. t_Receipt t' = Some rc \<and> sealed cfg signs (BReceipt rc)))"
| "seals cfg signs _ = True"

section \<open>The engine over a signer\<close>

locale honest_signer =
  fixes cfg :: "'w Config" and signs :: "raw_object \<Rightarrow> Signature result \<Rightarrow> bool"
  assumes signed_answer: "signs object (fst (sig_SignJSON (cfg_Signer cfg) object w))"
begin

lemma yields_sign: "yields (sign_json cfg object) (signs object)"
  unfolding sign_json_def yields_def by (intro allI runs_perform) (metis signed_answer fst_conv)

lemma yields_projection:
  "yields (sign_projection cfg v f g) (\<lambda>r. \<forall>sg. r = Inr sg \<longrightarrow> (\<exists>object.
     SigningProjection (js_Marshal (cfg_Library cfg)) (js_Object (cfg_Library cfg)) v = Inr object \<and> signs object (Inr sg)))"
  unfolding sign_projection_def
  by (rule yields_case_sum, rule yields_return, simp, rule yields_bind, rule yields_mono [OF yields_sign], rule yields_return)
     (auto split: sum.splits)

lemma emits_calls:
  "emits (seals cfg signs) (sign_projection cfg v f g)" "emits (seals cfg signs) (appendAudit cfg k e actor data)"
  "emits (seals cfg signs) (Now cfg)" "emits (seals cfg signs) (new_id cfg prefix)" "emits (seals cfg signs) (audit_root cfg k)"
  unfolding sign_projection_def appendAudit_def call_defs by (rule emits_rules | simp only: seals.simps)+

lemma emits_signed:
  fixes f :: "'a + Signature \<Rightarrow> ('w, 'b) server"
  assumes "\<And>err. emits (seals cfg signs) (f (Inl err))"
    and "\<And>object sg. SigningProjection (js_Marshal (cfg_Library cfg)) (js_Object (cfg_Library cfg)) v = Inr object \<Longrightarrow>
      signs object (Inr sg) \<Longrightarrow> emits (seals cfg signs) (f (Inr sg))"
  shows "emits (seals cfg signs) (State_Monad.bind (sign_projection cfg v g h) f)"
proof (rule emits_bind_yields [OF emits_calls(1) yields_projection])
  fix r :: "'a + Signature"
  assume "\<forall>sg. r = Inr sg \<longrightarrow> (\<exists>object.
    SigningProjection (js_Marshal (cfg_Library cfg)) (js_Object (cfg_Library cfg)) v = Inr object \<and> signs object (Inr sg))"
  with assms show "emits (seals cfg signs) (f r)" by (cases r) auto
qed

lemma emits_issue: "emits (seals cfg signs) (issue_quote cfg i requestID (new_quote cfg i input offer contract quoteID now))"
proof -
  let ?q = "new_quote cfg i input offer contract quoteID now"
  have zero: "?q\<lparr>q_Signature := zero_Signature\<rparr> = ?q" "q_ServiceID ?q = mf_ServiceID (cfg_Manifest cfg)"
    by (simp_all add: new_quote_def)
  show ?thesis
    unfolding issue_quote_def attempt_def
    unfolding store_put_quote_def
    by (cases "ValidateQuoteSemantics (lib_ParseURL (cfg_Library cfg)) ?q")
       (simp_all only: simp_thms if_True if_False option.distinct not_False_eq_True sum.case Let_def,
        (rule emits_signed emits_return emits_calls emits_bind emits_perform emits_case_option
          | simp add: zero sealed_def ValidateQuoteSemantics_signature)+)
qed

lemma emits_prepare: "emits (seals cfg signs) (prepare cfg i requestID body key)"
  unfolding prepare_def prepare_offer_def prepare_contract_def validateReferences_def answer_def call_defs
  by (rule emits_rules emits_issue | simp only: seals.simps)+

lemma emits_receipt: "emits (seals cfg signs) (attachReceipt cfg task quote actor artifacts bd)"
proof -
  have zero: "(new_receipt task quote artifacts bd receiptID root0 now)\<lparr>rc_Signature := zero_Signature\<rparr> =
      new_receipt task quote artifacts bd receiptID root0 now" for receiptID root0 now
    by (simp add: new_receipt_def)
  show ?thesis
    unfolding attachReceipt_def Let_def store_update_task_def
    by (simp only: sum.case
        | rule emits_signed emits_return emits_calls emits_bind emits_perform emits_case_sum emits_case_prod emits_case_option
        | simp add: zero sealed_def)+
qed

lemma emits_record: "emits (seals cfg signs)
    (direct_record cfg i requestID invocationID plan requestDigest key executed state status record)"
proof -
  have zero: "(new_invocation_receipt cfg invocationID plan requestDigest state artifacts record root0 receiptID now)
      \<lparr>ir_Signature := zero_Signature\<rparr> =
      new_invocation_receipt cfg invocationID plan requestDigest state artifacts record root0 receiptID now"
    for artifacts root0 receiptID now
    by (simp add: new_invocation_receipt_def)
  show ?thesis
    unfolding direct_record_def attempt_def Let_def store_put_invocation_def
    by (simp only: sum.case
        | rule emits_signed emits_return emits_calls emits_bind emits_perform emits_case_sum emits_case_option
        | simp add: zero sealed_def)+
qed

lemma emits_release: "emits (seals cfg signs) (release_reservation cfg record key)"
  unfolding release_reservation_def call_defs by (rule emits_rules | simp only: seals.simps)+

lemma emits_reserve: "emits (seals cfg signs) (reserveBilling cfg i contractID digest terms authorization amount key)"
  unfolding reserveBilling_def call_defs by (rule emits_rules | simp only: seals.simps)+

lemma emits_update:
  "(\<And>t t'. f t = Inr t' \<Longrightarrow> t_Receipt t' = t_Receipt t) \<Longrightarrow> emits (seals cfg signs) (store_update_task cfg k f)"
  unfolding store_update_task_def by (rule emits_perform) auto

lemma voided_billing_receipt [simp]: "t_Receipt (voided_billing voided t) = t_Receipt t"
  by (simp add: voided_billing_def split: option.split)

lemma bind_settlement_receipt: "bind_settlement settlement t = Inr t' \<Longrightarrow> t_Receipt t' = t_Receipt t"
  by (auto simp: bind_settlement_def split: option.splits)

lemma new_task_receipt [simp]: "t_Receipt (new_task taskID input quote record now) = None"
  by (simp add: new_task_def zero_Task_def)

lemma emits_commit_calls:
  "emits (seals cfg signs) (store_put_task cfg (new_task taskID input quote record now))"
  "emits (seals cfg signs) (service_execute cfg i t q)"
  "emits (seals cfg signs) (billing_settle cfg ref amount key)"
  "emits (seals cfg signs) (VerifyAuthorization cfg i q e)"
  "emits (seals cfg signs) (store_get_quote cfg key)"
  unfolding call_defs by (rule emits_perform, simp)+

lemma emits_commit: "emits (seals cfg signs) (commit cfg i requestID body key)"
  unfolding commit_def commit_task_def commit_started_def commit_executed_def commit_succeeded_def
    commit_settle_def commit_disputed_def commit_failed_def commit_receipt_def commit_response_def commit_guards_def
    validateReferences_def answer_def files_validate_def Let_def
  by (rule emits_rules emits_receipt emits_release emits_reserve emits_calls emits_commit_calls emits_update
      | auto dest: bind_settlement_receipt)+

lemma emits_mutations:
  "emits (seals cfg signs) (negotiate cfg i requestID body key)"
  "emits (seals cfg signs) (cancel cfg taskID i requestID body key)"
  "emits (seals cfg signs) (prepareUpload cfg i requestID body key)"
  unfolding negotiate_def negotiate_offer_def store_offer_def cancel_def cancel_owned_def cancel_granted_def authorizedTask_def
    prepareUpload_def validateReferences_def answer_def appendAudit_def release_reservation_def Let_def
    store_update_task_def call_defs
  by (rule emits_rules | auto simp: cancel_task_def)+

lemma emits_total: "(\<And>i requestID body key. emits (seals cfg signs) (operation i requestID body key)) \<Longrightarrow>
    emits (seals cfg signs) (total_operation operation i requestID body key)"
  unfolding total_operation_def by (rule emits_rules | assumption)+

lemma emits_mutating:
  "(\<And>i requestID body key. emits (seals cfg signs) (operation i requestID body key)) \<Longrightarrow>
    emits (seals cfg signs) (handleMutating cfg operation writer request)"
  unfolding handleMutating_def admit_def request_id_def answer_claim_def run_claimed_def finish_claimed_def call_defs Let_def
  by (rule emits_rules emits_claim_case | assumption | simp only: seals.simps)+

lemma emits_invoke: "emits (seals cfg signs) (handleInvoke cfg writer request)"
  unfolding handleInvoke_def invoke_guards_def approval_problem_def claim_invocation_def executeDirect_def direct_failed_def
    direct_executed_def direct_bad_price_def direct_settle_def finish_invocation_def answer_def Let_def
    request_id_def idempotency_begin_def idempotency_complete_def idempotency_release_def service_plan_direct_def service_execute_direct_def
    files_validate_def validateReferences_def Authenticate_def billing_settle_def billing_release_def readAuthenticatedJSON_def authenticateRead_def
  by (rule emits_rules emits_claim_case emits_record emits_release emits_reserve emits_calls | simp only: seals.simps)+

lemma emits_reads:
  "emits (seals cfg signs) (handleManifest cfg writer)" "emits (seals cfg signs) (handleJWKS cfg writer)"
  "emits (seals cfg signs) (handleHealth cfg writer)"
  "emits (seals cfg signs) (not_routed cfg writer title detail)" "emits (seals cfg signs) (handleCapabilities cfg writer request)"
  "emits (seals cfg signs) (handleOptions cfg writer request)"
  "emits (seals cfg signs) (handleGetTask cfg writer request i)" "emits (seals cfg signs) (handleEvents cfg writer request i)"
  "emits (seals cfg signs) (handleAudit cfg writer request i)" "emits (seals cfg signs) (handleGetInvocation cfg writer request i)"
  "emits (seals cfg signs) (handleInvocationAudit cfg writer request i)" "emits (seals cfg signs) (handleGetFile cfg writer request i)"
  "emits (seals cfg signs) (handleUploadContent cfg writer request i)"
  "emits (seals cfg signs) (handleDownloadContent cfg writer request i)"
  unfolding read_handler_defs handleOptions_def handleUploadContent_def readAuthenticatedJSON_def answer_def
    validateReferences_def appendAudit_def
  by (rule emits_rules | simp only: seals.simps)+

lemma emits_ServeHTTP: "emits (seals cfg signs) (ServeHTTP cfg mux_reply request)"
  unfolding ServeHTTP_def route_def handleTaskRoutes_def handleInvocationRoutes_def handleFileRoutes_def
    handleNegotiate_def handlePrepare_def handleCommit_def handlePrepareUpload_def Let_def
  by (rule emits_if emits_return emits_reads emits_invoke emits_mutating emits_total emits_commit emits_prepare emits_mutations)+

end

interpretation reference_signs: honest_signer "reference_engine env"
    "\<lambda>object r. \<exists>now. r = SignJSON (en_ed25519 env) (en_header_codec env) (en_object_codec env) (en_Signer env) now object" for env
  by unfold_locales (auto simp: reference_parts reference_sign_def on_defs)

section \<open>Accepted by the client\<close>

text \<open>The client uses the packages of the server: Ed25519 and encoding/json.\<close>

definition same_packages :: "environment \<Rightarrow> verifier \<Rightarrow> bool" where
  "same_packages env vf \<longleftrightarrow> vf_ed25519 vf = en_ed25519 env \<and> vf_header vf = en_header_codec env \<and>
     vf_object vf = en_object_codec env \<and> vf_Marshal vf = js_Marshal (en_Library env) \<and>
     vf_Object vf = js_Object (en_Library env) \<and> vf_ParseURL vf = lib_ParseURL (en_Library env)"

text \<open>
  What encoding/json documents: the header of a signature and the members of an encoded document
  survive encoding and decoding, and another signature changes only the member \<open>signature\<close>.
\<close>

definition lawful_JSON :: "environment \<Rightarrow> bool" where
  "lawful_JSON env \<longleftrightarrow>
     (\<forall>t. codec_ok (en_header_codec env)
        \<lparr>jh_Algorithm = ''EdDSA'', jh_KeyID = sn_keyID (en_Signer env), jh_Type = ''ascp+jws'', jh_IssuedAt = t\<rparr>) \<and>
     (\<forall>v encoded object. js_Marshal (en_Library env) v = Inr encoded \<longrightarrow>
        js_Object (en_Library env) encoded = Inr (Some object) \<longrightarrow>
        codec_ok (en_object_codec env) (object(''signature'' := None))) \<and>
     (\<forall>v sg encoded encoded' object. js_Marshal (en_Library env) v = Inr encoded \<longrightarrow>
        js_Marshal (en_Library env) (sealed_as sg v) = Inr encoded' \<longrightarrow> js_Object (en_Library env) encoded = Inr (Some object) \<longrightarrow>
        (\<exists>object'. js_Object (en_Library env) encoded' = Inr (Some object') \<and>
           object'(''signature'' := None) = object(''signature'' := None)))"

lemma sealed_accepted:
  assumes "same_packages env vf" "lawful_JSON env" "key_pair (en_ed25519 env) (en_Signer env)"
    and "sealed (reference_engine env)
      (\<lambda>object r. \<exists>now. r = SignJSON (en_ed25519 env) (en_header_codec env) (en_object_codec env) (en_Signer env) now object) v"
    and "js_Marshal (en_Library env) v = Inr body"
  shows "verifySignedProjection vf v (seal_of v) (sn_publicKey (en_Signer env)) d = None"
proof -
  let ?M = "js_Marshal (en_Library env)" and ?O = "js_Object (en_Library env)"
  have lib: "cfg_Library (reference_engine env) = en_Library env" by (simp add: reference_parts)
  from assms(4) obtain object now where object: "SigningProjection ?M ?O (sealed_as zero_Signature v) = Inr object"
    and signed: "SignJSON (en_ed25519 env) (en_header_codec env) (en_object_codec env) (en_Signer env) now object = Inr (seal_of v)"
    unfolding sealed_def lib by metis
  from object obtain encoded full where encoded: "?M (sealed_as zero_Signature v) = Inr encoded" "?O encoded = Inr (Some full)"
    "object = full(''signature'' := None)"
    unfolding SigningProjection_Inr by blast
  have whole: "sealed_as (seal_of v) (sealed_as zero_Signature v) = v" by (simp add: sealed_self)
  then have "\<exists>object'. ?O body = Inr (Some object') \<and> object'(''signature'' := None) = full(''signature'' := None)"
    using assms(2,5) encoded unfolding lawful_JSON_def by metis
  then have projected: "SigningProjection ?M ?O v = Inr object"
    using assms(5) encoded(3) unfolding SigningProjection_Inr by metis
  have codec: "codec_ok (en_object_codec env) object"
    using assms(2) encoded unfolding lawful_JSON_def by metis
  then obtain json where json: "marshal (en_object_codec env) object = Inr json" by (auto simp: codec_ok_def)
  have "VerifyJSON (en_ed25519 env) (en_header_codec env) (en_object_codec env) (seal_of v) (sn_publicKey (en_Signer env)) = Inr object"
    using sign_verify [OF assms(3) codec] assms(2) signed unfolding lawful_JSON_def by (metis sum.inject(2))
  moreover have "object ''signature'' = None" using encoded(3) by simp
  ultimately show ?thesis
    using projected json assms(1) by (simp add: verifySignedProjection_None projected_def same_packages_def)
qed

text \<open>A document that an event stores, if it can be encoded, passes the client's check of it.\<close>

fun accepted :: "verifier \<Rightarrow> Manifest \<Rightarrow> string \<Rightarrow> event \<Rightarrow> bool" where
  "accepted vf manifest publicKey (EvPutQuote q r) \<longleftrightarrow>
     (\<forall>body. vf_Marshal vf (BQuote q) = Inr body \<longrightarrow> VerifyQuoteForManifest vf q manifest publicKey = None)"
| "accepted vf manifest publicKey (EvPutInvocation kept r) \<longleftrightarrow>
     (\<forall>body. vf_Marshal vf (BInvocationReceipt (dr_Receipt (iv_Response kept))) = Inr body \<longrightarrow>
        verifySignedProjection vf (BInvocationReceipt (dr_Receipt (iv_Response kept)))
          (ir_Signature (dr_Receipt (iv_Response kept))) publicKey ''invocation receipt'' = None)"
| "accepted vf manifest publicKey (EvPutTask t r) \<longleftrightarrow> t_Receipt t = None"
| "accepted vf manifest publicKey (EvUpdateTask i f r) \<longleftrightarrow>
     (\<forall>t t' rc. f t = Inr t' \<longrightarrow> t_Receipt t' = Some rc \<longrightarrow> t_Receipt t = Some rc \<or>
        (\<forall>body. vf_Marshal vf (BReceipt rc) = Inr body \<longrightarrow> VerifyReceipt vf rc publicKey = None))"
| "accepted vf manifest publicKey _ = True"

lemma seals_accepted:
  assumes "same_packages env vf" "lawful_JSON env" "key_pair (en_ed25519 env) (en_Signer env)"
    and "seals (reference_engine env)
      (\<lambda>object r. \<exists>now. r = SignJSON (en_ed25519 env) (en_header_codec env) (en_object_codec env) (en_Signer env) now object) e"
  shows "accepted vf (cfg_Manifest (reference_engine env)) (sn_publicKey (en_Signer env)) e"
proof -
  note seal = sealed_accepted [OF assms(1-3)]
  have marshal: "vf_Marshal vf = js_Marshal (en_Library env)" "vf_ParseURL vf = lib_ParseURL (cfg_Library (reference_engine env))"
    using assms(1) by (simp_all add: same_packages_def reference_parts)
  have manifest: "ProtocolVersion \<in> set (mf_Versions (cfg_Manifest (reference_engine env)))"
    "mf_ServiceID (cfg_Manifest (reference_engine env)) \<noteq> []"
    by (simp_all add: reference_parts default_manifest_def reference_manifest_def set_default_def)
  have version: "wf_quote parse q \<Longrightarrow> q_ProtocolVersion q = ProtocolVersion" for parse q
    by (simp add: wf_quote_def identity_ok_def)
  show ?thesis
  proof (cases e)
    case (EvPutQuote q r)
    with assms(4) have q: "wf_quote (vf_ParseURL vf) q" "q_ServiceID q = mf_ServiceID (cfg_Manifest (reference_engine env))"
      and sealed: "sealed (reference_engine env)
        (\<lambda>object r. \<exists>now. r = SignJSON (en_ed25519 env) (en_header_codec env) (en_object_codec env) (en_Signer env) now object)
        (BQuote q)"
      by (simp_all add: marshal ValidateQuoteSemantics_wf)
    from seal [OF sealed] manifest version [OF q(1)] q EvPutQuote show ?thesis
      by (simp add: VerifyQuoteForManifest_None VerifyQuote_None marshal(1))
  next
    case (EvPutInvocation kept r)
    with assms(4) seal [of "BInvocationReceipt (dr_Receipt (iv_Response kept))"] show ?thesis by (simp add: marshal)
  next
    case (EvUpdateTask i f r)
    with assms(4) show ?thesis
      using seal by (fastforce simp: marshal VerifyReceipt_def)
  qed (use assms(4) in simp_all)
qed

lemma stored_documents_accepted:
  assumes "same_packages env vf" "lawful_JSON env" "key_pair (en_ed25519 env) (en_Signer env)"
  shows "list_all (accepted vf (cfg_Manifest (reference_engine env)) (sn_publicKey (en_Signer env)))
    (events_of (ServeHTTP (reference_engine env) mux_reply request) w)"
  using emits_events [OF reference_signs.emits_ServeHTTP, of env mux_reply request w] seals_accepted [OF assms]
  by (auto simp: list_all_iff)

end
