(* ===== verification/Server_Start.thy ===== *)
theory Server_Start
  imports Reference_Server
begin

text \<open>
  The start of the reference server (cmd/ascp-server/main.go): the signing key from the environment
  or a fresh one, and the engine over it. encoding/base64 with the standard alphabet is here, with
  and without padding; the listener, its timeouts and the shutdown signals are net/http.
\<close>

section \<open>Standard base64\<close>

definition std_val :: "char \<Rightarrow> nat option" where
  "std_val c = (if c = CHR ''+'' then Some 62 else if c = CHR ''/'' then Some 63
     else if c \<in> {CHR ''-'', CHR ''_''} then None else b64_val c)"

definition std_digits :: "string \<Rightarrow> string option" where
  "std_digits body = (let vs = map std_val body in if None \<in> set vs then None else b64_quanta (map the vs))"

definition without_newlines :: "string \<Rightarrow> string" where
  "without_newlines s = filter (\<lambda>c. c \<notin> {CHR 0x0A, CHR 0x0D}) s"

text \<open>\<open>base64.RawStdEncoding.DecodeString\<close>.\<close>

definition raw_std_decode :: "string \<Rightarrow> string option" where
  "raw_std_decode s = std_digits (without_newlines s)"

text \<open>\<open>base64.StdEncoding.DecodeString\<close>: the last quantum is full or padded to four characters.\<close>

definition std_decode :: "string \<Rightarrow> string option" where
  "std_decode s =
     (let t = without_newlines s;
          body = takeWhile (\<lambda>c. c \<noteq> CHR ''='') t;
          padding = dropWhile (\<lambda>c. c \<noteq> CHR ''='') t in
      if (length body mod 4 = 0 \<and> padding = []) \<or> (length body mod 4 = 2 \<and> padding = ''=='') \<or>
         (length body mod 4 = 3 \<and> padding = ''='')
      then std_digits body else None)"

section \<open>The signing key\<close>

text \<open>The signer and whether it is ephemeral; \<open>generated\<close> is the outcome of \<open>ed25519.GenerateKey\<close>.\<close>

definition loadSigner :: "ed25519 \<Rightarrow> string result \<Rightarrow> (string \<Rightarrow> string) \<Rightarrow> Signer result \<times> bool" where
  "loadSigner ed generated getenv =
     (let encoded = TrimSpace (getenv ''ASCP_SIGNING_PRIVATE_KEY_B64'') in
      if encoded = [] then (NewSigner ed generated ''reference-ephemeral-1'', True)
      else case (case std_decode encoded of Some raw \<Rightarrow> Some raw | None \<Rightarrow> raw_std_decode encoded) of
          None \<Rightarrow> (Inl (New_error ''illegal base64 data''), False)
        | Some raw \<Rightarrow>
            if length raw \<noteq> PrivateKeySize
            then (Inl (New_error ''ASCP_SIGNING_PRIVATE_KEY_B64 must decode to a 64-byte Ed25519 private key''), False)
            else (NewSignerFromPrivateKey ed (getenv_or getenv ''ASCP_SIGNING_KEY_ID'' ''reference-1'') raw, False))"

text \<open>The engine that the program serves; \<open>base\<close> holds the packages.\<close>

definition start_server :: "environment \<Rightarrow> string result \<Rightarrow> (string \<Rightarrow> string) \<Rightarrow> (world Config) result" where
  "start_server base generated getenv =
     (case fst (loadSigner (en_ed25519 base) generated getenv) of
        Inl err \<Rightarrow> Inl err
      | Inr signer \<Rightarrow> New False (reference_config (base\<lparr>en_BaseURL := base_url getenv, en_Token := demo_token getenv,
          en_Signer := signer\<rparr>)))"

section \<open>Keys survive the environment\<close>

text \<open>The standard encoding of a key, without its padding, by translation of the alphabet.\<close>

definition std_char :: "char \<Rightarrow> char" where
  "std_char c = (if c = CHR ''-'' then CHR ''+'' else if c = CHR ''_'' then CHR ''/'' else c)"

definition raw_std_encode :: "string \<Rightarrow> string" where
  "raw_std_encode s = map std_char (base64_encode s)"

lemma std_table: "list_all (\<lambda>i. std_val (std_char (b64_char i)) = Some i \<and> visible (std_char (b64_char i)) \<and>
    std_char (b64_char i) \<noteq> CHR ''='') [0..<64]"
  by code_simp

lemma std_val_char [simp]: "i < 64 \<Longrightarrow> std_val (std_char (b64_char i)) = Some i"
  using std_table by (simp add: list_all_iff)

lemma raw_std_visible: "c \<in> set (raw_std_encode s) \<Longrightarrow> visible c \<and> c \<noteq> CHR ''=''"
  using std_table sextets_less [of s] by (auto simp: raw_std_encode_def base64_encode_sextets list_all_iff)

lemma raw_std_plain: "without_newlines (raw_std_encode s) = raw_std_encode s"
  unfolding without_newlines_def
  by (auto simp: filter_id_conv dest: raw_std_visible visible_not_newline)

lemma std_digits_encode: "std_digits (raw_std_encode s) = Some s"
proof -
  have "map std_val (raw_std_encode s) = map Some (sextets s)"
    using sextets_less [of s] by (simp add: raw_std_encode_def base64_encode_sextets)
  moreover have "None \<notin> set (map Some (sextets s))" by auto
  ultimately show ?thesis
    unfolding std_digits_def Let_def by (simp only: if_False map_map o_def option.sel map_ident b64_quanta_sextets)
qed

lemma length_sextets: "length s mod 3 = 1 \<Longrightarrow> length (sextets s) mod 4 = 2"
proof -
  have step: "Suc (Suc (Suc n)) mod 3 = n mod 3" "Suc (Suc (Suc (Suc n))) mod 4 = n mod 4" for n :: nat
    by presburger+
  show "length s mod 3 = 1 \<Longrightarrow> length (sextets s) mod 4 = 2"
    by (induction s rule: sextets.induct) (simp_all add: step)
qed

text \<open>A key in the environment, padded or not, is the key of the signer.\<close>

lemma std_decode_key:
  assumes "length s mod 3 = 1"
  shows "std_decode (raw_std_encode s @ ''=='') = Some s" "std_decode (raw_std_encode s) = None"
    "raw_std_decode (raw_std_encode s) = Some s"
proof -
  have no_padding: "c \<in> set (raw_std_encode s) \<Longrightarrow> c \<noteq> CHR ''=''" for c using raw_std_visible by blast
  have len: "length (raw_std_encode s) mod 4 = 2"
    using length_sextets [OF assms] by (simp add: raw_std_encode_def base64_encode_sextets)
  have padded: "without_newlines (raw_std_encode s @ ''=='') = raw_std_encode s @ ''==''"
    using raw_std_plain [of s] by (simp add: without_newlines_def)
  have parts: "takeWhile (\<lambda>c. c \<noteq> CHR ''='') (raw_std_encode s @ ''=='') = raw_std_encode s"
    "dropWhile (\<lambda>c. c \<noteq> CHR ''='') (raw_std_encode s @ ''=='') = ''==''"
    "takeWhile (\<lambda>c. c \<noteq> CHR ''='') (raw_std_encode s) = raw_std_encode s"
    "dropWhile (\<lambda>c. c \<noteq> CHR ''='') (raw_std_encode s) = []"
    using no_padding by (simp_all add: takeWhile_append2 dropWhile_append2 takeWhile_eq_all_conv dropWhile_eq_Nil_conv)
  show "std_decode (raw_std_encode s @ ''=='') = Some s"
    by (simp add: std_decode_def padded parts len std_digits_encode Let_def)
  show "std_decode (raw_std_encode s) = None"
    by (simp add: std_decode_def raw_std_plain parts len Let_def)
  show "raw_std_decode (raw_std_encode s) = Some s"
    by (simp add: raw_std_decode_def raw_std_plain std_digits_encode)
qed

lemma loadSigner_key:
  assumes "length sk = PrivateKeySize" "padding \<in> {[], ''==''}"
    and "getenv ''ASCP_SIGNING_PRIVATE_KEY_B64'' = raw_std_encode sk @ padding"
  shows "loadSigner ed generated getenv =
    (Inr \<lparr>sn_privateKey = sk, sn_publicKey = ed_Public ed sk,
       sn_keyID = getenv_or getenv ''ASCP_SIGNING_KEY_ID'' ''reference-1''\<rparr>, False)"
proof -
  have len: "length sk mod 3 = 1" "length sk = 64" using assms(1) by (simp_all add: PrivateKeySize_def)
  have "sk \<noteq> []" using len by auto
  then have nonempty: "raw_std_encode sk \<noteq> []"
    by (cases sk rule: base64_encode.cases) (auto simp: raw_std_encode_def)
  have "\<forall>c\<in>set (raw_std_encode sk @ padding). visible c"
    using raw_std_visible [of _ sk] assms(2) by (auto simp: visible_def ord_def)
  moreover have "raw_std_encode sk @ padding \<noteq> []" using nonempty by simp
  ultimately have trimmed: "TrimSpace (raw_std_encode sk @ padding) = raw_std_encode sk @ padding"
    by (intro TrimSpace_id) (use hd_in_set last_in_set in blast)+
  have keyID: "getenv_or getenv ''ASCP_SIGNING_KEY_ID'' ''reference-1'' \<noteq> []"
    by (simp add: getenv_or_def Let_def)
  show ?thesis
    using assms(2) nonempty keyID len std_decode_key [OF len(1)]
    by (auto simp: loadSigner_def assms(3) trimmed NewSignerFromPrivateKey_def PrivateKeySize_def)
qed

lemma start_server_Inr:
  assumes "fst (loadSigner (en_ed25519 base) generated getenv) = Inr signer"
  shows "start_server base generated getenv =
    Inr (reference_engine (base\<lparr>en_BaseURL := base_url getenv, en_Token := demo_token getenv, en_Signer := signer\<rparr>))"
  by (simp add: start_server_def assms reference_engine_New)

end
