(* ===== verification/Examples.thy ===== *)
theory Examples
  imports Validation Audit_Log Billing File_Store Memory_Store Idempotency
begin

text \<open>
  Concrete values: amounts, a quote for a fixed price of five dollars, its receipt, a task.
  The examples of the properties are instances at these values.
\<close>

section \<open>Amounts\<close>

abbreviation usd :: "string \<Rightarrow> Money" where
  "usd amount \<equiv> \<lparr>m_Currency = ''USD'', m_Amount = amount\<rparr>"

lemma usd_valid: "ValidateMoney (usd a) = None \<longleftrightarrow> valid_amount a"
  by (simp add: ValidateMoney_iff currencyCodePattern_def is_upper_def ord_def)

lemma valid_amountI:
  "decimal_parts ip fp \<Longrightarrow> length fp \<le> 18 \<Longrightarrow> s = amount_text ip fp \<Longrightarrow> valid_amount s"
  unfolding valid_amount_def by blast

lemma usd_amounts:
  "ValidateMoney (usd ''0.10'') = None" "ValidateMoney (usd ''2.905'') = None"
  "ValidateMoney (usd ''5.00'') = None" "ValidateMoney (usd ''3'') = None"
  unfolding usd_valid
  by (rule valid_amountI [of "''0''" "''10''"] valid_amountI [of "''2''" "''905''"]
        valid_amountI [of "''5''" "''00''"] valid_amountI [of "''3''" "[]"];
      simp add: decimal_parts_def amount_text_def is_digit_def ord_def)+

lemma usd_values:
  "money_value (usd ''5.00'') = 5" "money_value (usd ''3'') = 3"
proof -
  have "amount_rat (amount_text ''5'' ''00'') = 5" "amount_rat (amount_text ''3'' []) = 3"
    by (subst amount_rat_amount; simp add: decimal_parts_def is_digit_def ord_def digits_val_def digit_val_def)+
  then show "money_value (usd ''5.00'') = 5" "money_value (usd ''3'') = 3"
    by (simp_all add: money_value_def amount_text_def)
qed

section \<open>A quote and its receipt\<close>

definition agent :: EntityRef where
  "agent = \<lparr>er_Type = ''agent'', er_ID = ''a1''\<rparr>"

definition person :: EntityRef where
  "person = \<lparr>er_Type = ''user'', er_ID = ''u1''\<rparr>"

definition example_terms :: BillingTerms where
  "example_terms = zero_BillingTerms\<lparr>bt_Mode := BillingPayNow, bt_SettlementTiming := ''immediate'',
     bt_AcceptedSchemes := [''mock'']\<rparr>"

definition example_quote :: Quote where
  "example_quote =
     \<lparr>q_ProtocolVersion = ProtocolVersion, q_ServiceID = ''svc'', q_QuoteID = ''quo_1'',
      q_OfferID = ''off_1'', q_Intent = ''email.send'', q_Principal = person, q_Actor = agent,
      q_NormalizedTask = [(''to'', JStr ''x'')], q_ContextRefs = [], q_InputFiles = [],
      q_Callback = None, q_Price = usd ''5.00'', q_PriceCeiling = usd ''5.00'',
      q_PriceBreakdown = [], q_BillingTerms = example_terms,
      q_Effects = [\<lparr>ef_Type = ''send'', ef_Target = [], ef_Summary = ''sends'', ef_Reversible = False\<rparr>],
      q_Permissions = [],
      q_DataUse = \<lparr>du_Categories = [], du_Purposes = [], du_RetentionSeconds = 0,
        du_TrainingAllowed = False, du_ThirdPartySharing = False, du_Region = []\<rparr>,
      q_RiskClass = ''low'',
      q_Confirmation = \<lparr>cf_Required = False, cf_Mode = [], cf_Text = []\<rparr>,
      q_SLA = \<lparr>sl_ExpectedCompletionSeconds = 1, sl_MaximumCompletionSeconds = 5,
        sl_AvailabilityBasisPoints = 0\<rparr>,
      q_Execution = \<lparr>ep_NotBefore = None, ep_Deadline = None, ep_MaxPrice = None,
        ep_AllowPartial = False, ep_RequireHumanReview = False, ep_MaximumInlineBytes = 0,
        ep_PreferArtifactRefs = False\<rparr>,
      q_IssuedAt = 100, q_ExpiresAt = 200, q_RevocableUntil = None, q_Signature = zero_Signature\<rparr>"

definition example_receipt :: Receipt where
  "example_receipt =
     \<lparr>rc_ProtocolVersion = ProtocolVersion, rc_ServiceID = ''svc'', rc_ReceiptID = ''rcp_1'',
      rc_TaskID = ''tsk_1'', rc_QuoteID = ''quo_1'', rc_Outcome = TaskSucceeded, rc_Artifacts = [],
      rc_Billing = None, rc_BilledAmount = Some (usd ''5.00''), rc_BilledBreakdown = [],
      rc_AuditRoot = ''root'', rc_CompletedAt = 150, rc_Signature = zero_Signature\<rparr>"

lemma not_blank_examples:
  "\<not> blank ''svc''" "\<not> blank ''quo_1''" "\<not> blank ''off_1''" "\<not> blank ''email.send''"
  "\<not> blank ''agent''" "\<not> blank ''a1''" "\<not> blank ''user''" "\<not> blank ''u1''" "\<not> blank ''send''"
  "\<not> blank ''sends''" "\<not> blank ''low''" "\<not> blank ''immediate''" "\<not> blank ''rcp_1''"
  "\<not> blank ''tsk_1''" "\<not> blank ''root''"
  by (rule visible_not_blank; simp add: visible_def ord_def)+

lemma example_receipt_ok: "ValidateReceiptAgainstQuote example_receipt example_quote = None"
  unfolding ValidateReceiptAgainstQuote_wf wf_receipt_def settles_within_def breakdown_ok_def
  by (simp add: example_receipt_def example_quote_def terminal_outcome_def not_blank_examples usd_amounts)

lemma example_quote_ok: "ValidateQuoteSemantics url_parse example_quote = None"
  unfolding ValidateQuoteSemantics_wf wf_quote_def identity_ok_def content_ok_def timing_ok_def
    price_ok_def wf_terms_def breakdown_ok_def
  by (simp add: example_quote_def example_terms_def zero_BillingTerms_def agent_def person_def
      not_blank_examples usd_amounts)

section \<open>Tasks\<close>

definition task_named :: "string \<Rightarrow> Task" where
  "task_named i = zero_Task\<lparr>t_TaskID := i\<rparr>"

definition store_of :: "Task list \<Rightarrow> MemoryStore" where
  "store_of ts = NewMemoryStore\<lparr>ms_tasks := map_of (map (\<lambda>t. (t_TaskID t, t)) ts)\<rparr>"

section \<open>A signer\<close>

text \<open>
  A signature scheme in which the signature is the public key and the message, and an encoder
  for one value: enough to show that the laws assumed of Ed25519 and encoding/json can hold.
\<close>

definition plain_ed25519 :: ed25519 where
  "plain_ed25519 = \<lparr>ed_Public = (\<lambda>sk. drop 32 sk), ed_Sign = (\<lambda>sk m. drop 32 sk @ m),
     ed_Verify = (\<lambda>pk m s. s = pk @ m)\<rparr>"

definition one_value :: "'a \<Rightarrow> 'a codec" where
  "one_value x = \<lparr>marshal = (\<lambda>_. Inr ''{}''), unmarshal = (\<lambda>_. Inr x)\<rparr>"

definition example_sk :: string where
  "example_sk = replicate 64 CHR ''k''"

definition example_header :: JWSHeader where
  "example_header = \<lparr>jh_Algorithm = ''EdDSA'', jh_KeyID = ''key1'', jh_Type = ''ascp+jws'',
     jh_IssuedAt = Unix (Truncate_second 7)\<rparr>"

definition example_signer :: Signer where
  "example_signer = \<lparr>sn_privateKey = example_sk, sn_publicKey = drop 32 example_sk, sn_keyID = ''key1''\<rparr>"

lemma one_value_ok: "codec_ok (one_value x) x"
  by (simp add: codec_ok_def one_value_def)

lemma plain_ed25519_ok:
  "ed_Verify plain_ed25519 (ed_Public plain_ed25519 sk) m (ed_Sign plain_ed25519 sk m)"
  "length (ed_Public plain_ed25519 example_sk) = 32"
  by (simp_all add: plain_ed25519_def example_sk_def)

lemma example_signer_ok: "NewSignerFromPrivateKey plain_ed25519 ''key1'' example_sk = Inr example_signer"
  by (simp add: NewSignerFromPrivateKey_def example_sk_def PrivateKeySize_def example_signer_def plain_ed25519_def)

lemma example_key_pair: "key_pair plain_ed25519 example_signer"
  by (simp add: key_pair_def plain_ed25519_def example_signer_def example_sk_def PublicKeySize_def)

section \<open>An audit chain\<close>

definition example_event :: "Signature \<Rightarrow> AuditEvent" where
  "example_event sg =
     (let e = \<lparr>av_EventID = MustNewID ''r'' ''evt'', av_ResourceType = ''task'', av_ResourceID = ''tsk_1'',
        av_Sequence = 1, av_Type = ''ascp.task.accepted'', av_OccurredAt = 5, av_Actor = agent,
        av_Data = ''{}'', av_DataDigest = SHA256Digest ''{}'', av_PreviousHash = [],
        av_EventHash = [], av_Signature = sg\<rparr>
      in e\<lparr>av_EventHash := SHA256Digest (chainMaterial (\<lambda>t. decimal_int t) e)\<rparr>)"

lemma example_event_hash:
  "av_EventHash (example_event sg) = SHA256Digest (chainMaterial (\<lambda>t. decimal_int t) (example_event sg))"
  by (simp add: example_event_def Let_def chainMaterial_def material_fields_def)

lemma example_event_same:
  "payload_of (example_event sg) = payload_of (example_event sg')"
  "av_EventHash (example_event sg) = av_EventHash (example_event sg')"
  by (simp_all add: example_event_def Let_def payload_of_def chainMaterial_def material_fields_def)

lemma example_event_clean: "lines_clean (\<lambda>t. decimal_int t) (example_event sg)"
proof -
  have d: "CHR 0x0A \<notin> set (decimal n)" for n
    using decimal_digits [of n] by (auto simp: list_all_iff is_digit_def ord_def)
  show ?thesis
    using b64_no_newline [of "''r''"] SHA256Digest_no_newline [of "''{}''"]
    by (simp add: lines_clean_def material_fields_def example_event_def Let_def MustNewID_def agent_def
        decimal_int_def d)
qed

text \<open>A signer that signs only this event, and the verifier that goes with it.\<close>

definition sign_example :: "time \<Rightarrow> signedEventPayload \<Rightarrow> Signature result" where
  "sign_example tm p =
     (if p = payload_of (example_event zero_Signature) then Inr zero_Signature
      else Inl (New_error ''unknown payload''))"

definition verify_example :: "Signature \<Rightarrow> signedEventPayload result" where
  "verify_example sg = Inr (payload_of (example_event zero_Signature))"

lemma sign_verify_example: "sign_example tm p = Inr sg \<Longrightarrow> verify_example sg = Inr p"
  by (simp add: sign_example_def verify_example_def split: if_splits)

lemma example_chain_ok: "Verify (\<lambda>t. decimal_int t) verify_example [example_event sg] = None"
  unfolding Verify_iff
  using example_event_hash [of sg] example_event_same(1) [of sg zero_Signature]
  by (simp add: event_ok_def verify_example_def) (simp add: example_event_def Let_def)

lemma example_append:
  "Append_with (\<lambda>t. decimal_int t) sign_example (Some ''r'', 5, 5) ''tsk_1'' ''ascp.task.accepted'' agent (Inr ''{}'') NewLog =
     (Inr (example_event zero_Signature), [''tsk_1'' \<mapsto> [example_event zero_Signature]])"
proof -
  have *: "payload_of
      (\<lparr>av_EventID = MustNewID ''r'' ''evt'', av_ResourceType = ''task'', av_ResourceID = ''tsk_1'',
        av_Sequence = 1, av_Type = ''ascp.task.accepted'', av_OccurredAt = 5, av_Actor = agent,
        av_Data = ''{}'', av_DataDigest = SHA256Digest ''{}'', av_PreviousHash = [],
        av_EventHash = SHA256Digest (chainMaterial (\<lambda>t. decimal_int t)
          \<lparr>av_EventID = MustNewID ''r'' ''evt'', av_ResourceType = ''task'', av_ResourceID = ''tsk_1'',
        av_Sequence = 1, av_Type = ''ascp.task.accepted'', av_OccurredAt = 5, av_Actor = agent,
        av_Data = ''{}'', av_DataDigest = SHA256Digest ''{}'', av_PreviousHash = [],
        av_EventHash = [], av_Signature = zero_Signature\<rparr>), av_Signature = zero_Signature\<rparr>) =
      payload_of (example_event zero_Signature)"
    by (simp add: example_event_def Let_def)
  show ?thesis
    by (simp add: Append_with_def Append_def NewID_Some chain_def NewLog_def inferResourceType_def HasPrefix_def
        sign_example_def *) (simp add: example_event_def Let_def)
qed

text \<open>A chain that records two receipts, the second one on top of the first.\<close>

definition issued_event :: "int \<Rightarrow> string \<Rightarrow> string \<Rightarrow> string \<Rightarrow> AuditEvent" where
  "issued_event n prev data keyID =
     (let e = \<lparr>av_EventID = MustNewID ''r'' ''evt'', av_ResourceType = ''task'', av_ResourceID = ''tsk_1'',
        av_Sequence = n, av_Type = ''ascp.receipt.issued'', av_OccurredAt = 5, av_Actor = agent,
        av_Data = data, av_DataDigest = SHA256Digest data, av_PreviousHash = prev,
        av_EventHash = [], av_Signature = zero_Signature\<rparr>
      in e\<lparr>av_EventHash := SHA256Digest (chainMaterial (\<lambda>t. decimal_int t) e), av_Signature := zero_Signature\<lparr>sg_KeyID := keyID\<rparr>\<rparr>)"

definition first_issued :: AuditEvent where
  "first_issued = issued_event 1 [] ''a'' ''1''"

definition second_issued :: AuditEvent where
  "second_issued = issued_event 2 (av_EventHash first_issued) ''b'' ''2''"

definition sign_issued :: "time \<Rightarrow> signedEventPayload \<Rightarrow> Signature result" where
  "sign_issued tm p =
     (if p = payload_of first_issued then Inr (av_Signature first_issued)
      else if p = payload_of second_issued then Inr (av_Signature second_issued)
      else Inl (New_error ''unknown payload''))"

definition verify_issued :: "Signature \<Rightarrow> signedEventPayload result" where
  "verify_issued sg = Inr (payload_of (if sg_KeyID sg = ''1'' then first_issued else second_issued))"

definition decode_issued :: anchor_decoder where
  "decode_issued d = (if d = ''a'' then Inr (''rcp_0'', []) else Inr (''rcp_1'', av_EventHash first_issued))"

lemma issued_event_sel:
  "av_Data first_issued = ''a''" "sg_KeyID (av_Signature first_issued) = ''1''" "sg_KeyID (av_Signature second_issued) = ''2''"
  "sp_Sequence (payload_of first_issued) = 1" "sp_Sequence (payload_of second_issued) = 2"
  by (simp_all add: first_issued_def second_issued_def issued_event_def Let_def payload_of_def)

lemma sign_verify_issued: "sign_issued tm p = Inr sg \<Longrightarrow> verify_issued sg = Inr p"
  by (auto simp: sign_issued_def verify_issued_def issued_event_sel split: if_splits)

lemma issued_distinct: "payload_of second_issued \<noteq> payload_of first_issued"
proof
  assume "payload_of second_issued = payload_of first_issued"
  then have "sp_Sequence (payload_of second_issued) = sp_Sequence (payload_of first_issued)" by simp
  then show False by (simp add: issued_event_sel)
qed

lemma issued_payload:
  "payload_of (issued_event n prev data keyID\<lparr>av_Signature := zero_Signature\<rparr>) = payload_of (issued_event n prev data keyID)"
  by (simp add: payload_of_def)

lemma issued_unsigned:
  "issued_event n prev data keyID\<lparr>av_Signature := zero_Signature\<rparr> =
     (let e = \<lparr>av_EventID = MustNewID ''r'' ''evt'', av_ResourceType = ''task'', av_ResourceID = ''tsk_1'',
        av_Sequence = n, av_Type = ''ascp.receipt.issued'', av_OccurredAt = 5, av_Actor = agent,
        av_Data = data, av_DataDigest = SHA256Digest data, av_PreviousHash = prev,
        av_EventHash = [], av_Signature = zero_Signature\<rparr>
      in e\<lparr>av_EventHash := SHA256Digest (chainMaterial (\<lambda>t. decimal_int t) e)\<rparr>)"
  by (simp add: issued_event_def Let_def)

lemma issued_append:
  "Append_with (\<lambda>t. decimal_int t) sign_issued (Some ''r'', 5, 5) ''tsk_1'' ''ascp.receipt.issued'' agent (Inr ''a'') NewLog =
     (Inr first_issued, [''tsk_1'' \<mapsto> [first_issued]])"
  "Append_with (\<lambda>t. decimal_int t) sign_issued (Some ''r'', 5, 5) ''tsk_1'' ''ascp.receipt.issued'' agent (Inr ''b'')
     [''tsk_1'' \<mapsto> [first_issued]] = (Inr second_issued, [''tsk_1'' \<mapsto> [first_issued, second_issued]])"
proof -
  have first: "first_issued\<lparr>av_Signature := zero_Signature\<rparr>\<lparr>av_Signature := av_Signature first_issued\<rparr> = first_issued"
    "second_issued\<lparr>av_Signature := zero_Signature\<rparr>\<lparr>av_Signature := av_Signature second_issued\<rparr> = second_issued" by simp_all
  have signed: "sign_issued 5 (payload_of (first_issued\<lparr>av_Signature := zero_Signature\<rparr>)) = Inr (av_Signature first_issued)"
    "sign_issued 5 (payload_of (second_issued\<lparr>av_Signature := zero_Signature\<rparr>)) = Inr (av_Signature second_issued)"
    using issued_distinct unfolding first_issued_def second_issued_def issued_payload
    by (simp_all add: sign_issued_def first_issued_def second_issued_def)
  show "Append_with (\<lambda>t. decimal_int t) sign_issued (Some ''r'', 5, 5) ''tsk_1'' ''ascp.receipt.issued'' agent (Inr ''a'') NewLog =
     (Inr first_issued, [''tsk_1'' \<mapsto> [first_issued]])"
    using signed(1) first(1) issued_unsigned [of 1 "[]" "''a''" "''1''", folded first_issued_def, unfolded Let_def, simplified]
    by (simp add: Append_with_def Append_def NewID_Some chain_def NewLog_def inferResourceType_def HasPrefix_def Let_def)
  show "Append_with (\<lambda>t. decimal_int t) sign_issued (Some ''r'', 5, 5) ''tsk_1'' ''ascp.receipt.issued'' agent (Inr ''b'')
     [''tsk_1'' \<mapsto> [first_issued]] = (Inr second_issued, [''tsk_1'' \<mapsto> [first_issued, second_issued]])"
    using signed(2) first(2)
      issued_unsigned [of 2 "av_EventHash first_issued" "''b''" "''2''", folded second_issued_def, unfolded Let_def, simplified]
    by (simp add: Append_with_def Append_def NewID_Some chain_def inferResourceType_def HasPrefix_def Let_def)
qed

lemma issued_reachable: "reachable_log (\<lambda>t. decimal_int t) sign_issued [''tsk_1'' \<mapsto> [first_issued]]"
  using reachable_log.intros(2) [OF reachable_log.intros(1), of "\<lambda>t. decimal_int t" sign_issued "(Some ''r'', 5, 5)"
    "''tsk_1''" "''ascp.receipt.issued''" agent "Inr ''a''"] by (simp add: issued_append(1))

section \<open>Billing states\<close>

definition example_hold :: Reservation where
  "example_hold = new_reservation ''r1'' 0 example_terms (usd ''5.00'')"

definition mock_reserved :: MockProcessor where
  "mock_reserved = NewMockProcessor
     \<lparr>reservationsByKey := [colon_key ''quo_1'' ''key'' \<mapsto> example_hold],
      reservationsByRef := [MustNewID ''r1'' ''blr'' \<mapsto> example_hold]\<rparr>"

definition example_charge :: Settlement where
  "example_charge = new_settlement ''s1'' example_hold (usd ''3'')"

definition mock_settled :: MockProcessor where
  "mock_settled = mock_reserved
     \<lparr>settlementsByKey := [colon_key (MustNewID ''r1'' ''blr'') ''settle'' \<mapsto> example_charge],
      settlementsByRef := [MustNewID ''s1'' ''bls'' \<mapsto> example_charge],
      settlementByHold := [MustNewID ''r1'' ''blr'' \<mapsto> example_charge]\<rparr>"

definition no_text :: "error \<Rightarrow> string" where
  "no_text e = ''error''"

lemma reserve_example:
  "Reserve_env no_text (1, 0, ''r1'') ''svc'' ''quo_1'' ''digest'' example_terms None (usd ''5.00'') ''key'' NewMockProcessor =
     (Inr example_hold, mock_reserved)"
  by (simp add: Reserve_env_def Reserve_def check_reserve_def check_mandate_def example_terms_def
      zero_BillingTerms_def NewMockProcessor_def mock_reserved_def example_hold_def Let_def)

lemma mock_reserved_ok: "mock_ok mock_reserved"
  using Reserve_ok [OF NewMockProcessor_ok, of no_text 1 0 "''r1''" "''svc''" "''quo_1''" "''digest''"
      example_terms None "usd ''5.00''" "''key''" "Inr example_hold" mock_reserved] reserve_example
  by (simp add: Reserve_env_def NewMockProcessor_def)

lemma charge_covered: "covers (usd ''5.00'') (usd ''3'')"
  by (simp add: covers_def usd_amounts usd_values)

lemma settle_example:
  "Settle_env no_text (1, 0, ''s1'') (MustNewID ''r1'' ''blr'') (usd ''3'') ''settle'' mock_reserved =
     (Inr example_charge, mock_settled)"
proof -
  from charge_covered obtain c where "CompareMoney (usd ''5.00'') (usd ''3'') = Inr c" "0 \<le> c"
    by (auto simp: covers_iff)
  then show ?thesis
    by (simp add: Settle_env_def Settle_def mock_reserved_def mock_settled_def NewMockProcessor_def
        example_charge_def example_hold_def Let_def)
qed

lemma settle_again_example:
  "Settle_env no_text (2, 0, ''s2'') (MustNewID ''r1'' ''blr'') (usd ''3'') ''settle'' mock_settled =
     (Inr example_charge, mock_settled)"
  by (simp add: Settle_env_def Settle_def mock_settled_def)

lemma mock_settled_ok: "mock_ok mock_settled"
  using Settle_ok [OF mock_reserved_ok, of no_text "''s1''" "MustNewID ''r1'' ''blr''" "usd ''3''" "''settle''"
      "Inr example_charge" mock_settled] settle_example
  by (simp add: Settle_env_def mock_reserved_def NewMockProcessor_def)

lemma fresh_examples: "fresh_raw (1, 0, ''r1'') NewMockProcessor" "fresh_raw (1, 0, ''s1'') mock_reserved"
  by (simp_all add: fresh_raw_def NewMockProcessor_def mock_reserved_def)

section \<open>A file\<close>

definition example_ref :: FileRef where
  "example_ref =
     \<lparr>fr_FileID = ''fil_1'', fr_URI = ''ascp-file://fil_1'', fr_Name = ''a.txt'', fr_MediaType = ''text/plain'',
      fr_Size = 2, fr_Digest = SHA256Digest ''hi'', fr_Disposition = ''attachment'', fr_Purpose = [],
      fr_State = ''ready'', fr_ScanStatus = ''clean'', fr_ExpiresAt = 0\<rparr>"

definition example_owner :: Identity where
  "example_owner = \<lparr>id_Actor = agent, id_Principal = person, id_Scopes = Map.empty\<rparr>"

definition stranger :: Identity where
  "stranger = \<lparr>id_Actor = person, id_Principal = person, id_Scopes = Map.empty\<rparr>"

definition example_file :: storedFile where
  "example_file = \<lparr>sf_Owner = example_owner, sf_Reference = example_ref,
     sf_UploadTokenHash = sha256 ''token'', sf_Content = ''hi'', sf_CreatedAt = 1\<rparr>"

definition example_files :: MemoryFileStore where
  "example_files = (NewMemoryFileStore 0)\<lparr>mfs_files := [''fil_1'' \<mapsto> example_file]\<rparr>"

lemma example_files_ok: "files_ok example_files"
  by (simp add: files_ok_def file_ok_def example_files_def example_file_def example_ref_def NewMemoryFileStore_def)

lemma example_validated: "Validate example_owner [example_ref] 5 example_files = None"
  by (simp add: Validate_def validate_file_def Get_def example_files_def example_file_def example_ref_def
      sameIdentity_def)

end
