(* ===== verification/Direct_Protocol.thy ===== *)
theory Direct_Protocol
  imports Direct_Flow Contract_Protocol
begin

text \<open>
  The protocol that a direct invocation follows, from the request to the stored response. The
  machine \<open>invoke_step\<close> is parameterized by the configuration, the idempotency key and the body
  of the request; its phases hold the identity, the plan, the invocation and the hold.
\<close>

section \<open>The machine\<close>

datatype direct_phase =
    Arrived
  | Known Identity
  | Planned Identity DirectInvocationRequest DirectPlan "time list"
  | Claimed Identity DirectInvocationRequest DirectPlan "time list"
  | Stopped
  | Named DirectInvocationRequest DirectPlan string
  | Backed DirectInvocationRequest DirectPlan string string
  | Refusing string
  | Served DirectPlan string string DirectExecutionResult
  | Paid string Settlement
  | Unpaid string
  | Closed
  | Finished

text \<open>The plan passed every guard, with an approval checked at one of the times read.\<close>

definition cleared ::
  "'w Config \<Rightarrow> string \<Rightarrow> string \<Rightarrow> Identity \<Rightarrow> DirectInvocationRequest \<Rightarrow> DirectPlan \<Rightarrow> time list \<Rightarrow> bool"
where
  "cleared cfg key body identity input plan clock \<longleftrightarrow>
     dp_Eligible plan \<and> wf_plan plan \<and> (\<forall>scope\<in>set (dp_RequiredScopes plan). HasScope identity scope) \<and>
     (dp_IdempotencyRequired plan \<or> key \<noteq> [] \<longrightarrow> validIdempotencyKey key) \<and>
     (dp_AuthorizationRequired plan \<longrightarrow> (\<exists>evidence t. di_Authorization input = Some evidence \<and> t \<in> set clock \<and>
        validateDirectAuthorization evidence identity (mf_ServiceID (cfg_Manifest cfg)) (SHA256Digest body) t = None))"

text \<open>What the stored record of an invocation says about its billing.\<close>

definition honest_record :: "string \<Rightarrow> Settlement option \<Rightarrow> InvocationState \<Rightarrow> InvocationRecord \<Rightarrow> bool" where
  "honest_record call_id settlement state record \<longleftrightarrow>
     iv_InvocationID record = call_id \<and> dr_State (iv_Response record) = state \<and>
     ir_Outcome (dr_Receipt (iv_Response record)) = state \<and>
     ir_Billing (dr_Receipt (iv_Response record)) = dr_Billing (iv_Response record) \<and>
     (\<forall>st. settlement = Some st \<longrightarrow> (\<exists>b. dr_Billing (iv_Response record) = Some b \<and>
        br_SettlementRef b = st_Reference st \<and> br_Amount b = Some (st_Amount st)))"

fun after_claim :: "direct_phase \<Rightarrow> bool" where
  "after_claim Arrived = False"
| "after_claim (Known _) = False"
| "after_claim (Planned _ _ _ _) = False"
| "after_claim (Claimed _ _ _ _) = False"
| "after_claim Stopped = False"
| "after_claim Finished = False"
| "after_claim _ = True"

definition invoke_step :: "'w Config \<Rightarrow> string \<Rightarrow> string \<Rightarrow> direct_phase \<Rightarrow> event \<Rightarrow> direct_phase option" where
  "invoke_step cfg key body p e =
     (case e of
        EvNow t \<Rightarrow> Some (case p of Planned i input plan clock \<Rightarrow> Planned i input plan (t # clock) | _ \<Rightarrow> p)
      | EvFileValidate _ _ \<Rightarrow> Some p
      | EvAudit _ _ _ _ \<Rightarrow> Some p
      | EvAuditRoot _ _ \<Rightarrow> Some p
      | EvSign _ _ \<Rightarrow> Some p
      | EvRandom raw \<Rightarrow> (case p of
            Planned i input plan clock \<Rightarrow>
              if key = [] \<and> cleared cfg key body i input plan clock
              then Some (Named input plan (MustNewID raw ''inv'')) else None
          | Claimed i input plan clock \<Rightarrow>
              if cleared cfg key body i input plan clock
              then Some (Named input plan (MustNewID raw ''inv'')) else None
          | _ \<Rightarrow> Some p)
      | EvAuthenticate _ r \<Rightarrow> (case p of
            Arrived \<Rightarrow> Some (case r of Inl _ \<Rightarrow> Stopped | Inr i \<Rightarrow> Known i) | _ \<Rightarrow> None)
      | EvPlanDirect input r \<Rightarrow> (case p of
            Known i \<Rightarrow> Some (case r of Inl _ \<Rightarrow> Stopped | Inr plan \<Rightarrow> Planned i input plan []) | _ \<Rightarrow> None)
      | EvBegin scope key' digest r \<Rightarrow> (case p of
            Planned i input plan clock \<Rightarrow>
              if key \<noteq> [] \<and> key' = key \<and> scope = idempotency_scope i ''POST'' ''/v1/invoke'' \<and> digest = SHA256Digest body
              then Some (case r of Inr (IdempotencyNew, _) \<Rightarrow> Claimed i input plan clock | _ \<Rightarrow> Stopped) else None
          | _ \<Rightarrow> None)
      | EvReserve _ contractID digest terms _ amount _ r \<Rightarrow> (case p of
            Named input plan call_id \<Rightarrow>
              if bt_Mode (dp_BillingTerms plan) \<noteq> BillingFree \<and> contractID = call_id \<and> digest = SHA256Digest body \<and>
                 terms = dp_BillingTerms plan \<and> amount = dp_PriceCeiling plan
              then Some (case r of Inl _ \<Rightarrow> Closed | Inr rv \<Rightarrow> Backed input plan call_id (rv_Reference rv)) else None
          | _ \<Rightarrow> None)
      | EvExecuteDirect call' input' plan' r \<Rightarrow> (case p of
            Named input plan call_id \<Rightarrow>
              if bt_Mode (dp_BillingTerms plan) = BillingFree \<and> call' = call_id \<and> input' = input \<and> plan' = plan
              then Some (case r of Inl _ \<Rightarrow> Refusing [] | Inr x \<Rightarrow> Served plan call_id [] x) else None
          | Backed input plan call_id ref \<Rightarrow>
              if call' = call_id \<and> input' = input \<and> plan' = plan
              then Some (case r of Inl _ \<Rightarrow> Refusing ref | Inr x \<Rightarrow> Served plan call_id ref x) else None
          | _ \<Rightarrow> None)
      | EvSettle ref' amount _ r \<Rightarrow> (case p of
            Served plan call_id ref x \<Rightarrow>
              if ref' = ref \<and> ref \<noteq> [] \<and> map_option fst (answered (resolveDirectPrice plan x)) = Some amount
              then Some (case r of Inl _ \<Rightarrow> Unpaid call_id | Inr st \<Rightarrow> Paid call_id st) else None
          | _ \<Rightarrow> None)
      | EvRelease ref' _ _ \<Rightarrow> (case p of
            Refusing ref \<Rightarrow> if ref' = ref \<and> ref \<noteq> [] then Some Closed else None
          | Served plan call_id ref x \<Rightarrow>
              if ref' = ref \<and> ref \<noteq> [] \<and> answered (resolveDirectPrice plan x) = None then Some Closed else None
          | _ \<Rightarrow> None)
      | EvPutInvocation stored_record _ \<Rightarrow> (case p of
            Served plan call_id ref x \<Rightarrow>
              if ref = [] \<and> honest_record call_id None InvocationSucceeded stored_record then Some Closed else None
          | Paid call_id st \<Rightarrow> if honest_record call_id (Some st) InvocationSucceeded stored_record then Some Closed else None
          | Unpaid call_id \<Rightarrow> if honest_record call_id None InvocationAccepted stored_record then Some Closed else None
          | _ \<Rightarrow> None)
      | EvComplete _ key' _ _ \<Rightarrow> if key' = key \<and> key \<noteq> [] \<and> after_claim p then Some Finished else None
      | _ \<Rightarrow> None)"


section \<open>The stages follow the machine\<close>

lemma invocation_result_ReleaseClaim [simp]:
  "\<not> op_ReleaseClaim (invocation_result cfg requestID call_id state p)"
  "\<not> op_ReleaseClaim (directUnknownResult cfg requestID call_id state title detail)"
  by (simp_all add: invocation_result_def directUnknownResult_def)

text \<open>Calls that a phase after the claim ignores.\<close>

definition silent :: "direct_phase \<Rightarrow> bool" where
  "silent p \<longleftrightarrow> (\<forall>i input plan clock. p \<noteq> Planned i input plan clock \<and> p \<noteq> Claimed i input plan clock)"

lemma silent_simps [simp]:
  "silent (Named input plan k)" "silent (Backed input plan k ref)" "silent (Refusing ref)"
  "silent (Served plan k ref x)" "silent (Paid k st)" "silent (Unpaid k)" "silent Closed" "silent Finished"
  "silent Stopped" "silent Arrived" "silent (Known i)"
  by (simp_all add: silent_def)

lemma silent_step:
  assumes "silent p"
  shows "invoke_step cfg key body p (EvNow t) = Some p" "invoke_step cfg key body p (EvRandom raw) = Some p"
  using assms by (auto simp: invoke_step_def silent_def split: direct_phase.split)

lemma follows_Now_silent:
  "silent p \<Longrightarrow> (\<And>t. Q t p) \<Longrightarrow> follows (invoke_step cfg key body) p (Now cfg') Q"
  unfolding Now_def by (rule follows_call) (simp add: silent_step)

lemma follows_new_id_silent:
  "silent p \<Longrightarrow> (\<And>a. Q a p) \<Longrightarrow> follows (invoke_step cfg key body) p (new_id cfg' prefix) Q"
  unfolding new_id_def by (rule wp follows_call | simp add: silent_step)+

lemma follows_appendAudit_any:
  "Q () p \<Longrightarrow> follows (invoke_step cfg key body) p (appendAudit cfg' chainID type0 actor data) Q"
  unfolding appendAudit_def audit_append_def by (rule wp follows_call | simp add: invoke_step_def)+

lemma follows_audit_root_any:
  "(\<And>a. Q a p) \<Longrightarrow> follows (invoke_step cfg key body) p (audit_root cfg' chainID) Q"
  unfolding audit_root_def by (rule follows_call) (simp add: invoke_step_def)

lemma follows_sign_any:
  assumes "\<And>err. Q (Inl (f err)) p" "\<And>err. Q (Inl (g err)) p" "\<And>signature. Q (Inr signature) p"
  shows "follows (invoke_step cfg key body) p (sign_projection cfg' v f g) Q"
  unfolding sign_projection_def sign_json_def
  by (rule wp follows_either | simp add: invoke_step_def assms)+

lemmas direct_rules =
  follows_Now_silent follows_new_id_silent follows_appendAudit_any follows_audit_root_any follows_sign_any
  follows_either wp conjI impI allI

definition answered_call :: "operationResult \<Rightarrow> direct_phase \<Rightarrow> bool" where
  "answered_call r p \<longleftrightarrow> \<not> op_ReleaseClaim r \<and> after_claim p \<and> silent p"

lemma direct_failed_follows:
  "follows (invoke_step cfg key body) (Refusing (br_ReservationRef hold))
     (direct_failed cfg identity requestID call_id hold key p) answered_call"
  unfolding direct_failed_def billing_release_def
  by (rule direct_rules follows_call | simp add: invoke_step_def answered_call_def)+

lemma direct_bad_price_follows:
  assumes "answered (resolveDirectPrice plan x) = None"
  shows "follows (invoke_step cfg key body) (Served plan call_id (br_ReservationRef hold) x)
     (direct_bad_price cfg requestID call_id hold key err) answered_call"
  unfolding direct_bad_price_def billing_release_def
  by (rule direct_rules follows_call | simp add: invoke_step_def answered_call_def assms)+

text \<open>The billing record agrees with the phase the invocation is in.\<close>

definition billed_in :: "string \<Rightarrow> InvocationState \<Rightarrow> BillingRecord \<Rightarrow> direct_phase \<Rightarrow> bool" where
  "billed_in call_id state hold p \<longleftrightarrow>
     (case p of
        Served _ k ref _ \<Rightarrow> k = call_id \<and> ref = [] \<and> state = InvocationSucceeded
      | Paid k st \<Rightarrow> k = call_id \<and> state = InvocationSucceeded \<and>
          br_SettlementRef hold = st_Reference st \<and> br_Amount hold = Some (st_Amount st)
      | Unpaid k \<Rightarrow> k = call_id \<and> state = InvocationAccepted
      | _ \<Rightarrow> False)"

lemma direct_settle_follows:
  assumes "answered (resolveDirectPrice plan x) = Some (amount, bd)"
  shows "follows (invoke_step cfg key body) (Served plan call_id (br_ReservationRef hold) x)
     (direct_settle cfg identity call_id hold key amount)
     (\<lambda>(state, status, hold'). billed_in call_id state hold')"
  unfolding direct_settle_def billing_settle_def
  by (rule direct_rules | simp add: invoke_step_def billed_in_def settled_record_def assms)+

lemma direct_record_follows:
  assumes "billed_in call_id state hold p"
  shows "follows (invoke_step cfg key body) p
     (direct_record cfg identity requestID call_id plan digest key executed state status hold) answered_call"
  unfolding direct_record_def store_put_invocation_def Let_def
  using assms
  by (cases p; simp add: billed_in_def)
    (rule direct_rules follows_call
     | simp add: invoke_step_def answered_call_def honest_record_def new_invocation_receipt_def)+

lemma direct_executed_follows:
  "follows (invoke_step cfg key body) (Served plan call_id (br_ReservationRef hold) x)
     (direct_executed cfg identity requestID call_id plan digest key hold x) answered_call"
proof (cases "resolveDirectPrice plan x")
  case (Inl err)
  then show ?thesis by (auto simp: direct_executed_def answered_def intro: direct_bad_price_follows)
next
  case (Inr charge)
  obtain amount bd where charge: "charge = (amount, bd)" by (cases charge)
  with Inr have "answered (resolveDirectPrice plan x) = Some (amount, bd)" by (simp add: answered_def)
  note settle = follows_mono [OF direct_settle_follows [OF this]]
  show ?thesis
    by (auto simp: direct_executed_def Inr charge intro!: follows_bind settle direct_record_follows)
qed

lemma reserveBilling_direct_follows:
  "follows (invoke_step cfg key body) (Named input plan call_id)
     (reserveBilling cfg identity call_id (SHA256Digest body) (dp_BillingTerms plan)
        authorization (dp_PriceCeiling plan) bkey)
     (\<lambda>r p. case r of Inl _ \<Rightarrow> after_claim p \<and> silent p
        | Inr hold \<Rightarrow> if bt_Mode (dp_BillingTerms plan) = BillingFree
            then p = Named input plan call_id \<and> br_ReservationRef hold = []
            else p = Backed input plan call_id (br_ReservationRef hold))"
  unfolding reserveBilling_def billing_reserve_def
  by (rule direct_rules | simp add: invoke_step_def)+

lemma executeDirect_follows:
  assumes "cleared cfg key body i input plan clock"
    and "p = Claimed i input plan clock \<or> key = [] \<and> p = Planned i input plan clock"
  shows "follows (invoke_step cfg key body) p
     (executeDirect cfg i requestID input plan (SHA256Digest body) key) answered_call"
proof -
  have name: "follows (invoke_step cfg key body) p (new_id cfg ''inv'')
      (\<lambda>call_id p'. p' = Named input plan call_id)"
    unfolding new_id_def using assms
    by (auto intro!: wp follows_call simp: invoke_step_def)
  have run: "follows (invoke_step cfg key body) p'
      (service_execute_direct cfg i call_id input plan)
      (\<lambda>r p''. p'' = (case r of Inl _ \<Rightarrow> Refusing (br_ReservationRef hold)
         | Inr x \<Rightarrow> Served plan call_id (br_ReservationRef hold) x))"
    if "if bt_Mode (dp_BillingTerms plan) = BillingFree then p' = Named input plan call_id \<and> br_ReservationRef hold = []
        else p' = Backed input plan call_id (br_ReservationRef hold)" for p' call_id hold
    unfolding service_execute_direct_def
    by (rule follows_call) (use that in \<open>auto simp: invoke_step_def split: sum.split if_splits\<close>)
  show ?thesis
    unfolding executeDirect_def
    apply (rule follows_bind, rule follows_mono [OF name], hypsubst)
    apply (rule follows_bind, rule follows_appendAudit_any)
    apply (rule follows_bind, rule follows_mono [OF reserveBilling_direct_follows])
    apply (auto simp: answered_call_def intro!: follows_return follows_bind follows_appendAudit_any follows_mono [OF run]
        direct_failed_follows direct_executed_follows split: sum.splits)
    done
qed

text \<open>A request that ended before it claimed anything.\<close>

definition unclaimed :: "direct_phase \<Rightarrow> bool" where
  "unclaimed p \<longleftrightarrow> \<not> after_claim p \<and> p \<noteq> Finished \<and> (\<forall>i input plan clock. p \<noteq> Claimed i input plan clock)"

lemma unclaimed_simps [simp]:
  "unclaimed Arrived" "unclaimed (Known i)" "unclaimed (Planned i input plan clock)" "unclaimed Stopped"
  by (simp_all add: unclaimed_def)

lemma finish_invocation_follows:
  assumes "answered_call r p"
  shows "follows (invoke_step cfg key body) p (finish_invocation cfg writer requestID scope key digest r)
     (\<lambda>_ p'. key \<noteq> [] \<longrightarrow> p' = Finished)"
  unfolding finish_invocation_def idempotency_complete_def using assms
  by (auto simp: answered_call_def invoke_step_def intro!: wp follows_Now_silent follows_call)

lemma plan_problem_None:
  "plan_problem cfg identity plan = None \<longleftrightarrow>
     dp_Eligible plan \<and> wf_plan plan \<and> (\<forall>scope\<in>set (dp_RequiredScopes plan). HasScope identity scope)"
  by (cases "missing_scope identity (dp_RequiredScopes plan)")
     (use missing_scope_None [of identity "dp_RequiredScopes plan"] in \<open>auto simp: plan_problem_def validateDirectPlan_iff\<close>)

lemma direct_key_problem_None:
  "direct_key_problem plan key = None \<longleftrightarrow> (dp_IdempotencyRequired plan \<or> key \<noteq> [] \<longrightarrow> validIdempotencyKey key)"
  by (simp add: direct_key_problem_def)

lemma invoke_guards_follows:
  "follows (invoke_step cfg key body) (Known i) (invoke_guards cfg i body key)
     (\<lambda>r p. case r of Inl _ \<Rightarrow> unclaimed p
        | Inr (input, plan) \<Rightarrow> \<exists>clock. p = Planned i input plan clock \<and> cleared cfg key body i input plan clock)"
  unfolding invoke_guards_def validateReferences_def approval_problem_def service_plan_direct_def files_validate_def Now_def
  by (rule wp follows_either follows_call conjI impI allI | simp add: invoke_step_def cleared_def plan_problem_None direct_key_problem_None split: option.split)+

definition request_key :: "http_request \<Rightarrow> string" where
  "request_key request = Header_Get (rq_Headers request) ''Idempotency-Key''"

definition request_body :: "http_request \<Rightarrow> string" where
  "request_body request = (case rq_Body request of Inl _ \<Rightarrow> [] | Inr body \<Rightarrow> body)"

lemma read_problem_body: "read_problem cfg request = Inr body \<Longrightarrow> body = request_body request"
  by (auto simp: read_problem_def read_body_def request_body_def Let_def split: if_splits sum.splits)

lemma readAuthenticatedJSON_follows:
  "follows (invoke_step cfg key body) Arrived (readAuthenticatedJSON cfg writer request)
     (\<lambda>r p. case r of Inl _ \<Rightarrow> unclaimed p | Inr (_, i, b) \<Rightarrow> p = Known i \<and> b = request_body request)"
  unfolding readAuthenticatedJSON_def authenticateRead_def request_id_def Authenticate_def Let_def
  by (rule wp follows_either follows_new_id_silent conjI impI allI
      | simp add: invoke_step_def read_problem_body split: sum.split)+

lemma claim_invocation_follows:
  assumes "key \<noteq> []"
  shows "follows (invoke_step cfg key body) (Planned i input plan clock)
     (claim_invocation cfg writer requestID (idempotency_scope i ''POST'' ''/v1/invoke'') key (SHA256Digest body))
     (\<lambda>r p. case r of Inl _ \<Rightarrow> unclaimed p | Inr _ \<Rightarrow> p = Claimed i input plan clock)"
  unfolding claim_invocation_def idempotency_begin_def
  by (rule wp follows_call allI impI conjI
      | simp add: invoke_step_def assms split: sum.split prod.split IdempotencyResult.split)+

lemma invoke_run_follows:
  assumes "cleared cfg key body i input plan clock"
    and "p = Claimed i input plan clock \<or> key = [] \<and> p = Planned i input plan clock"
  shows "follows (invoke_step cfg key body) p
     (executeDirect cfg i requestID input plan (SHA256Digest body) key \<bind>
        finish_invocation cfg writer requestID scope key digest)
     (\<lambda>_ p. key \<noteq> [] \<longrightarrow> unclaimed p \<or> p = Finished)"
  by (rule follows_bind, rule follows_mono [OF executeDirect_follows [OF assms]],
      rule follows_mono [OF finish_invocation_follows], assumption) simp

lemma invoke_claim_follows:
  "follows (invoke_step cfg key body) (Planned i input plan clock)
     (if key = [] then State_Monad.return (Inr ())
      else claim_invocation cfg writer requestID (idempotency_scope i ''POST'' ''/v1/invoke'') key (SHA256Digest body))
     (\<lambda>r p. case r of Inl _ \<Rightarrow> unclaimed p | Inr _ \<Rightarrow>
        p = Claimed i input plan clock \<or> key = [] \<and> p = Planned i input plan clock)"
  by (rule follows_if, simp add: follows_return)
    (rule follows_mono [OF claim_invocation_follows], auto split: sum.splits)

lemma handleInvoke_follows:
  "follows (invoke_step cfg (request_key request) (request_body request)) Arrived (handleInvoke cfg writer request)
     (\<lambda>_ p. request_key request \<noteq> [] \<longrightarrow> unclaimed p \<or> p = Finished)"
proof -
  define key where "key = request_key request"
  define Q :: "http_response \<Rightarrow> direct_phase \<Rightarrow> bool" where "Q = (\<lambda>_ p. key \<noteq> [] \<longrightarrow> unclaimed p \<or> p = Finished)"
  have Q: "unclaimed p \<Longrightarrow> Q r p" for r p by (simp add: Q_def)
  have "follows (invoke_step cfg key (request_body request)) Arrived (handleInvoke cfg writer request) Q"
    unfolding handleInvoke_def Let_def request_key_def [symmetric] key_def [symmetric]
    apply (rule follows_attempt_then [OF readAuthenticatedJSON_follows])
     apply (erule Q)
    apply (simp only: split_paired_all prod.case, elim conjE, hypsubst)
    apply (rule follows_then [OF invoke_guards_follows])
    apply (rule follows_case_sum)
     apply (simp add: follows_return Q)
    apply (simp only: split_paired_all prod.case sum.case, elim exE conjE, hypsubst)
    apply (rule follows_attempt_then [OF invoke_claim_follows])
     apply (erule Q)
    apply (unfold Q_def, rule invoke_run_follows, assumption+)
    done
  then show ?thesis by (simp add: Q_def key_def)
qed

section \<open>What the phases say about the events\<close>

definition direct_executions :: "event list \<Rightarrow> (string \<times> DirectPlan) list" where
  "direct_executions es =
     concat (map (\<lambda>e. case e of EvExecuteDirect k _ plan _ \<Rightarrow> [(k, plan)] | _ \<Rightarrow> []) es)"

lemma direct_executions_simps [simp]:
  "direct_executions [] = []"
  "direct_executions (es @ [e]) = direct_executions es @
     (case e of EvExecuteDirect k _ plan _ \<Rightarrow> [(k, plan)] | _ \<Rightarrow> [])"
  by (simp_all add: direct_executions_def)

text \<open>The invocation was authenticated, planned, cleared and, when it has a key, claimed.\<close>

definition planned :: "event list \<Rightarrow> Identity \<Rightarrow> DirectInvocationRequest \<Rightarrow> DirectPlan \<Rightarrow> time list \<Rightarrow> bool" where
  "planned es i input plan clock \<longleftrightarrow> (\<exists>r. EvAuthenticate r (Inr i) \<in> set es) \<and>
     EvPlanDirect input (Inr plan) \<in> set es \<and> (\<forall>t\<in>set clock. EvNow t \<in> set es)"

definition claimed_by :: "event list \<Rightarrow> Identity \<Rightarrow> string \<Rightarrow> string \<Rightarrow> bool" where
  "claimed_by es i key body \<longleftrightarrow>
     (\<exists>r. EvBegin (idempotency_scope i ''POST'' ''/v1/invoke'') key (SHA256Digest body) (Inr (IdempotencyNew, r)) \<in> set es)"

definition permitted ::
  "'w Config \<Rightarrow> string \<Rightarrow> string \<Rightarrow> event list \<Rightarrow> DirectInvocationRequest \<Rightarrow> DirectPlan \<Rightarrow> bool"
where
  "permitted cfg key body es input plan \<longleftrightarrow>
     (\<exists>i clock. planned es i input plan clock \<and> cleared cfg key body i input plan clock \<and>
        (key \<noteq> [] \<longrightarrow> claimed_by es i key body))"

definition direct_secured :: "string \<Rightarrow> event list \<Rightarrow> string \<Rightarrow> DirectPlan \<Rightarrow> string \<Rightarrow> bool" where
  "direct_secured body es k plan ref \<longleftrightarrow>
     (if bt_Mode (dp_BillingTerms plan) = BillingFree then ref = [] \<and> holds_taken es = []
      else holds_taken es = [ref] \<and>
        (\<exists>s a bkey rv. EvReserve s k (SHA256Digest body) (dp_BillingTerms plan) a (dp_PriceCeiling plan) bkey (Inr rv) \<in> set es \<and>
           rv_Reference rv = ref))"

definition direct_untouched :: "event list \<Rightarrow> bool" where
  "direct_untouched es \<longleftrightarrow>
     direct_executions es = [] \<and> settlements es = [] \<and> releases es = [] \<and> holds_taken es = []"

definition direct_disposed :: "event list \<Rightarrow> bool" where
  "direct_disposed es \<longleftrightarrow> length (direct_executions es) \<le> 1 \<and>
     length (settlements es) + length (releases es) \<le> 1 \<and> length (holds_taken es) \<le> 1"

definition served :: "event list \<Rightarrow> string \<Rightarrow> DirectPlan \<Rightarrow> DirectExecutionResult \<Rightarrow> bool" where
  "served es k plan x \<longleftrightarrow> (\<exists>input. EvExecuteDirect k input plan (Inr x) \<in> set es)"

definition paid_by :: "event list \<Rightarrow> Settlement \<Rightarrow> bool" where
  "paid_by es st \<longleftrightarrow> (\<exists>ref amount key. EvSettle ref amount key (Inr st) \<in> set es)"

definition direct_history :: "'w Config \<Rightarrow> string \<Rightarrow> string \<Rightarrow> event list \<Rightarrow> direct_phase \<Rightarrow> bool" where
  "direct_history cfg key body es p \<longleftrightarrow>
     (case p of
        Known i \<Rightarrow> direct_untouched es \<and> (\<exists>r. EvAuthenticate r (Inr i) \<in> set es)
      | Planned i input plan clock \<Rightarrow> direct_untouched es \<and> planned es i input plan clock
      | Claimed i input plan clock \<Rightarrow> direct_untouched es \<and> planned es i input plan clock \<and> claimed_by es i key body
      | Named input plan k \<Rightarrow> direct_untouched es \<and> permitted cfg key body es input plan
      | Backed input plan k ref \<Rightarrow> permitted cfg key body es input plan \<and> direct_secured body es k plan ref \<and>
          direct_executions es = [] \<and> settlements es = [] \<and> releases es = []
      | Refusing ref \<Rightarrow> length (direct_executions es) = 1 \<and> settlements es = [] \<and> releases es = [] \<and>
          length (holds_taken es) \<le> 1
      | Served plan k ref x \<Rightarrow> served es k plan x \<and> direct_secured body es k plan ref \<and>
          length (direct_executions es) = 1 \<and> settlements es = [] \<and> releases es = []
      | Paid k st \<Rightarrow> direct_disposed es \<and> paid_by es st
      | Unpaid k \<Rightarrow> direct_disposed es
      | Closed \<Rightarrow> direct_disposed es
      | Finished \<Rightarrow> direct_disposed es
      | _ \<Rightarrow> direct_untouched es)"

lemma direct_facts_snoc:
  "planned es i input plan clock \<Longrightarrow> planned (es @ [e]) i input plan clock"
  "claimed_by es i key body \<Longrightarrow> claimed_by (es @ [e]) i key body"
  "permitted cfg key body es input plan \<Longrightarrow> permitted cfg key body (es @ [e]) input plan"
  "served es k plan x \<Longrightarrow> served (es @ [e]) k plan x"
  "paid_by es st \<Longrightarrow> paid_by (es @ [e]) st"
  "direct_secured body es k plan ref \<Longrightarrow> holds_taken (es @ [e]) = holds_taken es \<Longrightarrow>
     direct_secured body (es @ [e]) k plan ref"
  unfolding planned_def claimed_by_def permitted_def served_def paid_by_def direct_secured_def
  by (auto split: if_splits)

lemma direct_secured_free:
  "bt_Mode (dp_BillingTerms plan) = BillingFree \<Longrightarrow> holds_taken es = [] \<Longrightarrow> direct_secured body es k plan []"
  by (simp add: direct_secured_def)

lemma direct_secured_reserved:
  assumes "bt_Mode (dp_BillingTerms plan) \<noteq> BillingFree" "holds_taken es = []"
  shows "direct_secured body (es @ [EvReserve s k (SHA256Digest body) (dp_BillingTerms plan) a
    (dp_PriceCeiling plan) bkey (Inr rv)]) k plan (rv_Reference rv)"
  unfolding direct_secured_def using assms by (simp add: event_lists_snoc, blast)

lemma direct_secured_length: "direct_secured body es k plan ref \<Longrightarrow> length (holds_taken es) \<le> Suc 0"
  by (auto simp: direct_secured_def split: if_splits)

lemma served_executed: "served (es @ [EvExecuteDirect k input plan (Inr x)]) k plan x"
  unfolding served_def by (simp, blast)

lemma paid_by_settled: "paid_by (es @ [EvSettle ref amount key (Inr st)]) st"
  unfolding paid_by_def by (simp, blast)

lemma permitted_named:
  "planned es i input plan clock \<Longrightarrow> cleared cfg key body i input plan clock \<Longrightarrow>
     key \<noteq> [] \<longrightarrow> claimed_by es i key body \<Longrightarrow> permitted cfg key body es input plan"
  unfolding permitted_def by blast

lemma claimed_begun:
  "claimed_by (es @ [EvBegin (idempotency_scope i ''POST'' ''/v1/invoke'') key (SHA256Digest body) (Inr (IdempotencyNew, r))]) i key body"
  unfolding claimed_by_def by (simp, blast)

lemmas direct_history_simps =
  invoke_step_def direct_history_def event_lists_snoc direct_facts_snoc direct_untouched_def direct_disposed_def
  answered_def

lemma direct_history_step:
  assumes "direct_history cfg key body es p" "invoke_step cfg key body p e = Some p'"
  shows "direct_history cfg key body (es @ [e]) p'"
proof (cases e)
  case (EvNow t)
  then show ?thesis using assms
    by (cases p) (auto simp: direct_history_simps planned_def)
next
  case (EvRandom raw)
  then show ?thesis using assms
    by (cases p) (auto simp: direct_history_simps split: if_splits intro!: direct_facts_snoc(3) [OF permitted_named])
next
  case (EvAuthenticate r a)
  then show ?thesis using assms
    by (cases p) (auto simp: direct_history_simps split: sum.splits)
next
  case (EvPlanDirect input r)
  then show ?thesis using assms
    by (cases p) (auto simp: direct_history_simps planned_def split: sum.splits)
next
  case (EvBegin s k d r)
  then show ?thesis using assms
    by (cases p) (auto simp: direct_history_simps claimed_begun split: sum.splits prod.splits IdempotencyResult.splits if_splits)
next
  case (EvReserve s k d terms a amount bkey r)
  then show ?thesis using assms
    by (cases p) (auto simp: direct_history_simps direct_secured_reserved split: sum.splits if_splits)
next
  case (EvExecuteDirect k input plan r)
  then show ?thesis using assms
    by (cases p) (auto simp: direct_history_simps served_executed direct_secured_free intro: direct_secured_length
      split: sum.splits if_splits)
next
  case (EvSettle ref amount bkey r)
  then show ?thesis using assms
    by (cases p) (auto simp: direct_history_simps paid_by_settled intro: direct_secured_length split: sum.splits if_splits)
next
  case (EvRelease ref bkey r)
  then show ?thesis using assms
    by (cases p) (auto simp: direct_history_simps intro: direct_secured_length split: sum.splits if_splits)
next
  case (EvPutInvocation kept r)
  then show ?thesis using assms
    by (cases p) (auto simp: direct_history_simps intro: direct_secured_length split: if_splits)
next
  case (EvComplete s k r x)
  then show ?thesis using assms
    by (cases p) (auto simp: direct_history_simps intro: direct_secured_length split: if_splits)
qed (use assms in \<open>simp_all add: direct_history_simps split: direct_phase.splits\<close>)

lemma direct_history_reached:
  assumes "advance (invoke_step cfg key body) Arrived es = Some p"
  shows "direct_history cfg key body es p"
proof (rule advance_history [OF _ _ assms])
  show "direct_history cfg key body [] Arrived" by (simp add: direct_history_def direct_untouched_def)
qed (rule direct_history_step)

lemma invoke_history:
  assumes "events_of (handleInvoke cfg writer request) w = before @ e # after"
  obtains p p' where "direct_history cfg (request_key request) (request_body request) before p"
    "invoke_step cfg (request_key request) (request_body request) p e = Some p'"
proof -
  let ?step = "invoke_step cfg (request_key request) (request_body request)"
  obtain q where "advance ?step Arrived (before @ e # after) = Some q"
    using follows_run [OF handleInvoke_follows, of cfg request writer w] assms by metis
  then obtain p p' where p: "advance ?step Arrived before = Some p" "?step p e = Some p'"
    by (blast dest: advance_prefix)
  from p(1) have "direct_history cfg (request_key request) (request_body request) before p"
    by (rule direct_history_reached)
  then show ?thesis using that p(2) by blast
qed

lemma direct_history_disposed: "direct_history cfg key body es p \<Longrightarrow> direct_disposed es"
  by (auto simp: direct_history_def direct_untouched_def direct_disposed_def direct_secured_def
      split: direct_phase.splits if_splits)

lemma invoke_disposed: "direct_disposed (events_of (handleInvoke cfg writer request) w)"
proof -
  obtain q where "advance (invoke_step cfg (request_key request) (request_body request)) Arrived
      (events_of (handleInvoke cfg writer request) w) = Some q"
    using follows_run [OF handleInvoke_follows, of cfg request writer w] by metis
  from direct_history_disposed [OF direct_history_reached [OF this]] show ?thesis .
qed

section \<open>The answer of a claimed invocation\<close>

text \<open>
  A second machine reads only the calls to the idempotency backend: a claim that is granted is
  completed once, under the scope and key it was granted for, and never given back.
\<close>

datatype claim_phase = Open | Claiming string string | Answered string string StoredResponse "error option"

definition claim_step :: "claim_phase \<Rightarrow> event \<Rightarrow> claim_phase option" where
  "claim_step p e =
     (case e of
        EvBegin scope key d r \<Rightarrow>
          if p = Open then Some (case r of Inr (IdempotencyNew, _) \<Rightarrow> Claiming scope key | _ \<Rightarrow> Open) else None
      | EvComplete scope key answer0 r \<Rightarrow>
          if p = Claiming scope key then Some (Answered scope key answer0 r) else None
      | EvUnclaim _ _ _ _ \<Rightarrow> None
      | _ \<Rightarrow> Some p)"

text \<open>
  The client is told what was stored: the response repeats the status and body of the stored answer,
  or, when the store did not confirm it, it is the problem that asks to reconcile.
\<close>

definition answered_as :: "'w Config \<Rightarrow> http_response \<Rightarrow> StoredResponse \<Rightarrow> error option \<Rightarrow> bool" where
  "answered_as cfg r answer0 err \<longleftrightarrow>
     (case err of None \<Rightarrow> rs_Status r = sr_StatusCode answer0 \<and> rs_Body r = sr_Body answer0
      | Some _ \<Rightarrow> outcome_unknown cfg r)"

definition claim_answered :: "'w Config \<Rightarrow> http_response \<Rightarrow> claim_phase \<Rightarrow> bool" where
  "claim_answered cfg r p \<longleftrightarrow>
     (case p of Open \<Rightarrow> True | Claiming scope key \<Rightarrow> False | Answered scope key answer0 err \<Rightarrow> answered_as cfg r answer0 err)"

lemma claim_answered_simps [simp]:
  "claim_answered cfg r Open" "\<not> claim_answered cfg r (Claiming scope key)"
  "claim_answered cfg r (Answered scope key answer0 err) \<longleftrightarrow> answered_as cfg r answer0 err"
  by (simp_all add: claim_answered_def)

lemma sign_projection_unclaimed:
  assumes "\<And>err. Q (Inl (f err)) p" "\<And>err. Q (Inl (g err)) p" "\<And>sg. Q (Inr sg) p"
  shows "follows claim_step p (sign_projection cfg v f g) Q"
  unfolding sign_projection_def sign_json_def
  by (rule wp follows_either | simp add: claim_step_def assms)+

lemma executeDirect_unclaimed:
  "follows claim_step p (executeDirect cfg i requestID input plan digest key) (\<lambda>r q. q = p \<and> \<not> op_ReleaseClaim r)"
  unfolding executeDirect_def direct_failed_def direct_executed_def direct_bad_price_def direct_settle_def direct_record_def
    reserveBilling_def appendAudit_def release_reservation_def call_defs Let_def
  by (rule sign_projection_unclaimed wp follows_call conjI impI allI | simp add: claim_step_def)+

lemma finish_invocation_answers:
  assumes "\<not> op_ReleaseClaim result" "p = (if key = [] then Open else Claiming scope key)"
  shows "follows claim_step p (finish_invocation cfg writer requestID scope key digest result) (claim_answered cfg)"
  unfolding finish_invocation_def idempotency_complete_def Now_def using assms
  by (auto intro!: wp follows_call outcome_unknownI simp: claim_step_def answered_as_def writeOperationResult_def respond_def
      invocation_problem_def split: option.split)

lemma readAuthenticatedJSON_unclaimed:
  "follows claim_step p (readAuthenticatedJSON cfg writer request) (\<lambda>_ q. q = p)"
  unfolding readAuthenticatedJSON_def authenticateRead_def request_id_def new_id_def Authenticate_def Let_def
  by (rule wp follows_call conjI impI allI | simp add: claim_step_def split: sum.split)+

lemma invoke_guards_unclaimed: "follows claim_step p (invoke_guards cfg i body key) (\<lambda>_ q. q = p)"
  unfolding invoke_guards_def validateReferences_def approval_problem_def service_plan_direct_def files_validate_def Now_def
  by (rule wp follows_call conjI impI allI | simp add: claim_step_def split: sum.split option.split)+

lemma claim_invocation_claims:
  "follows claim_step Open (claim_invocation cfg writer requestID scope key digest)
     (\<lambda>r q. q = (case r of Inl _ \<Rightarrow> Open | Inr _ \<Rightarrow> Claiming scope key))"
  unfolding claim_invocation_def idempotency_begin_def
  by (rule wp follows_call conjI impI allI
      | simp add: claim_step_def split: sum.split prod.split IdempotencyResult.split)+

lemma handleInvoke_answers: "follows claim_step Open (handleInvoke cfg writer request) (claim_answered cfg)"
proof -
  have run: "follows claim_step p (do {
        result \<leftarrow> executeDirect cfg i requestID input plan digest key;
        finish_invocation cfg writer requestID scope key digest result }) (claim_answered cfg)"
    if "p = (if key = [] then Open else Claiming scope key)" for p i requestID input plan digest key scope
    by (rule follows_then [OF executeDirect_unclaimed], elim conjE, rule finish_invocation_answers) (use that in simp_all)
  have claim: "follows claim_step Open (if key = [] then State_Monad.return (Inr ())
        else claim_invocation cfg writer requestID scope key digest)
      (\<lambda>r q. case r of Inl response \<Rightarrow> q = Open | Inr _ \<Rightarrow> q = (if key = [] then Open else Claiming scope key))"
    for key requestID scope digest
    by (rule follows_if, rule follows_return, simp, rule follows_mono [OF claim_invocation_claims])
       (auto split: sum.splits)
  show ?thesis
    unfolding handleInvoke_def Let_def
    apply (rule follows_attempt, rule follows_mono [OF readAuthenticatedJSON_unclaimed], hypsubst, rule sum.split [THEN iffD2], intro conjI allI impI)
     apply simp
    apply (simp only: split_paired_all prod.case)
    apply (rule follows_then [OF invoke_guards_unclaimed], hypsubst, rule follows_case_sum, rule follows_return, simp)
    apply (simp only: split_paired_all prod.case)
    apply (rule follows_attempt_then [OF claim], simp)
    apply (erule run)
    done
qed

text \<open>What the phases say about the events.\<close>

definition claim_history :: "event list \<Rightarrow> claim_phase \<Rightarrow> bool" where
  "claim_history es p \<longleftrightarrow>
     (\<forall>scope key d resp. EvBegin scope key d (Inr (IdempotencyNew, resp)) \<in> set es \<longrightarrow>
        p = Claiming scope key \<or> (\<exists>answer0 err. p = Answered scope key answer0 err)) \<and>
     (\<forall>scope key answer0 err. p = Answered scope key answer0 err \<longrightarrow> EvComplete scope key answer0 err \<in> set es)"

lemma claim_history_reached:
  assumes "advance claim_step Open es = Some p"
  shows "claim_history es p"
proof (rule advance_history [OF _ _ assms])
  fix es p e p'
  assume "claim_history es p" "claim_step p e = Some p'"
  then show "claim_history (es @ [e]) p'"
    by (cases e) (auto simp: claim_step_def claim_history_def split: if_splits sum.splits prod.splits IdempotencyResult.splits)
qed (simp add: claim_history_def)

lemma invoke_answered:
  assumes "EvBegin scope key d (Inr (IdempotencyNew, resp)) \<in> set (events_of (handleInvoke cfg writer request) w)"
  shows "\<exists>answer0 err. EvComplete scope key answer0 err \<in> set (events_of (handleInvoke cfg writer request) w) \<and>
    answered_as cfg (result_of (handleInvoke cfg writer request) w) answer0 err"
proof -
  obtain p where p: "advance claim_step Open (events_of (handleInvoke cfg writer request) w) = Some p"
    "claim_answered cfg (result_of (handleInvoke cfg writer request) w) p"
    using follows_run [OF handleInvoke_answers, of cfg writer request w] by metis
  from claim_history_reached [OF p(1)] assms p(2) show ?thesis unfolding claim_history_def by fastforce
qed

end
