(* ===== verification/Task_Lifecycle.thy ===== *)
theory Task_Lifecycle
  imports Contract_Protocol
begin

text \<open>
  The life of a task as the specification draws it (spec/state-machine.md, section 3), and the proof
  that a commit keeps to it: the machine of the commit simulates the abstract one. There is one step
  that the specification does not list, from running to disputed; it is not part of the lifecycle
  here, and the simulation says when a commit takes it.
\<close>

section \<open>The abstract machine\<close>

text \<open>
  The transitions of the specification, line by line.
\<close>

inductive lifecycle :: "TaskState \<Rightarrow> TaskState \<Rightarrow> bool" where
  "lifecycle TaskAccepted TaskScheduled"
| "lifecycle TaskScheduled TaskRunning"
| "lifecycle TaskRunning TaskSucceeded"
| "lifecycle TaskAccepted TaskRunning"
| "lifecycle TaskRunning TaskFailed"
| "lifecycle TaskAccepted TaskCancelled"
| "lifecycle TaskScheduled TaskCancelling"
| "lifecycle TaskCancelling TaskCancelled"
| "lifecycle TaskRunning TaskWaitingInput"
| "lifecycle TaskWaitingInput TaskRunning"
| "lifecycle TaskRunning TaskWaitingRequote"
| "lifecycle TaskSucceeded TaskCompensating"
| "lifecycle TaskCompensating TaskCompensated"
| "lifecycle TaskSucceeded TaskDisputed"

code_pred lifecycle .

inductive_simps lifecycle_simps [simp]: "lifecycle TaskAccepted s" "lifecycle TaskRunning s"

text \<open>
  A history of store calls is a run of the lifecycle: a task is stored in a state, and every
  confirmed update takes a task in that state to the same state or along a transition. \<open>None\<close>
  is the state before the task is stored; a call the store did not confirm leaves the state.
\<close>

definition task_call :: "event \<Rightarrow> bool" where
  "task_call e \<longleftrightarrow> (\<exists>task. e = EvPutTask task None) \<or> (\<exists>i f t. e = EvUpdateTask i f (t, None))"

definition takes :: "TaskState \<Rightarrow> (Task \<Rightarrow> Task result) \<Rightarrow> TaskState \<Rightarrow> bool" where
  "takes s f s' \<longleftrightarrow> (\<forall>t t'. t_State t = s \<longrightarrow> f t = Inr t' \<longrightarrow> t_State t' = s') \<and> (s' = s \<or> lifecycle s s')"

inductive lifecycle_run :: "event list \<Rightarrow> TaskState option \<Rightarrow> bool" where
  start: "lifecycle_run [] None"
| other: "lifecycle_run es s \<Longrightarrow> \<not> task_call e \<Longrightarrow> lifecycle_run (es @ [e]) s"
| stored: "lifecycle_run es None \<Longrightarrow> t_State task = TaskAccepted \<Longrightarrow>
    lifecycle_run (es @ [EvPutTask task None]) (Some TaskAccepted)"
| updated: "lifecycle_run es (Some s) \<Longrightarrow> takes s f s' \<Longrightarrow>
    lifecycle_run (es @ [EvUpdateTask i f (t, None)]) (Some s')"

text \<open>
  The step outside the lifecycle: a running task is disputed, after the provider delivered a result
  whose price the signed quote does not allow; whatever follows leaves the state alone.
\<close>

definition rests :: "event \<Rightarrow> bool" where
  "rests e \<longleftrightarrow> \<not> task_call e \<or> (\<exists>i f t. e = EvUpdateTask i f (t, None) \<and> keeps_state f)"

definition disputed_run :: "event list \<Rightarrow> bool" where
  "disputed_run es \<longleftrightarrow> (\<exists>before i f t after. es = before @ EvUpdateTask i f (t, None) # after \<and>
     lifecycle_run before (Some TaskRunning) \<and> overpriced before \<and> moves_to TaskDisputed f \<and> list_all rests after)"

section \<open>The simulation\<close>

fun in_state :: "phase \<Rightarrow> TaskState option \<Rightarrow> bool" where
  "in_state (Placed q ref) s \<longleftrightarrow> s = Some TaskAccepted"
| "in_state (Running q ref) s \<longleftrightarrow> s = Some TaskRunning"
| "in_state (Failing q ref) s \<longleftrightarrow> s = Some TaskRunning"
| "in_state (Delivered q ref result) s \<longleftrightarrow> s = Some TaskRunning"
| "in_state (Charged q ref result) s \<longleftrightarrow> s = Some TaskRunning"
| "in_state (Closing s') s \<longleftrightarrow> s = Some TaskRunning \<and> (s' = TaskDisputed \<or> lifecycle TaskRunning s')"
| "in_state (Ended s') s \<longleftrightarrow> s = Some s'"
| "in_state (Orphaned q ref) s \<longleftrightarrow> s = None \<or> s = Some TaskAccepted"
| "in_state Aborted s = True"
| "in_state _ s \<longleftrightarrow> s = None"

lemma takes_moves: "moves_to s' f \<Longrightarrow> lifecycle s s' \<Longrightarrow> takes s f s'"
  by (auto simp: takes_def moves_to_def)

lemma takes_keeps: "keeps_state f \<Longrightarrow> takes s f s"
  by (auto simp: takes_def keeps_state_def)

lemma disputed_now:
  "lifecycle_run es (Some TaskRunning) \<Longrightarrow> overpriced es \<Longrightarrow> moves_to TaskDisputed f \<Longrightarrow>
     disputed_run (es @ [EvUpdateTask i f (t, None)])"
  unfolding disputed_run_def by (metis list.pred_inject(1))

lemma disputed_later: "disputed_run es \<Longrightarrow> rests e \<Longrightarrow> disputed_run (es @ [e])"
  unfolding disputed_run_def by (auto simp: list_all_append) (metis append_Cons append_assoc list_all_append list.pred_inject)

lemma simulation:
  assumes "history i es p" "lifecycle_run es s" "in_state p s" "contract_machine i p e = Some p'"
  shows "(\<exists>s. lifecycle_run (es @ [e]) s \<and> in_state p' s) \<or> disputed_run (es @ [e]) \<and> p' = Ended TaskDisputed"
proof (cases "task_call e")
  case False
  then have "lifecycle_run (es @ [e]) s" by (rule other [OF assms(2)])
  moreover have "in_state p' s"
    using assms(3,4) False
    by (cases e; cases p)
       (auto simp: contract_machine_def action_of_def contract_step_def Let_def task_call_def
        split: if_splits option.splits sum.splits prod.splits)
  ultimately show ?thesis by blast
next
  case True
  then consider (put) task where "e = EvPutTask task None" | (upd) k f t where "e = EvUpdateTask k f (t, None)"
    by (auto simp: task_call_def)
  then show ?thesis
  proof cases
    case put
    with assms(2-) show ?thesis
      by (cases p) (auto simp: contract_machine_def action_of_def contract_step_def intro: stored split: if_splits)
  next
    case upd
    with assms(3,4) have "(\<exists>s0 s'. s = Some s0 \<and> takes s0 f s' \<and> in_state p' (Some s')) \<or>
        s = Some TaskRunning \<and> moves_to TaskDisputed f \<and> overpriced es \<and> p' = Ended TaskDisputed"
      using assms(1)
      by (cases p) (auto simp: contract_machine_def action_of_def contract_step_def Let_def history_def takes_moves
        takes_keeps overpriced_delivered split: if_splits)
    with assms(2) upd show ?thesis by (blast intro: updated disputed_now)
  qed
qed

lemma dispute_lasts:
  "contract_machine i (Ended s) e = Some p \<Longrightarrow> p = Ended s \<and> rests e"
  by (cases e)
     (auto simp: contract_machine_def action_of_def contract_step_def rests_def task_call_def split: if_splits)

lemma commit_run:
  "(\<exists>s. lifecycle_run (events_of (commit cfg i requestID body key) w) s) \<or>
     disputed_run (events_of (commit cfg i requestID body key) w)"
proof -
  obtain p where "advance (contract_machine i) Idle (events_of (commit cfg i requestID body key) w) = Some p"
    using follows_run [OF commit_follows, of i cfg requestID body key w] by metis
  moreover have "history i es p \<and> ((\<exists>s. lifecycle_run es s \<and> in_state p s) \<or> disputed_run es \<and> p = Ended TaskDisputed)"
    if "advance (contract_machine i) Idle es = Some p" for es p
  proof (rule advance_history [OF _ _ that])
    show "history i [] Idle \<and> ((\<exists>s. lifecycle_run [] s \<and> in_state Idle s) \<or> disputed_run [] \<and> Idle = Ended TaskDisputed)"
      using history_reached [of i "[]" Idle] by (auto intro: start)
  qed (blast intro: history_step dest: simulation dispute_lasts intro: disputed_later)
  ultimately show ?thesis by blast
qed

end
