(* ===== verification/Task_Protocol.thy ===== *)
theory Task_Protocol
  imports Contract_Protocol
begin

text \<open>
  The protocol that a cancellation follows: the task and its quote are loaded, the caller owns
  the quote, the task is not finished, the service grants the cancellation, an open hold is
  released, and only then the task is cancelled.
\<close>

datatype cancel_phase =
    Unread
  | Fetched Task
  | Mine Task
  | Granted Task
  | Voided Task
  | Cancel_over

definition cancel_step :: "string \<Rightarrow> Identity \<Rightarrow> cancel_phase \<Rightarrow> event \<Rightarrow> cancel_phase option" where
  "cancel_step taskID identity p e =
     (case e of
        EvNow _ \<Rightarrow> Some p
      | EvAudit _ _ _ _ \<Rightarrow> Some p
      | EvGetTask k r \<Rightarrow> (case p of
            Unread \<Rightarrow> if k = taskID
              then Some (case r of Inr (Some t) \<Rightarrow> Fetched t | _ \<Rightarrow> Cancel_over) else None
          | _ \<Rightarrow> None)
      | EvGetQuote k r \<Rightarrow> (case p of
            Fetched t \<Rightarrow> if k = t_QuoteID t
              then Some (case r of Inr (Some q) \<Rightarrow> if owned_by identity q then Mine t else Cancel_over | _ \<Rightarrow> Cancel_over)
              else None
          | _ \<Rightarrow> None)
      | EvCancel t' input r \<Rightarrow> (case p of
            Mine t \<Rightarrow> if t' = t \<and> cancel_guards input t = None
              then Some (case r of None \<Rightarrow> Granted t | Some _ \<Rightarrow> Cancel_over) else None
          | _ \<Rightarrow> None)
      | EvRelease ref _ r \<Rightarrow> (case p of
            Granted t \<Rightarrow> if map_option br_ReservationRef (open_hold t) = Some ref
              then Some (case r of None \<Rightarrow> Voided t | Some _ \<Rightarrow> Cancel_over) else None
          | _ \<Rightarrow> None)
      | EvUpdateTask k f _ \<Rightarrow> (case p of
            Granted t \<Rightarrow> if open_hold t = None \<and> k = taskID \<and> moves_to TaskCancelled f then Some Cancel_over else None
          | Voided t \<Rightarrow> if k = taskID \<and> moves_to TaskCancelled f then Some Cancel_over else None
          | _ \<Rightarrow> None)
      | _ \<Rightarrow> None)"

text \<open>A call that answers an error, nothing or a value.\<close>

lemma follows_lookup:
  assumes "\<And>err. case step p (ev (Inl err)) of None \<Rightarrow> False | Some p' \<Rightarrow> Q (Inl err) p'"
    and "case step p (ev (Inr None)) of None \<Rightarrow> False | Some p' \<Rightarrow> Q (Inr None) p'"
    and "\<And>a. case step p (ev (Inr (Some a))) of None \<Rightarrow> False | Some p' \<Rightarrow> Q (Inr (Some a)) p'"
  shows "follows step p (perform m ev) Q"
proof (rule follows_either)
  fix a
  show "case step p (ev (Inr a)) of None \<Rightarrow> False | Some p' \<Rightarrow> Q (Inr a) p'"
    by (cases a; hypsubst; rule assms)
qed (rule assms(1))

lemma cancel_task_moves: "moves_to TaskCancelled (cancel_task reason now)"
  by (auto simp: moves_to_def cancel_task_def)

lemma authorizedTask_follows:
  "follows (cancel_step taskID i) Unread (authorizedTask cfg i taskID)
     (\<lambda>r p. case r of Inl _ \<Rightarrow> True | Inr (task, quote) \<Rightarrow> p = Mine task)"
  unfolding authorizedTask_def store_get_task_def store_get_quote_def
  by (rule wp follows_lookup conjI impI | simp add: cancel_step_def owned_by_def)+

lemma cancel_end:
  assumes "p = Voided t \<or> p = Granted t \<and> open_hold t = None"
  shows "follows (cancel_step taskID i) p (store_update_task cfg taskID (cancel_task reason now)) (\<lambda>r q. q = Cancel_over)"
  unfolding store_update_task_def
  by (rule follows_call) (use assms in \<open>auto simp: cancel_step_def cancel_task_moves\<close>)

lemma cancel_audit:
  "follows (cancel_step taskID i) p (appendAudit cfg chainID type0 actor data) (\<lambda>_ q. q = p)"
  unfolding appendAudit_def audit_append_def by (rule wp follows_call | simp add: cancel_step_def)+

lemma cancel_release:
  "follows (cancel_step taskID i) (Granted t)
     (case open_hold t of None \<Rightarrow> State_Monad.return None | Some b \<Rightarrow> billing_release cfg (br_ReservationRef b) k)
     (\<lambda>r p. r = None \<longrightarrow> p = Voided t \<or> p = Granted t \<and> open_hold t = None)"
  unfolding billing_release_def
  by (rule wp follows_call | simp add: cancel_step_def split: option.split)+

lemma cancel_granted_follows:
  "follows (cancel_step taskID i) (Granted t) (cancel_granted cfg taskID i requestID key input t) (\<lambda>_ _. True)"
  unfolding cancel_granted_def
proof (rule follows_then [OF cancel_release], rule follows_case_option)
  fix r p
  assume "r = None \<longrightarrow> p = Voided t \<or> p = Granted t \<and> open_hold t = None" and r: "r = None"
  then have p: "p = Voided t \<or> p = Granted t \<and> open_hold t = None" by simp
  have now: "follows (cancel_step taskID i) p (Now cfg) (\<lambda>_ q. q = p)"
    unfolding Now_def by (rule follows_call) (simp add: cancel_step_def)
  show "follows (cancel_step taskID i) p
     (do { now \<leftarrow> Now cfg;
           updated \<leftarrow> store_update_task cfg taskID (cancel_task (cn_Reason input) now);
           case updated of
             (_, Some err) \<Rightarrow> State_Monad.return (problemResult cfg requestID
               (problem StatusInternalServerError ErrInternal ''Cancellation failed''
                 ''The service could not persist the cancellation transition.'' True))
           | (task', None) \<Rightarrow> do {
               appendAudit cfg taskID ''ascp.task.cancelled'' (id_Actor i) [(''reason'', VText (cn_Reason input))];
               State_Monad.return (jsonResult cfg StatusOK (BTask task')) } }) (\<lambda>_ _. True)"
    by (rule follows_then [OF now], hypsubst, rule follows_then [OF cancel_end [OF p]], rule follows_case_prod,
        rule follows_case_option) (auto intro: follows_return follows_then [OF cancel_audit])
qed (simp add: follows_return)

lemma cancel_owned_follows:
  "follows (cancel_step taskID i) (Mine t) (cancel_owned cfg taskID i requestID key input t) (\<lambda>_ _. True)"
  unfolding cancel_owned_def service_cancel_def
proof (rule follows_case_option, rule follows_bind, rule follows_call)
  fix r
  assume "cancel_guards input t = None"
  then show "case cancel_step taskID i (Mine t) (EvCancel t input r) of None \<Rightarrow> False
    | Some q \<Rightarrow> follows (cancel_step taskID i) q
        (case r of Some p \<Rightarrow> State_Monad.return (problemResult cfg requestID p)
         | None \<Rightarrow> cancel_granted cfg taskID i requestID key input t) (\<lambda>_ _. True)"
    by (cases r) (simp_all add: cancel_step_def cancel_granted_follows follows_return)
qed (simp add: follows_return)

lemma cancel_follows: "follows (cancel_step taskID i) Unread (cancel cfg taskID i requestID body key) (\<lambda>_ _. True)"
  unfolding cancel_def
proof (rule follows_case_sum, rule follows_return, simp, rule follows_then [OF authorizedTask_follows])
  fix input q and a :: "Problem + Task \<times> Quote"
  assume "case a of Inl _ \<Rightarrow> True | Inr (task, quote) \<Rightarrow> q = Mine task"
  then show "follows (cancel_step taskID i) q (case a of Inl p \<Rightarrow> State_Monad.return (problemResult cfg requestID p)
      | Inr (task, quote) \<Rightarrow> cancel_owned cfg taskID i requestID key input task) (\<lambda>_ _. True)"
    by (cases a) (auto intro: follows_return cancel_owned_follows)
qed

section \<open>What the phases say about the events\<close>

definition cancel_history :: "string \<Rightarrow> Identity \<Rightarrow> event list \<Rightarrow> cancel_phase \<Rightarrow> bool" where
  "cancel_history taskID identity es p \<longleftrightarrow>
     (let fetched = (\<lambda>t. EvGetTask taskID (Inr (Some t)) \<in> set es);
          mine = (\<lambda>t. fetched t \<and> (\<exists>q. owned_by identity q \<and> EvGetQuote (t_QuoteID t) (Inr (Some q)) \<in> set es));
          granted = (\<lambda>t. mine t \<and> (\<exists>input. cancel_guards input t = None \<and> EvCancel t input None \<in> set es)) in
      case p of
        Fetched t \<Rightarrow> fetched t
      | Mine t \<Rightarrow> mine t
      | Granted t \<Rightarrow> granted t
      | Voided t \<Rightarrow> granted t \<and> (\<exists>b key. open_hold t = Some b \<and> EvRelease (br_ReservationRef b) key None \<in> set es)
      | _ \<Rightarrow> True)"

lemma cancel_history_reached:
  assumes "advance (cancel_step taskID identity) Unread es = Some p"
  shows "cancel_history taskID identity es p"
proof (rule advance_history [OF _ _ assms])
  show "cancel_history taskID identity [] Unread" by (simp add: cancel_history_def)
next
  fix es p e p'
  assume "cancel_history taskID identity es p" "cancel_step taskID identity p e = Some p'"
  then show "cancel_history taskID identity (es @ [e]) p'"
    by (cases e; cases p)
       (auto simp: cancel_step_def cancel_history_def Let_def split: if_splits sum.splits option.splits)
qed

lemma cancel_history_at:
  assumes "events_of (cancel cfg taskID i requestID body key) w = before @ e # after"
  obtains p p' where "cancel_history taskID i before p" "cancel_step taskID i p e = Some p'"
proof -
  obtain q where "advance (cancel_step taskID i) Unread (before @ e # after) = Some q"
    using follows_run [OF cancel_follows, of taskID i cfg requestID body key w] assms by metis
  then obtain p p' where p: "advance (cancel_step taskID i) Unread before = Some p" "cancel_step taskID i p e = Some p'"
    by (blast dest: advance_prefix)
  from cancel_history_reached [OF p(1)] p(2) show ?thesis by (rule that)
qed

end
