(* ===== verification/Engine_Examples.thy ===== *)
theory Engine_Examples
  imports Examples Direct_Protocol Offer_Protocol Server_Routes Reference_Server Task_Lifecycle Task_Protocol
begin

text \<open>
  Concrete runs of the protocol engine: a configuration whose dependencies give one answer each,
  and the events of a commit, a preparation, an invocation and a cancellation under it. The
  examples of the engine's properties are read off these runs.
\<close>

section \<open>Running handlers\<close>

lemma run_return [simp]: "run_state (State_Monad.return a) s = (a, s)"
  by (simp add: State_Monad.return_def)

lemma run_bind [simp]:
  "run_state (State_Monad.bind m f) s = (case run_state m s of (a, s') \<Rightarrow> run_state (f a) s')"
  by (simp add: State_Monad.bind_def)

lemma run_perform [simp]:
  "run_state (perform m ev) s = (case s of (tr, w) \<Rightarrow> case m w of (r, w') \<Rightarrow> (r, (tr @ [ev r], w')))"
  by (simp add: perform_def Let_def split: prod.split)

lemmas run_defs = attempt_def call_defs

section \<open>A configuration with one answer for each call\<close>

definition demo_signature :: Signature where
  "demo_signature = zero_Signature\<lparr>sg_PayloadDigest := ''dig''\<rparr>"

definition demo_quote :: Quote where
  "demo_quote = example_quote\<lparr>q_Signature := demo_signature\<rparr>"

definition demo_evidence :: AuthorizationEvidence where
  "demo_evidence = \<lparr>ae_Type = ''ui'', ae_Reference = ''demo-approval-1'', ae_PrincipalID = ''u1'', ae_Audience = ''svc'',
     ae_ApprovedAt = 140, ae_ExpiresAt = 190, ae_BindingDigest = ''dig'', ae_PolicyVersion = []\<rparr>"

definition demo_commit :: CommitRequest where
  "demo_commit = \<lparr>cm_RequestID = [], cm_QuoteID = ''quo_1'', cm_QuoteDigest = ''dig'',
     cm_Authorization = demo_evidence, cm_BillingAuthorization = None, cm_ClientTaskID = [], cm_Metadata = []\<rparr>"

definition demo_reservation :: Reservation where
  "demo_reservation = \<lparr>rv_Reference = ''blr_1'', rv_Mode = BillingPayNow, rv_ArrangementRef = [],
     rv_Amount = usd ''5.00'', rv_State = ''reserved'', rv_InvoiceRef = [], rv_PeriodRef = []\<rparr>"

definition demo_settlement :: Settlement where
  "demo_settlement = \<lparr>st_Reference = ''bls_1'', st_Mode = BillingPayNow, st_ArrangementRef = [],
     st_Amount = usd ''5.00'', st_State = ''settled'', st_InvoiceRef = [], st_PeriodRef = []\<rparr>"

definition demo_result :: ExecutionResult where
  "demo_result = \<lparr>xr_Artifacts = [], xr_Metadata = [], xr_FinalPrice = None, xr_FinalPriceBreakdown = []\<rparr>"

definition demo_identity_of :: "EntityRef \<Rightarrow> EntityRef \<Rightarrow> Identity" where
  "demo_identity_of actor principal0 = \<lparr>id_Actor = actor, id_Principal = principal0, id_Scopes = Map.empty\<rparr>"

definition no_decoder :: "'a strict_decoder" where
  "no_decoder body = (Inl (New_error ''no JSON''), True)"

definition demo_library :: Library where
  "demo_library =
     \<lparr>js_Marshal = (\<lambda>v. Inr ''{}''), js_Encode = (\<lambda>v. ''{}''), js_Object = (\<lambda>s. Inr (Some Map.empty)),
      js_Negotiation = no_decoder, js_Prepare = no_decoder, js_Commit = (\<lambda>body. (Inr demo_commit, True)),
      js_Cancel = no_decoder, js_Options = no_decoder, js_Direct = no_decoder, js_Upload = no_decoder,
      lib_ParseMediaType = (\<lambda>s. Inr s), lib_ParseURL = (\<lambda>s. Inl (New_error ''no URL'')), lib_ErrText = (\<lambda>e. [])\<rparr>"

definition refusal :: Problem where
  "refusal = problem StatusForbidden ErrForbidden ''Refused'' [] False"

definition demo_task :: Task where
  "demo_task = zero_Task\<lparr>t_TaskID := ''tsk_1'', t_QuoteID := ''quo_1'', t_State := TaskAccepted, t_Billing := Some
     \<lparr>br_Mode = BillingPayNow, br_ArrangementRef = [], br_ReservationRef = ''blr_1'', br_SettlementRef = [],
      br_InvoiceRef = [], br_PeriodRef = [], br_Amount = Some (usd ''5.00''), br_State = ''reserved''\<rparr>\<rparr>"

definition demo_update :: "(Task \<Rightarrow> Task result) \<Rightarrow> Task \<times> error option" where
  "demo_update f = (case f demo_task of Inl err \<Rightarrow> (zero_Task, Some err) | Inr t \<Rightarrow> (t, None))"

definition demo_config :: "unit Config" where
  "demo_config =
     \<lparr>cfg_Manifest = (reference_manifest [])\<lparr>mf_ServiceID := ''svc''\<rparr>,
      cfg_Authenticator = (\<lambda>request w. (Inr (demo_identity_of agent person), w)),
      cfg_Authorization = (\<lambda>i q e w. (None, w)),
      cfg_Service =
        \<lparr>svc_Capabilities = (\<lambda>i q w. (Inl refusal, w)), svc_Options = (\<lambda>i r w. (Inl refusal, w)),
         svc_PlanDirect = (\<lambda>i r w. (Inl refusal, w)), svc_ExecuteDirect = (\<lambda>i n r p w. (Inl refusal, w)),
         svc_Negotiate = (\<lambda>i r w. (Inl refusal, w)), svc_Prepare = (\<lambda>i offer r w. (Inl refusal, w)),
         svc_Execute = (\<lambda>i t q w. (Inr demo_result, w)), svc_Cancel = (\<lambda>i t r w. (None, w))\<rparr>,
      cfg_Store =
        \<lparr>db_PutInvocation = (\<lambda>r w. (None, w)), db_GetInvocation = (\<lambda>i w. (Inr None, w)),
         db_PutOffer = (\<lambda>r w. (None, w)), db_GetOffer = (\<lambda>i w. (Inr None, w)),
         db_PutQuote = (\<lambda>r w. (None, w)), db_GetQuote = (\<lambda>i w. (Inr (Some demo_quote), w)),
         db_PutTask = (\<lambda>r w. (None, w)), db_GetTask = (\<lambda>i w. (Inr (Some demo_task), w)),
         db_UpdateTask = (\<lambda>i f w. (demo_update f, w))\<rparr>,
      cfg_Idempotency =
        \<lparr>idem_Begin = (\<lambda>scope key d r w. (Inr (IdempotencyNew, zero_StoredResponse), w)),
         idem_Complete = (\<lambda>scope key r w. (None, w)), idem_Release = (\<lambda>scope key d w. (None, w))\<rparr>,
      cfg_Audit =
        \<lparr>aud_Append = (\<lambda>c t a d w. (Inl (New_error ''no log''), w)), aud_List = (\<lambda>c n w. (Inr [], w)),
         aud_Root = (\<lambda>c w. (Inr ''root'', w))\<rparr>,
      cfg_Billing =
        \<lparr>bill_Reserve = (\<lambda>s c d t a m k w. (Inr demo_reservation, w)),
         bill_Settle = (\<lambda>ref m k w. (Inr demo_settlement, w)), bill_Release = (\<lambda>ref k w. (None, w))\<rparr>,
      cfg_Files =
        \<lparr>fs_Prepare = (\<lambda>i r b t w. (Inl refusal, w)), fs_Upload = (\<lambda>i f k m c t w. (Inl refusal, w)),
         fs_Get = (\<lambda>i f t w. (Inl refusal, w)), fs_Content = (\<lambda>i f t w. (Inl refusal, w)),
         fs_Validate = (\<lambda>i refs t w. (None, w))\<rparr>,
      cfg_Signer = \<lparr>sig_SignJSON = (\<lambda>object w. (Inr demo_signature, w)), sig_JWKS = (\<lambda>w. ([], w))\<rparr>,
      cfg_IdempotencyRetention = 10, cfg_MaximumBodyBytes = 1000, cfg_Now = (\<lambda>w. (150, w)),
      cfg_Random = (\<lambda>w. (''r'', w)), cfg_Library = demo_library\<rparr>"

abbreviation demo_agent :: Identity where
  "demo_agent \<equiv> demo_identity_of agent person"

section \<open>A commit\<close>

lemma demo_evidence_ok: "validateAuthorization demo_evidence demo_quote demo_agent 150 = None"
  by (simp add: validateAuthorization_def evidence_incomplete_def demo_evidence_def demo_quote_def demo_signature_def
      example_quote_def demo_identity_of_def agent_def person_def duration_defs)

lemma demo_charge: "resolveFinalCharge demo_quote demo_result = Inr (usd ''5.00'', [])"
  by (simp add: resolveFinalCharge_iff reported_price_def settles_within_def final_breakdown_def breakdown_ok_def
      demo_result_def demo_quote_def example_quote_def example_terms_def zero_BillingTerms_def usd_amounts)

lemma demo_config_simps [simp]:
  "cfg_Now demo_config = (\<lambda>w. (150, w))" "cfg_Random demo_config = (\<lambda>w. (''r'', w))"
  "cfg_Library demo_config = demo_library" "cfg_Authorization demo_config = (\<lambda>i q e w. (None, w))"
  "svc_Execute (cfg_Service demo_config) = (\<lambda>i t q w. (Inr demo_result, w))"
  "db_GetQuote (cfg_Store demo_config) = (\<lambda>i w. (Inr (Some demo_quote), w))"
  "db_PutTask (cfg_Store demo_config) = (\<lambda>r w. (None, w))"
  "db_GetTask (cfg_Store demo_config) = (\<lambda>i w. (Inr (Some demo_task), w))"
  "db_UpdateTask (cfg_Store demo_config) = (\<lambda>i f w. (demo_update f, w))"
  "bill_Reserve (cfg_Billing demo_config) = (\<lambda>s c d t a m k w. (Inr demo_reservation, w))"
  "bill_Settle (cfg_Billing demo_config) = (\<lambda>ref m k w. (Inr demo_settlement, w))"
  "bill_Release (cfg_Billing demo_config) = (\<lambda>ref k w. (None, w))"
  "aud_Append (cfg_Audit demo_config) = (\<lambda>c t a d w. (Inl (New_error ''no log''), w))"
  "aud_Root (cfg_Audit demo_config) = (\<lambda>c w. (Inr ''root'', w))"
  "sig_SignJSON (cfg_Signer demo_config) = (\<lambda>object w. (Inr demo_signature, w))"
  "mf_ServiceID (cfg_Manifest demo_config) = ''svc''"
  by (simp_all add: demo_config_def)

lemma demo_library_simps [simp]:
  "js_Commit demo_library = (\<lambda>body. (Inr demo_commit, True))" "js_Marshal demo_library = (\<lambda>v. Inr ''{}'')"
  "js_Object demo_library = (\<lambda>s. Inr (Some Map.empty))"
  "lib_ParseMediaType demo_library = Inr" "lib_ErrText demo_library = (\<lambda>e. [])"
  by (simp_all add: demo_library_def)

lemma demo_quote_simps [simp]:
  "q_Actor demo_quote = agent" "q_Principal demo_quote = person" "q_ExpiresAt demo_quote = 200"
  "ep_Deadline (q_Execution demo_quote) = None" "sg_PayloadDigest (q_Signature demo_quote) = ''dig''"
  "q_Permissions demo_quote = []" "q_QuoteID demo_quote = ''quo_1''" "q_BillingTerms demo_quote = example_terms"
  "q_PriceCeiling demo_quote = usd ''5.00''"
  by (simp_all add: demo_quote_def demo_signature_def example_quote_def)

lemma demo_result_simps [simp]: "xr_Artifacts demo_result = []"
  by (simp add: demo_result_def)

lemma demo_guards:
  "run_state (commit_guards demo_config demo_agent requestID demo_commit) (tr, w) =
     (Inr demo_quote, (tr @ [EvGetQuote ''quo_1'' (Inr (Some demo_quote)), EvNow 150, EvNow 150,
        EvVerify demo_agent demo_quote demo_evidence None], w))"
  by (simp add: commit_guards_def run_defs demo_identity_of_def demo_commit_def missing_scope_def
      demo_evidence_ok [unfolded demo_identity_of_def])

lemma demo_reserved:
  "run_state (reserveBilling demo_config demo_agent ''quo_1'' ''dig'' example_terms None (usd ''5.00'') key) (tr, w) =
     (Inr \<lparr>br_Mode = BillingPayNow, br_ArrangementRef = [], br_ReservationRef = ''blr_1'', br_SettlementRef = [],
        br_InvoiceRef = [], br_PeriodRef = [], br_Amount = Some (usd ''5.00''), br_State = ''reserved''\<rparr>,
      (tr @ [EvNow 150, EvReserve ''svc'' ''quo_1'' ''dig'' example_terms None (usd ''5.00'') key (Inr demo_reservation)], w))"
  by (simp add: reserveBilling_def run_defs validateBillingAuthorization_def example_terms_def zero_BillingTerms_def
      demo_reservation_def)

definition demo_events :: "event list" where
  "demo_events = events_of (commit demo_config demo_agent ''req_1'' ''{}'' ''key'') ()"

lemmas commit_stages = commit_task_def commit_started_def commit_executed_def commit_succeeded_def commit_settle_def
  commit_receipt_def commit_response_def attachReceipt_def sign_projection_def appendAudit_def answer_def
  release_reservation_def bind_settlement_def

lemma demo_commit_events:
  "\<exists>task. EvExecute task demo_quote (Inr demo_result) \<in> set demo_events"
  "EvSettle ''blr_1'' (usd ''5.00'') ''key:settlement'' (Inr demo_settlement) \<in> set demo_events"
  by (simp_all add: demo_events_def events_of_def commit_def decodeStrict_def demo_guards run_defs
      demo_commit_def demo_reserved demo_guards [unfolded demo_commit_def]
      commit_stages SigningProjection_def demo_charge demo_update_def demo_task_def Let_def)

lemma demo_commit_success:
  "\<exists>r. EvUpdateTask ''tsk_1'' (\<lambda>current. Inr (current\<lparr>t_State := TaskSucceeded, t_UpdatedAt := 150,
      t_CompletedAt := Some 150, t_Progress := 100, t_Artifacts := []\<rparr>)) r \<in> set demo_events"
  by (simp add: demo_events_def events_of_def commit_def decodeStrict_def demo_guards run_defs
      demo_commit_def demo_reserved demo_guards [unfolded demo_commit_def]
      commit_stages SigningProjection_def demo_charge demo_update_def demo_task_def Let_def) blast

text \<open>A processor that is busy, and says so.\<close>

definition busy_config :: "unit Config" where
  "busy_config = demo_config\<lparr>cfg_Billing := (cfg_Billing demo_config)
     \<lparr>bill_Reserve := (\<lambda>s c d t a m k w. (Inl (TemporaryError ''busy''), w))\<rparr>\<rparr>"

lemma busy_config_simps [simp]:
  "cfg_Now busy_config = cfg_Now demo_config" "cfg_Random busy_config = cfg_Random demo_config"
  "cfg_Library busy_config = demo_library" "cfg_Authorization busy_config = cfg_Authorization demo_config"
  "cfg_Store busy_config = cfg_Store demo_config" "cfg_Manifest busy_config = cfg_Manifest demo_config"
  "bill_Reserve (cfg_Billing busy_config) = (\<lambda>s c d t a m k w. (Inl (TemporaryError ''busy''), w))"
  by (simp_all add: busy_config_def)

lemma busy_guards:
  "run_state (commit_guards busy_config demo_agent requestID demo_commit) (tr, w) =
     (Inr demo_quote, (tr @ [EvGetQuote ''quo_1'' (Inr (Some demo_quote)), EvNow 150, EvNow 150,
        EvVerify demo_agent demo_quote demo_evidence None], w))"
  by (simp add: commit_guards_def run_defs demo_identity_of_def demo_commit_def missing_scope_def
      demo_evidence_ok [unfolded demo_identity_of_def])

lemma demo_commit_busy:
  "op_ReleaseClaim (result_of (commit busy_config demo_agent ''req_1'' ''{}'' ''key'') ())"
  "reservations (events_of (commit busy_config demo_agent ''req_1'' ''{}'' ''key'') ()) = [Inl (TemporaryError ''busy'')]"
  by (simp_all add: result_of_def events_of_def commit_def decodeStrict_def run_defs demo_commit_def reserveBilling_def
      busy_guards [unfolded demo_commit_def] validateBillingAuthorization_def example_terms_def zero_BillingTerms_def
      reservations_def)

section \<open>A cancellation\<close>

lemma demo_cancel_events:
  "\<exists>r. EvRelease ''blr_1'' ''key:cancel-void'' r \<in> set (events_of (cancel demo_config ''tsk_1'' demo_agent ''req_1'' [] ''key'') ())"
  "\<exists>f r. EvUpdateTask ''tsk_1'' f r \<in> set (events_of (cancel demo_config ''tsk_1'' demo_agent ''req_1'' [] ''key'') ())"
  by (simp_all add: events_of_def cancel_def cancel_owned_def cancel_granted_def authorizedTask_def run_defs
      demo_identity_of_def demo_task_def cancel_guards_def zero_CancelRequest_def finished_state_def open_hold_def
      demo_config_def demo_quote_def example_quote_def appendAudit_def demo_update_def cancel_task_def)

section \<open>A preparation\<close>

definition demo_offer :: StoredOffer where
  "demo_offer = \<lparr>so_OfferID = ''off_1'', so_NegotiationID = ''neg_1'', so_Actor = agent, so_Principal = person,
     so_ResolvedIntent = ''email.send'', so_SchemaVersion = ''email.send/2'', so_RequiredScopes = [],
     so_Budget = Some (usd ''5.00''), so_ExpiresAt = 190\<rparr>"

definition demo_contract :: PreparedContract where
  "demo_contract = \<lparr>pp_NormalizedTask = [(''to'', JStr ''x'')], pp_Price = usd ''5.00'', pp_PriceCeiling = usd ''5.00'',
     pp_PriceBreakdown = [], pp_BillingTerms = example_terms, pp_Effects = q_Effects example_quote, pp_Permissions = [],
     pp_DataUse = q_DataUse example_quote, pp_RiskClass = ''low'', pp_Confirmation = q_Confirmation example_quote,
     pp_SLA = q_SLA example_quote, pp_ExpiresAt = 200, pp_RevocableUntil = None\<rparr>"

definition demo_prepare :: PrepareRequest where
  "demo_prepare = \<lparr>pr_RequestID = [], pr_OfferID = ''off_1'', pr_SchemaVersion = ''email.send/2'', pr_Parameters = [],
     pr_ContextRefs = [], pr_InputFiles = [], pr_Execution = q_Execution example_quote,
     pr_Billing = \<lparr>bp_Mode = BillingPayNow, bp_ArrangementRef = [], bp_MaximumAmount = None\<rparr>, pr_Callback = None,
     pr_ClientMetadata = []\<rparr>"

definition prepare_config :: "unit Config" where
  "prepare_config = demo_config
     \<lparr>cfg_Library := demo_library\<lparr>js_Prepare := (\<lambda>body. (Inr demo_prepare, True))\<rparr>,
      cfg_Store := (cfg_Store demo_config)\<lparr>db_GetOffer := (\<lambda>i w. (Inr (Some demo_offer), w))\<rparr>,
      cfg_Service := (cfg_Service demo_config)\<lparr>svc_Prepare := (\<lambda>i offer r w. (Inr demo_contract, w))\<rparr>\<rparr>"

lemma prepare_config_simps [simp]:
  "cfg_Library prepare_config = demo_library\<lparr>js_Prepare := (\<lambda>body. (Inr demo_prepare, True))\<rparr>"
  "cfg_Store prepare_config = (cfg_Store demo_config)\<lparr>db_GetOffer := (\<lambda>i w. (Inr (Some demo_offer), w))\<rparr>"
  "cfg_Service prepare_config = (cfg_Service demo_config)\<lparr>svc_Prepare := (\<lambda>i offer r w. (Inr demo_contract, w))\<rparr>"
  "cfg_Now prepare_config = cfg_Now demo_config" "cfg_Random prepare_config = cfg_Random demo_config"
  "cfg_Signer prepare_config = cfg_Signer demo_config" "cfg_Audit prepare_config = cfg_Audit demo_config"
  "cfg_Files prepare_config = cfg_Files demo_config" "cfg_Manifest prepare_config = cfg_Manifest demo_config"
  by (simp_all add: prepare_config_def)

lemma example_not_blank:
  "\<not> blank ''svc''" "\<not> blank ''off_1''" "\<not> blank ''email.send''" "\<not> blank ''agent''" "\<not> blank ''a1''" "\<not> blank ''user''"
  "\<not> blank ''u1''" "\<not> blank ''send''" "\<not> blank ''sends''" "\<not> blank ''low''" "\<not> blank ''immediate''"
  "\<not> blank (MustNewID ''r'' ''quo'')"
  by (simp_all add: MustNewID_def visible_start visible_def ord_def)

lemma demo_contract_ok: "validatePreparedContract demo_contract = None"
  unfolding validatePreparedContract_iff wf_contract_def
  by (simp add: demo_contract_def example_quote_def example_terms_def zero_BillingTerms_def wf_terms_def priced_def
      breakdown_ok_def usd_amounts example_not_blank)

definition prepared_quote :: Quote where
  "prepared_quote = (new_quote prepare_config demo_agent demo_prepare demo_offer demo_contract (MustNewID ''r'' ''quo'') 150)"

lemma prepared_quote_ok: "ValidateQuoteSemantics parse prepared_quote = None"
  unfolding ValidateQuoteSemantics_wf wf_quote_def identity_ok_def content_ok_def timing_ok_def price_ok_def
  by (simp add: prepared_quote_def new_quote_def demo_identity_of_def demo_prepare_def demo_offer_def demo_contract_def
      example_quote_def example_terms_def zero_BillingTerms_def wf_terms_def breakdown_ok_def agent_def person_def
      example_not_blank usd_amounts)

lemma demo_files:
  "fs_Validate (cfg_Files demo_config) = (\<lambda>i refs t w. (None, w))"
  "db_PutQuote (cfg_Store demo_config) = (\<lambda>r w. (None, w))"
  by (simp_all add: demo_config_def)

lemma equal_limit: "CompareMoney (usd ''5.00'') (usd ''5.00'') = Inr 0"
  unfolding CompareMoney_Inr_iff by (simp add: usd_amounts Rat_Cmp_def)

lemma demo_prepare_simps:
  "pr_OfferID demo_prepare = ''off_1''" "pr_SchemaVersion demo_prepare = ''email.send/2''"
  "pp_ExpiresAt demo_contract = 200" "pp_PriceCeiling demo_contract = usd ''5.00''"
  "so_Budget demo_offer = Some (usd ''5.00'')" "ep_MaxPrice (pr_Execution demo_prepare) = None"
  by (simp_all add: demo_prepare_def demo_contract_def demo_offer_def example_quote_def)

lemma demo_prepare_offer:
  "run_state (prepare_offer prepare_config demo_agent requestID demo_prepare) (tr, w) =
     (Inr demo_offer, (tr @ [EvGetOffer ''off_1'' (Inr (Some demo_offer)), EvNow 150, EvNow 150, EvNow 150,
        EvFileValidate [] None], w))"
  by (simp add: demo_files prepare_offer_def run_defs demo_prepare_def demo_offer_def demo_identity_of_def window_problem_def
      callback_problem_def validateReferences_def example_quote_def)

lemma demo_prepare_contract:
  "run_state (prepare_contract prepare_config demo_agent requestID demo_prepare demo_offer) (tr, w) =
     (Inr demo_contract, (tr @ [EvPrepare demo_offer demo_prepare (Inr demo_contract), EvNow 150], w))"
  by (simp add: prepare_contract_def run_defs demo_contract_ok demo_prepare_simps equal_limit)

lemma demo_prepare_events:
  "\<exists>q r. EvPutQuote q r \<in> set (events_of (prepare prepare_config demo_agent ''req_1'' ''{}'' ''key'') ())"
  by (simp add: events_of_def prepare_def decodeStrict_def run_defs demo_prepare_offer demo_prepare_contract
      issue_quote_def demo_prepare_simps prepared_quote_ok [unfolded prepared_quote_def] sign_projection_def SigningProjection_def
      Let_def appendAudit_def demo_files)

section \<open>An invocation\<close>

definition demo_plan :: DirectPlan where
  "demo_plan = (read_plan ''email.latest.read'' True)
     \<lparr>dp_BillingTerms := example_terms, dp_Price := usd ''5.00'', dp_PriceCeiling := usd ''5.00'', dp_RequiredScopes := []\<rparr>"

definition demo_direct :: DirectInvocationRequest where
  "demo_direct = \<lparr>di_RequestID = [], di_Intent = ''email.latest.read'', di_Goal = [], di_Parameters = [],
     di_ContextRefs = [], di_InputFiles = [], di_Execution = q_Execution example_quote,
     di_Billing = \<lparr>bp_Mode = BillingPayNow, bp_ArrangementRef = [], bp_MaximumAmount = None\<rparr>,
     di_Authorization = None, di_BillingAuthorization = None, di_ClientMetadata = []\<rparr>"

definition demo_direct_result :: DirectExecutionResult where
  "demo_direct_result = \<lparr>dx_Result = [], dx_Artifacts = [], dx_FinalPrice = None,
     dx_FinalPriceBreakdown = []\<rparr>"

definition invoke_config :: "unit Config" where
  "invoke_config = demo_config
     \<lparr>cfg_Library := demo_library\<lparr>js_Direct := (\<lambda>body. (Inr demo_direct, True))\<rparr>,
      cfg_Service := (cfg_Service demo_config)\<lparr>svc_PlanDirect := (\<lambda>i r w. (Inr demo_plan, w)),
        svc_ExecuteDirect := (\<lambda>i n r p w. (Inr demo_direct_result, w))\<rparr>\<rparr>"

definition demo_key :: string where "demo_key = ''key-0123456789abcdef''"

definition demo_request :: http_request where
  "demo_request = \<lparr>rq_Method = ''POST'', rq_Path = ''/v1/invoke'', rq_Query = (\<lambda>k. []),
     rq_Headers = [''Content-Type'' \<mapsto> [''application/json''], ''Idempotency-Key'' \<mapsto> [demo_key]], rq_ContentLength = 2,
     rq_Body = Inr ''{}''\<rparr>"

lemma demo_plan_ok: "validateDirectPlan demo_plan = None"
  unfolding validateDirectPlan_iff wf_plan_def
  by (simp add: demo_plan_def read_plan_def zero_DirectPlan_def not_blank_texts example_not_blank example_terms_def zero_BillingTerms_def
      wf_terms_def priced_def usd_amounts)

lemma invoke_config_simps [simp]:
  "cfg_Library invoke_config = demo_library\<lparr>js_Direct := (\<lambda>body. (Inr demo_direct, True))\<rparr>"
  "cfg_Service invoke_config = (cfg_Service demo_config)\<lparr>svc_PlanDirect := (\<lambda>i r w. (Inr demo_plan, w)),
        svc_ExecuteDirect := (\<lambda>i n r p w. (Inr demo_direct_result, w))\<rparr>"
  "cfg_Now invoke_config = cfg_Now demo_config" "cfg_Random invoke_config = cfg_Random demo_config"
  "cfg_Signer invoke_config = cfg_Signer demo_config" "cfg_Audit invoke_config = cfg_Audit demo_config"
  "cfg_Files invoke_config = cfg_Files demo_config" "cfg_Manifest invoke_config = cfg_Manifest demo_config"
  "cfg_Store invoke_config = cfg_Store demo_config" "cfg_Billing invoke_config = cfg_Billing demo_config"
  "cfg_Idempotency invoke_config = cfg_Idempotency demo_config" "cfg_MaximumBodyBytes invoke_config = 1000"
  "cfg_Authenticator invoke_config = (\<lambda>request w. (Inr demo_agent, w))"
  by (simp_all add: invoke_config_def) (simp_all add: demo_config_def)

lemma demo_plan_simps [simp]:
  "dp_Eligible demo_plan" "dp_RequiredScopes demo_plan = []" "\<not> dp_AuthorizationRequired demo_plan"
  "\<not> dp_IdempotencyRequired demo_plan" "dp_BillingTerms demo_plan = example_terms"
  "dp_PriceCeiling demo_plan = usd ''5.00''"
  by (simp_all add: demo_plan_def read_plan_def zero_DirectPlan_def)

lemma header_names:
  "canonical_name True ''Content-Type'' = ''Content-Type''" "canonical_name True ''Idempotency-Key'' = ''Idempotency-Key''"
  "canonical_name True ''ASCP-Version'' = ''Ascp-Version''" "canonical_name True ''X-Request-ID'' = ''X-Request-Id''"
  "canonical_name True ''Authorization'' = ''Authorization''"
  by (simp_all add: upper_char_def lower_char_def ord_def char_of_def bit_0)

lemma demo_request_headers:
  "Header_Get (rq_Headers demo_request) ''Content-Type'' = ''application/json''"
  "Header_Get (rq_Headers demo_request) ''Idempotency-Key'' = demo_key"
  "Header_Get (rq_Headers demo_request) ''ASCP-Version'' = []"
  "Header_Get (rq_Headers demo_request) ''X-Request-ID'' = []"
  by (simp_all add: demo_request_def Header_Get_def header_names del: canonical_name.simps)

lemma demo_key_ok: "validIdempotencyKey demo_key" "demo_key \<noteq> []"
  by code_simp+

lemma demo_request_body: "rq_Body demo_request = Inr ''{}''" "request_key demo_request = demo_key" "request_body demo_request = ''{}''"
  by (simp_all add: request_key_def request_body_def demo_request_headers) (simp_all add: demo_request_def)

lemma demo_body: "read_problem invoke_config demo_request = Inr ''{}''"
  by (simp add: read_problem_def demo_request_headers read_body_def demo_request_body unsupported_version_def HasPrefix_def)

lemma demo_authenticated:
  "run_state (readAuthenticatedJSON invoke_config writer demo_request) (tr, w) =
     (Inr (MustNewID ''r'' ''req'', demo_agent, ''{}''),
      (tr @ [EvRandom ''r'', EvAuthenticate demo_request (Inr demo_agent)], w))"
  by (simp add: readAuthenticatedJSON_def authenticateRead_def request_id_def run_defs demo_request_headers demo_body)

lemma demo_direct_intent: "\<not> blank (di_Intent demo_direct)"
  by (simp add: demo_direct_def not_blank_texts)

lemma demo_direct_refs: "di_ContextRefs demo_direct = []" "di_InputFiles demo_direct = []"
  by (simp_all add: demo_direct_def)

lemma demo_invoke_guards:
  "run_state (invoke_guards invoke_config demo_agent body demo_key) (tr, w) =
     (Inr (demo_direct, demo_plan), (tr @ [EvNow 150, EvFileValidate [] None, EvPlanDirect demo_direct (Inr demo_plan)], w))"
  using demo_direct_intent
  by (simp add: invoke_guards_def decodeStrict_def demo_direct_refs run_defs validateReferences_def plan_problem_def approval_problem_def
      direct_key_problem_def missing_scope_def demo_plan_ok demo_key_ok demo_files)

definition invoke_events :: "event list" where
  "invoke_events = events_of (handleInvoke invoke_config base_headers demo_request) ()"

lemma demo_direct_charge: "resolveDirectPrice demo_plan demo_direct_result = Inr (usd ''5.00'', [])"
  by (simp add: resolveDirectPrice_def resolveFinalCharge_iff reported_price_def settles_within_def final_breakdown_def
      breakdown_ok_def plan_quote_def zero_Quote_def demo_direct_result_def demo_plan_def read_plan_def zero_DirectPlan_def
      example_terms_def
      zero_BillingTerms_def usd_amounts)

lemma demo_invoke_reserved:
  "run_state (reserveBilling invoke_config demo_agent k d example_terms None (usd ''5.00'') key) (tr, w) =
     (Inr \<lparr>br_Mode = BillingPayNow, br_ArrangementRef = [], br_ReservationRef = ''blr_1'', br_SettlementRef = [],
        br_InvoiceRef = [], br_PeriodRef = [], br_Amount = Some (usd ''5.00''), br_State = ''reserved''\<rparr>,
      (tr @ [EvNow 150, EvReserve ''svc'' k d example_terms None (usd ''5.00'') key (Inr demo_reservation)], w))"
  by (simp add: reserveBilling_def run_defs validateBillingAuthorization_def example_terms_def zero_BillingTerms_def
      demo_reservation_def)

lemma demo_begin:
  "idem_Begin (cfg_Idempotency demo_config) = (\<lambda>scope key d r w. (Inr (IdempotencyNew, zero_StoredResponse), w))"
  "idem_Complete (cfg_Idempotency demo_config) = (\<lambda>scope key r w. (None, w))"
  "db_PutInvocation (cfg_Store demo_config) = (\<lambda>r w. (None, w))"
  by (simp_all add: demo_config_def)

lemma demo_direct_mandate: "di_BillingAuthorization demo_direct = None"
  by (simp add: demo_direct_def)

lemma demo_invoke_events:
  "EvExecuteDirect (MustNewID ''r'' ''inv'') demo_direct demo_plan (Inr demo_direct_result) \<in> set invoke_events"
  "EvSettle ''blr_1'' (usd ''5.00'') (demo_key @ '':settle'') (Inr demo_settlement) \<in> set invoke_events"
  "\<exists>kept r. EvPutInvocation kept r \<in> set invoke_events"
  "\<exists>scope. EvBegin scope demo_key (SHA256Digest ''{}'') (Inr (IdempotencyNew, zero_StoredResponse)) \<in> set invoke_events"
  "\<And>scope answer0 err. EvComplete scope demo_key answer0 err \<in> set invoke_events \<Longrightarrow> err = None"
  by (simp_all add: invoke_events_def events_of_def handleInvoke_def run_defs demo_authenticated demo_invoke_guards
      demo_request_headers claim_invocation_def demo_begin demo_key_ok executeDirect_def demo_direct_mandate
      demo_invoke_reserved direct_executed_def demo_direct_charge direct_settle_def appendAudit_def directBillingKey_def
      direct_record_def sign_projection_def SigningProjection_def Let_def finish_invocation_def)

section \<open>A request through the routes\<close>

lemma demo_routed: "ServeHTTP invoke_config mux_reply demo_request = handleInvoke invoke_config base_headers demo_request"
proof -
  have "clean_path ''/v1/invoke''" by code_simp
  then show ?thesis
    by (simp add: ServeHTTP_def route_def on_route_def demo_request_def)
qed

section \<open>The reference server\<close>

definition demo_env :: environment where
  "demo_env =
     \<lparr>en_BaseURL = ''http://localhost:8080'', en_Token = ''t'', en_Signer = example_signer,
      en_ParseAddress = (\<lambda>s. Inr s), en_Library = demo_library, en_ed25519 = plain_ed25519,
      en_header_codec = one_value example_header, en_object_codec = one_value Map.empty,
      en_payload_codec = one_value (payload_of (example_event zero_Signature)), en_audit_data = (\<lambda>d. Inr ''{}''),
      en_clone_invocation = Inr, en_clone_quote = Inr, en_clone_task = Inr\<rparr>"

definition commit_request :: http_request where
  "commit_request = \<lparr>rq_Method = ''POST'', rq_Path = ''/v1/commit'', rq_Query = (\<lambda>k. []),
     rq_Headers = [''Content-Type'' \<mapsto> [''application/json''], ''Idempotency-Key'' \<mapsto> [demo_key],
       ''Authorization'' \<mapsto> [''Bearer t'']], rq_ContentLength = 2, rq_Body = Inr ''{}''\<rparr>"

definition first_world :: world where
  "first_world = initial_world (\<lambda>n. 0) (\<lambda>n. ''r'')"

definition replay_world :: world where
  "replay_world = first_world\<lparr>rw_claims :=
     [storageKey (idempotency_scope demo_identity ''POST'' ''/v1/commit'') demo_key \<mapsto>
        \<lparr>ie_RequestDigest = request_digest commit_request ''{}'', ie_InProgress = False,
         ie_Response = zero_StoredResponse\<rparr>]\<rparr>"

lemma commit_request_headers:
  "Header_Get (rq_Headers commit_request) ''Content-Type'' = ''application/json''"
  "Header_Get (rq_Headers commit_request) ''Idempotency-Key'' = demo_key"
  "Header_Get (rq_Headers commit_request) ''ASCP-Version'' = []"
  "Header_Get (rq_Headers commit_request) ''X-Request-ID'' = []"
  "Header_Get (rq_Headers commit_request) ''Authorization'' = ''Bearer t''"
  by (simp_all add: commit_request_def Header_Get_def header_names del: canonical_name.simps)

lemma commit_bearer: "StaticAuthenticate ''t'' demo_identity ''Bearer t'' = Inr demo_identity"
proof -
  have "Fields ''Bearer t'' = [''Bearer'', ''t'']" "EqualFold ''Bearer'' ''Bearer''" by code_simp+
  then show ?thesis by (simp add: StaticAuthenticate_def)
qed

lemma commit_admitted:
  assumes "rw_random w = (\<lambda>n. ''r'')"
  shows "result_of (admit (reference_engine demo_env) Map.empty commit_request) w =
    Inr (MustNewID ''r'' ''req'', demo_identity, demo_key, ''{}'')"
  using assms
  by (simp add: result_of_def admit_def request_id_def run_defs commit_request_headers unsupported_version_def
      reference_parts demo_env_def commit_bearer unsupported_media_def demo_key_ok read_body_def on_defs
      Let_def) (simp add: commit_request_def)

lemma replay_stored:
  "stored_entry (rw_claims replay_world)
     (storageKey (idempotency_scope demo_identity (rq_Method commit_request) (rq_Path commit_request)) demo_key) =
   Some (request_digest commit_request ''{}'', zero_StoredResponse)"
  by (simp add: replay_world_def stored_entry_def commit_request_def)

lemma first_free: "rw_claims first_world k = None"
  by (simp add: first_world_def initial_world_def NewIdempotencyStore_def)

lemma demo_randoms: "rw_random first_world = (\<lambda>n. ''r'')" "rw_random replay_world = (\<lambda>n. ''r'')"
  by (simp_all add: replay_world_def first_world_def initial_world_def)

section \<open>The email service\<close>

definition send_request :: PrepareRequest where
  "send_request = demo_prepare\<lparr>pr_Parameters :=
     [(''recipient'', JStr ''a@b''), (''subject'', JStr ''s''), (''body'', JStr ''t'')]\<rparr>"

lemma demo_send: "\<exists>contract. email_Prepare Inr (\<lambda>e. []) 150 demo_offer send_request = Inr contract"
proof -
  have shown: "\<not> blank ''a@b''" "\<not> blank ''s''" "\<not> blank ''t''" by (simp_all add: visible_start visible_def ord_def)
  then have "send_parameters Inr (pr_Parameters send_request) = Inr (''a@b'', ''s'', ''t'')"
    by (simp add: send_parameters_def send_request_def member_def json_text_def map_size_def)
  moreover have "validateAttachmentPolicy (\<lambda>e. []) (pr_InputFiles send_request) = None"
    by (simp add: validateAttachmentPolicy_iff send_request_def demo_prepare_def)
  ultimately show ?thesis
    by (simp add: email_Prepare_def sendBillingTerms_def zero_BillingTerms_def send_request_def demo_prepare_def)
qed

definition send_quote :: Quote where
  "send_quote = demo_quote\<lparr>q_NormalizedTask :=
     [(''recipient'', JStr ''a@b''), (''subject'', JStr ''s''), (''body'', JStr ''t'')]\<rparr>"

lemma demo_delivery:
  "\<exists>r box. email_Execute ''r'' 7 demo_task send_quote (fold execute_call [] (NewService 0)) = (Inr r, box)"
  by (simp add: email_Execute_def NewService_def send_quote_def member_def text_or_empty_def json_text_def Let_def)

end
