(* ===== verification/Client_Examples.thy ===== *)
theory Client_Examples
  imports Program_Runs Agreement Server_Start Engine_Examples
begin

text \<open>
  A service as the client sees it: one transport that answers every call, with a signed quote and
  receipt and an audit chain of three events, at which the conformance program passes and sends
  its commitment. The properties of the client library and its programs are instances here.
\<close>

section \<open>Steps that succeed\<close>

text \<open>The step answers \<open>v\<close> and its events include \<open>E\<close>.\<close>

definition succeeds :: "client_event set \<Rightarrow> (unit, 'a) client_run \<Rightarrow> 'a \<Rightarrow> bool" where
  "succeeds E m v \<longleftrightarrow> runs () m (\<lambda>a es w'. a = v \<and> E \<subseteq> set es)"

lemma succeeds_result: "succeeds E m v \<Longrightarrow> result_of m () = v"
  unfolding succeeds_def by (drule runs_result) simp

lemma succeeds_events: "succeeds E m v \<Longrightarrow> E \<subseteq> set (events_of m ())"
  unfolding succeeds_def by (drule runs_result) simp

lemma succeeds_weaken: "succeeds E m v \<Longrightarrow> F \<subseteq> E \<Longrightarrow> succeeds F m v"
  unfolding succeeds_def by (erule runs_mono) auto

lemma succeeds_proceed: "succeeds E m (Inr v) \<Longrightarrow> succeeds F (f v) u \<Longrightarrow> succeeds (E \<union> F) (proceed m f) u"
  unfolding succeeds_def proceed_def
  by (rule runs_bind, erule runs_mono, simp, erule runs_mono) auto

lemma succeeds_return: "succeeds {} (State_Monad.return v) v"
  by (simp add: succeeds_def runs_return)

lemma succeeds_fatalIf: "err = None \<Longrightarrow> succeeds {} (fatalIf err) (Inr ())"
  by (simp add: succeeds_def fatalIf_def runs_return)

lemma succeeds_must: "succeeds E m (Inr v) \<Longrightarrow> succeeds E (must operation m) (Inr v)"
  unfolding succeeds_def must_def by (rule runs_bind, erule runs_mono) (simp add: runs_return)

lemma succeeds_must_hold: "err = None \<Longrightarrow> succeeds {} (must_hold operation err) (Inr ())"
  unfolding must_hold_def by (rule succeeds_must, rule succeeds_fatalIf)

lemma succeeds_required: "b \<Longrightarrow> succeeds {} (required b message) (Inr ())"
  by (simp add: required_def succeeds_return)

lemma succeeds_pass: "succeeds {} (pass s) (Inr ())" "succeeds {} (print_text s) (Inr ())"
  unfolding succeeds_def pass_def print_text_def
  by (rule runs_bind, rule runs_perform, simp add: runs_return)+

lemma succeeds_refused:
  "succeeds E m (Inl (Rejected p)) \<Longrightarrow> p_Code p = code \<Longrightarrow> succeeds {} (refused code message m) (Inr ())"
  unfolding succeeds_def refused_def by (rule runs_bind, erule runs_mono) (simp add: runs_return)

lemma succeeds_prod: "succeeds E (f a b) u \<Longrightarrow> succeeds E (case (a, b) of (x, y) \<Rightarrow> f x y) u"
  by simp

section \<open>The chain\<close>

text \<open>The events without their signatures, which the hashes do not cover.\<close>

definition site_event :: "int \<Rightarrow> string \<Rightarrow> string \<Rightarrow> Signature \<Rightarrow> AuditEvent" where
  "site_event i type0 previous sg =
     (let e = \<lparr>av_EventID = ''evt'', av_ResourceType = ''task'', av_ResourceID = ''tsk_1'', av_Sequence = i, av_Type = type0,
        av_OccurredAt = 5, av_Actor = agent, av_Data = type0, av_DataDigest = SHA256Digest type0,
        av_PreviousHash = previous, av_EventHash = [], av_Signature = sg\<rparr>
      in e\<lparr>av_EventHash := SHA256Digest (chainMaterial Format_RFC3339Nano e)\<rparr>)"

lemma site_event_simps [simp]:
  "av_Sequence (site_event i type0 previous sg) = i" "av_Type (site_event i type0 previous sg) = type0"
  "av_PreviousHash (site_event i type0 previous sg) = previous" "av_Signature (site_event i type0 previous sg) = sg"
  "av_ResourceType (site_event i type0 previous sg) = ''task''" "av_ResourceID (site_event i type0 previous sg) = ''tsk_1''"
  "av_Data (site_event i type0 previous sg) = type0" "av_DataDigest (site_event i type0 previous sg) = SHA256Digest type0"
  by (simp_all add: site_event_def Let_def)

lemma site_event_hash:
  "av_EventHash (site_event i type0 previous sg) = SHA256Digest (chainMaterial Format_RFC3339Nano (site_event i type0 previous sg))"
  by (simp add: site_event_def Let_def chainMaterial_def material_fields_def)

lemma site_event_same:
  "payload_of (site_event i type0 previous sg) = payload_of (site_event i type0 previous sg')"
  "av_EventHash (site_event i type0 previous sg) = av_EventHash (site_event i type0 previous sg')"
  by (simp_all add: site_event_def Let_def payload_of_def chainMaterial_def material_fields_def)

definition first_event :: "Signature \<Rightarrow> AuditEvent" where
  "first_event = site_event 1 ''ascp.task.accepted'' []"

definition second_event :: "Signature \<Rightarrow> AuditEvent" where
  "second_event = site_event 2 ''ascp.invocation.receipt.issued'' (av_EventHash (first_event zero_Signature))"

definition third_event :: "Signature \<Rightarrow> AuditEvent" where
  "third_event = site_event 3 ''ascp.receipt.issued'' (av_EventHash (second_event zero_Signature))"

definition site_payloads :: "signedEventPayload codec" where
  "site_payloads =
     \<lparr>marshal = (\<lambda>p. Inr (if p = payload_of (first_event zero_Signature) then ''1''
        else if p = payload_of (second_event zero_Signature) then ''2'' else ''3'')),
      unmarshal = (\<lambda>s. Inr (payload_of ((if s = ''1'' then first_event else if s = ''2'' then second_event else third_event)
        zero_Signature)))\<rparr>"

definition site_seal :: "'a codec \<Rightarrow> 'a \<Rightarrow> Signature" where
  "site_seal vc v =
     (case SignJSON plain_ed25519 (one_value example_header) vc example_signer 7 v of Inl _ \<Rightarrow> zero_Signature | Inr sg \<Rightarrow> sg)"

definition site_key :: string where
  "site_key = sn_publicKey example_signer"

lemma site_sealed:
  assumes "codec_ok vc v"
  shows "VerifyJSON plain_ed25519 (one_value example_header) vc (site_seal vc v) site_key = Inr v \<and>
    sg_KeyID (site_seal vc v) = ''key1''"
proof -
  have "codec_ok (one_value example_header) \<lparr>jh_Algorithm = ''EdDSA'', jh_KeyID = sn_keyID example_signer,
      jh_Type = ''ascp+jws'', jh_IssuedAt = Unix (Truncate_second 7)\<rparr>"
    using one_value_ok [of example_header] by (simp add: example_header_def example_signer_def)
  from sign_verify [OF example_key_pair assms this] show ?thesis
    by (auto simp: site_seal_def site_key_def) (simp_all add: example_signer_def)
qed

section \<open>The service\<close>

definition site_URL :: full_URL where
  "site_URL = \<lparr>u_Scheme = ''https'', u_Host = ''h'', u_has_User = False, u_Path = [], u_RawQuery = [], u_Fragment = []\<rparr>"

definition site_net :: net where
  "site_net =
     \<lparr>nt_Parse = (\<lambda>_. Inr site_URL), nt_Resolve = (\<lambda>base ref. ref), nt_EscapedPath = (\<lambda>_. ''/jwks''), nt_Hostname = (\<lambda>_. ''h''),
      nt_Text = (\<lambda>_. ''https://h/upload''), nt_EqualFold = (=), nt_ParseIP = (\<lambda>_. None), nt_NewRequest = (\<lambda>_ _. None)\<rparr>"

definition site_ref :: FileRef where
  "site_ref = zero_FileRef\<lparr>fr_FileID := ''f1'', fr_URI := ''u'', fr_Name := ''n'', fr_MediaType := ''m'',
     fr_Digest := SHA256Digest conformance_content, fr_State := ''ready'', fr_ScanStatus := ''clean''\<rparr>"

definition site_signature :: Signature where
  "site_signature = site_seal (one_value Map.empty) (Map.empty :: raw_object)"

definition site_quote :: Quote where
  "site_quote = example_quote\<lparr>q_InputFiles := [site_ref], q_BillingTerms := zero_BillingTerms
     \<lparr>bt_Mode := BillingSubscription, bt_SettlementTiming := ''immediate''\<rparr>, q_Signature := site_signature\<rparr>"

definition site_receipt :: Receipt where
  "site_receipt = example_receipt\<lparr>rc_AuditRoot := av_EventHash (second_event zero_Signature), rc_Signature := site_signature\<rparr>"

definition site_direct :: DirectInvocationResponse where
  "site_direct = zero_DirectInvocationResponse\<lparr>dr_InvocationID := ''inv1'', dr_Receipt :=
     \<lparr>ir_ProtocolVersion = ProtocolVersion, ir_ServiceID = ''svc'', ir_ReceiptID = ''irc1'', ir_InvocationID = ''inv1'',
      ir_Intent = ''email.latest.read'', ir_RequestDigest = SHA256Digest ''{}'', ir_Outcome = InvocationSucceeded, ir_Artifacts = [],
      ir_Billing = None, ir_AuditRoot = av_EventHash (first_event zero_Signature), ir_CompletedAt = 5,
      ir_Signature = site_signature\<rparr>\<rparr>"

definition site_commit :: CommitResponse where
  "site_commit = zero_CommitResponse\<lparr>cs_Task := zero_Task\<lparr>t_TaskID := ''tsk1'', t_Receipt := Some site_receipt,
     t_Billing := Some \<lparr>br_Mode = BillingSubscription, br_ArrangementRef = [], br_ReservationRef = [], br_SettlementRef = [],
       br_InvoiceRef = [], br_PeriodRef = [], br_Amount = None, br_State = []\<rparr>\<rparr>\<rparr>"

definition site_events :: "AuditEvent list" where
  "site_events =
     [first_event (site_seal site_payloads (payload_of (first_event zero_Signature))),
      second_event (site_seal site_payloads (payload_of (second_event zero_Signature))),
      third_event (site_seal site_payloads (payload_of (third_event zero_Signature)))]"

definition site_capability :: "string \<Rightarrow> Flow \<Rightarrow> CapabilityDescriptor" where
  "site_capability intent flow =
     \<lparr>cd_Intent = intent, cd_Version = [], cd_Summary = [], cd_Description = [], cd_Category = [], cd_DefaultFlow = flow,
      cd_SupportedFlows = [flow], cd_SideEffectClass = [], cd_RiskClass = [], cd_RequiredScopes = [], cd_BillingModes = [],
      cd_ParameterNames = [], cd_OptionsSupported = True, cd_InputFilePolicy = zero_FilePolicy, cd_OutputModes = [],
      cd_MaximumInlineBytes = 0, cd_Deprecated = False, cd_DocumentationURI = []\<rparr>"

definition site_decoders :: decoders where
  "site_decoders =
     \<lparr>de_Request = (\<lambda>v. Inr (case v of
          QDirect r \<Rightarrow> if di_Intent r = ''email.send'' then ''no'' else ''{}''
        | QNegotiation r \<Rightarrow> if nr_Goal r = ''different payload under the same key'' then ''clash'' else ''{}''
        | _ \<Rightarrow> ''{}'')),
      de_Problem = (\<lambda>s. Inr (problem 409 (if s = ''no'' then ErrContractRequired else ErrIdempotencyConflict) [] [] False)),
      de_Manifest = (\<lambda>_. Inr (zero_Manifest\<lparr>mf_ServiceID := ''svc'', mf_Versions := [ProtocolVersion]\<rparr>)),
      de_Catalog = (\<lambda>_. Inr (zero_CapabilityCatalog\<lparr>cc_Capabilities :=
        [site_capability ''email.latest.read'' FlowDirect, site_capability ''email.send'' FlowContract]\<rparr>)),
      de_Options = (\<lambda>_. Inr (zero_OptionsResponse\<lparr>os_RecommendedFlow := FlowContract,
        os_BillingOptions := replicate 2 \<lparr>bo_Mode = BillingFree, bo_ArrangementRequired = False,
          bo_AuthorizationRequired = False, bo_SettlementTiming = [], bo_Description = []\<rparr>,
        os_InputFilePolicy := zero_FilePolicy\<lparr>fp_Accepted := True\<rparr>\<rparr>)),
      de_Direct = (\<lambda>_. Inr site_direct), de_Negotiation = (\<lambda>_. Inr (zero_NegotiationResponse\<lparr>ns_Supported := True\<rparr>)),
      de_Quote = (\<lambda>_. Inr site_quote), de_Commit = (\<lambda>_. Inr site_commit), de_Task = (\<lambda>_. Inr zero_Task),
      de_Chain = (\<lambda>_. Inr (site_events, ''root'')), de_Ticket = (\<lambda>_. Inr zero_FileUploadTicket),
      de_FileRef = (\<lambda>_. Inr site_ref), de_JWKS = (\<lambda>_. Inr (JWKS example_signer))\<rparr>"

definition site_answer :: "int \<Rightarrow> string \<Rightarrow> http_answer" where
  "site_answer status data = \<lparr>ha_Status = status, ha_Data = data, ha_ReadError = None\<rparr>"

definition site_do :: "http_call \<Rightarrow> (unit, http_answer result) op" where
  "site_do call w =
     (Inr (if hc_Body call = Some ''no'' \<or> hc_Body call = Some ''clash'' then site_answer 409 (the (hc_Body call))
       else if hc_URL call = ''https://h/v1/files/f1/content'' then site_answer 200 conformance_content
       else site_answer 200 ''{}''), w)"

definition site_verifier :: verifier where
  "site_verifier =
     \<lparr>vf_ed25519 = plain_ed25519, vf_header = one_value example_header, vf_object = one_value Map.empty,
      vf_Marshal = (\<lambda>_. Inr ''{}''), vf_Object = (\<lambda>_. Inr (Some Map.empty)), vf_Request = (\<lambda>_. Inr ''{}''),
      vf_ParseURL = (\<lambda>_. Inl (New_error ''no URL''))\<rparr>"

definition site_program :: "unit program" where
  "site_program =
     \<lparr>pg_net = site_net, pg_decoders = site_decoders, pg_verifier = site_verifier, pg_payload = site_payloads,
      pg_anchor = (\<lambda>data. Inr (if data = ''ascp.receipt.issued'' then (''rcp_1'', av_EventHash (second_event zero_Signature))
        else (''irc1'', av_EventHash (first_event zero_Signature)))),
      pg_Indent = (\<lambda>_. Inr ''{}''), pg_Do = site_do, pg_Now = (\<lambda>w. (5, w)), pg_Random = (\<lambda>w. (''r'', w)),
      pg_ReadFile = (\<lambda>path w. (Inr path, w))\<rparr>"

definition site_client :: "unit Client" where
  "site_client = \<lparr>cl_BaseURL = ''https://h'', cl_Token = ''t'', cl_Do = site_do\<rparr>"

lemma site_New: "New_client site_net site_do ''https://h'' ''t'' = Inr site_client"
  by (simp add: New_client_def site_net_def site_URL_def site_client_def TrimRight_def)

section \<open>Its answers\<close>

lemma site_read: "decode ''{}'' = Inr v \<Longrightarrow> read_response de decode (Inr (site_answer 200 ''{}'')) = Inr (Some v)"
proof -
  have "\<not> blank ''{}''" by (rule visible_not_blank; simp add: visible_def ord_def)
  then show "decode ''{}'' = Inr v \<Longrightarrow> read_response de decode (Inr (site_answer 200 ''{}'')) = Inr (Some v)"
    by (simp add: read_response_def read_limited_def site_answer_def maximumResponseBytes_def successful_def)
qed

text \<open>A request that the service answers, and the exchange it makes.\<close>

definition plain_body :: "request_value option \<Rightarrow> bool" where
  "plain_body body \<longleftrightarrow> (case body of None \<Rightarrow> True | Some v \<Rightarrow> de_Request site_decoders v = Inr ''{}'')"

definition site_call :: "string \<Rightarrow> string \<Rightarrow> request_value option \<Rightarrow> string \<Rightarrow> http_call" where
  "site_call verb path body key =
     \<lparr>hc_Method = verb, hc_URL = ''https://h'' @ path, hc_Headers = json_headers site_client (body \<noteq> None) key,
      hc_Body = map_option (\<lambda>_. ''{}'') body\<rparr>"

lemma site_doJSON:
  assumes "plain_body body" "path \<noteq> ''/v1/files/f1/content''" "decode ''{}'' = Inr v"
  shows "run_state (doJSON site_net site_decoders site_client verb path body key decode) (tr, w) =
    (Inr (Some v), (tr @ [Exchange (site_call verb path body key) (Inr (site_answer 200 ''{}''))], w))"
proof -
  have "site_do (site_call verb path body key) w = (Inr (site_answer 200 ''{}''), w)"
    using assms(2) by (cases body) (simp_all add: site_do_def site_call_def)
  moreover have "nt_NewRequest site_net verb (cl_BaseURL site_client @ path) = None" "cl_Do site_client = site_do"
    "cl_BaseURL site_client = ''https://h''"
    by (simp_all add: site_net_def site_client_def)
  ultimately show ?thesis
    using assms(1) site_read [of decode v site_decoders, OF assms(3)]
    by (cases body) (simp_all add: doJSON_def doRequest_def send_def plain_body_def site_call_def)
qed

lemma site_asked:
  assumes "plain_body body" "path \<noteq> ''/v1/files/f1/content''" "decode ''{}'' = Inr v"
  shows "succeeds {Exchange (site_call verb path body key) (Inr (site_answer 200 ''{}''))}
    (requested zero (doJSON site_net site_decoders site_client verb path body key decode)) (Inr v)"
  by (simp add: succeeds_def runs_def requested_def site_doJSON [where decode = decode, OF assms] filled_def)

lemma site_escapes:
  "PathEscape ''f1'' = ''f1''" "PathEscape ''inv1'' = ''inv1''" "PathEscape ''tsk1'' = ''tsk1''"
  by code_simp+

lemma site_answers:
  "plain_body None" "plain_body (Some (QDirect read_latest))" "plain_body (Some (QOptions opt))"
  "plain_body (Some (QUpload up))" "plain_body (Some (QPrepare pre))" "plain_body (Some (QCommit cm))"
  "plain_body (Some (QNegotiation (send_negotiation ''send a conformance-test email'' files)))"
  by (simp_all add: plain_body_def site_decoders_def read_latest_def send_negotiation_def)

lemma site_fetched: "succeeds {} (FetchPublicKey site_net site_decoders site_client ''key1'') (Inr site_key)"
proof -
  have jwks: "jwks_path site_net site_client uri = Inr ''/jwks''" for uri
    by (simp add: jwks_path_def site_net_def IsAbs_def site_URL_def same_origin_def)
  have key: "find_key ''key1'' (JWKS example_signer) = Inr site_key"
    using find_key_published [of example_signer] example_key_pair by (simp add: key_pair_def site_key_def example_signer_def)
  have listed: "de_JWKS site_decoders ''{}'' = Inr (JWKS example_signer)"
    "\<exists>m. de_Manifest site_decoders ''{}'' = Inr m"
    by (simp_all add: site_decoders_def)
  then obtain m where "de_Manifest site_decoders ''{}'' = Inr m" by blast
  then show ?thesis
    using jwks key listed(1)
    by (simp add: succeeds_def runs_def FetchPublicKey_def Manifest_of_def site_doJSON [OF site_answers(1)])
qed

lemma site_uploaded:
  "succeeds {} (requested zero (UploadFile site_net site_decoders site_client ticket mediaType digest conformance_content)) (Inr site_ref)"
proof -
  have target: "resolveSameOriginURL site_net site_client uri = Inr site_URL" for uri
    by (simp add: resolveSameOriginURL_def site_net_def IsAbs_def site_URL_def same_origin_def)
  have net: "nt_NewRequest site_net m u = None" "nt_Text site_net u' = ''https://h/upload''" "cl_Do site_client = site_do" for m u u'
    by (simp_all add: site_net_def site_client_def)
  have other: "conformance_content \<noteq> ''no''" "conformance_content \<noteq> ''clash''"
    by (simp_all add: conformance_content_def)
  have ref: "de_FileRef site_decoders ''{}'' = Inr site_ref" by (simp add: site_decoders_def)
  show ?thesis
    using site_read [of "de_FileRef site_decoders" site_ref site_decoders, OF ref]
    by (simp add: succeeds_def runs_def requested_def UploadFile_def target net doRequest_def send_def site_do_def other filled_def)
qed

lemma site_downloaded:
  "succeeds {} (DownloadFile site_net site_decoders site_client ''f1'' 1024) (Inr (Some site_ref, conformance_content))"
proof -
  have net: "nt_NewRequest site_net m u = None" "cl_Do site_client = site_do" for m u
    by (simp_all add: site_net_def site_client_def)
  have call: "hc_URL (download_call site_client ''f1'') = ''https://h/v1/files/f1/content''"
    "hc_Body (download_call site_client ''f1'') = None"
    by (simp_all add: download_call_def site_escapes site_client_def)
  have ref: "de_FileRef site_decoders ''{}'' = Inr site_ref" by (simp add: site_decoders_def)
  have len: "length conformance_content = 32" by (simp add: conformance_content_def newline_def)
  have "read_download site_decoders 1024 (Inr (site_answer 200 conformance_content)) = Inr conformance_content"
    by (simp add: read_download_def site_answer_def successful_def read_limited_def len wrap64_def)
  then show ?thesis
    using site_doJSON [where decode = "de_FileRef site_decoders" and path = "''/v1/files/f1''", OF site_answers(1) _ ref]
    by (simp add: succeeds_def runs_def DownloadFile_def net call send_def site_do_def GetFile_def site_escapes)
      (simp add: site_ref_def)
qed

section \<open>Its documents verify\<close>

lemma site_signed: "verifySignedProjection site_verifier v site_signature site_key d = None"
proof -
  have "VerifyJSON plain_ed25519 (one_value example_header) (one_value Map.empty) site_signature site_key = Inr (Map.empty :: raw_object)"
    using site_sealed [OF one_value_ok [of "Map.empty :: raw_object"]] by (simp add: site_signature_def)
  then show ?thesis
    by (simp add: verifySignedProjection_None site_verifier_def projected_def SigningProjection_def one_value_def)
qed

lemma site_keyID: "sg_KeyID site_signature = ''key1''"
  using site_sealed [OF one_value_ok [of "Map.empty :: raw_object"]] by (simp add: site_signature_def)

lemma site_not_blank:
  "\<not> blank ''irc1''" "\<not> blank ''inv1''" "\<not> blank ''email.latest.read''" "\<not> blank ''f1''" "\<not> blank ''u''"
  "\<not> blank ''n''" "\<not> blank ''m''" "\<not> blank ''ready''" "\<not> blank ''clean''"
  by (rule visible_not_blank; simp add: visible_def ord_def)+

lemma SHA256Digest_not_blank: "\<not> blank (SHA256Digest s)"
proof -
  have "base64_encode (sha256 s) \<noteq> []" by (metis base64_encode.simps(4) base64_encode_inj length_0_conv length_sha256 zero_neq_numeral)
  then have "visible (last (SHA256Digest s))"
    using base64_visible [of "sha256 s"] last_in_set [of "base64_encode (sha256 s)"]
    by (simp add: SHA256Digest_def digest_prefix_def list_all_iff)
  moreover have "visible (hd (SHA256Digest s))" by (simp add: SHA256Digest_def digest_prefix_def visible_def ord_def)
  ultimately show ?thesis by (intro visible_not_blank) simp_all
qed

lemma event_hash_not_blank: "\<not> blank (av_EventHash (site_event i type0 previous sg))"
  unfolding site_event_hash by (rule SHA256Digest_not_blank)

lemma site_direct_accepted:
  "VerifyInvocationReceiptForRequest site_verifier (dr_Receipt site_direct) read_latest site_key = None"
  unfolding VerifyInvocationReceiptForRequest_None ValidateInvocationReceipt_iff
  using event_hash_not_blank [of 1 "''ascp.task.accepted''" "[]" zero_Signature]
  by (simp add: site_direct_def site_signed site_not_blank not_blank_examples SHA256Digest_not_blank first_event_def)
     (simp add: site_verifier_def)

lemma site_ref_ok: "wf_file_ref site_ref"
proof -
  have "\<exists>d. length d = 32 \<and> SHA256Digest conformance_content = digest_prefix @ base64_encode d"
    by (rule exI [of _ "sha256 conformance_content"]) (simp add: SHA256Digest_def)
  moreover have "\<not> ContainsAny ''n'' control_bytes" by code_simp
  ultimately show ?thesis by (simp add: wf_file_ref_def site_ref_def zero_FileRef_def site_not_blank)
qed

definition site_manifest :: Manifest where
  "site_manifest = zero_Manifest\<lparr>mf_ServiceID := ''svc'', mf_Versions := [ProtocolVersion]\<rparr>"

lemma site_quote_accepted: "VerifyQuoteForManifest site_verifier site_quote site_manifest site_key = None"
proof -
  have "wf_quote parse site_quote" for parse
    unfolding wf_quote_def identity_ok_def content_ok_def timing_ok_def price_ok_def wf_terms_def breakdown_ok_def
    using site_ref_ok
    by (simp add: site_quote_def example_quote_def zero_BillingTerms_def agent_def person_def not_blank_examples usd_amounts)
      (simp add: site_ref_def zero_FileRef_def)
  then show ?thesis
    unfolding VerifyQuoteForManifest_None VerifyQuote_None
    by (simp add: site_quote_def site_signed) (simp add: site_manifest_def example_quote_def)
qed

lemma site_receipt_accepted: "VerifyReceiptForQuote site_verifier site_receipt site_quote site_key = None"
  unfolding VerifyReceiptForQuote_None wf_receipt_def settles_within_def breakdown_ok_def
  using event_hash_not_blank [of 2 "''ascp.invocation.receipt.issued''" "av_EventHash (first_event zero_Signature)" zero_Signature]
  by (simp add: site_receipt_def example_receipt_def site_signed second_event_def site_quote_def example_quote_def
      terminal_outcome_def not_blank_examples usd_amounts)

lemma site_payload_codecs:
  "codec_ok site_payloads (payload_of (first_event zero_Signature))"
  "codec_ok site_payloads (payload_of (second_event zero_Signature))"
  "codec_ok site_payloads (payload_of (third_event zero_Signature))"
proof -
  have "payload_of (first_event zero_Signature) \<noteq> payload_of (second_event zero_Signature)"
    "payload_of (third_event zero_Signature) \<noteq> payload_of (first_event zero_Signature)"
    "payload_of (third_event zero_Signature) \<noteq> payload_of (second_event zero_Signature)"
    by (simp_all add: first_event_def second_event_def third_event_def payload_of_def)
  then show "codec_ok site_payloads (payload_of (first_event zero_Signature))"
    "codec_ok site_payloads (payload_of (second_event zero_Signature))"
    "codec_ok site_payloads (payload_of (third_event zero_Signature))"
    by (simp_all add: codec_ok_def site_payloads_def)
qed

lemma site_audit_verified: "audit_Verify site_program site_events site_key = None"
proof -
  let ?vj = "\<lambda>signature. VerifyJSON plain_ed25519 (one_value example_header) site_payloads signature site_key"
  have sealed: "?vj (site_seal site_payloads p) = Inr p" if "codec_ok site_payloads p" for p
    using site_sealed [OF that] by simp
  have ok: "event_ok Format_RFC3339Nano ?vj ''task'' ''tsk_1'' i previous (site_event (i + 1) type0 previous (site_seal site_payloads p))"
    if "p = payload_of (site_event (i + 1) type0 previous zero_Signature)" "codec_ok site_payloads p" for i type0 previous p
    unfolding event_ok_def site_event_hash
    using sealed [OF that(2)] that(1) site_event_same(1) by (simp add: site_event_hash)
  have sealed_hash: "av_EventHash (site_event i type0 previous (site_seal vc v)) = av_EventHash (site_event i type0 previous zero_Signature)"
    for i type0 previous and vc :: "signedEventPayload codec" and v
    by (rule site_event_same(2))
  have "chain_ok Format_RFC3339Nano ?vj ''task'' ''tsk_1'' 0 [] site_events"
    using ok [OF _ site_payload_codecs(1), of 0 "''ascp.task.accepted''" "[]"]
      ok [OF _ site_payload_codecs(2), of 1 "''ascp.invocation.receipt.issued''" "av_EventHash (first_event zero_Signature)"]
      ok [OF _ site_payload_codecs(3), of 2 "''ascp.receipt.issued''" "av_EventHash (second_event zero_Signature)"]
    by (simp add: site_events_def first_event_def second_event_def third_event_def sealed_hash)
  then show ?thesis
    by (simp add: audit_Verify_def Verify_iff site_program_def site_verifier_def site_events_def first_event_def)
qed

lemma site_anchored:
  "VerifyInvocationReceiptAnchor (pg_anchor site_program) site_events (dr_Receipt site_direct) = None"
  "VerifyReceiptAnchor (pg_anchor site_program) site_events site_receipt = None"
  by (simp_all add: VerifyInvocationReceiptAnchor_def VerifyReceiptAnchor_def site_program_def site_events_def site_direct_def
      site_receipt_def first_event_def second_event_def third_event_def)
    (simp_all add: example_receipt_def)

section \<open>The profile passes\<close>

lemma site_parts [simp]:
  "pg_net site_program = site_net" "pg_decoders site_program = site_decoders" "pg_verifier site_program = site_verifier"
  "pg_Do site_program = site_do"
  by (simp_all add: site_program_def)

lemma site_decoded:
  "de_Manifest site_decoders ''{}'' = Inr site_manifest" "de_Direct site_decoders ''{}'' = Inr site_direct"
  "de_Chain site_decoders ''{}'' = Inr (site_events, ''root'')" "de_Ticket site_decoders ''{}'' = Inr zero_FileUploadTicket"
  "de_Quote site_decoders ''{}'' = Inr site_quote" "de_Commit site_decoders ''{}'' = Inr site_commit"
  "de_Negotiation site_decoders ''{}'' = Inr (zero_NegotiationResponse\<lparr>ns_Supported := True\<rparr>)"
  by (simp_all add: site_decoders_def site_manifest_def)

lemma site_quiet_ask:
  assumes "plain_body body" "path \<noteq> ''/v1/files/f1/content''" "decode ''{}'' = Inr v"
  shows "succeeds {} (requested zero (doJSON site_net site_decoders site_client verb path body key decode)) (Inr v)"
  using succeeds_weaken [OF site_asked [where decode = decode, OF assms]] by simp

lemma site_refuses:
  "succeeds {} (refused ErrContractRequired message (Invoke site_net site_decoders site_client direct_send key)) (Inr ())"
  "succeeds {} (refused ErrIdempotencyConflict message (Negotiate site_net site_decoders site_client
     ((send_negotiation goal files)\<lparr>nr_Goal := ''different payload under the same key''\<rparr>) key)) (Inr ())"
  by (rule succeeds_refused [where E = "{}"],
      simp add: succeeds_def runs_def Invoke_def Negotiate_def doJSON_def doRequest_def send_def site_do_def site_client_def
        site_net_def site_decoders_def direct_send_def read_latest_def read_response_def read_limited_def site_answer_def
        maximumResponseBytes_def successful_def,
      simp add: problem_def base_problem_def)+

lemma site_catalog: "succeeds {} (check_catalog site_program site_client) (Inr ())"
proof -
  have "succeeds {} (check_catalog site_program site_client) (Inr ())" if "de_Catalog site_decoders ''{}'' = Inr catalog"
      "hasCapability catalog ''email.latest.read'' FlowDirect" "hasCapability catalog ''email.send'' FlowContract" for catalog
    unfolding check_catalog_def Capabilities_def site_parts
    by (rule succeeds_weaken, rule succeeds_proceed,
        rule succeeds_must [OF site_quiet_ask [where decode = "de_Catalog site_decoders", OF site_answers(1) _ that(1)]],
        simp add: capability_path_def Let_def, rule succeeds_proceed, rule succeeds_required, simp add: that, rule succeeds_pass, simp)
  then show ?thesis by (simp add: site_decoders_def hasCapability_def site_capability_def)
qed

lemma site_options: "succeeds {} (check_options site_program site_client) (Inr ())"
proof -
  have "succeeds {} (check_options site_program site_client) (Inr ())" if "de_Options site_decoders ''{}'' = Inr options"
      "\<not> os_DirectEligible options \<and> os_RecommendedFlow options = FlowContract \<and> 2 \<le> length (os_BillingOptions options) \<and>
       fp_Accepted (os_InputFilePolicy options)" for options
    unfolding check_options_def Options_def site_parts
    by (rule succeeds_weaken, rule succeeds_proceed,
        rule succeeds_must [OF site_quiet_ask [where decode = "de_Options site_decoders", OF site_answers(3) _ that(1)]],
        simp, rule succeeds_proceed, rule succeeds_required, rule that(2), rule succeeds_pass, simp)
  then show ?thesis by (simp add: site_decoders_def zero_OptionsResponse_def)
qed

lemma site_direct_checked: "succeeds {} (check_direct site_program site_client) (Inr ())"
proof -
  have ids: "sg_KeyID (ir_Signature (dr_Receipt site_direct)) = ''key1''" "dr_InvocationID site_direct = ''inv1''"
    by (simp_all add: site_direct_def site_keyID)
  show ?thesis
    unfolding check_direct_def Invoke_def InvocationAudit_def site_parts
    by (rule succeeds_weaken, rule succeeds_proceed,
        rule succeeds_must [OF site_quiet_ask [where decode = "de_Direct site_decoders", OF site_answers(2) _ site_decoded(2)]], simp,
        rule succeeds_proceed, unfold ids, rule succeeds_must [OF site_fetched],
        rule succeeds_proceed, rule succeeds_must_hold [OF site_direct_accepted],
        rule succeeds_proceed,
        rule succeeds_must [OF site_quiet_ask [where decode = "de_Chain site_decoders", OF site_answers(1) _ site_decoded(3)]],
        simp add: site_escapes, unfold prod.case,
        rule succeeds_proceed, rule succeeds_must_hold [OF site_audit_verified],
        rule succeeds_proceed, rule succeeds_must_hold [OF site_anchored(1)],
        rule succeeds_proceed, rule succeeds_required, simp, rule succeeds_pass, simp)
qed

lemma site_refused: "succeeds {} (check_contract_required site_program site_client) (Inr ())"
  unfolding check_contract_required_def site_parts
  by (rule succeeds_weaken, rule succeeds_proceed, rule site_refuses, rule succeeds_pass, simp)

lemma site_files: "succeeds {} (check_files site_program site_client) (Inr site_ref)"
proof -
  have ids: "fr_FileID site_ref = ''f1''" "fr_Digest site_ref = SHA256Digest conformance_content" by (simp_all add: site_ref_def)
  show ?thesis
    unfolding check_files_def PrepareUpload_def site_parts
    by (rule succeeds_weaken, rule succeeds_proceed,
        rule succeeds_must [OF site_quiet_ask [where decode = "de_Ticket site_decoders", OF site_answers(4) _ site_decoded(4)]], simp,
        rule succeeds_proceed, rule succeeds_must [OF site_uploaded],
        rule succeeds_proceed, unfold ids, rule succeeds_must [OF site_downloaded], unfold prod.case,
        rule succeeds_proceed, rule succeeds_required, simp add: ids,
        rule succeeds_proceed, rule succeeds_pass, rule succeeds_return, simp)
qed

lemma site_replay: "succeeds {} (check_replay site_program site_client site_ref) (Inr (zero_NegotiationResponse\<lparr>ns_Supported := True\<rparr>))"
proof -
  have ask: "succeeds {} (must operation (requested zero_NegotiationResponse (doJSON site_net site_decoders site_client ''POST'' ''/v1/negotiate''
      (Some (QNegotiation (send_negotiation ''send a conformance-test email'' files))) key (de_Negotiation site_decoders))))
      (Inr (zero_NegotiationResponse\<lparr>ns_Supported := True\<rparr>))" for operation files key
    by (rule succeeds_must [OF site_quiet_ask [where decode = "de_Negotiation site_decoders", OF site_answers(7) _ site_decoded(7)]]) simp
  have refuse: "succeeds {} (refused ErrIdempotencyConflict message (doJSON site_net site_decoders site_client ''POST'' ''/v1/negotiate''
      (Some (QNegotiation ((send_negotiation goal files)\<lparr>nr_Goal := ''different payload under the same key''\<rparr>))) key
      (de_Negotiation site_decoders))) (Inr ())" for message goal files key
    using site_refuses(2) unfolding Negotiate_def by blast
  show ?thesis
    unfolding check_replay_def Let_def Negotiate_def site_parts
    by (rule succeeds_weaken, rule succeeds_proceed, rule ask, rule succeeds_proceed, rule ask,
        rule succeeds_proceed, rule succeeds_required, rule refl, rule succeeds_proceed, rule refuse,
        rule succeeds_proceed, rule succeeds_pass, rule succeeds_return, simp)
qed

lemma site_quoted:
  "succeeds {} (check_quote site_program site_client site_manifest site_ref first) (Inr (site_quote, site_key))"
proof -
  have ids: "sg_KeyID (q_Signature site_quote) = ''key1''" by (simp add: site_quote_def site_keyID)
  have kept: "length (q_InputFiles site_quote) = 1 \<and> fr_Digest (hd (q_InputFiles site_quote)) = SHA256Digest conformance_content \<and>
      bt_Mode (q_BillingTerms site_quote) = BillingSubscription \<and> \<not> bt_AuthorizationRequired (q_BillingTerms site_quote)"
    by (simp add: site_quote_def site_ref_def zero_BillingTerms_def)
  show ?thesis
    unfolding check_quote_def Prepare_quote_def site_parts
    by (rule succeeds_weaken, rule succeeds_proceed,
        rule succeeds_must [OF site_quiet_ask [where decode = "de_Quote site_decoders", OF site_answers(5) _ site_decoded(5)]], simp,
        rule succeeds_proceed, unfold ids, rule succeeds_must [OF site_fetched],
        rule succeeds_proceed, rule succeeds_must_hold [OF site_quote_accepted],
        rule succeeds_proceed, rule succeeds_required [OF kept],
        rule succeeds_proceed, rule succeeds_pass, rule succeeds_return, simp)
qed

text \<open>The commitment that is sent.\<close>

definition site_commitment :: CommitRequest where
  "site_commitment = new_commitment site_quote (confirmation site_quote ''demo-approval-conformance'' 5) None ''conformance-client-task''"

definition commit_exchange :: client_event where
  "commit_exchange = Exchange (site_call ''POST'' ''/v1/commit'' (Some (QCommit site_commitment)) ''conformance-commit-000001'')
     (Inr (site_answer 200 ''{}''))"

lemma site_committed:
  "succeeds {commit_exchange} (check_commit site_program site_client site_quote site_key) (Inr (site_commit, site_receipt))"
proof -
  have now: "succeeds {} (time_now site_program) (Inr 5)"
    by (simp add: succeeds_def runs_def time_now_def site_program_def)
  have ask: "succeeds {commit_exchange} (must operation (requested zero_CommitResponse (doJSON site_net site_decoders site_client
      ''POST'' ''/v1/commit'' (Some (QCommit site_commitment)) ''conformance-commit-000001'' (de_Commit site_decoders))))
      (Inr site_commit)" for operation
    unfolding commit_exchange_def
    by (rule succeeds_must [OF site_asked [where decode = "de_Commit site_decoders", OF site_answers(6) _ site_decoded(6)]]) simp
  have task: "t_Receipt (cs_Task site_commit) = Some site_receipt" "\<exists>b. t_Billing (cs_Task site_commit) = Some b"
    by (simp_all add: site_commit_def)
  then obtain b where b: "t_Billing (cs_Task site_commit) = Some b" by blast
  show ?thesis
    unfolding check_commit_def Let_def Commit_def site_parts
    by (rule succeeds_weaken, rule succeeds_proceed, rule now, unfold site_commitment_def [symmetric],
        rule succeeds_proceed, rule ask, rule succeeds_proceed, rule ask,
        rule succeeds_proceed, rule succeeds_required, rule refl, unfold task(1) b prod.case option.case,
        rule succeeds_proceed, rule succeeds_must_hold [OF site_receipt_accepted],
        rule succeeds_proceed, rule succeeds_pass, rule succeeds_return, simp)
qed

lemma site_audited: "succeeds {} (check_audit site_program site_client site_commit site_receipt site_key) (Inr ())"
proof -
  have ids: "t_TaskID (cs_Task site_commit) = ''tsk1''" by (simp add: site_commit_def)
  show ?thesis
    unfolding check_audit_def Audit_def site_parts ids
    by (rule succeeds_weaken, rule succeeds_proceed,
        rule succeeds_must [OF site_quiet_ask [where decode = "de_Chain site_decoders", OF site_answers(1) _ site_decoded(3)]],
        simp add: site_escapes, unfold prod.case,
        rule succeeds_proceed, rule succeeds_must_hold [OF site_audit_verified],
        rule succeeds_proceed, rule succeeds_must_hold [OF site_anchored(2)],
        rule succeeds_proceed, rule succeeds_required, simp, rule succeeds_pass, simp)
qed

lemma site_conforms: "succeeds {commit_exchange} (main_conformance site_program ''https://h'' ''t'') (Inr ())"
proof -
  have made: "succeeds {} (must ''construct client'' (State_Monad.return (map_sum Failure id
      (New_client site_net site_do ''https://h'' ''t'')))) (Inr site_client)"
    by (rule succeeds_must) (simp add: site_New succeeds_return)
  show ?thesis
    unfolding main_conformance_def Manifest_of_def site_parts
    by (rule succeeds_weaken, rule succeeds_proceed [OF made],
        rule succeeds_proceed, rule succeeds_must [OF site_quiet_ask
          [where decode = "de_Manifest site_decoders", OF site_answers(1) _ site_decoded(1)]], simp,
        rule succeeds_proceed [OF site_catalog], rule succeeds_proceed [OF site_direct_checked],
        rule succeeds_proceed [OF site_options], rule succeeds_proceed [OF site_refused],
        rule succeeds_proceed [OF site_files], rule succeeds_proceed [OF site_replay],
        rule succeeds_proceed [OF site_quoted], unfold prod.case,
        rule succeeds_proceed [OF site_committed], unfold prod.case,
        rule succeeds_proceed [OF site_audited], rule succeeds_pass, simp)
qed

lemma site_committing: "committing site_client (site_call ''POST'' ''/v1/commit'' (Some body) key)"
proof -
  have names: "canonical_name True ''Idempotency-Key'' = ''Idempotency-Key''"
    by (simp add: upper_char_def lower_char_def ord_def char_of_def bit_0)
  show ?thesis
    by (simp add: committing_def site_call_def site_client_def json_headers_def set_if_def Header_Get_Set client_header_names names
        del: canonical_name.simps)
qed

end
