(* ===== verification/Delivery.thy ===== *)
theory Delivery
  imports Agreement
begin

text \<open>
  The answer of a preparation on the wire: the reference server answers 201 only with the encoding of
  a quote that was signed and is semantically valid, and every problem has an error status, so what a
  client decodes from a successful answer passes its checks.
\<close>

lemma yields_attempt:
  assumes "yields m (\<lambda>r. case r of Inl a \<Rightarrow> Q a | Inr b \<Rightarrow> yields (f b) Q)"
  shows "yields (attempt m f) Q"
  unfolding attempt_def
  by (rule yields_bind, rule yields_mono [OF assms]) (auto split: sum.splits intro: yields_return)

lemma yields_perform: "(\<And>w. Q (fst (m w))) \<Longrightarrow> yields (perform m ev) Q"
  unfolding yields_def by (intro allI runs_perform) (metis fst_conv)

section \<open>Problems have an error status\<close>

abbreviation refuses :: "Problem \<Rightarrow> bool" where
  "refuses p \<equiv> 400 \<le> p_Status p"

lemma context_problem_refuses: "context_problem err_text index now refs = Some p \<Longrightarrow> refuses p"
  by (induction err_text index now refs rule: context_problem.induct) (auto split: option.splits)

lemma window_problem_refuses: "window_problem preferences now = Some p \<Longrightarrow> refuses p"
  by (auto simp: window_problem_def split: if_splits option.splits)

lemma callback_problem_refuses: "callback_problem cfg input = Some p \<Longrightarrow> refuses p"
  by (auto simp: callback_problem_def split: if_splits)

lemma limit_problem_refuses: "limit_problem err_text cap limits = Some p \<Longrightarrow> refuses p"
  by (induction err_text cap limits rule: limit_problem.induct) (auto split: sum.splits if_splits)

lemma decodeStrict_refuses: "decodeStrict cfg decoder body = Inl p \<Longrightarrow> refuses p"
  by (auto simp: decodeStrict_def split: prod.splits sum.splits if_splits)

lemma Get_refuses: "Get identity fileID now s = Inl p \<Longrightarrow> refuses p"
  by (auto simp: Get_def file_not_found_def split: option.splits if_splits)

lemma Validate_refuses: "Validate identity refs now s = Some p \<Longrightarrow> refuses p"
proof -
  have one: "validate_file identity now s index ref = Some p \<Longrightarrow> refuses p" for index ref
    by (auto simp: validate_file_def dest: Get_refuses split: sum.splits if_splits)
  have "validate_files identity now s index refs = Some p \<Longrightarrow> refuses p" for index
    by (induction refs arbitrary: index) (auto dest: one split: option.splits)
  then show "Validate identity refs now s = Some p \<Longrightarrow> refuses p" by (simp add: Validate_def)
qed

lemma send_parameters_refuses: "send_parameters parse_address parameters = Inl p \<Longrightarrow> refuses p"
  by (auto simp: send_parameters_def validationProblem_def split: option.splits if_splits)

lemma check_attachments_refuses: "check_attachments err_text index total_bytes files = Inl p \<Longrightarrow> refuses p"
  by (induction err_text index total_bytes files rule: check_attachments.induct)
    (auto simp: validationProblem_def split: option.splits if_splits)

lemma email_Prepare_refuses:
  assumes "email_Prepare parse_address err_text now offer request = Inl p"
  shows "refuses p"
proof -
  have attachments: "validateAttachmentPolicy err_text files = Some p \<Longrightarrow> refuses p" for files
    by (auto simp: validateAttachmentPolicy_def validationProblem_def dest: check_attachments_refuses split: sum.splits if_splits)
  have terms: "sendBillingTerms mode ref = Inl p \<Longrightarrow> refuses p" for mode ref
    by (auto simp: sendBillingTerms_def split: option.splits if_splits)
  from assms show ?thesis
    by (auto simp: email_Prepare_def Let_def dest: send_parameters_refuses attachments terms split: sum.splits option.splits)
qed

section \<open>The answer of a preparation\<close>

text \<open>A result that is no refusal carries a quote that is signed and valid.\<close>

definition carries :: "'w Config \<Rightarrow> (raw_object \<Rightarrow> Signature result \<Rightarrow> bool) \<Rightarrow> int \<Rightarrow> string \<Rightarrow> bool" where
  "carries cfg signs status body \<longleftrightarrow> 400 \<le> status \<or>
     (\<exists>q. js_Marshal (cfg_Library cfg) (BQuote q) = Inr body \<and> sealed cfg signs (BQuote q) \<and>
        ValidateQuoteSemantics (lib_ParseURL (cfg_Library cfg)) q = None \<and> q_ServiceID q = mf_ServiceID (cfg_Manifest cfg))"

abbreviation delivers :: "'w Config \<Rightarrow> (raw_object \<Rightarrow> Signature result \<Rightarrow> bool) \<Rightarrow> operationResult \<Rightarrow> bool" where
  "delivers cfg signs o0 \<equiv> carries cfg signs (op_Status o0) (op_Body o0)"

lemma problem_delivers [intro]: "refuses p \<Longrightarrow> delivers cfg signs (problemResult cfg requestID p)"
  by (simp add: carries_def problemResult_def Let_def)

lemma json_delivers:
  "sealed cfg signs (BQuote q) \<Longrightarrow> ValidateQuoteSemantics (lib_ParseURL (cfg_Library cfg)) q = None \<Longrightarrow>
     q_ServiceID q = mf_ServiceID (cfg_Manifest cfg) \<Longrightarrow> delivers cfg signs (jsonResult cfg status (BQuote q))"
  by (cases "js_Marshal (cfg_Library cfg) (BQuote q)")
     (auto simp: jsonResult_def json_response_def carries_def problemResult_def Let_def)

context honest_signer
begin

lemma yields_sealed:
  assumes "\<And>err. Q (f err)" "\<And>err. Q (g err)"
  shows "yields (sign_projection cfg v f g) (\<lambda>r. (\<forall>a. r = Inl a \<longrightarrow> Q a) \<and> (\<forall>sg. r = Inr sg \<longrightarrow> (\<exists>object.
     SigningProjection (js_Marshal (cfg_Library cfg)) (js_Object (cfg_Library cfg)) v = Inr object \<and> signs object (Inr sg))))"
  unfolding sign_projection_def
  by (rule yields_case_sum, rule yields_return, simp add: assms, rule yields_bind, rule yields_mono [OF yields_sign],
      rule yields_return) (auto simp: assms split: sum.splits)

lemma uniform_audit: "uniform (appendAudit cfg k e actor data)"
  unfolding appendAudit_def audit_append_def by (intro uniform_rules)

lemma yields_issue:
  "yields (issue_quote cfg i requestID (new_quote cfg i input offer contract quoteID now)) (delivers cfg signs)"
proof -
  let ?q = "new_quote cfg i input offer contract quoteID now"
  have zero: "?q\<lparr>q_Signature := zero_Signature\<rparr> = ?q" "q_ServiceID ?q = mf_ServiceID (cfg_Manifest cfg)"
    by (simp_all add: new_quote_def)
  show ?thesis
    unfolding issue_quote_def store_put_quote_def Let_def
    by (rule yields_if, rule yields_return, force, rule yields_attempt, rule yields_mono [OF yields_sealed [where Q = "delivers cfg signs"]],
        force, force, auto split: sum.splits intro!: yields_bind yields_uniform uniform_perform yields_case_option yields_return
          uniform_audit json_delivers simp: zero sealed_def ValidateQuoteSemantics_signature)
qed

end

section \<open>The reference server\<close>

lemma reference_calls_refuse:
  "yields (service_prepare (reference_engine env) i offer input) (\<lambda>r. \<forall>p. r = Inl p \<longrightarrow> refuses p)"
  "yields (files_validate (reference_engine env) i refs now) (\<lambda>r. \<forall>p. r = Some p \<longrightarrow> refuses p)"
  unfolding service_prepare_def files_validate_def
  by (rule yields_perform;
      auto simp: reference_parts reference_service_def reference_files_def at_tick_def on_defs split: prod.splits
        dest: email_Prepare_refuses Validate_refuses)+


text \<open>An early answer of a stage delivers nothing else than a refusal.\<close>

abbreviation stops :: "'w Config \<Rightarrow> (raw_object \<Rightarrow> Signature result \<Rightarrow> bool) \<Rightarrow> operationResult + 'a \<Rightarrow> bool" where
  "stops cfg signs r \<equiv> \<forall>o0. r = Inl o0 \<longrightarrow> delivers cfg signs o0"

lemma yields_answer: "refuses p \<Longrightarrow> yields (answer cfg requestID p) (stops cfg signs)"
  unfolding answer_def by (rule yields_return) auto

lemma yields_more: "stops cfg signs (Inr a)"
  by simp

lemma yields_stage:
  "yields m (stops cfg signs) \<Longrightarrow> (\<And>a. yields (f a) (delivers cfg signs)) \<Longrightarrow> yields (attempt m f) (delivers cfg signs)"
  by (rule yields_attempt, erule yields_mono) (simp split: sum.split)

lemma yields_now: "yields (Now cfg) (\<lambda>_. True)"
  unfolding Now_def by (rule yields_uniform [OF uniform_perform]) simp

lemma yields_any: "yields m (\<lambda>_. True) \<Longrightarrow> (\<And>a. yields (f a) Q) \<Longrightarrow> yields (State_Monad.bind m f) Q"
  by (rule yields_bind, erule yields_mono)

lemma references_refuse:
  "yields (validateReferences (reference_engine env) i contextRefs refs) (\<lambda>r. \<forall>p. r = Some p \<longrightarrow> refuses p)"
  unfolding validateReferences_def
  by (rule yields_any [OF yields_now], rule yields_case_option, rule reference_calls_refuse,
      rule yields_return) (auto dest: context_problem_refuses)

lemma prepare_offer_stops:
  "yields (prepare_offer (reference_engine env) i requestID input) (stops (reference_engine env) signs)"
proof -
  have found: "yields (store_get_offer (reference_engine env) k) (\<lambda>_. True)" for k
    unfolding store_get_offer_def by (rule yields_uniform [OF uniform_perform]) simp
  have checked: "yields (do {
        invalid \<leftarrow> validateReferences (reference_engine env) i contextRefs refs;
        case invalid of Some p \<Rightarrow> answer (reference_engine env) requestID p | None \<Rightarrow> State_Monad.return (Inr offer) })
      (stops (reference_engine env) signs)" for contextRefs refs and offer :: StoredOffer
    by (rule yields_bind, rule yields_mono [OF references_refuse])
       (auto intro!: yields_return yields_answer split: option.split)
  show ?thesis
    unfolding prepare_offer_def
    by (rule yields_any [OF found], rule yields_case_sum, rule yields_answer, simp, rule yields_case_option,
        rule yields_answer, simp, rule yields_if, rule yields_answer, simp, rule yields_any [OF yields_now],
        rule yields_if, rule yields_answer, simp, rule yields_if, rule yields_answer, simp,
        rule yields_any [OF yields_now], rule yields_case_option, rule yields_case_option, rule checked)
       (auto intro: yields_answer dest: callback_problem_refuses window_problem_refuses)
qed

lemma prepare_contract_stops:
  "yields (prepare_contract (reference_engine env) i requestID input offer) (stops (reference_engine env) signs)"
proof -
  have expiry: "yields (if b then State_Monad.return True else do { now \<leftarrow> Now cfg'; State_Monad.return (\<not> After t now) })
      (\<lambda>_. True)" for b t and cfg' :: "world Config"
    by (intro yields_if yields_return yields_any [OF yields_now]) simp_all
  show ?thesis
    unfolding prepare_contract_def
  proof (rule yields_bind, rule yields_mono [OF reference_calls_refuse(1)])
    fix r :: "Problem + PreparedContract"
    assume "\<forall>p. r = Inl p \<longrightarrow> refuses p"
    then show "yields (case r of Inl p \<Rightarrow> answer (reference_engine env) requestID p
        | Inr contract \<Rightarrow> do {
            expired \<leftarrow> (if IsZero (pp_ExpiresAt contract) then State_Monad.return True
              else do { now \<leftarrow> Now (reference_engine env); State_Monad.return (\<not> After (pp_ExpiresAt contract) now) });
            if expired
            then answer (reference_engine env) requestID (problem StatusInternalServerError ErrInternal ''Invalid service quote''
              ''The service returned an already-expired quote.'' False)
            else if validatePreparedContract contract \<noteq> None
            then answer (reference_engine env) requestID (problem StatusInternalServerError ErrInternal ''Invalid service quote''
              ''The service produced contract terms that violate ASCP invariants.'' False)
            else case limit_problem (lib_ErrText (cfg_Library (reference_engine env))) (pp_PriceCeiling contract)
                   [so_Budget offer, ep_MaxPrice (pr_Execution input)] of
                Some p \<Rightarrow> answer (reference_engine env) requestID p
              | None \<Rightarrow> State_Monad.return (Inr contract) }) (stops (reference_engine env) signs)"
      by (intro yields_case_sum yields_any [OF expiry] yields_if yields_case_option)
         (auto intro!: yields_answer yields_return dest: limit_problem_refuses)
  qed
qed

lemma prepare_delivers:
  "yields (prepare (reference_engine env) i requestID body key) (delivers (reference_engine env)
     (\<lambda>object r. \<exists>now. r = SignJSON (en_ed25519 env) (en_header_codec env) (en_object_codec env) (en_Signer env) now object))"
proof -
  have made: "yields (new_id (reference_engine env) prefix) (\<lambda>_. True)" for prefix
    unfolding new_id_def by (rule yields_uniform) (intro uniform_rules, simp)
  show ?thesis
    unfolding prepare_def
    by (rule yields_case_sum, rule yields_return, rule problem_delivers, erule decodeStrict_refuses,
        rule yields_if, rule yields_return, rule problem_delivers, simp,
        rule yields_stage [OF prepare_offer_stops], rule yields_stage [OF prepare_contract_stops],
        rule yields_any [OF made], rule yields_any [OF yields_now], rule reference_signs.yields_issue)
qed

section \<open>Through the mutation wrapper\<close>

fun replayed :: "event \<Rightarrow> bool" where
  "replayed (EvBegin scope key digest (Inr (IdempotencyReplay, resp))) = True"
| "replayed _ = False"

text \<open>
  An operation whose results satisfy \<open>D\<close> gives responses that do, apart from replays; \<open>D\<close> allows
  every error status, and the wrapper answers by itself only with one.
\<close>

lemma mutating_carries:
  assumes op: "\<And>i requestID body key. yields (operation i requestID body key) (\<lambda>r. \<forall>o0. r = Some o0 \<longrightarrow> D (op_Status o0) (op_Body o0))"
    and refusal: "\<And>status body. 400 \<le> status \<Longrightarrow> D status body"
  shows "runs w (handleMutating cfg operation writer request)
    (\<lambda>r es w'. (\<exists>e\<in>set es. replayed e) \<or> D (rs_Status r) (rs_Body r))"
proof -
  let ?D = "\<lambda>r. D (rs_Status r) (rs_Body r)"
  have problem: "?D (writeProblem cfg h requestID p)" if "refuses p" for h requestID p
    using refusal that by (simp add: writeProblem_def writeJSON_def respond_def Let_def)
  have id: "yields (request_id cfg request) (\<lambda>_. True)"
    unfolding request_id_def new_id_def Let_def by (rule yields_uniform) (intro uniform_rules, simp)
  have auth: "yields (Authenticate cfg request) (\<lambda>_. True)"
    unfolding Authenticate_def by (rule yields_uniform [OF uniform_perform]) simp
  have admitted: "yields (admit cfg writer request) (\<lambda>r. \<forall>a. r = Inl a \<longrightarrow> ?D a)"
    unfolding admit_def
    by (rule yields_any [OF id], rule yields_if, rule yields_return, simp add: problem version_problem_def,
        rule yields_any [OF auth], rule yields_return)
      (auto simp: Let_def problem unauthenticated_def key_problem_def split: sum.split if_splits)
  have finish: "yields (finish_claimed cfg writer requestID scope key digest o0) ?D" if "D (op_Status o0) (op_Body o0)"
    for requestID scope key digest o0
    unfolding finish_claimed_def idempotency_release_def idempotency_complete_def Let_def
    by (rule yields_if; rule yields_bind, (rule yields_mono [OF yields_now])?)
       (auto intro!: yields_bind yields_mono [OF yields_now] yields_uniform uniform_perform yields_return problem
         simp: that respond_def split: option.split)
  have claimed: "yields (run_claimed cfg operation writer i requestID key body scope digest) ?D" for i requestID key body scope digest
    unfolding run_claimed_def
    by (rule yields_bind, rule yields_mono [OF op], rule yields_case_option)
       (auto intro!: yields_return problem finish)
  have answered: "yields (answer_claim cfg writer requestID (run_claimed cfg operation writer i requestID key body scope digest) claim) ?D"
    if "\<not> replayed (EvBegin scope key digest claim)" for i requestID key body scope digest claim
  proof (cases claim)
    case (Inr r)
    with that show ?thesis
      by (cases "fst r"; cases r) (auto simp: answer_claim_def in_progress_problem_def intro!: yields_return problem claimed)
  qed (auto simp: answer_claim_def intro!: yields_return problem)
  have begun: "runs u (do { claim \<leftarrow> idempotency_begin cfg scope key digest;
        answer_claim cfg writer requestID (run_claimed cfg operation writer i requestID key body scope digest) claim })
      (\<lambda>r ds w'. (\<exists>e\<in>set es \<union> set ds. replayed e) \<or> ?D r)" for u i requestID key body scope digest es
    unfolding idempotency_begin_def
  proof (rule runs_bind, rule runs_perform)
    fix claim u'
    show "runs u' (answer_claim cfg writer requestID (run_claimed cfg operation writer i requestID key body scope digest) claim)
        (\<lambda>r ds w'. (\<exists>e\<in>set es \<union> set ([EvBegin scope key digest claim] @ ds). replayed e) \<or> ?D r)"
    proof (cases "replayed (EvBegin scope key digest claim)")
      case True
      have "uniform (answer_claim cfg writer requestID (run_claimed cfg operation writer i requestID key body scope digest) claim)"
        using True by (auto simp: answer_claim_def uniform_return split: sum.splits IdempotencyResult.splits prod.splits)
      then show ?thesis by (rule runs_mono [OF uniform_runs]) (use True in auto)
    next
      case False
      from answered [OF False, unfolded yields_def, THEN spec] show ?thesis by (rule runs_mono) simp
    qed
  qed
  show ?thesis
    unfolding handleMutating_def
    by (rule runs_attempt, rule runs_mono [OF admitted [unfolded yields_def, THEN spec]])
       (auto simp: Let_def split: sum.split intro: begun)
qed

section \<open>What the client reads\<close>

lemma prepare_route:
  assumes "rq_Method request = ''POST''" "rq_Path request = ''/v1/prepare''"
  shows "ServeHTTP cfg mux_reply request = handlePrepare cfg base_headers request"
proof -
  have "clean_path ''/v1/prepare''" by code_simp
  with assms show ?thesis by (simp add: ServeHTTP_def route_def on_route_def)
qed

text \<open>A response as it arrives: whole, with its status.\<close>

definition arrived :: "http_response \<Rightarrow> http_answer" where
  "arrived response = \<lparr>ha_Status = rs_Status response, ha_Data = rs_Body response, ha_ReadError = None\<rparr>"

lemma read_arrived:
  assumes "successful (arrived response)" "length (rs_Body response) \<le> maximumResponseBytes" "\<not> blank (rs_Body response)"
    and "decode (rs_Body response) = Inr v"
  shows "read_response de decode (Inr (arrived response)) = Inr (Some v)"
  using assms by (simp add: read_response_def arrived_def read_limited_def successful_def)

lemma prepared_response:
  assumes "rq_Method request = ''POST''" "rq_Path request = ''/v1/prepare''"
    and "\<forall>e\<in>set (events_of (ServeHTTP (reference_engine env) mux_reply request) w). \<not> replayed e"
    and "response = result_of (ServeHTTP (reference_engine env) mux_reply request) w"
  shows "carries (reference_engine env)
    (\<lambda>object r. \<exists>now. r = SignJSON (en_ed25519 env) (en_header_codec env) (en_object_codec env) (en_Signer env) now object)
    (rs_Status response) (rs_Body response)"
proof -
  let ?D = "carries (reference_engine env)
    (\<lambda>object r. \<exists>now. r = SignJSON (en_ed25519 env) (en_header_codec env) (en_object_codec env) (en_Signer env) now object)"
  have "yields (total_operation (prepare (reference_engine env)) i requestID body key)
      (\<lambda>r. \<forall>o0. r = Some o0 \<longrightarrow> ?D (op_Status o0) (op_Body o0))" for i requestID body key
    unfolding total_operation_def
    by (rule yields_bind, rule yields_mono [OF prepare_delivers], rule yields_return) simp
  from runs_result [OF mutating_carries [where D = ?D and operation = "total_operation (prepare (reference_engine env))"
      and cfg = "reference_engine env" and writer = base_headers and request = request and w = w, OF this]]
  have "(\<exists>e\<in>set (events_of (ServeHTTP (reference_engine env) mux_reply request) w). replayed e) \<or>
      ?D (rs_Status response) (rs_Body response)"
    unfolding assms(4) prepare_route [OF assms(1,2)] handlePrepare_def by (simp add: carries_def)
  with assms(3) show ?thesis by blast
qed

text \<open>The decoder reads the quote back from its encoding.\<close>

lemma delivered_quote:
  assumes "same_packages env vf" "lawful_JSON env" "key_pair (en_ed25519 env) (en_Signer env)"
    and "rq_Method request = ''POST''" "rq_Path request = ''/v1/prepare''"
    and "\<forall>e\<in>set (events_of (ServeHTTP (reference_engine env) mux_reply request) w). \<not> replayed e"
    and "response = result_of (ServeHTTP (reference_engine env) mux_reply request) w"
    and "successful (arrived response)" "length (rs_Body response) \<le> maximumResponseBytes" "\<not> blank (rs_Body response)"
    and "\<forall>q. js_Marshal (en_Library env) (BQuote q) = Inr (rs_Body response) \<longrightarrow> de_Quote de (rs_Body response) = Inr q"
  shows "\<exists>q. read_response de (de_Quote de) (Inr (arrived response)) = Inr (Some q) \<and>
    VerifyQuoteForManifest vf q (cfg_Manifest (reference_engine env)) (sn_publicKey (en_Signer env)) = None"
proof -
  let ?signs = "\<lambda>object r. \<exists>now. r = SignJSON (en_ed25519 env) (en_header_codec env) (en_object_codec env) (en_Signer env) now object"
  have "carries (reference_engine env) ?signs (rs_Status response) (rs_Body response)"
    by (rule prepared_response [OF assms(4-7)])
  moreover have "rs_Status response < 300" using assms(8) by (simp add: successful_def arrived_def)
  ultimately obtain q where q: "js_Marshal (en_Library env) (BQuote q) = Inr (rs_Body response)"
    "sealed (reference_engine env) ?signs (BQuote q)"
    "ValidateQuoteSemantics (lib_ParseURL (cfg_Library (reference_engine env))) q = None"
    "q_ServiceID q = mf_ServiceID (cfg_Manifest (reference_engine env))"
    by (auto simp: carries_def reference_parts)
  then have "seals (reference_engine env) ?signs (EvPutQuote q None)" by simp
  from seals_accepted [OF assms(1-3) this] q(1) assms(1)
  have "VerifyQuoteForManifest vf q (cfg_Manifest (reference_engine env)) (sn_publicKey (en_Signer env)) = None"
    by (simp add: same_packages_def)
  moreover have "read_response de (de_Quote de) (Inr (arrived response)) = Inr (Some q)"
    using assms(11) q(1) by (intro read_arrived [OF assms(8-10)]) simp
  ultimately show ?thesis by blast
qed

end
