(* ===== verification/Delivery_Examples.thy ===== *)
theory Delivery_Examples
  imports Client_Examples Delivery
begin

text \<open>
  The reference server and the client library with the same packages: a preparation over the routes of
  the server that ends with a signed quote, for the examples of the properties of both together.
\<close>

section \<open>The packages of the wire\<close>

text \<open>A header is its issue time in unary, with a sign, so that every header of one key survives.\<close>

definition unary_header :: "JWSHeader codec" where
  "unary_header =
     \<lparr>marshal = (\<lambda>h. Inr ((if jh_IssuedAt h < 0 then CHR ''-'' else CHR ''+'') # replicate (nat \<bar>jh_IssuedAt h\<bar>) (CHR ''1''))),
      unmarshal = (\<lambda>s. Inr (example_header\<lparr>jh_IssuedAt :=
        (if hd s = CHR ''-'' then - int (length (tl s)) else int (length (tl s)))\<rparr>))\<rparr>"

definition wire_env :: environment where
  "wire_env = demo_env\<lparr>en_header_codec := unary_header\<rparr>"

definition wire_verifier :: verifier where
  "wire_verifier = site_verifier\<lparr>vf_header := unary_header\<rparr>"

lemma wire_lawful:
  "same_packages wire_env wire_verifier" "lawful_JSON wire_env" "key_pair (en_ed25519 wire_env) (en_Signer wire_env)"
proof -
  have header: "codec_ok unary_header \<lparr>jh_Algorithm = ''EdDSA'', jh_KeyID = ''key1'', jh_Type = ''ascp+jws'', jh_IssuedAt = t\<rparr>" for t
    by (simp add: codec_ok_def unary_header_def example_header_def)
  have object: "codec_ok (one_value Map.empty) (Map.empty :: raw_object)" by (rule one_value_ok)
  show "same_packages wire_env wire_verifier"
    by (simp add: same_packages_def wire_env_def wire_verifier_def demo_env_def site_verifier_def demo_library_def)
  show "lawful_JSON wire_env"
    using header object
    by (simp add: lawful_JSON_def wire_env_def demo_env_def demo_library_def example_signer_def)
  show "key_pair (en_ed25519 wire_env) (en_Signer wire_env)"
    using example_key_pair by (simp add: wire_env_def demo_env_def)
qed

section \<open>A preparation\<close>

definition send_offer :: StoredOffer where
  "send_offer = demo_offer\<lparr>so_Actor := id_Actor demo_identity, so_Principal := id_Principal demo_identity, so_Budget := None\<rparr>"

definition send_agreed :: PreparedContract where
  "send_agreed = (case email_Prepare Inr (\<lambda>e. []) 150 send_offer send_request of Inl p \<Rightarrow> demo_contract | Inr c \<Rightarrow> c)"

definition wire_signature :: Signature where
  "wire_signature =
     (case SignJSON plain_ed25519 unary_header (one_value Map.empty) example_signer 150 (Map.empty :: raw_object) of
        Inl _ \<Rightarrow> zero_Signature | Inr sg \<Rightarrow> sg)"

definition unsigned_quote :: Quote where
  "unsigned_quote =
     new_quote (reference_engine wire_env) demo_identity send_request send_offer send_agreed (MustNewID ''r'' ''quo'') 150"

definition signed_quote :: Quote where
  "signed_quote = unsigned_quote\<lparr>q_Signature := wire_signature\<rparr>"

text \<open>An encoder that tells the signed quote from every other value.\<close>

definition quote_Marshal :: "body_value \<Rightarrow> string result" where
  "quote_Marshal v =
     (case v of
        BQuote q \<Rightarrow> if q_Signature q = zero_Signature then Inr ''{}''
          else if q = signed_quote then Inr ''quote'' else Inl (New_error ''no encoding'')
      | _ \<Rightarrow> Inr ''{}'')"

definition offer_env :: environment where
  "offer_env = wire_env\<lparr>en_Library := demo_library\<lparr>js_Prepare := (\<lambda>body. (Inr send_request, True)), js_Marshal := quote_Marshal\<rparr>\<rparr>"

definition offer_verifier :: verifier where
  "offer_verifier = wire_verifier\<lparr>vf_Marshal := quote_Marshal\<rparr>"

definition offer_decoders :: decoders where
  "offer_decoders = site_decoders\<lparr>de_Quote := (\<lambda>s. Inr signed_quote)\<rparr>"

definition offer_world :: world where
  "offer_world = (initial_world (\<lambda>n. 150) (\<lambda>n. ''r''))\<lparr>rw_records := NewMemoryStore\<lparr>ms_offers := [''off_1'' \<mapsto> send_offer]\<rparr>\<rparr>"

definition prepare_request :: http_request where
  "prepare_request = commit_request\<lparr>rq_Path := ''/v1/prepare''\<rparr>"

section \<open>Its parts\<close>

lemma send_agreed:
  "email_Prepare Inr (\<lambda>e. []) 150 send_offer send_request = Inr send_agreed" "wf_contract send_agreed"
  "pp_ExpiresAt send_agreed = 150 + 5 * Minute" "pp_RevocableUntil send_agreed = None"
proof -
  have shown: "\<not> blank ''a@b''" "\<not> blank ''s''" "\<not> blank ''t''" by (simp_all add: visible_start visible_def ord_def)
  have parameters: "send_parameters Inr (pr_Parameters send_request) = Inr (''a@b'', ''s'', ''t'')"
    using shown by (simp add: send_parameters_def send_request_def member_def json_text_def map_size_def)
  have "validateAttachmentPolicy (\<lambda>e. []) (pr_InputFiles send_request) = None"
    by (simp add: validateAttachmentPolicy_iff send_request_def demo_prepare_def)
  with parameters obtain terms where made: "email_Prepare Inr (\<lambda>e. []) 150 send_offer send_request =
      Inr (send_contract 150 send_offer [] ''a@b'' ''s'' ''t'' terms \<lparr>m_Currency = ''USD'', m_Amount = ''0.01''\<rparr>)"
    by (simp add: email_Prepare_def sendBillingTerms_def zero_BillingTerms_def send_request_def demo_prepare_def)
  then show agreed: "email_Prepare Inr (\<lambda>e. []) 150 send_offer send_request = Inr send_agreed" by (simp add: send_agreed_def)
  from email_Prepare_wf [OF this] show "wf_contract send_agreed" "pp_ExpiresAt send_agreed = 150 + 5 * Minute" by simp_all
  show "pp_RevocableUntil send_agreed = None" unfolding send_agreed_def made by (simp add: send_contract_def)
qed

lemma offer_lawful:
  "same_packages offer_env offer_verifier" "lawful_JSON offer_env" "key_pair (en_ed25519 offer_env) (en_Signer offer_env)"
proof -
  show "same_packages offer_env offer_verifier" "key_pair (en_ed25519 offer_env) (en_Signer offer_env)"
    using wire_lawful(1,3) by (simp_all add: same_packages_def offer_env_def offer_verifier_def wire_env_def demo_env_def demo_library_def)
  show "lawful_JSON offer_env"
    using wire_lawful(2) unfolding lawful_JSON_def
    by (simp add: offer_env_def wire_env_def demo_env_def demo_library_def)
qed

lemma wire_signed:
  "SignJSON plain_ed25519 unary_header (one_value Map.empty) example_signer 150 (Map.empty :: raw_object) = Inr wire_signature"
  "wire_signature \<noteq> zero_Signature"
proof -
  have "codec_ok unary_header \<lparr>jh_Algorithm = ''EdDSA'', jh_KeyID = sn_keyID example_signer, jh_Type = ''ascp+jws'',
      jh_IssuedAt = Unix (Truncate_second 150)\<rparr>"
    using wire_lawful(2) by (simp add: lawful_JSON_def wire_env_def demo_env_def)
  from sign_verify [OF example_key_pair one_value_ok [of "Map.empty :: raw_object"] this] obtain sg where
    "SignJSON plain_ed25519 unary_header (one_value Map.empty) example_signer 150 (Map.empty :: raw_object) = Inr sg"
    "sg_KeyID sg = sn_keyID example_signer" by blast
  moreover have "sn_keyID example_signer \<noteq> []" by (simp add: example_signer_def)
  ultimately have "\<exists>sg. SignJSON plain_ed25519 unary_header (one_value Map.empty) example_signer 150 (Map.empty :: raw_object) = Inr sg \<and>
    sg_KeyID sg \<noteq> []" by metis
  then show "SignJSON plain_ed25519 unary_header (one_value Map.empty) example_signer 150 (Map.empty :: raw_object) = Inr wire_signature"
    "wire_signature \<noteq> zero_Signature"
    by (auto simp: wire_signature_def zero_Signature_def)
qed

lemma unsigned_quote_ok: "ValidateQuoteSemantics parse unsigned_quote = None"
proof -
  have service: "mf_ServiceID (cfg_Manifest (reference_engine wire_env)) = ''urn:ascp:service:reference-email''"
    by (simp add: reference_parts default_manifest_def reference_manifest_def)
  have texts: "\<not> blank ''urn:ascp:service:reference-email''" "\<not> blank ''demo-client''" "\<not> blank ''demo-user''"
    by (rule visible_start; simp add: visible_def ord_def)+
  note parts = unsigned_quote_def new_quote_def send_request_def demo_prepare_def example_quote_def
  have "identity_ok unsigned_quote"
    by (simp add: identity_ok_def parts service texts send_offer_def demo_offer_def demo_identity_def example_not_blank)
  moreover have "content_ok parse unsigned_quote"
    using send_agreed(2) unfolding wf_contract_def by (elim conjE) (simp add: content_ok_def parts)
  moreover have "timing_ok unsigned_quote"
    by (simp add: timing_ok_def parts send_agreed(3,4) Minute_def Second_def)
  moreover have "price_ok unsigned_quote"
    using send_agreed(2) unfolding wf_contract_def by (elim conjE) (simp add: price_ok_def priced_def parts)
  ultimately show ?thesis by (simp add: ValidateQuoteSemantics_wf wf_quote_def)
qed

section \<open>The run\<close>

text \<open>A world whose clock, random source and offers are those of the example, and steps that answer in it.\<close>

definition steady :: "world \<Rightarrow> bool" where
  "steady w \<longleftrightarrow> rw_clock w = (\<lambda>n. 150) \<and> rw_random w = (\<lambda>n. ''r'') \<and> ms_offers (rw_records w) ''off_1'' = Some send_offer"

definition answers :: "(event, world, 'a) traced \<Rightarrow> 'a \<Rightarrow> bool" where
  "answers m v \<longleftrightarrow> (\<forall>w. steady w \<longrightarrow>
     runs w m (\<lambda>a es w'. a = v \<and> steady w' \<and> rw_claims w' = rw_claims w \<and> (\<forall>e\<in>set es. \<not> replayed e)))"

lemma answers_runs:
  "answers m v \<Longrightarrow> steady w \<Longrightarrow>
     runs w m (\<lambda>a es w'. a = v \<and> steady w' \<and> rw_claims w' = rw_claims w \<and> (\<forall>e\<in>set es. \<not> replayed e))"
  by (simp add: answers_def)

lemma answers_return: "answers (State_Monad.return v) v"
  by (simp add: answers_def runs_return)

lemma answers_bind: "answers m v \<Longrightarrow> answers (f v) u \<Longrightarrow> answers (State_Monad.bind m f) u"
  unfolding answers_def
  by (intro allI impI, rule runs_bind, drule spec, drule mp, assumption, erule runs_mono, clarify, drule spec, drule mp, assumption,
      erule runs_mono) auto

lemma answers_attempt: "answers m (Inr v) \<Longrightarrow> answers (f v) u \<Longrightarrow> answers (attempt m f) u"
  unfolding attempt_def by (erule answers_bind) simp

lemma answers_perform:
  assumes "\<And>w. steady w \<Longrightarrow> fst (m w) = v \<and> steady (snd (m w)) \<and> rw_claims (snd (m w)) = rw_claims w" "\<not> replayed (ev v)"
  shows "answers (perform m ev) v"
  unfolding answers_def
  by (intro allI impI runs_perform) (use assms in \<open>force\<close>)

lemma offer_parts:
  "cfg_Library (reference_engine offer_env) = en_Library offer_env" "cfg_Manifest (reference_engine offer_env) = cfg_Manifest (reference_engine wire_env)"
  "js_Prepare (en_Library offer_env) = (\<lambda>body. (Inr send_request, True))" "js_Marshal (en_Library offer_env) = quote_Marshal"
  "js_Object (en_Library offer_env) = (\<lambda>s. Inr (Some Map.empty))" "lib_ErrText (en_Library offer_env) = (\<lambda>e. [])"
  "lib_ParseMediaType (en_Library offer_env) = (\<lambda>s. Inr s)"
  by (simp_all add: reference_parts offer_env_def wire_env_def demo_env_def demo_library_def)

lemma offer_calls:
  "answers (Now (reference_engine offer_env)) 150"
  "answers (new_id (reference_engine offer_env) prefix) (MustNewID ''r'' prefix)"
  "answers (store_get_offer (reference_engine offer_env) ''off_1'') (Inr (Some send_offer))"
  "answers (files_validate (reference_engine offer_env) demo_identity [] 150) None"
  "answers (service_prepare (reference_engine offer_env) demo_identity send_offer send_request) (Inr send_agreed)"
  "answers (sign_json (reference_engine offer_env) Map.empty) (Inr wire_signature)"
  "answers (store_put_quote (reference_engine offer_env) q) None"
  "answers (appendAudit (reference_engine offer_env) k e actor data) ()"
proof -
  note parts = reference_parts on_defs steady_def
  show "answers (Now (reference_engine offer_env)) 150"
    unfolding Now_def by (rule answers_perform) (auto simp: parts)
  show "answers (new_id (reference_engine offer_env) prefix) (MustNewID ''r'' prefix)"
    unfolding new_id_def by (rule answers_bind [OF answers_perform]) (auto simp: parts intro: answers_return)
  show "answers (store_get_offer (reference_engine offer_env) ''off_1'') (Inr (Some send_offer))"
    unfolding store_get_offer_def by (rule answers_perform) (auto simp: parts GetOffer_def)
  show "answers (files_validate (reference_engine offer_env) demo_identity [] 150) None"
    unfolding files_validate_def by (rule answers_perform) (auto simp: parts Validate_def)
  show "answers (service_prepare (reference_engine offer_env) demo_identity send_offer send_request) (Inr send_agreed)"
    unfolding service_prepare_def
    by (rule answers_perform)
       (auto simp: parts at_tick_def send_agreed(1) offer_env_def wire_env_def demo_env_def demo_library_def)
  show "answers (sign_json (reference_engine offer_env) Map.empty) (Inr wire_signature)"
    unfolding sign_json_def
    by (rule answers_perform) (auto simp: parts reference_sign_def wire_signed(1) offer_env_def wire_env_def demo_env_def)
  show "answers (store_put_quote (reference_engine offer_env) q) None"
    unfolding store_put_quote_def
    by (rule answers_perform) (auto simp: parts PutQuote_def offer_env_def wire_env_def demo_env_def)
  show "answers (appendAudit (reference_engine offer_env) k e actor data) ()"
    unfolding appendAudit_def audit_append_def answers_def
    by (intro allI impI runs_bind runs_perform runs_return) (auto simp: parts reference_append_def split: prod.splits)
qed

lemma offer_issued:
  "answers (issue_quote (reference_engine offer_env) demo_identity requestID unsigned_quote) (json_response StatusCreated ''quote'')"
proof -
  have zero: "q_Signature unsigned_quote = zero_Signature" by (simp add: unsigned_quote_def new_quote_def)
  have projection: "SigningProjection quote_Marshal (\<lambda>s. Inr (Some Map.empty)) (BQuote unsigned_quote) = Inr Map.empty"
    by (simp add: SigningProjection_def quote_Marshal_def zero)
  have marshal: "quote_Marshal (BQuote (unsigned_quote\<lparr>q_Signature := wire_signature\<rparr>)) = Inr ''quote''"
    by (simp add: quote_Marshal_def signed_quote_def wire_signed(2))
  have signed: "answers (sign_projection (reference_engine offer_env) (BQuote unsigned_quote) f g) (Inr wire_signature)"
    for f g :: "error \<Rightarrow> operationResult"
    unfolding sign_projection_def offer_parts projection sum.case
    by (rule answers_bind [OF offer_calls(6)], unfold sum.case, rule answers_return)
  have result: "jsonResult (reference_engine offer_env) StatusCreated (BQuote (unsigned_quote\<lparr>q_Signature := wire_signature\<rparr>)) =
      json_response StatusCreated ''quote''"
    by (simp add: jsonResult_def offer_parts marshal)
  show ?thesis
    unfolding issue_quote_def offer_parts Let_def
    by (simp only: unsigned_quote_ok simp_thms if_False, rule answers_attempt [OF signed], rule answers_bind [OF offer_calls(7)],
        unfold option.case, rule answers_bind [OF offer_calls(8)], unfold result, rule answers_return)
qed

lemma offer_prepared:
  "answers (prepare (reference_engine offer_env) demo_identity requestID body key) (json_response StatusCreated ''quote'')"
proof -
  let ?E = "reference_engine offer_env"
  have request: "pr_OfferID send_request = ''off_1''" "pr_SchemaVersion send_request = ''email.send/2''"
    "pr_ContextRefs send_request = []" "pr_InputFiles send_request = []" "ep_MaxPrice (pr_Execution send_request) = None"
    "window_problem (pr_Execution send_request) 150 = None" "callback_problem ?E send_request = None"
    by (simp_all add: send_request_def demo_prepare_def example_quote_def window_problem_def callback_problem_def)
  have offer: "so_Actor send_offer = id_Actor demo_identity" "so_Principal send_offer = id_Principal demo_identity"
    "so_ExpiresAt send_offer = 190" "so_SchemaVersion send_offer = ''email.send/2''" "so_Budget send_offer = None"
    by (simp_all add: send_offer_def demo_offer_def)
  have references: "answers (validateReferences ?E demo_identity [] []) None"
    unfolding validateReferences_def
    by (rule answers_bind [OF offer_calls(1)], simp, rule offer_calls(4))
  have found: "answers (prepare_offer ?E demo_identity requestID send_request) (Inr send_offer)"
    unfolding prepare_offer_def
    by (rule answers_bind, unfold request, rule offer_calls(3), simp add: offer, rule answers_bind [OF offer_calls(1)], simp,
        rule answers_bind [OF offer_calls(1)], simp add: request, rule answers_bind [OF references], simp, rule answers_return)
  have expires: "pp_ExpiresAt send_agreed \<noteq> 0" "150 < pp_ExpiresAt send_agreed"
    by (simp_all add: send_agreed(3) Minute_def Second_def)
  have agreed: "answers (prepare_contract ?E demo_identity requestID send_request send_offer) (Inr send_agreed)"
    unfolding prepare_contract_def
    by (rule answers_bind [OF offer_calls(5)], simp add: expires send_agreed(2) validatePreparedContract_iff,
        rule answers_bind [OF offer_calls(1)], simp add: expires offer request, rule answers_return)
  have quote: "new_quote ?E demo_identity send_request send_offer send_agreed (MustNewID ''r'' ''quo'') 150 = unsigned_quote"
    by (simp add: unsigned_quote_def new_quote_def offer_parts)
  have decoded: "decodeStrict ?E (js_Prepare (cfg_Library ?E)) body = Inr send_request"
    by (simp add: decodeStrict_def offer_parts)
  show ?thesis
    unfolding prepare_def decoded sum.case
    by (simp only: request(1,2) list.distinct simp_thms if_False, rule answers_attempt [OF found], rule answers_attempt [OF agreed],
        rule answers_bind [OF offer_calls(2)], rule answers_bind [OF offer_calls(1)], unfold quote, rule offer_issued)
qed

lemma offer_admitted:
  "answers (admit (reference_engine offer_env) writer prepare_request) (Inr (MustNewID ''r'' ''req'', demo_identity, demo_key, ''{}''))"
proof -
  let ?E = "reference_engine offer_env"
  have request: "rq_Headers prepare_request = rq_Headers commit_request" "rq_ContentLength prepare_request = 2"
    "rq_Body prepare_request = Inr ''{}''"
    by (simp_all add: prepare_request_def commit_request_def)
  have id: "answers (request_id ?E prepare_request) (MustNewID ''r'' ''req'')"
    by (simp add: request_id_def request commit_request_headers offer_calls(2))
  have auth: "answers (Authenticate ?E prepare_request) (Inr demo_identity)"
    unfolding Authenticate_def
    by (rule answers_perform)
       (auto simp: reference_parts on_defs request commit_request_headers offer_env_def wire_env_def demo_env_def commit_bearer)
  have media: "\<not> unsupported_media ?E prepare_request" "\<not> unsupported_version prepare_request"
    by (simp_all add: unsupported_media_def unsupported_version_def request commit_request_headers offer_parts)
  have body: "read_body prepare_request (cfg_MaximumBodyBytes ?E) = Inr ''{}''"
    by (simp add: read_body_def request reference_parts)
  show ?thesis
    unfolding admit_def
    by (rule answers_bind [OF id], simp only: media if_False, rule answers_bind [OF auth], unfold sum.case Let_def,
        simp only: media request commit_request_headers demo_key_ok body if_False not_True_eq_False sum.case, rule answers_return)
qed

lemma offer_begun:
  assumes "steady w" "rw_claims w = Map.empty"
  shows "runs w (idempotency_begin (reference_engine offer_env) scope key d) (\<lambda>r es w'.
    (\<exists>resp. r = Inr (IdempotencyNew, resp)) \<and> (\<forall>e\<in>set es. \<not> replayed e) \<and> steady w' \<and>
    claimed_entry (rw_claims w') (storageKey scope key) = Some d)"
proof -
  have "runs w (idempotency_begin (reference_engine offer_env) scope key d) (\<lambda>r es w'. \<exists>a. r = Inr a \<and>
      es = [EvBegin scope key d (Inr a)] \<and> fst a = IdempotencyNew \<and>
      claimed_entry (rw_claims w') (storageKey scope key) = Some d)"
    using assms(2)
    by (intro runs_mono [OF reference.begin_runs [where Q = "\<lambda>a s. fst a = IdempotencyNew \<and>
          claimed_entry s (storageKey scope key) = Some d"]])
       (auto simp: store_ops new_claim_def)
  moreover have "runs w (idempotency_begin (reference_engine offer_env) scope key d) (\<lambda>r es w'. steady w')"
    unfolding idempotency_begin_def
    by (rule runs_perform) (use assms(1) in \<open>auto simp: reference_parts reference_begin_def on_defs steady_def split: prod.splits\<close>)
  ultimately show ?thesis by (rule runs_mono [OF runs_both]) auto
qed

lemma offer_finished:
  assumes "steady w" "claimed_entry (rw_claims w) (storageKey scope key) = Some d"
  shows "runs w (finish_claimed (reference_engine offer_env) writer requestID scope key d (json_response StatusCreated ''quote''))
    (\<lambda>r es w'. rs_Status r = StatusCreated \<and> rs_Body r = ''quote'' \<and> (\<forall>e\<in>set es. \<not> replayed e))"
proof -
  let ?E = "reference_engine offer_env"
  have completed: "runs w' (idempotency_complete ?E scope key resp) (\<lambda>r es w''. r = None \<and> (\<forall>e\<in>set es. \<not> replayed e))"
    if "rw_claims w' = rw_claims w" for w' resp
  proof (rule runs_mono [OF runs_both])
    show "runs w' (idempotency_complete ?E scope key resp) (\<lambda>r es w''. r = None)"
      by (rule runs_mono [OF reference.complete_runs]) (use assms(2) that in auto)
    show "runs w' (idempotency_complete ?E scope key resp) (\<lambda>r es w''. \<forall>e\<in>set es. \<not> replayed e)"
      unfolding idempotency_complete_def by (rule runs_perform) simp
  qed simp
  note now = answers_runs [OF offer_calls(1)]
  show ?thesis
    unfolding finish_claimed_def Let_def
    by (simp add: json_response_def, rule runs_bind, rule runs_mono [OF now [OF assms(1)]], elim conjE,
        rule runs_bind, rule runs_mono [OF now], assumption, elim conjE, rule runs_bind, rule runs_mono [OF completed], simp)
       (auto intro!: runs_return simp: respond_def json_response_def)
qed

lemma offer_served:
  assumes "steady w" "rw_claims w = Map.empty"
  shows "runs w (handlePrepare (reference_engine offer_env) writer prepare_request)
    (\<lambda>r es w'. rs_Status r = StatusCreated \<and> rs_Body r = ''quote'' \<and> (\<forall>e\<in>set es. \<not> replayed e))"
proof -
  let ?E = "reference_engine offer_env"
  have operation: "answers (total_operation (prepare ?E) demo_identity requestID body key) (Some (json_response StatusCreated ''quote''))"
    for requestID body key
    unfolding total_operation_def by (rule answers_bind [OF offer_prepared answers_return])
  have claimed: "runs w' (run_claimed ?E (total_operation (prepare ?E)) writer demo_identity requestID key body scope d)
      (\<lambda>r es w'. rs_Status r = StatusCreated \<and> rs_Body r = ''quote'' \<and> (\<forall>e\<in>set es. \<not> replayed e))"
    if "steady w'" "claimed_entry (rw_claims w') (storageKey scope key) = Some d" for w' requestID key body scope d
    unfolding run_claimed_def
    by (rule runs_bind, rule runs_mono [OF answers_runs [OF operation that(1)]], elim conjE, simp,
        rule runs_mono [OF offer_finished]) (use that in auto)
  show ?thesis
    unfolding handlePrepare_def handleMutating_def Let_def
  proof (rule runs_attempt, rule runs_mono [OF answers_runs [OF offer_admitted assms(1)]], elim conjE, simp add: prod.case,
      rule runs_bind)
    fix es w'
    assume begun: "steady w'" "rw_claims w' = rw_claims w" "\<forall>e\<in>set es. \<not> replayed e"
    then have free: "rw_claims w' = Map.empty" by (simp add: assms(2))
    show "runs w' (idempotency_begin ?E (idempotency_scope demo_identity (rq_Method prepare_request) (rq_Path prepare_request)) demo_key
        (request_digest prepare_request ''{}''))
      (\<lambda>a ds w'. runs w' (answer_claim ?E writer (MustNewID ''r'' ''req'')
          (run_claimed ?E (total_operation (prepare ?E)) writer demo_identity (MustNewID ''r'' ''req'') demo_key ''{}''
            (idempotency_scope demo_identity (rq_Method prepare_request) (rq_Path prepare_request))
            (request_digest prepare_request ''{}'')) a)
        (\<lambda>r cs w''. rs_Status r = StatusCreated \<and> rs_Body r = ''quote'' \<and> (\<forall>e\<in>set es \<union> set (ds @ cs). \<not> replayed e)))"
      by (rule runs_mono [OF offer_begun [OF begun(1) free]], elim conjE exE, simp add: answer_claim_def,
          rule runs_mono [OF claimed]) (use begun(3) in auto)
  qed
qed

lemma offer_world_steady: "steady offer_world" "rw_claims offer_world = Map.empty"
  by (simp_all add: steady_def offer_world_def initial_world_def NewIdempotencyStore_def)

text \<open>The response of the server to the request, and its client.\<close>

definition offer_response :: http_response where
  "offer_response = result_of (ServeHTTP (reference_engine offer_env) (\<lambda>h r. respond h 404 []) prepare_request) offer_world"

lemma offer_delivered:
  "rs_Status offer_response = StatusCreated" "rs_Body offer_response = ''quote''"
  "\<forall>e\<in>set (events_of (ServeHTTP (reference_engine offer_env) (\<lambda>h r. respond h 404 []) prepare_request) offer_world). \<not> replayed e"
proof -
  have "ServeHTTP (reference_engine offer_env) (\<lambda>h r. respond h 404 []) prepare_request =
      handlePrepare (reference_engine offer_env) base_headers prepare_request"
    by (rule prepare_route) (simp_all add: prepare_request_def commit_request_def)
  with runs_result [OF offer_served [OF offer_world_steady, where writer = base_headers]]
  show "rs_Status offer_response = StatusCreated" "rs_Body offer_response = ''quote''"
    "\<forall>e\<in>set (events_of (ServeHTTP (reference_engine offer_env) (\<lambda>h r. respond h 404 []) prepare_request) offer_world). \<not> replayed e"
    by (simp_all add: offer_response_def)
qed

lemma offer_read: "js_Marshal (en_Library offer_env) (BQuote q) = Inr ''quote'' \<Longrightarrow> de_Quote offer_decoders ''quote'' = Inr q"
  by (auto simp: offer_parts quote_Marshal_def offer_decoders_def split: if_splits)

end
