(* ===== verification/Component_Facts.thy ===== *)
theory Component_Facts
  imports Engine_Examples
begin

text \<open>
  What single components promise, each with an example at which it applies: the order of amounts and
  canonical digests, replay of a claimed key, versions of a task, files of other identities, holds and mandates of
  billing, and what a payload digest binds. The properties of the root theory build on the same
  lemmas.
\<close>

section \<open>Amounts and digests\<close>

text \<open>CompareMoney answers exactly on two valid amounts of one currency, with the sign of their exact difference.\<close>

theorem money_order_exact:
  "CompareMoney a b = Inr c \<longleftrightarrow>
     ValidateMoney a = None \<and> ValidateMoney b = None \<and> m_Currency a = m_Currency b \<and>
     c = (if amount_rat (m_Amount a) < amount_rat (m_Amount b) then - 1
          else if amount_rat (m_Amount a) = amount_rat (m_Amount b) then 0 else 1)"
  unfolding CompareMoney_Inr_iff Rat_Cmp_def money_value_def ..

text \<open>The accepted digests are exactly sha256: followed by the canonical base64url text of 32 bytes, and the text determines the bytes.\<close>

theorem digest_canonical:
  "ValidateSHA256Digest s = None \<longleftrightarrow> (\<exists>!d. length d = 32 \<and> s = ''sha256:'' @ base64_encode d)"
  using ValidateSHA256Digest_iff [of s] base64_encode_inj by (auto simp: digest_prefix_def)

section \<open>Stores\<close>

text \<open>The response stored by Complete is returned unchanged to every retry of the same request until it expires, whatever other calls happen in between.\<close>

theorem idempotent_replay:
  assumes "Complete scope key resp s = (None, s1)" "sr_ExpiresAt resp \<noteq> 0"
    and "s (storageKey scope key) = Some claim" "ie_InProgress claim"
    and "list_all (store.keeps (storageKey scope key) (sr_ExpiresAt resp)) cs" "t \<le> sr_ExpiresAt resp"
  shows "fst (Begin t u scope key (ie_RequestDigest claim) retention (fold store.step cs s1)) =
    (IdempotencyReplay, resp)"
proof -
  have "stored_entry s1 (storageKey scope key) = Some (ie_RequestDigest claim, resp)"
    using assms(1-4) by (auto simp: Complete_def store_ops split: if_splits)
  from store.replayed [OF this assms(5)] assms(6) show ?thesis by (simp add: Begin_def)
qed

lemma idempotent_replay_witness:
  "fst (Begin 4 4 ''s'' ''k'' (ie_RequestDigest (new_claim ''d'' 3 1)) 3
      (fold store.step [CBegin 2 2 (storageKey ''s'' ''other'') ''x'' 7]
        [storageKey ''s'' ''k'' \<mapsto> (new_claim ''d'' 3 1)\<lparr>ie_InProgress := False,
           ie_Response := zero_StoredResponse\<lparr>sr_ExpiresAt := 5\<rparr>\<rparr>])) =
    (IdempotencyReplay, zero_StoredResponse\<lparr>sr_ExpiresAt := 5\<rparr>)"
  by (rule idempotent_replay [where s = "[storageKey ''s'' ''k'' \<mapsto> new_claim ''d'' 3 1]"])
     (simp_all add: Complete_def store_ops store.keeps.simps storageKey_def zero_StoredResponse_def)

text \<open>To any identity but its owner a file is indistinguishable from a missing one: metadata, content and upload answer as if it did not exist and the store does not change.\<close>

theorem foreign_file_invisible:
  assumes "mfs_files s fid = Some f" "\<not> sameIdentity (sf_Owner f) i"
  shows "Get i fid now s = Get i fid now (s\<lparr>mfs_files := (mfs_files s)(fid := None)\<rparr>) \<and>
    Content i fid now s = Content i fid now (s\<lparr>mfs_files := (mfs_files s)(fid := None)\<rparr>) \<and>
    fst (Upload pm i fid tok mt c now s) = fst (Upload pm i fid tok mt c now (s\<lparr>mfs_files := (mfs_files s)(fid := None)\<rparr>)) \<and>
    snd (Upload pm i fid tok mt c now s) = s"
  using not_owner_hidden [OF assms] by (metis fst_conv snd_conv)

lemma foreign_file_invisible_witness:
  "Get stranger ''fil_1'' 5 example_files = Get stranger ''fil_1'' 5 (example_files\<lparr>mfs_files := (mfs_files example_files)(''fil_1'' := None)\<rparr>) \<and>
    Content stranger ''fil_1'' 5 example_files = Content stranger ''fil_1'' 5 (example_files\<lparr>mfs_files := (mfs_files example_files)(''fil_1'' := None)\<rparr>) \<and>
    fst (Upload Inr stranger ''fil_1'' ''t'' ''text/plain'' ''hi'' 5 example_files) =
      fst (Upload Inr stranger ''fil_1'' ''t'' ''text/plain'' ''hi'' 5 (example_files\<lparr>mfs_files := (mfs_files example_files)(''fil_1'' := None)\<rparr>)) \<and>
    snd (Upload Inr stranger ''fil_1'' ''t'' ''text/plain'' ''hi'' 5 example_files) = example_files"
  by (rule foreign_file_invisible [where f = example_file])
     (simp_all add: example_files_def example_file_def sameIdentity_def example_owner_def stranger_def agent_def person_def)

text \<open>An update that succeeds changes exactly one task, by the update function, advances its version by one and returns the new record; no call replaces a stored task.\<close>

theorem task_versions:
  assumes "UpdateTask Inr i f s = ((t', None), s')" "PutTask Inr new s' = (None, s'')"
  shows "\<exists>t u. ms_tasks s i = Some t \<and> f t = Inr u \<and> t' = u\<lparr>t_Version := wrap64 (t_Version u + 1)\<rparr> \<and>
    ms_tasks s'' = (ms_tasks s)(i \<mapsto> t', t_TaskID new \<mapsto> new) \<and> t_TaskID new \<noteq> i \<and>
    GetTask Inr i s'' = Inr (Some t')"
proof -
  from memory_tasks.update_ok [OF assms(1)] obtain t u where
    u: "ms_tasks s i = Some t" "f t = Inr u" "t' = u\<lparr>t_Version := wrap64 (t_Version u + 1)\<rparr>"
    "ms_tasks s' = (ms_tasks s)(i \<mapsto> t')" by blast
  from memory_tasks.put_ok [OF assms(2)] have p: "ms_tasks s' (t_TaskID new) = None"
    "ms_tasks s'' = (ms_tasks s')(t_TaskID new \<mapsto> new)" by auto
  from p(1) u(4) have "t_TaskID new \<noteq> i" by auto
  with u p show ?thesis by (auto simp: GetTask_def get_copy_def)
qed

lemma task_versions_witness:
  "\<exists>t u. ms_tasks (store_of [task_named ''a'']) ''a'' = Some t \<and> Inr t = (Inr u :: Task result) \<and>
    (task_named ''a'')\<lparr>t_Version := 1\<rparr> = u\<lparr>t_Version := wrap64 (t_Version u + 1)\<rparr> \<and>
    ms_tasks (store_of [task_named ''b'', (task_named ''a'')\<lparr>t_Version := 1\<rparr>]) =
      (ms_tasks (store_of [task_named ''a'']))(''a'' \<mapsto> (task_named ''a'')\<lparr>t_Version := 1\<rparr>,
         t_TaskID (task_named ''b'') \<mapsto> task_named ''b'') \<and>
    t_TaskID (task_named ''b'') \<noteq> ''a'' \<and>
    GetTask Inr ''a'' (store_of [task_named ''b'', (task_named ''a'')\<lparr>t_Version := 1\<rparr>]) =
      Inr (Some ((task_named ''a'')\<lparr>t_Version := 1\<rparr>))"
  by (rule task_versions [where f = Inr and s' = "store_of [(task_named ''a'')\<lparr>t_Version := 1\<rparr>]"])
     (auto simp: UpdateTask_def PutTask_def wrap64_def task_named_def zero_Task_def NewMemoryStore_def store_of_def Let_def)

section \<open>Billing\<close>

text \<open>Repeating a reservation under the same contract and key returns the first one and changes nothing, as long as its guards still pass.\<close>

theorem reserve_idempotent:
  assumes "Reserve et t1 t2 raw sid cid bd terms auth amt key m = (Inr r, m1)"
    and "check_reserve et t3 sid bd terms auth amt = None"
  shows "Reserve et t3 t4 raw' sid cid bd terms auth amt key m1 = (Inr r, m1)"
  using Reserve_again [OF assms] .

lemma reserve_idempotent_witness:
  "Reserve no_text 8 9 ''other'' ''svc'' ''quo_1'' ''digest'' example_terms None (usd ''5.00'') ''key'' mock_reserved =
     (Inr example_hold, mock_reserved)"
  by (rule reserve_idempotent [where m = NewMockProcessor and ?t1.0 = 1 and ?t2.0 = 0 and raw = "''r1''"])
     (use reserve_example in \<open>simp_all add: Reserve_env_def check_reserve_def example_terms_def zero_BillingTerms_def\<close>)

text \<open>Once a hold is released, no later call charges it, whatever happens in between.\<close>

theorem released_hold_never_charged:
  assumes "mock_ok m" "reservationsByRef m ref = Some r" "Release_hold ref key m = (None, m1)"
    and "mock.fresh_run et cs m1"
  shows "fst (Settle_env et e ref amt key' (fold (mock.step et) cs m1)) \<noteq> Inr st"
  using mock.released_never_charged [OF assms] .

lemma released_hold_never_charged_witness:
  "fst (Settle_env no_text (1, 0, ''s1'') (MustNewID ''r1'' ''blr'') (usd ''3'') ''settle''
      (mock_reserved\<lparr>released_holds := {MustNewID ''r1'' ''blr''}\<rparr>)) \<noteq> Inr example_charge"
  using released_hold_never_charged [OF mock_reserved_ok, where cs = "[]" and r = example_hold and
      ref = "MustNewID ''r1'' ''blr''" and key = "''void''" and et = no_text and
      ?m1.0 = "mock_reserved\<lparr>released_holds := {MustNewID ''r1'' ''blr''}\<rparr>"]
  by (simp add: Release_hold_def mock_reserved_def NewMockProcessor_def mock.fresh_run.simps)

text \<open>A billing authorization that the engine accepts for a quote is accepted by the billing processor for the same terms and amount, so a commit never fails at the processor over the mandate.\<close>

theorem mandate_settleable:
  assumes "validateBillingAuthorization err_text authorization payer sid bd terms amount now = None"
    and "bt_Mode terms \<noteq> BillingFree"
    and "\<And>a. authorization = Some a \<Longrightarrow> bt_Mode terms = BillingPayNow \<Longrightarrow>
       HasPrefix (ba_AuthorizationRef a) ''mockpay_''"
  shows "check_reserve err_text now sid bd terms authorization amount = None"
  by (rule mandate_accepted_by_processor [OF assms])

lemma mandate_settleable_witness:
  "check_reserve (\<lambda>e. []) 150 ''svc'' ''dig'' example_terms None (usd ''5.00'') = None"
  by (rule mandate_settleable [of "\<lambda>e. []" None person])
     (simp_all add: validateBillingAuthorization_def example_terms_def zero_BillingTerms_def)

section \<open>Signatures\<close>

text \<open>An accepted signature covers header and payload with the given key, and its payload digest fixes the decoded value: two accepted signatures with one digest carry one value, or the payload bytes of the two collide under SHA-256.\<close>

theorem signed_payload_binds:
  assumes "VerifyJSON ed hc vc sg pk = Inr v" "VerifyJSON ed hc vc sg' pk' = Inr v'"
    and "sg_PayloadDigest sg = sg_PayloadDigest sg'"
  shows "(v = v' \<or> payloads_collide sg sg') \<and> length pk = 32 \<and>
    (\<exists>a b c r. Split CHR ''.'' (sg_JWS sg) = [a, b, c] \<and> base64_decode c = Some r \<and>
       ed_Verify ed pk (a @ ''.'' @ b) r)"
  using verified_digest_binds [OF assms] assms(1)
  unfolding VerifyJSON_iff signed_document_def PublicKeySize_def by blast

lemma signed_payload_binds_witness:
  "\<exists>sg :: Signature. length (drop 32 example_sk) = 32 \<and>
    (\<exists>a b c r. Split CHR ''.'' (sg_JWS sg) = [a, b, c] \<and> base64_decode c = Some r \<and>
       ed_Verify plain_ed25519 (drop 32 example_sk) (a @ ''.'' @ b) r)"
proof -
  from sign_verify [OF example_key_pair one_value_ok [of "''v''"], of "one_value example_header" 7]
  obtain sg where "VerifyJSON plain_ed25519 (one_value example_header) (one_value ''v'') sg (drop 32 example_sk) = Inr ''v''"
    using one_value_ok [of example_header] by (auto simp: example_signer_def example_header_def)
  from signed_payload_binds [OF this this refl] show ?thesis by blast
qed

end
