(* ===== verification/Mutation_Answers.thy ===== *)
theory Mutation_Answers
  imports Contract_Protocol Server_Routes Reference_Server
begin

text \<open>
  The protocol of a commit and the wrapper of mutations together, in the reference server: what a
  commit under a free idempotency key leaves in the claim store, and that it gives the key back only
  when nothing happened that a second run would repeat.
\<close>

lemma commit_runs: "runs w (commit cfg i requestID body key) (\<lambda>r es w'. op_ReleaseClaim r \<longrightarrow> retry_safe es)"
  unfolding runs_def
proof
  fix tr
  obtain r es w' p where "run_state (commit cfg i requestID body key) (tr, w) = (r, tr @ es, w')"
    "advance (contract_machine i) Idle es = Some p" "op_ReleaseClaim r \<longrightarrow> may_retry p"
    using commit_follows [of i cfg requestID body key] unfolding follows_def by metis
  then show "\<exists>r es w'. run_state (commit cfg i requestID body key) (tr, w) = (r, tr @ es, w') \<and>
      (op_ReleaseClaim r \<longrightarrow> retry_safe es)"
    using may_retry_safe by blast
qed

section \<open>The reference server with any verifier and processor\<close>

text \<open>
  The claim store, clock and random source of the reference server, with an authorization verifier
  and a billing processor that may answer anything but do not touch the claim store. The reference
  server itself is the case of its own verifier and processor.
\<close>

definition hosted ::
  "environment \<Rightarrow> (Identity \<Rightarrow> Quote \<Rightarrow> AuthorizationEvidence \<Rightarrow> (world, Problem option) op) \<Rightarrow> world Processor \<Rightarrow> world Config"
where
  "hosted env authorize processor =
     (reference_engine env)\<lparr>cfg_Authorization := authorize, cfg_Billing := processor\<rparr>"

definition apart ::
  "(Identity \<Rightarrow> Quote \<Rightarrow> AuthorizationEvidence \<Rightarrow> (world, Problem option) op) \<Rightarrow> world Processor \<Rightarrow> bool"
where
  "apart authorize processor \<longleftrightarrow>
     (\<forall>i q e w. rw_claims (snd (authorize i q e w)) = rw_claims w) \<and>
     (\<forall>s c d t a m k w. rw_claims (snd (bill_Reserve processor s c d t a m k w)) = rw_claims w) \<and>
     (\<forall>ref m k w. rw_claims (snd (bill_Settle processor ref m k w)) = rw_claims w) \<and>
     (\<forall>ref k w. rw_claims (snd (bill_Release processor ref k w)) = rw_claims w)"

lemma hosted_self: "hosted env (cfg_Authorization (reference_engine env)) (cfg_Billing (reference_engine env)) = reference_engine env"
  by (simp add: hosted_def)

lemma apart_self: "apart (cfg_Authorization (reference_engine env)) (cfg_Billing (reference_engine env))"
  by (simp add: apart_def reference_parts)

lemma hosted_sel [simp]:
  "cfg_Idempotency (hosted env authorize processor) = cfg_Idempotency (reference_engine env)"
  "cfg_IdempotencyRetention (hosted env authorize processor) = cfg_IdempotencyRetention (reference_engine env)"
  "cfg_Now (hosted env authorize processor) = cfg_Now (reference_engine env)"
  "cfg_Random (hosted env authorize processor) = cfg_Random (reference_engine env)"
  "cfg_Authenticator (hosted env authorize processor) = cfg_Authenticator (reference_engine env)"
  "cfg_Service (hosted env authorize processor) = cfg_Service (reference_engine env)"
  "cfg_Store (hosted env authorize processor) = cfg_Store (reference_engine env)"
  "cfg_Audit (hosted env authorize processor) = cfg_Audit (reference_engine env)"
  "cfg_Signer (hosted env authorize processor) = cfg_Signer (reference_engine env)"
  "cfg_Authorization (hosted env authorize processor) = authorize"
  "cfg_Billing (hosted env authorize processor) = processor"
  by (simp_all add: hosted_def)

interpretation hosted: claimed_mutations Begin_at Complete_at Release_at claimed_entry stored_entry
  "hosted env authorize processor" rw_claims claim_clock storageKey for env authorize processor
  by unfold_locales
    (simp_all only: hosted_sel reference.begin_call reference.complete_call reference.release_call reference.now_claims
      reference.random_claims reference.authenticate_claims)

lemma hosted_leaves_calls:
  assumes "apart authorize processor"
  shows "leaves rw_claims (Now (hosted env authorize processor))"
  "leaves rw_claims (new_id (hosted env authorize processor) prefix)"
  "leaves rw_claims (VerifyAuthorization (hosted env authorize processor) i q e)"
  "leaves rw_claims (service_execute (hosted env authorize processor) i t q)"
  "leaves rw_claims (store_get_quote (hosted env authorize processor) key)"
  "leaves rw_claims (store_put_task (hosted env authorize processor) t)"
  "leaves rw_claims (store_update_task (hosted env authorize processor) key f)"
  "leaves rw_claims (audit_append (hosted env authorize processor) key event_type actor data)"
  "leaves rw_claims (audit_root (hosted env authorize processor) key)"
  "leaves rw_claims (billing_reserve (hosted env authorize processor) x1 x2 x3 x4 x5 x6 x7)"
  "leaves rw_claims (billing_settle (hosted env authorize processor) y1 y2 y3)"
  "leaves rw_claims (billing_release (hosted env authorize processor) z1 z2)"
  "leaves rw_claims (sign_json (hosted env authorize processor) object)"
  using assms unfolding call_defs apart_def
  by (auto intro!: leaves_perform leaves_bind leaves_return simp: reference_parts)

lemma hosted_leaves_commit:
  assumes "apart authorize processor"
  shows "leaves rw_claims (total_operation (commit (hosted env authorize processor)) i requestID body key)"
  unfolding total_operation_def commit_def commit_task_def commit_started_def commit_executed_def commit_succeeded_def
    commit_settle_def commit_disputed_def commit_failed_def commit_receipt_def commit_response_def commit_guards_def
    release_reservation_def attachReceipt_def sign_projection_def reserveBilling_def answer_def appendAudit_def
  by (rule leaves_rules hosted_leaves_calls [OF assms])+

section \<open>The answer of a commit\<close>

lemma commit_operation_runs:
  assumes "apart authorize processor"
  shows "runs w (total_operation (commit (hosted env authorize processor)) i requestID body key)
     (\<lambda>outcome es w'. rw_claims w' = rw_claims w \<and>
        (\<exists>result. outcome = Some result \<and> (op_ReleaseClaim result \<longrightarrow> retry_safe es)))"
proof (rule runs_both [OF leavesD [OF hosted_leaves_commit [OF assms]]])
  show "runs w (total_operation (commit (hosted env authorize processor)) i requestID body key)
     (\<lambda>outcome es w'. \<exists>result. outcome = Some result \<and> (op_ReleaseClaim result \<longrightarrow> retry_safe es))"
    unfolding total_operation_def
    by (rule runs_bind, rule runs_mono [OF commit_runs]) (auto intro: runs_return)
qed

text \<open>The calls of the wrapper do not count for the protocol of the commit.\<close>

lemma bookkeeping_lists:
  "list_all bookkeeping es \<Longrightarrow> executions es = [] \<and> settlements es = [] \<and> releases es = [] \<and> holds_taken es = [] \<and>
     reservations es = [] \<and> stored_tasks es = []"
  by (induction es) (auto simp: event_lists bookkeeping_def split: event.splits)

lemma retry_safe_within:
  assumes "retry_safe ds" "list_all bookkeeping es" "list_all bookkeeping after"
  shows "retry_safe (es @ ds @ after)"
proof -
  have "executions (es @ ds @ after) = executions es @ executions ds @ executions after"
    "settlements (es @ ds @ after) = settlements es @ settlements ds @ settlements after"
    "releases (es @ ds @ after) = releases es @ releases ds @ releases after"
    "holds_taken (es @ ds @ after) = holds_taken es @ holds_taken ds @ holds_taken after"
    "reservations (es @ ds @ after) = reservations es @ reservations ds @ reservations after"
    "stored_tasks (es @ ds @ after) = stored_tasks es @ stored_tasks ds @ stored_tasks after"
    by (simp_all add: event_lists)
  with assms(1) bookkeeping_lists [OF assms(2)] bookkeeping_lists [OF assms(3)] show ?thesis
    unfolding retry_safe_def untouched_def by auto
qed

lemma commit_answers:
  assumes "apart authorize processor"
    and "result_of (admit (hosted env authorize processor) writer request) w = Inr (requestID, identity, key, body)"
    and "rw_claims w (storageKey (idempotency_scope identity (rq_Method request) (rq_Path request)) key) = None"
  shows "runs w (handleCommit (hosted env authorize processor) writer request)
     (\<lambda>r es w'. \<exists>result. (op_ReleaseClaim result \<longrightarrow> retry_safe es) \<and>
        hosted.claim_settled env authorize processor request identity key (request_digest request body) (Some result) r (rw_claims w'))"
proof -
  have free: "claimed_entry (rw_claims w) (hosted.claim_key request identity key) = None"
    "stored_entry (rw_claims w) (hosted.claim_key request identity key) = None"
    using assms(3) by (simp_all add: claimed_entry_def stored_entry_def hosted.claim_key_def)
  have admitted: "list_all bookkeeping (events_of (admit (hosted env authorize processor) writer request) w)"
    by (rule emits_events [OF admit_bookkeeping])
  show ?thesis
    unfolding handleCommit_def
  proof (rule runs_mono [OF hosted.answers_once [OF assms(2) free commit_operation_runs [OF assms(1)]]], elim exE conjE, hypsubst)
    fix r w' scope d a outcome ds after result
    assume "op_ReleaseClaim result \<longrightarrow> retry_safe ds" and after: "list_all bookkeeping after"
      and settled: "hosted.claim_settled env authorize processor request identity key (request_digest request body) (Some result) r (rw_claims w')"
    moreover have "retry_safe (events_of (admit (hosted env authorize processor) writer request) w @ EvBegin scope key d a # ds @ after)"
      if "retry_safe ds"
      using retry_safe_within [OF that, of "events_of (admit (hosted env authorize processor) writer request) w @ [EvBegin scope key d a]" after]
        admitted after by simp
    ultimately show "\<exists>result. (op_ReleaseClaim result \<longrightarrow>
        retry_safe (events_of (admit (hosted env authorize processor) writer request) w @ EvBegin scope key d a # ds @ after)) \<and>
      hosted.claim_settled env authorize processor request identity key (request_digest request body) (Some result) r (rw_claims w')"
      by blast
  qed
qed

text \<open>The verifier and the processor of the reference server never ask for a retry.\<close>

fun final_answer :: "event \<Rightarrow> bool" where
  "final_answer (EvVerify i q a (Some p)) \<longleftrightarrow> \<not> p_Retryable p"
| "final_answer (EvReserve s c d t a m k (Inl (TemporaryError reason))) \<longleftrightarrow> False"
| "final_answer _ \<longleftrightarrow> True"

lemma final_not_retried: "list_all final_answer es \<Longrightarrow> \<not> retry_safe es"
proof
  assume all: "list_all final_answer es" and "retry_safe es"
  then consider (verify) identity q a p where "EvVerify identity q a (Some p) \<in> set es" "p_Retryable p"
    | (reserve) reason where "reservations es = [Inl (TemporaryError reason)]"
    unfolding retry_safe_def by blast
  then show False
  proof cases
    case verify
    with all show False by (auto simp: list_all_iff)
  next
    case reserve
    then have "Inl (TemporaryError reason) \<in> set (reservations es)" by simp
    then obtain s c d t a m k where "EvReserve s c d t a m k (Inl (TemporaryError reason)) \<in> set es"
      by (auto simp: reservations_def split: event.splits)
    with all show False by (auto simp: list_all_iff)
  qed
qed

lemma Reserve_final: "Reserve et now1 now2 raw s c d t a m k mock \<noteq> (Inl (TemporaryError reason), w)"
  by (auto simp: Reserve_def Let_def check_mandate_def check_reserve_def check_authorization_def
      split: prod.splits sum.splits option.splits if_splits)

lemma final_calls:
  "emits final_answer (VerifyAuthorization (reference_engine env) i q e)"
  "emits final_answer (billing_reserve (reference_engine env) x1 x2 x3 x4 x5 x6 x7)"
  "emits final_answer (Now (reference_engine env))"
  "emits final_answer (new_id (reference_engine env) prefix)"
  "emits final_answer (service_execute (reference_engine env) i t q)"
  "emits final_answer (store_get_quote (reference_engine env) key)"
  "emits final_answer (store_put_task (reference_engine env) t)"
  "emits final_answer (store_update_task (reference_engine env) key f)"
  "emits final_answer (audit_append (reference_engine env) key event_type actor data)"
  "emits final_answer (audit_root (reference_engine env) key)"
  "emits final_answer (billing_settle (reference_engine env) y1 y2 y3)"
  "emits final_answer (billing_release (reference_engine env) z1 z2)"
  "emits final_answer (sign_json (reference_engine env) object)"
proof -
  show "emits final_answer (VerifyAuthorization (reference_engine env) i q e)"
    unfolding VerifyAuthorization_def
    by (rule emits_perform_answer) (simp add: reference_parts reading_def DemoVerify_def base_problem_def)
  show "emits final_answer (billing_reserve (reference_engine env) x1 x2 x3 x4 x5 x6 x7)"
    unfolding billing_reserve_def
  proof (rule emits_perform_answer)
    fix w
    let ?r = "fst (bill_Reserve (cfg_Billing (reference_engine env)) x1 x2 x3 x4 x5 x6 x7 w)"
    have "?r \<noteq> Inl (TemporaryError reason)" for reason
      using Reserve_final by (auto simp: reference_parts reference_reserve_def on_defs Let_def split: prod.splits)
    then show "final_answer (EvReserve x1 x2 x3 x4 x5 x6 x7 ?r)"
      by (cases ?r rule: sum.exhaust; rename_tac e, case_tac e) simp_all
  qed
qed (unfold call_defs, (rule emits_rules final_answer.simps TrueI | simp)+)

lemma final_commit: "emits final_answer (total_operation (commit (reference_engine env)) i requestID body key)"
  unfolding total_operation_def commit_def commit_task_def commit_started_def commit_executed_def commit_succeeded_def
    commit_settle_def commit_disputed_def commit_failed_def commit_receipt_def commit_response_def commit_guards_def
    release_reservation_def attachReceipt_def sign_projection_def reserveBilling_def answer_def appendAudit_def Let_def
  by (rule emits_rules final_calls)+

lemma final_handleCommit: "emits final_answer (handleCommit (reference_engine env) writer request)"
  unfolding handleCommit_def handleMutating_def admit_def request_id_def answer_claim_def run_claimed_def finish_claimed_def
    Authenticate_def idempotency_begin_def idempotency_complete_def idempotency_release_def Let_def
  by (rule emits_rules emits_claim_case final_calls final_commit final_answer.simps [THEN iffD2] TrueI)+

end
