(* ===== verification/Spec2Isabelle.thy ===== *)
theory Spec2Isabelle
  imports Delivery_Examples Component_Facts Mutation_Answers
begin

text \<open>
  A verification library of the Agent Service Contract Protocol (ASCP): the Go packages
  \<open>pkg/ascp\<close>, \<open>pkg/audit\<close>, \<open>pkg/billing\<close>, \<open>pkg/server\<close>, \<open>pkg/client\<close>, the email service of
  \<open>internal/email\<close> and the programs \<open>ascp-server\<close>, \<open>ascp-client\<close> and \<open>ascp-conformance\<close> of \<open>cmd\<close>.

  The program. A caller negotiates a capability, prepares a signed quote, commits it with
  approval evidence and gets a task with a signed receipt (contract flow), or invokes a small
  task in one call (direct flow). The engine in \<open>pkg/server\<close> talks to interfaces: an
  authenticator, an authorization verifier, the platform's service, a record store, an
  idempotency store, an audit log, a billing processor, a file store and a signer. In-memory
  implementations of all of them and the email service make the reference server. The client
  library sends the requests and checks what the service signed; two programs use it, one that
  demonstrates both flows and one that tests a live service.

  Theories and source files.
  \<^item> \<open>Prelude\<close>: strings as Go has them (bytes, \<open>strings.TrimSpace\<close> and friends), results,
    fallible loops, \<open>int64\<close> wrap-around.
  \<^item> \<open>Types\<close> (types.go, service.go), \<open>Problems\<close> (problem.go): records in the order of the Go
    structs; a string enumeration is a datatype with a constructor for any other text.
  \<^item> \<open>Money\<close> (money.go), \<open>Digest\<close> (SHA-256, base64url, ids.go), \<open>Signing\<close> (signature.go,
    signable.go), \<open>Calendar\<close> (RFC 3339 times), \<open>Validation\<close> (validation.go).
  \<^item> \<open>Idempotency\<close>, \<open>Memory_Store\<close>, \<open>File_Store\<close>, \<open>Audit_Log\<close>, \<open>Billing\<close>: the in-memory
    backends (idempotency.go, store.go, files.go and auth.go, log.go, billing.go and mock.go);
    each operation under its lock is one function on the state.
  \<^item> \<open>Trace_Monad\<close>, \<open>Server_Config\<close>: a handler is a state transformer over an arbitrary world
    that appends one event for every call of a dependency. The configuration is a record of
    these dependencies, so every theorem about a handler holds for all of their answers.
  \<^item> \<open>Contract_Rules\<close>, \<open>Http_Core\<close>, \<open>Contract_Flow\<close>, \<open>Task_Routes\<close>, \<open>Direct_Flow\<close>,
    \<open>File_Routes\<close>, \<open>Server_Routes\<close>: server.go, direct.go, authorization.go and file_routes.go,
    one definition per function or stage of a function, with every early return.
  \<^item> \<open>Email_Service\<close> (service.go of internal/email), \<open>Reference_Server\<close> and \<open>Server_Start\<close>
    (main.go of ascp-server): the engine wired to the backends, over one world, and its start
    with the key from the environment.
  \<^item> \<open>Client\<close> (client.go), \<open>Client_Command\<close> (main.go of ascp-client), \<open>Conformance\<close> (main.go of
    ascp-conformance): the same traced runs, whose events are exchanges with the service, readings
    of the clock, the random source and files, and printed text. A program ends at its first error.
  \<^item> \<open>Contract_Protocol\<close>, \<open>Direct_Protocol\<close>, \<open>Offer_Protocol\<close>, \<open>Task_Protocol\<close>,
    \<open>Task_Lifecycle\<close>, \<open>Mutation_Protocol\<close>, \<open>Client_Protocol\<close>, \<open>Program_Protocol\<close>, \<open>Program_Runs\<close>:
    specifications. A protocol machine reads the events of a run; \<open>follows\<close> says that a run
    never makes a step the machine forbids, \<open>emits\<close> that all its events have a property,
    \<open>yields\<close> that its result has one, \<open>knows\<close> what its history justifies.
    \<open>Mutation_Answers\<close> joins the protocol of a commit with the wrapper: what a commit leaves under
    its idempotency key, with any verifier and processor.
  \<^item> \<open>Agreement\<close>: server and client together. The locale \<open>honest_signer\<close> states what the engine
    needs of its signer; its interpretation is the signer of the reference server. \<open>Delivery\<close>: what
    the server answers to a preparation, and how the client reads it.
  \<^item> \<open>Examples\<close>, \<open>Engine_Examples\<close>, \<open>Client_Examples\<close>, \<open>Delivery_Examples\<close>: concrete values, runs of
    the engine, a service at which the conformance program passes and a preparation over the routes of
    the reference server, for the examples of the properties.
    \<open>Component_Facts\<close>: further facts about single components with their examples.

  What the lemmas show. The validators are equal to the grammars and rules they stand for
  (\<open>ValidateMoney_iff\<close>, \<open>ValidateQuoteSemantics_wf\<close>, \<open>wf_contract\<close>, \<open>wf_plan\<close>); amounts are exact
  rationals; base64 and JWS round trips; every backend keeps an invariant and meets the laws of
  its interface (locales \<open>idempotency_backend\<close>, \<open>task_store\<close>, \<open>claimed_mutations\<close> with their
  interpretations); every run of commit, prepare, negotiate, cancel and invoke follows its
  machine, so the events before an execution, a settlement, a release or a stored record are
  known; a commit refines the task lifecycle of spec/state-machine.md, up to one step that the
  specification does not list and that \<open>disputed_run\<close> describes (a running task is disputed when the
  delivered price breaks the quote); a claimed key ends with the answer the client got, or is given
  back when a second run would repeat nothing; every document the server
  stores as signed is accepted by the client; the client stays on its origin and reads within its
  limits; a program commits only to a quote it verified, and its runs are bounded. SHA-256 is defined
  here, and its collisions exist: what a hash chain or a payload digest fixes is stated as equality or
  a collision between the very messages that were hashed, never as a collision somewhere.

  Time is an \<open>int\<close> of nanoseconds since Go's zero time; Go's \<open>int64\<close> sums wrap where the code
  can overflow. There is no fuel: every loop of the program is a structural recursion or has a
  termination proof, and a panic of an operation is the value \<open>None\<close>.

  Parameters. encoding/json, mime, net/url, net/mail, net/http's exchange, Ed25519, the clock, the
  file system and the random source are arguments; what a theorem needs of them is a hypothesis (a
  codec that decodes what it encodes, a signature that verifies under its key, the shape of paths).

  Not modelled: the HTTP listener, timeouts and contexts, signals, logging, flag parsing and the
  text on standard error. Two requests at a time are not interleaved step by step: a backend operation
  is one step under its lock, and a handler is one run over the world; since the world and the answers
  of the dependencies are arbitrary in the theorems about a handler, the effects of other requests
  between its calls are part of these answers.
\<close>

text \<open>C1: In every run of a commit, whatever the dependencies answer, the provider executes only after the caller's own quote was loaded unexpired and approved by evidence that passed validateAuthorization and the verifier, the delegation still covers its permissions, and its hold is bound to the signed digest and ceiling; nothing was executed, settled or released before.\<close>

theorem commit_executes_with_consent:
  assumes "events_of (commit cfg i requestID body key) w = before @ EvExecute task q r # after"
  shows "consented i before q \<and> in_scope i q \<and> (\<exists>ref. secured before q ref) \<and>
    executions before = [] \<and> settlements before = [] \<and> releases before = []"
proof -
  obtain p p' where "history i before p" "contract_machine i p (EvExecute task q r) = Some p'"
    using commit_history [OF assms] by metis
  then show ?thesis by (cases p) (auto simp: history_simps split: if_splits)
qed

lemma commit_executes_with_consent_witness:
  "\<exists>before task after. demo_events = before @ EvExecute task demo_quote (Inr demo_result) # after \<and>
     consented demo_agent before demo_quote \<and> (\<exists>ref. secured before demo_quote ref) \<and> executions before = []"
proof -
  from demo_commit_events(1) obtain task where "EvExecute task demo_quote (Inr demo_result) \<in> set demo_events" by blast
  then obtain before after where at: "demo_events = before @ EvExecute task demo_quote (Inr demo_result) # after"
    by (auto dest: split_list)
  from commit_executes_with_consent [OF at [unfolded demo_events_def]] at show ?thesis by blast
qed

text \<open>C2: In every run of a commit a settlement charges the hold of that quote, once, with the amount resolveFinalCharge computes from the signed quote and the provider's result, after the provider delivered.\<close>

theorem commit_settles_agreed:
  assumes "events_of (commit cfg i requestID body key) w = before @ EvSettle ref amount k r # after"
  shows "\<exists>q result bd. delivered before q result \<and> resolveFinalCharge q result = Inr (amount, bd) \<and>
     secured before q ref \<and> settlements before = [] \<and> releases before = []"
proof -
  obtain p p' where "history i before p" "contract_machine i p (EvSettle ref amount k r) = Some p'"
    using commit_history [OF assms] by metis
  then show ?thesis by (cases p) (auto simp: history_simps agreed_def split: if_splits sum.splits)
qed

lemma commit_settles_agreed_witness:
  "\<exists>before after. demo_events = before @ EvSettle ''blr_1'' (usd ''5.00'') ''key:settlement'' (Inr demo_settlement) # after \<and>
     (\<exists>q result bd. delivered before q result \<and> resolveFinalCharge q result = Inr (usd ''5.00'', bd) \<and>
        secured before q ''blr_1'')"
proof -
  obtain before after where at:
    "demo_events = before @ EvSettle ''blr_1'' (usd ''5.00'') ''key:settlement'' (Inr demo_settlement) # after"
    using demo_commit_events(2) by (auto dest: split_list)
  from commit_settles_agreed [OF at [unfolded demo_events_def]] at show ?thesis by blast
qed

text \<open>C3: A direct invocation reaches the provider only for an authenticated caller whose plan is eligible, well formed, in scope and, where required, approved for this request digest; its key, when it has one, was claimed, its price ceiling is held, and nothing ran before.\<close>

theorem invoke_executes_permitted:
  assumes "events_of (handleInvoke cfg writer request) w = before @ EvExecuteDirect k input plan r # after"
  shows "(\<exists>i clock. planned before i input plan clock \<and> dp_Eligible plan \<and> wf_plan plan \<and>
       (\<forall>scope\<in>set (dp_RequiredScopes plan). HasScope i scope) \<and>
       (dp_AuthorizationRequired plan \<longrightarrow> (\<exists>evidence t. di_Authorization input = Some evidence \<and> t \<in> set clock \<and>
          validateDirectAuthorization evidence i (mf_ServiceID (cfg_Manifest cfg)) (SHA256Digest (request_body request)) t = None)) \<and>
       (dp_IdempotencyRequired plan \<or> request_key request \<noteq> [] \<longrightarrow> validIdempotencyKey (request_key request)) \<and>
       (request_key request \<noteq> [] \<longrightarrow> claimed_by before i (request_key request) (request_body request))) \<and>
    (\<exists>ref. direct_secured (request_body request) before k plan ref) \<and>
    direct_executions before = [] \<and> settlements before = [] \<and> releases before = []"
proof -
  obtain p p' where "direct_history cfg (request_key request) (request_body request) before p"
    "invoke_step cfg (request_key request) (request_body request) p (EvExecuteDirect k input plan r) = Some p'"
    using invoke_history [OF assms] by metis
  then have "permitted cfg (request_key request) (request_body request) before input plan \<and>
    (\<exists>ref. direct_secured (request_body request) before k plan ref) \<and>
    direct_executions before = [] \<and> settlements before = [] \<and> releases before = []"
    by (cases p) (auto simp: direct_history_simps intro: direct_secured_free split: if_splits)
  then show ?thesis unfolding permitted_def cleared_def by blast
qed

lemma invoke_executes_permitted_witness:
  "\<exists>before i clock. planned before i demo_direct demo_plan clock \<and> claimed_by before i demo_key ''{}'' \<and>
     (\<exists>ref. direct_secured ''{}'' before (MustNewID ''r'' ''inv'') demo_plan ref) \<and> direct_executions before = []"
proof -
  obtain before after where at: "invoke_events =
      before @ EvExecuteDirect (MustNewID ''r'' ''inv'') demo_direct demo_plan (Inr demo_direct_result) # after"
    using demo_invoke_events(1) by (auto dest: split_list)
  from invoke_executes_permitted [OF at [unfolded invoke_events_def]] demo_key_ok(2) show ?thesis
    unfolding demo_request_body by blast
qed

text \<open>C4: The store calls of every run of a commit are a run of the task lifecycle of spec/state-machine.md, section 3 (the task is stored as accepted, and every confirmed update keeps the state or takes a listed transition), with one exception that the statement spells out: after the provider delivered a result whose price the signed quote does not allow, a running task moves to disputed, which the specification does not list, and stays there.\<close>

theorem commit_refines_lifecycle:
  "let es = events_of (commit cfg i requestID body key) w in
   (\<exists>s. lifecycle_run es s) \<or>
   (\<exists>before k f t after. es = before @ EvUpdateTask k f (t, None) # after \<and> lifecycle_run before (Some TaskRunning) \<and>
      (\<exists>q result err. delivered before q result \<and> resolveFinalCharge q result = Inl err) \<and>
      moves_to TaskDisputed f \<and> list_all rests after)"
  using commit_run [of cfg i requestID body key w] unfolding disputed_run_def overpriced_def Let_def by blast

text \<open>C5: A commit under a free key always ends with its own answer stored under the key, with the status and body the client got; the one exception is a key given back, which the response says in Idempotency-Released: true and which happens only when nothing was executed, stored or reserved and the verifier or the processor asked for a retry (retry_safe). This holds in the reference server with any verifier and processor that leave the claim store alone; its own never ask for a retry (lemma final_handleCommit), so there the answer is always stored.\<close>

theorem mutation_answered_once:
  fixes env authorize processor writer request identity key w
  defines "k \<equiv> storageKey (idempotency_scope identity (rq_Method request) (rq_Path request)) key"
    and "server \<equiv> handleCommit (hosted env authorize processor) writer request"
  assumes "apart authorize processor"
    and "result_of (admit (hosted env authorize processor) writer request) w = Inr (requestID, identity, key, body)"
    and "rw_claims w k = None"
  shows "(\<exists>resp. stored_entry (rw_claims (world_after server w)) k = Some (request_digest request body, resp) \<and>
       sr_StatusCode resp = rs_Status (result_of server w) \<and> sr_Body resp = rs_Body (result_of server w)) \<or>
     rw_claims (world_after server w) k = None \<and> retry_safe (events_of server w) \<and>
       ''true'' \<in> set (header_values (rs_Headers (result_of server w)) ''Idempotency-Released'')"
proof -
  from runs_result [OF commit_answers [OF assms(3,4) assms(5) [unfolded k_def]]] obtain result where
    "op_ReleaseClaim result \<longrightarrow> retry_safe (events_of server w)"
    "hosted.claim_settled env authorize processor request identity key (request_digest request body) (Some result)
       (result_of server w) (rw_claims (world_after server w))"
    unfolding server_def by blast
  then show ?thesis
    unfolding hosted.claim_settled_def hosted.claim_key_def k_def [symmetric]
    by (auto simp: claimed_entry_def stored_entry_def split: option.splits if_splits)
qed

lemma mutation_answered_once_witness:
  "\<exists>resp. stored_entry (rw_claims (world_after (handleCommit (reference_engine demo_env) Map.empty commit_request) first_world))
       (storageKey (idempotency_scope demo_identity (rq_Method commit_request) (rq_Path commit_request)) demo_key) =
         Some (request_digest commit_request ''{}'', resp) \<and>
     sr_StatusCode resp = rs_Status (result_of (handleCommit (reference_engine demo_env) Map.empty commit_request) first_world) \<and>
     sr_Body resp = rs_Body (result_of (handleCommit (reference_engine demo_env) Map.empty commit_request) first_world)"
proof -
  have "\<not> retry_safe (events_of (handleCommit (reference_engine demo_env) Map.empty commit_request) first_world)"
    by (rule final_not_retried [OF emits_events [OF final_handleCommit]])
  with mutation_answered_once [where env = demo_env, OF apart_self [of demo_env], unfolded hosted_self,
      OF commit_admitted [OF demo_randoms(1)] first_free]
  show ?thesis by blast
qed

text \<open>C6: In the reference server a repeated commit with the same key, identity and body gets the stored response while it is kept, and the only call after admission is the claim: nothing is executed, billed or stored.\<close>

theorem mutation_replayed:
  assumes "result_of (admit (reference_engine env) writer request) w = Inr (requestID, identity, key, body)"
    and "stored_entry (rw_claims w) (storageKey (idempotency_scope identity (rq_Method request) (rq_Path request)) key) =
      Some (request_digest request body, resp)"
    and "sr_ExpiresAt resp = 0 \<or>
      claim_clock (world_after (admit (reference_engine env) writer request) w) \<le> sr_ExpiresAt resp"
  shows "result_of (handleCommit (reference_engine env) writer request) w = writeStoredResponse writer resp requestID \<and>
    rw_claims (world_after (handleCommit (reference_engine env) writer request) w) = rw_claims w \<and>
    (\<exists>scope d a. events_of (handleCommit (reference_engine env) writer request) w =
       events_of (admit (reference_engine env) writer request) w @ [EvBegin scope key d a])"
  unfolding handleCommit_def
  using runs_result [OF reference.replays [OF assms(1) assms(2) [folded reference.claim_key_def] assms(3)]] by blast

lemma mutation_replayed_witness:
  "result_of (handleCommit (reference_engine demo_env) Map.empty commit_request) replay_world =
     writeStoredResponse Map.empty zero_StoredResponse (MustNewID ''r'' ''req'')"
  using mutation_replayed [OF commit_admitted [OF demo_randoms(2)] replay_stored] by (simp add: zero_StoredResponse_def)

text \<open>C7: Whatever the service answers, neither program sends a commitment before it received a quote from the service and verified it with a key the service lists for it and against the manifest; the commitment names that quote, approves its signed digest and authorizes at most its signed ceiling, for one use.\<close>

theorem commitment_needs_verified_quote:
  assumes "New_client (pg_net pg) (pg_Do pg) baseURL token = Inr c"
    and "m = main_conformance pg baseURL token \<or>
      (\<exists>flags. m = main_client pg flags \<and> fl_BaseURL flags = baseURL \<and> fl_Token flags = token)"
    and "events_of m w = before @ Exchange call r # after" "committing c call"
  shows "\<exists>quote key commitment. verified_quote pg c before quote key \<and> binds_quote quote commitment \<and>
    map_sum id Some (de_Request (pg_decoders pg) (QCommit commitment)) = Inr (hc_Body call)"
proof -
  from assms(1,2) obtain R where "knows (justified pg c) [] m R"
    using knows_main_client [of pg _ c] knows_main_conformance [of pg baseURL token c] by auto
  from commitment_justified [OF this assms(3,4)] show ?thesis .
qed

lemma commitment_needs_verified_quote_witness:
  "\<exists>before after quote key commitment.
     events_of (main_conformance site_program ''https://h'' ''t'') () = before @ commit_exchange # after \<and>
     verified_quote site_program site_client before quote key \<and> binds_quote quote commitment"
proof -
  obtain before after where at:
    "events_of (main_conformance site_program ''https://h'' ''t'') () = before @ commit_exchange # after"
    using succeeds_events [OF site_conforms] by (auto dest: split_list)
  from commitment_needs_verified_quote [OF site_New [folded site_parts] disjI1 [OF refl] at [unfolded commit_exchange_def]
      site_committing] at
  show ?thesis by blast
qed

text \<open>C8: Every quote, receipt and invocation receipt that any request makes the reference server store passes the check of the client library under the server's key and manifest, when both use the same packages: nothing is changed after it was signed, and every stored quote keeps the rules of the protocol.\<close>

theorem documents_accepted:
  assumes "same_packages env vf" "lawful_JSON env" "key_pair (en_ed25519 env) (en_Signer env)"
  shows "list_all (accepted vf (cfg_Manifest (reference_engine env)) (sn_publicKey (en_Signer env)))
    (events_of (ServeHTTP (reference_engine env) mux_reply request) w)"
  by (rule stored_documents_accepted [OF assms])

lemma documents_accepted_witness:
  "rs_Status offer_response = StatusCreated \<and>
   list_all (accepted offer_verifier (cfg_Manifest (reference_engine offer_env)) (sn_publicKey (en_Signer offer_env)))
     (events_of (ServeHTTP (reference_engine offer_env) (\<lambda>h r. respond h 404 []) prepare_request) offer_world)"
  using documents_accepted [OF offer_lawful] offer_delivered(1) by blast

text \<open>C9: When the reference server answers POST /v1/prepare with a success that is no replay, the client reads a quote from that response and its check of the quote against the manifest and key of the server accepts it: refusals never look like a success, and the body is the signed quote as it was signed.\<close>

theorem quote_delivered:
  assumes "same_packages env vf" "lawful_JSON env" "key_pair (en_ed25519 env) (en_Signer env)"
    and "rq_Method request = ''POST''" "rq_Path request = ''/v1/prepare''"
    and "\<forall>e\<in>set (events_of (ServeHTTP (reference_engine env) mux_reply request) w). \<not> replayed e"
    and "response = result_of (ServeHTTP (reference_engine env) mux_reply request) w"
    and "successful (arrived response)" "length (rs_Body response) \<le> maximumResponseBytes" "\<not> blank (rs_Body response)"
    and "\<forall>q. js_Marshal (en_Library env) (BQuote q) = Inr (rs_Body response) \<longrightarrow> de_Quote de (rs_Body response) = Inr q"
  shows "\<exists>q. read_response de (de_Quote de) (Inr (arrived response)) = Inr (Some q) \<and>
    VerifyQuoteForManifest vf q (cfg_Manifest (reference_engine env)) (sn_publicKey (en_Signer env)) = None"
  by (rule delivered_quote [OF assms])

lemma quote_delivered_witness:
  "\<exists>q. read_response offer_decoders (de_Quote offer_decoders) (Inr (arrived offer_response)) = Inr (Some q) \<and>
    VerifyQuoteForManifest offer_verifier q (cfg_Manifest (reference_engine offer_env)) (sn_publicKey (en_Signer offer_env)) = None"
proof (rule quote_delivered [OF offer_lawful _ _ offer_delivered(3) offer_response_def])
  show "rq_Method prepare_request = ''POST''" "rq_Path prepare_request = ''/v1/prepare''"
    by (simp_all add: prepare_request_def commit_request_def)
  show "successful (arrived offer_response)" by (simp add: successful_def arrived_def offer_delivered(1))
  show "length (rs_Body offer_response) \<le> maximumResponseBytes" by (simp add: offer_delivered(2) maximumResponseBytes_def)
  have "\<not> blank ''quote''" by (rule visible_not_blank; simp add: visible_def ord_def)
  then show "\<not> blank (rs_Body offer_response)" by (simp add: offer_delivered(2))
  show "\<forall>q. js_Marshal (en_Library offer_env) (BQuote q) = Inr (rs_Body offer_response) \<longrightarrow>
      de_Quote offer_decoders (rs_Body offer_response) = Inr q"
    using offer_read by (simp add: offer_delivered(2))
qed

text \<open>C10: A quote is stored only when every field of it comes from where it should: identity from the delegation, service and version from the manifest and protocol, offer ID and intent from the caller's stored offer, references, files, callback and execution limits from the request, task, price, terms, effects, permissions, data use, risk, confirmation, SLA and times from the contract the service prepared for that offer and request, a fresh ID and a time read since; and it satisfies every quote rule, stays within the client's budgets and carries the signer's signature over its own projection.\<close>

theorem quote_binds_contract:
  assumes "events_of (prepare cfg identity requestID body key) w = before @ EvPutQuote q r # after"
  shows "\<exists>offer input contract object raw.
    so_Actor offer = id_Actor identity \<and> so_Principal offer = id_Principal identity \<and>
    (\<exists>i. EvGetOffer i (Inr (Some offer)) \<in> set before) \<and>
    decodeStrict cfg (js_Prepare (cfg_Library cfg)) body = Inr input \<and> EvPrepare offer input (Inr contract) \<in> set before \<and>
    EvNow (q_IssuedAt q) \<in> set before \<and> EvRandom raw \<in> set before \<and> q_QuoteID q = MustNewID raw ''quo'' \<and>
    EvSign object (Inr (q_Signature q)) \<in> set before \<and>
    storable_quote cfg identity offer input contract object (q_Signature q) q"
  using prepare_history [OF assms] by metis

lemma quote_binds_contract_witness:
  "\<exists>q offer input contract object before.
    EvPrepare offer input (Inr contract) \<in> set before \<and> EvSign object (Inr (q_Signature q)) \<in> set before \<and>
    EvNow (q_IssuedAt q) \<in> set before \<and>
    storable_quote prepare_config demo_agent offer input contract object (q_Signature q) q"
proof -
  obtain q r where "EvPutQuote q r \<in> set (events_of (prepare prepare_config demo_agent ''req_1'' ''{}'' ''key'') ())"
    using demo_prepare_events by blast
  then obtain before after where
    "events_of (prepare prepare_config demo_agent ''req_1'' ''{}'' ''key'') () = before @ EvPutQuote q r # after"
    by (auto dest: split_list)
  from quote_binds_contract [OF this] show ?thesis by blast
qed

text \<open>C11: A caller that accepted a quote and then its receipt knows that the key it checked with signed both: the signed payloads are, as JSON, the quote and the receipt it holds, field by field without the signature. The receipt is of the manifest's service and of that quote, and the billed amount is at most the signed ceiling and the caller's own price limit, in one currency, and is exactly the quoted price unless the terms allow a variable price.\<close>

theorem settlement_within_limit:
  assumes "VerifyQuoteForManifest vf quote manifest key = None" "VerifyReceiptForQuote vf receipt quote key = None"
    and "rc_BilledAmount receipt = Some billed"
  shows "(\<exists>object json. signed_document (vf_ed25519 vf) (vf_header vf) (vf_object vf) (rc_Signature receipt) key object \<and>
       object ''signature'' = None \<and> marshal (vf_object vf) object = Inr json \<and> projected vf (BReceipt receipt) json) \<and>
    (\<exists>object json. signed_document (vf_ed25519 vf) (vf_header vf) (vf_object vf) (q_Signature quote) key object \<and>
       object ''signature'' = None \<and> marshal (vf_object vf) object = Inr json \<and> projected vf (BQuote quote) json) \<and>
    rc_ServiceID receipt = mf_ServiceID manifest \<and> rc_QuoteID receipt = q_QuoteID quote \<and>
    m_Currency billed = m_Currency (q_PriceCeiling quote) \<and> money_value billed \<le> money_value (q_PriceCeiling quote) \<and>
    (\<forall>limit. ep_MaxPrice (q_Execution quote) = Some limit \<longrightarrow>
       m_Currency billed = m_Currency limit \<and> money_value billed \<le> money_value limit) \<and>
    (\<not> bt_VariablePriceAllowed (q_BillingTerms quote) \<longrightarrow> money_value billed = money_value (q_Price quote))"
proof -
  from assms(1) have quote: "price_ok quote" "q_ServiceID quote = mf_ServiceID manifest"
    "verifySignedProjection vf (BQuote quote) (q_Signature quote) key ''quote'' = None"
    by (simp_all add: VerifyQuoteForManifest_None VerifyQuote_None wf_quote_def)
  from assms(2,3) have receipt: "verifySignedProjection vf (BReceipt receipt) (rc_Signature receipt) key ''receipt'' = None"
    "settles_within quote billed" "rc_ServiceID receipt = q_ServiceID quote" "rc_QuoteID receipt = q_QuoteID quote"
    by (simp_all add: VerifyReceiptForQuote_None wf_receipt_def)
  from projection_covered [OF receipt(1)]
  have "\<exists>object json. signed_document (vf_ed25519 vf) (vf_header vf) (vf_object vf) (rc_Signature receipt) key object \<and>
      object ''signature'' = None \<and> marshal (vf_object vf) object = Inr json \<and> projected vf (BReceipt receipt) json" by metis
  moreover from projection_covered [OF quote(3)]
  have "\<exists>object json. signed_document (vf_ed25519 vf) (vf_header vf) (vf_object vf) (q_Signature quote) key object \<and>
      object ''signature'' = None \<and> marshal (vf_object vf) object = Inr json \<and> projected vf (BQuote quote) json" by metis
  moreover have "m_Currency billed = m_Currency limit \<and> money_value billed \<le> money_value limit"
    if "ep_MaxPrice (q_Execution quote) = Some limit" for limit
    using quote(1) receipt(2) that by (auto simp: price_ok_def settles_within_def)
  moreover have "m_Currency billed = m_Currency (q_PriceCeiling quote)" "money_value billed \<le> money_value (q_PriceCeiling quote)"
    "\<not> bt_VariablePriceAllowed (q_BillingTerms quote) \<Longrightarrow> money_value billed = money_value (q_Price quote)"
    using receipt(2) by (simp_all add: settles_within_def)
  ultimately show ?thesis using quote(2) receipt(3,4) by simp
qed

lemma settlement_within_limit_witness:
  "rc_BilledAmount site_receipt = Some (usd ''5.00'') \<and> rc_ServiceID site_receipt = ''svc'' \<and>
    money_value (usd ''5.00'') \<le> money_value (q_PriceCeiling site_quote) \<and>
    (\<exists>object json. signed_document (vf_ed25519 site_verifier) (vf_header site_verifier) (vf_object site_verifier)
         (rc_Signature site_receipt) site_key object \<and>
       object ''signature'' = None \<and> marshal (vf_object site_verifier) object = Inr json \<and>
       projected site_verifier (BReceipt site_receipt) json)"
proof -
  have billed: "rc_BilledAmount site_receipt = Some (usd ''5.00'')" by (simp add: site_receipt_def example_receipt_def)
  note settled = settlement_within_limit [OF site_quote_accepted site_receipt_accepted billed]
  from settled have "money_value (usd ''5.00'') \<le> money_value (q_PriceCeiling site_quote)" by (elim conjE)
  moreover from settled have "rc_ServiceID site_receipt = mf_ServiceID site_manifest" by (elim conjE)
  moreover from settled have "\<exists>object json. signed_document (vf_ed25519 site_verifier) (vf_header site_verifier)
      (vf_object site_verifier) (rc_Signature site_receipt) site_key object \<and> object ''signature'' = None \<and>
      marshal (vf_object site_verifier) object = Inr json \<and> projected site_verifier (BReceipt site_receipt) json"
    by (elim conjE)
  moreover have "mf_ServiceID site_manifest = ''svc''" by (simp add: site_manifest_def)
  ultimately show ?thesis using billed by metis
qed

text \<open>C12: What a signer built from a private key signs, VerifyJSON accepts under its public key and returns unchanged, for every correct Ed25519 and every value and header encoding/json can carry.\<close>

theorem signature_roundtrip:
  assumes "NewSignerFromPrivateKey ed kid sk = Inr s"
    and "\<And>m. ed_Verify ed (ed_Public ed sk) m (ed_Sign ed sk m)" "length (ed_Public ed sk) = 32"
    and "codec_ok vc value"
    and "codec_ok hc \<lparr>jh_Algorithm = ''EdDSA'', jh_KeyID = kid, jh_Type = ''ascp+jws'',
           jh_IssuedAt = Unix (Truncate_second now)\<rparr>"
  shows "\<exists>sg. SignJSON ed hc vc s now value = Inr sg \<and> VerifyJSON ed hc vc sg (ed_Public ed sk) = Inr value"
proof -
  from assms(1) have s: "s = \<lparr>sn_privateKey = sk, sn_publicKey = ed_Public ed sk, sn_keyID = kid\<rparr>"
    by (auto simp: NewSignerFromPrivateKey_def split: if_splits)
  have "key_pair ed s" using assms(2,3) by (simp add: s key_pair_def PublicKeySize_def)
  from sign_verify [OF this assms(4), of hc now] assms(5) show ?thesis by (auto simp: s)
qed

lemma signature_roundtrip_witness:
  "\<exists>sg. SignJSON plain_ed25519 (one_value example_header) (one_value ''v'') example_signer 7 ''v'' = Inr sg \<and>
     VerifyJSON plain_ed25519 (one_value example_header) (one_value ''v'') sg (ed_Public plain_ed25519 example_sk) = Inr ''v''"
  by (rule signature_roundtrip [OF example_signer_ok plain_ed25519_ok])
     (rule one_value_ok | simp add: one_value_ok flip: example_header_def)+

text \<open>C13: Whatever operations the processor serves, a reservation is settled at most once, in its own mode and for no more than was reserved; settling it again returns the same settlement.\<close>

theorem hold_charged_once:
  assumes "mock_ok m" "fresh_raw e m" "Reserve_env et e sid cid bd terms auth amt key m = (Inr r, m1)"
    and "mock.fresh_run et cs m1" "Settle_env et e1 (rv_Reference r) amt1 key1 (fold (mock.step et) cs m1) = (Inr st1, m2)"
    and "fresh_raw e1 (fold (mock.step et) cs m1)" "mock.fresh_run et cs' m2"
    and "Settle_env et e2 (rv_Reference r) amt2 key2 (fold (mock.step et) cs' m2) = (Inr st2, m3)"
  shows "st2 = st1 \<and> st_Mode st1 = rv_Mode r \<and> m_Currency (st_Amount st1) = m_Currency (rv_Amount r) \<and>
    money_value (st_Amount st1) \<le> money_value (rv_Amount r)"
  using mock.held_settled_once [OF assms] by (simp add: covers_def)

lemma hold_charged_once_witness:
  "example_charge = example_charge \<and> st_Mode example_charge = rv_Mode example_hold \<and>
   m_Currency (st_Amount example_charge) = m_Currency (rv_Amount example_hold) \<and>
   money_value (st_Amount example_charge) \<le> money_value (rv_Amount example_hold)"
  by (rule hold_charged_once [OF NewMockProcessor_ok fresh_examples(1) reserve_example,
        where cs = "[]" and cs' = "[BRelease ''other'' ''key'']" and ?m2.0 = mock_settled and ?m3.0 = mock_settled
          and ?e1.0 = "(1, 0, ''s1'')" and ?e2.0 = "(2, 0, ''s2'')"])
     (use settle_example settle_again_example fresh_examples(2) in
       \<open>auto simp: mock.fresh_run.simps mock.fresh_call.simps mock.step.simps example_hold_def
          Release_hold_def mock_settled_def mock_reserved_def NewMockProcessor_def MustNewID_def\<close>)

text \<open>C14: Two verified chains with the same root have the same history: length, fields, data and hashes of every event. Otherwise the two chains themselves exhibit a SHA-256 collision: an event of one and an event of the other whose chain materials, or whose data, differ and have the same hash (fields free of line breaks).\<close>

theorem audit_tamper_evident:
  assumes "Verify format_time vj es = None" "Verify format_time vj' es' = None"
    and "last_hash [] es = last_hash [] es'"
    and "list_all (lines_clean format_time) es" "list_all (lines_clean format_time) es'"
  shows "map (core format_time) es = map (core format_time) es' \<or>
    (\<exists>e\<in>set es. \<exists>e'\<in>set es'.
       chainMaterial format_time e \<noteq> chainMaterial format_time e' \<and>
         sha256 (chainMaterial format_time e) = sha256 (chainMaterial format_time e') \<or>
       av_Data e \<noteq> av_Data e' \<and> sha256 (av_Data e) = sha256 (av_Data e'))"
proof -
  have nil: "chain_ok ft v rt rid 0 [] []" for ft v rt rid by simp
  from assms(1,2) obtain rt rid rt' rid' where "chain_ok format_time vj rt rid 0 [] es"
    "chain_ok format_time vj' rt' rid' 0 [] es'"
    unfolding Verify_iff using nil by metis
  from chain_ok_commits [OF this assms(3-5)] show ?thesis unfolding collide_def .
qed

lemma audit_tamper_evident_witness:
  "map (core (\<lambda>t. decimal_int t)) [example_event zero_Signature] =
     map (core (\<lambda>t. decimal_int t)) [example_event (zero_Signature\<lparr>sg_KeyID := ''k''\<rparr>)]"
proof -
  let ?e = "example_event zero_Signature" and ?e' = "example_event (zero_Signature\<lparr>sg_KeyID := ''k''\<rparr>)"
  have "last_hash [] [?e] = last_hash [] [?e']"
    using example_event_same(2) [of zero_Signature "zero_Signature\<lparr>sg_KeyID := ''k''\<rparr>"] by (simp add: last_hash_def)
  moreover have "chainMaterial (\<lambda>t. decimal_int t) ?e = chainMaterial (\<lambda>t. decimal_int t) ?e'" "av_Data ?e = av_Data ?e'"
    by (simp_all add: example_event_def Let_def chainMaterial_def material_fields_def)
  ultimately show ?thesis
    using audit_tamper_evident [OF example_chain_ok [of zero_Signature] example_chain_ok [of "zero_Signature\<lparr>sg_KeyID := ''k''\<rparr>"]]
      example_event_clean by auto
qed

text \<open>C15: Two quotes a client accepts under the payload digest that an approval or a payment names are the same document as JSON, field by field without the signature, under whatever keys they were signed. Otherwise the payload bytes decoded from their two signatures are themselves a collision of SHA-256.\<close>

theorem accepted_quote_binds:
  assumes "VerifyQuote vf quote key = None" "VerifyQuote vf quote' key' = None"
    and "sg_PayloadDigest (q_Signature quote) = sg_PayloadDigest (q_Signature quote')"
  shows "(\<exists>json. projected vf (BQuote quote) json \<and> projected vf (BQuote quote') json) \<or>
    (\<exists>p p'. signed_payload (q_Signature quote) = Some p \<and> signed_payload (q_Signature quote') = Some p' \<and>
       p \<noteq> p' \<and> sha256 p = sha256 p')"
proof -
  from assms(1,2) have "verifySignedProjection vf (BQuote quote) (q_Signature quote) key ''quote'' = None"
    "verifySignedProjection vf (BQuote quote') (q_Signature quote') key' ''quote'' = None"
    by (simp_all add: VerifyQuote_None)
  from accepted_projections [OF this assms(3)] show ?thesis unfolding payloads_collide_def .
qed

lemma accepted_quote_binds_witness:
  "\<exists>json. projected site_verifier (BQuote site_quote) json"
proof -
  have "VerifyQuote site_verifier site_quote site_key = None"
    using site_quote_accepted by (simp add: VerifyQuoteForManifest_None)
  from accepted_quote_binds [OF this this refl] show ?thesis by auto
qed

text \<open>C16: After a key was claimed, and whatever calls follow that do not release it, it can be claimed again only by the same request digest and only when its stored response has expired: an operation in progress or with an unknown outcome never runs twice.\<close>

theorem idempotent_claim:
  assumes "Begin t u scope key d retention s = ((IdempotencyNew, resp), s1)"
    and "\<forall>x. CRelease (storageKey scope key) x \<notin> set cs"
    and "Begin t' u' scope key d' retention' (fold store.step cs s1) = ((IdempotencyNew, resp'), s2)"
  shows "d' = d \<and> (\<exists>old. fold store.step cs s1 (storageKey scope key) = Some old \<and> \<not> ie_InProgress old \<and>
    sr_ExpiresAt (ie_Response old) \<noteq> 0 \<and> sr_ExpiresAt (ie_Response old) < t')"
proof -
  have "store.bound s1 (storageKey scope key) = Some d"
    using assms(1) by (auto simp: Begin_def store.bound_def store_ops split: option.splits if_splits)
  from store.second_claim [OF this assms(2), of t' u' d' retention'] assms(3) show ?thesis
    by (auto simp: Begin_def stored_entry_def split: option.splits if_splits)
qed

lemma idempotent_claim_witness:
  "''d'' = ''d'' \<and> (\<exists>old. fold store.step [CComplete (storageKey ''s'' ''k'') (zero_StoredResponse\<lparr>sr_ExpiresAt := 5\<rparr>)]
       [storageKey ''s'' ''k'' \<mapsto> new_claim ''d'' 3 1] (storageKey ''s'' ''k'') = Some old \<and> \<not> ie_InProgress old \<and>
    sr_ExpiresAt (ie_Response old) \<noteq> 0 \<and> sr_ExpiresAt (ie_Response old) < (9 :: time))"
  by (rule idempotent_claim [where t = 1 and u = 1 and s = Map.empty and retention = 3 and
        resp = zero_StoredResponse and resp' = zero_StoredResponse and u' = 9 and retention' = 3 and
        ?s2.0 = "[storageKey ''s'' ''k'' \<mapsto> new_claim ''d'' 3 9]"])
     (simp_all add: Begin_def store_ops store.step.simps storageKey_def zero_StoredResponse_def)

text \<open>C17: A receipt accepted against a quote bills no more than the signed ceiling, exactly the signed price when the price is fixed, and its breakdown sums to the billed amount.\<close>

theorem receipt_semantics:
  assumes "ValidateReceiptAgainstQuote r q = None" "rc_BilledAmount r = Some billed"
  shows "rc_QuoteID r = q_QuoteID q \<and> rc_ServiceID r = q_ServiceID q \<and>
    m_Currency billed = m_Currency (q_PriceCeiling q) \<and>
    money_value billed \<le> money_value (q_PriceCeiling q) \<and>
    (bt_VariablePriceAllowed (q_BillingTerms q) \<or> money_value billed = money_value (q_Price q)) \<and>
    (rc_BilledBreakdown r = [] \<or>
      (\<Sum>c \<leftarrow> rc_BilledBreakdown r. money_value (pc_Amount c)) = money_value billed)"
  using assms unfolding ValidateReceiptAgainstQuote_wf wf_receipt_def settles_within_def breakdown_ok_def
  by auto

lemma receipt_semantics_witness:
  "rc_QuoteID example_receipt = q_QuoteID example_quote \<and> rc_ServiceID example_receipt = q_ServiceID example_quote \<and>
   m_Currency (usd ''5.00'') = m_Currency (q_PriceCeiling example_quote) \<and>
   money_value (usd ''5.00'') \<le> money_value (q_PriceCeiling example_quote) \<and>
   (bt_VariablePriceAllowed (q_BillingTerms example_quote) \<or> money_value (usd ''5.00'') = money_value (q_Price example_quote)) \<and>
   (rc_BilledBreakdown example_receipt = [] \<or>
      (\<Sum>c \<leftarrow> rc_BilledBreakdown example_receipt. money_value (pc_Amount c)) = money_value (usd ''5.00''))"
  by (rule receipt_semantics [OF example_receipt_ok]) (simp add: example_receipt_def)

text \<open>C18: ValidateQuoteSemantics accepts exactly the quotes with complete identities, well-formed content, consistent times and exact prices: ceiling at least the price (equal when fixed), a breakdown that sums to it, a client limit that covers the ceiling.\<close>

theorem quote_semantics:
  "ValidateQuoteSemantics url_parse q = None \<longleftrightarrow>
     identity_ok q \<and> content_ok url_parse q \<and> timing_ok q \<and> price_ok q"
  unfolding ValidateQuoteSemantics_wf wf_quote_def ..

text \<open>C19: For every request, route and configuration, each call to the service, a store, the billing, the files or the audit log comes after the authenticator accepted that very request; before that only the clock, the random source and the public keys are read.\<close>

theorem authentication_first:
  assumes "events_of (ServeHTTP cfg mux_reply request) w = before @ e # after" "\<not> anonymous request e"
  shows "\<exists>i. EvAuthenticate request (Inr i) \<in> set before"
  using authenticated_before [OF ServeHTTP_authenticated assms] .

lemma authentication_first_witness:
  "\<exists>before i. EvAuthenticate demo_request (Inr i) \<in> set before \<and>
     (\<exists>after. invoke_events =
        before @ EvExecuteDirect (MustNewID ''r'' ''inv'') demo_direct demo_plan (Inr demo_direct_result) # after)"
proof -
  obtain before after where at: "invoke_events =
      before @ EvExecuteDirect (MustNewID ''r'' ''inv'') demo_direct demo_plan (Inr demo_direct_result) # after"
    using demo_invoke_events(1) by (auto dest: split_list)
  then have run: "events_of (ServeHTTP invoke_config (\<lambda>h r. respond h 404 []) demo_request) () =
      before @ EvExecuteDirect (MustNewID ''r'' ''inv'') demo_direct demo_plan (Inr demo_direct_result) # after"
    by (simp add: demo_routed invoke_events_def)
  from authentication_first [OF this] at show ?thesis by auto
qed

text \<open>C20: A client exists only for an HTTPS origin or plain HTTP to this machine, and every request of every one of its operations goes to that origin, also where the service names the URL, as for uploads and the key set; so the bearer token reaches no other host.\<close>

theorem client_stays_on_origin:
  assumes "New_client nt do0 baseURL token = Inr c" "rooted_paths nt c"
  shows "(\<exists>u. nt_Parse nt (cl_BaseURL c) = Inr u \<and> u_Host u \<noteq> [] \<and> \<not> u_has_User u \<and>
      (u_Scheme u = ''https'' \<or> u_Scheme u = ''http'' \<and> isLoopbackHost nt (nt_Hostname nt u))) \<and>
    emits (on_origin nt c) (Manifest_of nt de c) \<and> emits (on_origin nt c) (Capabilities nt de c query) \<and>
    emits (on_origin nt c) (Options nt de c opt) \<and> emits (on_origin nt c) (Invoke nt de c direct key) \<and>
    emits (on_origin nt c) (Negotiate nt de c negotiation key) \<and> emits (on_origin nt c) (Prepare_quote nt de c input key) \<and>
    emits (on_origin nt c) (Commit nt de c commitment key) \<and> emits (on_origin nt c) (GetTask_of nt de c i) \<and>
    emits (on_origin nt c) (Cancel nt de c i cancellation key) \<and> emits (on_origin nt c) (Audit nt de c i) \<and>
    emits (on_origin nt c) (GetInvocation_of nt de c i) \<and> emits (on_origin nt c) (InvocationAudit nt de c i) \<and>
    emits (on_origin nt c) (PrepareUpload nt de c up key) \<and> emits (on_origin nt c) (GetFile nt de c i) \<and>
    emits (on_origin nt c) (UploadFile nt de c ticket mediaType digest content) \<and>
    emits (on_origin nt c) (DownloadFile nt de c i maximumBytes) \<and> emits (on_origin nt c) (FetchPublicKey nt de c keyID)"
proof -
  from assms(1) have "\<exists>u. nt_Parse nt (cl_BaseURL c) = Inr u \<and> u_Host u \<noteq> [] \<and> \<not> u_has_User u \<and>
      (u_Scheme u = ''https'' \<or> u_Scheme u = ''http'' \<and> isLoopbackHost nt (nt_Hostname nt u))"
    unfolding New_client_Inr by auto
  then show ?thesis
    by (intro conjI operations_origin UploadFile_origin DownloadFile_origin FetchPublicKey_origin [OF assms(2)])
qed

lemma client_stays_on_origin_witness:
  "emits (on_origin site_net site_client) (FetchPublicKey site_net site_decoders site_client ''key1'') \<and>
    emits (on_origin site_net site_client) (UploadFile site_net site_decoders site_client zero_FileUploadTicket ''m'' ''d'' ''c'')"
proof -
  have "rooted_paths site_net site_client" by (simp add: rooted_paths_def site_net_def)
  from client_stays_on_origin [OF site_New this] show ?thesis by blast
qed

text \<open>C21: The conformance program passes only for a service that sent a quote verified against its manifest and key, a receipt of the committed task verified against that quote, and an audit chain of the task that verifies under the same key and anchors the receipt.\<close>

theorem profile_conforming:
  assumes "New_client (pg_net pg) (pg_Do pg) baseURL token = Inr c"
    and "result_of (main_conformance pg baseURL token) w = Inr ()"
  shows "conforming pg c (events_of (main_conformance pg baseURL token) w)"
proof -
  from follows_run [OF knows_main_conformance [OF assms(1), unfolded knows_def], of w] obtain h where
    "advance (remember (justified pg c)) [] (events_of (main_conformance pg baseURL token) w) = Some h"
    "\<forall>v. result_of (main_conformance pg baseURL token) w = Inr v \<longrightarrow> conforming pg c h" by metis
  with remember_advance [OF this(1)] assms(2) show ?thesis by simp
qed

lemma profile_conforming_witness:
  "conforming site_program site_client (events_of (main_conformance site_program ''https://h'' ''t'') ())"
  by (rule profile_conforming [OF site_New [folded site_parts] succeeds_result [OF site_conforms]])

text \<open>C22: A commit moves a task to succeeded only after the provider delivered a result for a quote at a price the signed quote allows, and the processor confirmed the settlement of exactly that price on the quote's hold. The only exceptions are named: the quote's billing mode is free and no hold was taken, or the processor answered the Reserve call that was bound to the quote's digest, terms and ceiling with an empty reference, which the engine reads as nothing to settle.\<close>

theorem commit_success_paid:
  assumes "events_of (commit cfg i requestID body key) w = before @ EvUpdateTask k f r # after"
    and "f t = Inr t'" "t_State t' = TaskSucceeded" "t_State t \<noteq> TaskSucceeded"
  shows "\<exists>q result amount bd. delivered before q result \<and> resolveFinalCharge q result = Inr (amount, bd) \<and>
    ((\<exists>ref key st. secured before q ref \<and> EvSettle ref amount key (Inr st) \<in> set before) \<or>
     bt_Mode (q_BillingTerms q) = BillingFree \<and> holds_taken before = [] \<or>
     (\<exists>s a key rv. holds_taken before = [[]] \<and> rv_Reference rv = [] \<and>
        EvReserve s (q_QuoteID q) (sg_PayloadDigest (q_Signature q)) (q_BillingTerms q) a (q_PriceCeiling q) key (Inr rv)
          \<in> set before))"
proof -
  obtain p p' where "history i before p" "contract_machine i p (EvUpdateTask k f r) = Some p'"
    using commit_history [OF assms(1)] by metis
  then have "paid before \<or> (\<exists>q result y. delivered before q result \<and> agreed q result = Some y \<and> secured before q [])"
    using assms(2-)
    by (cases p) (auto simp: history_simps Let_def moves_to_def keeps_state_def split: if_splits, (metis option.distinct(1))+)
  then show ?thesis
  proof
    assume "paid before"
    then show ?thesis unfolding paid_def charged_def by blast
  next
    assume "\<exists>q result y. delivered before q result \<and> agreed q result = Some y \<and> secured before q []"
    then obtain q result y where q: "delivered before q result" "agreed q result = Some y" "secured before q []" by blast
    then obtain amount bd where "resolveFinalCharge q result = Inr (amount, bd)"
      unfolding agreed_def answered_def by (auto split: sum.splits)
    with q(1) secured_unsettled [OF q(3)] show ?thesis by blast
  qed
qed

lemma commit_success_paid_witness:
  "\<exists>before f r after. demo_events = before @ EvUpdateTask ''tsk_1'' f r # after \<and>
     (\<exists>q result amount bd. delivered before q result \<and> resolveFinalCharge q result = Inr (amount, bd) \<and>
       ((\<exists>ref key st. secured before q ref \<and> EvSettle ref amount key (Inr st) \<in> set before) \<or>
        bt_Mode (q_BillingTerms q) = BillingFree \<and> holds_taken before = [] \<or>
        (\<exists>s a key rv. holds_taken before = [[]] \<and> rv_Reference rv = [] \<and>
           EvReserve s (q_QuoteID q) (sg_PayloadDigest (q_Signature q)) (q_BillingTerms q) a (q_PriceCeiling q) key (Inr rv)
             \<in> set before)))"
proof -
  from demo_commit_success obtain f r where "EvUpdateTask ''tsk_1'' f r \<in> set demo_events"
    and f: "\<exists>t'. f demo_task = Inr t' \<and> t_State t' = TaskSucceeded" by auto
  then obtain before after where at: "demo_events = before @ EvUpdateTask ''tsk_1'' f r # after"
    by (auto dest: split_list)
  from f obtain t' where "f demo_task = Inr t'" "t_State t' = TaskSucceeded" by blast
  moreover have "t_State demo_task \<noteq> TaskSucceeded" by (simp add: demo_task_def)
  ultimately show ?thesis
    using commit_success_paid [OF at [unfolded demo_events_def]] at by metis
qed

text \<open>C23: In every run of a commit, on every error path, the provider executes at most once, at most one hold is taken, and a hold is settled or released at most once in all.\<close>

theorem commit_disposes_once:
  "let es = events_of (commit cfg i requestID body key) w in
   length (executions es) \<le> 1 \<and> length (settlements es) + length (releases es) \<le> 1 \<and> length (holds_taken es) \<le> 1"
  using commit_disposed [of cfg i requestID body key w] by (simp add: disposed_once_def Let_def)

text \<open>C24: A commit that gives its idempotency key back, so that the client may run it again, has executed, stored, settled, released and reserved nothing, and no call to the processor has an unknown outcome: either the authorization verifier asked for a retry and Reserve was never called, or Reserve was called once and answered a TemporaryError, the one error whose contract says that nothing was booked. A declined, unclassified or unknown-outcome answer keeps the key.\<close>

theorem commit_releases_claim_early:
  assumes "op_ReleaseClaim (result_of (commit cfg i requestID body key) w)"
  shows "let es = events_of (commit cfg i requestID body key) w in
    executions es = [] \<and> stored_tasks es = [] \<and> settlements es = [] \<and> releases es = [] \<and> holds_taken es = [] \<and>
    (reservations es = [] \<and> (\<exists>identity q a p. EvVerify identity q a (Some p) \<in> set es \<and> p_Retryable p) \<or>
     (\<exists>reason. reservations es = [Inl (TemporaryError reason)]))"
  using commit_retry_safe [OF assms] unfolding retry_safe_def untouched_def Let_def by blast

lemma commit_releases_claim_early_witness:
  "\<exists>reason. reservations (events_of (commit busy_config demo_agent ''req_1'' ''{}'' ''key'') ()) = [Inl (TemporaryError reason)]"
  using commit_releases_claim_early [OF demo_commit_busy(1)] demo_commit_busy(2) unfolding Let_def by auto

text \<open>C25: The stored record of an invocation and its receipt agree in outcome and billing, and they say succeeded only when nothing was held or the settlement was confirmed, whose reference and amount they carry.\<close>

theorem invocation_record_honest:
  assumes "events_of (handleInvoke cfg writer request) w = before @ EvPutInvocation kept r # after"
  shows "ir_Outcome (dr_Receipt (iv_Response kept)) = dr_State (iv_Response kept) \<and>
    ir_Billing (dr_Receipt (iv_Response kept)) = dr_Billing (iv_Response kept) \<and>
    (dr_State (iv_Response kept) = InvocationSucceeded \<longrightarrow> set (holds_taken before) \<subseteq> {[]} \<or>
       (\<exists>st b. paid_by before st \<and> dr_Billing (iv_Response kept) = Some b \<and>
          br_SettlementRef b = st_Reference st \<and> br_Amount b = Some (st_Amount st)))"
proof -
  obtain p p' where "direct_history cfg (request_key request) (request_body request) before p"
    "invoke_step cfg (request_key request) (request_body request) p (EvPutInvocation kept r) = Some p'"
    using invoke_history [OF assms] by metis
  then show ?thesis
    by (cases p) (auto simp: direct_history_simps honest_record_def direct_secured_def split: if_splits)
qed

lemma invocation_record_honest_witness:
  "\<exists>before kept. (dr_State (iv_Response kept) = InvocationSucceeded \<longrightarrow> set (holds_taken before) \<subseteq> {[]} \<or>
     (\<exists>st b. paid_by before st \<and> dr_Billing (iv_Response kept) = Some b \<and>
        br_SettlementRef b = st_Reference st \<and> br_Amount b = Some (st_Amount st))) \<and>
     (\<exists>r after. invoke_events = before @ EvPutInvocation kept r # after)"
proof -
  obtain kept r where "EvPutInvocation kept r \<in> set invoke_events" using demo_invoke_events(3) by blast
  then obtain before after where at: "invoke_events = before @ EvPutInvocation kept r # after"
    by (auto dest: split_list)
  from invocation_record_honest [OF at [unfolded invoke_events_def]] at show ?thesis by blast
qed

text \<open>C26: A direct invocation settles its own hold, once, with the amount resolveDirectPrice computes from the plan and the provider's result.\<close>

theorem invoke_settles_agreed:
  assumes "events_of (handleInvoke cfg writer request) w = before @ EvSettle ref amount key r # after"
  shows "\<exists>k plan x bd. served before k plan x \<and> direct_secured (request_body request) before k plan ref \<and>
    resolveDirectPrice plan x = Inr (amount, bd) \<and> settlements before = [] \<and> releases before = []"
proof -
  obtain p p' where "direct_history cfg (request_key request) (request_body request) before p"
    "invoke_step cfg (request_key request) (request_body request) p (EvSettle ref amount key r) = Some p'"
    using invoke_history [OF assms] by metis
  then show ?thesis
    by (cases p) (auto simp: direct_history_simps split: if_splits sum.splits)
qed

lemma invoke_settles_agreed_witness:
  "\<exists>before k plan x bd. served before k plan x \<and> direct_secured ''{}'' before k plan ''blr_1'' \<and>
    resolveDirectPrice plan x = Inr (usd ''5.00'', bd)"
proof -
  obtain before after where at:
    "invoke_events = before @ EvSettle ''blr_1'' (usd ''5.00'') (demo_key @ '':settle'') (Inr demo_settlement) # after"
    using demo_invoke_events(2) by (auto dest: split_list)
  from invoke_settles_agreed [OF at [unfolded invoke_events_def]] show ?thesis
    unfolding demo_request_body by blast
qed

text \<open>C27: Every invocation that claimed its idempotency key completes that claim, under the same scope and key, on every success and error path of a run whose calls return; what it stores is what it answers: the response has the status and body of the stored answer, and when the backend does not confirm the storing, the response is the 500 problem outcome_unknown that asks to reconcile.\<close>

theorem invocation_answered:
  assumes "EvBegin scope key d (Inr (IdempotencyNew, resp)) \<in> set (events_of (handleInvoke cfg writer request) w)"
  shows "\<exists>answer0 err. EvComplete scope key answer0 err \<in> set (events_of (handleInvoke cfg writer request) w) \<and>
    (case err of
       None \<Rightarrow> rs_Status (result_of (handleInvoke cfg writer request) w) = sr_StatusCode answer0 \<and>
         rs_Body (result_of (handleInvoke cfg writer request) w) = sr_Body answer0
     | Some _ \<Rightarrow> outcome_unknown cfg (result_of (handleInvoke cfg writer request) w))"
  using invoke_answered [OF assms] unfolding answered_as_def .

lemma invocation_answered_witness:
  "\<exists>scope answer0. EvBegin scope demo_key (SHA256Digest ''{}'') (Inr (IdempotencyNew, zero_StoredResponse)) \<in> set invoke_events \<and>
     EvComplete scope demo_key answer0 None \<in> set invoke_events \<and>
     rs_Status (result_of (handleInvoke invoke_config base_headers demo_request) ()) = sr_StatusCode answer0 \<and>
     rs_Body (result_of (handleInvoke invoke_config base_headers demo_request) ()) = sr_Body answer0"
proof -
  obtain scope where begun: "EvBegin scope demo_key (SHA256Digest ''{}'') (Inr (IdempotencyNew, zero_StoredResponse)) \<in> set invoke_events"
    using demo_invoke_events(4) by blast
  from invocation_answered [OF this [unfolded invoke_events_def]] obtain answer0 err where
    "EvComplete scope demo_key answer0 err \<in> set invoke_events"
    "case err of None \<Rightarrow> rs_Status (result_of (handleInvoke invoke_config base_headers demo_request) ()) = sr_StatusCode answer0 \<and>
        rs_Body (result_of (handleInvoke invoke_config base_headers demo_request) ()) = sr_Body answer0
      | Some _ \<Rightarrow> outcome_unknown invoke_config (result_of (handleInvoke invoke_config base_headers demo_request) ())"
    unfolding invoke_events_def by blast
  moreover from this(1) have "err = None" by (rule demo_invoke_events(5))
  ultimately show ?thesis using begun by auto
qed

text \<open>C28: A cancellation marks a task cancelled only after the caller's own task was loaded, the guards and the service granted it, and the hold that was still open on it was released without an error.\<close>

theorem cancel_needs_grant:
  assumes "events_of (cancel cfg taskID i requestID body key) w = before @ EvUpdateTask k f r # after"
  shows "k = taskID \<and> moves_to TaskCancelled f \<and>
    (\<exists>t q input. EvGetTask taskID (Inr (Some t)) \<in> set before \<and>
       EvGetQuote (t_QuoteID t) (Inr (Some q)) \<in> set before \<and> owned_by i q \<and>
       cancel_guards input t = None \<and> EvCancel t input None \<in> set before \<and>
       (\<forall>b. open_hold t = Some b \<longrightarrow> (\<exists>key. EvRelease (br_ReservationRef b) key None \<in> set before)))"
proof -
  obtain p p' where "cancel_history taskID i before p" "cancel_step taskID i p (EvUpdateTask k f r) = Some p'"
    using cancel_history_at [OF assms] by metis
  then show ?thesis
    by (cases p; auto simp: cancel_history_def cancel_step_def Let_def split: if_splits;
        metis option.distinct(1) option.inject)
qed

lemma cancel_needs_grant_witness:
  "\<exists>before t input. EvGetTask ''tsk_1'' (Inr (Some t)) \<in> set before \<and> cancel_guards input t = None \<and>
     EvCancel t input None \<in> set before"
proof -
  obtain f r where "EvUpdateTask ''tsk_1'' f r \<in>
      set (events_of (cancel demo_config ''tsk_1'' demo_agent ''req_1'' [] ''key'') ())"
    using demo_cancel_events(2) by blast
  then obtain before after where
    "events_of (cancel demo_config ''tsk_1'' demo_agent ''req_1'' [] ''key'') () = before @ EvUpdateTask ''tsk_1'' f r # after"
    by (auto dest: split_list)
  from cancel_needs_grant [OF this] show ?thesis by blast
qed

text \<open>C29: After any sequence of executions a task has at most one message in the mailbox, and a task once delivered gets the same result from every later Execute, which sends nothing.\<close>

theorem email_delivered_once:
  assumes "email_Execute raw now task quote (fold execute_call earlier (NewService start_time)) = (Inr r, box)"
  shows "length (sent_for (fold execute_call later box) (t_TaskID task)) = 1 \<and>
    email_Execute raw' now' task quote' (fold execute_call later box) = (Inr r, fold execute_call later box)"
proof -
  have box: "box = fold execute_call (earlier @ [(raw, now, task, quote)]) (NewService start_time)"
    using assms by (simp add: execute_call_def)
  have ok: "mailbox_ok (fold execute_call later box)"
    unfolding box by (intro executions_ok NewService_ok)
  obtain m where m: "mb_messages box (t_TaskID task) = Some m" "r = executionResult m"
    using executed_known [OF assms] by blast
  have kept: "mb_messages (fold execute_call later box) (t_TaskID task) = Some m"
    by (rule executions_keep [OF m(1)])
  with ok have "sent_for (fold execute_call later box) (t_TaskID task) = [m]" by (simp add: mailbox_ok_def)
  with kept m(2) show ?thesis by (simp add: email_Execute_def)
qed

lemma email_delivered_once_witness:
  "\<exists>box. length (sent_for (fold execute_call [(''s'', 9, demo_task, send_quote)] box) ''tsk_1'') = 1"
proof -
  obtain r box where "email_Execute ''r'' 7 demo_task send_quote (fold execute_call [] (NewService 0)) = (Inr r, box)"
    using demo_delivery by blast
  from email_delivered_once [OF this, of "[(''s'', 9, demo_task, send_quote)]"] show ?thesis
    by (auto simp: demo_task_def)
qed

text \<open>C30: A GET, HEAD or OPTIONS request only reads: it stores, claims, reserves, settles, releases, executes, signs and logs nothing, on any path.\<close>

theorem safe_methods_read:
  assumes "rq_Method request \<in> {''GET'', ''HEAD'', ''OPTIONS''}"
  shows "list_all reads (events_of (ServeHTTP cfg mux_reply request) w)"
  using assms by (intro emits_events ServeHTTP_reads) auto

lemma safe_methods_read_witness:
  "list_all reads (events_of (ServeHTTP demo_config (\<lambda>h r. respond h 404 [])
     (demo_request\<lparr>rq_Method := ''GET'', rq_Path := ''/v1/tasks/tsk_1''\<rparr>)) ())"
  by (rule safe_methods_read) simp

text \<open>C31: A file reference the store validated resolves, until the file expires, to bytes of the declared digest and size, whatever uploads and preparations happen in between.\<close>

theorem validated_file_resolves:
  assumes "files_ok s" "Validate i refs t s = None" "x \<in> set refs" "(file_step pm)\<^sup>*\<^sup>* s s'"
  shows "\<exists>ref bs. SHA256Digest bs = fr_Digest x \<and> int (length bs) = fr_Size x \<and>
    (\<forall>now. fr_ExpiresAt ref = 0 \<or> now < fr_ExpiresAt ref \<longrightarrow> Content i (fr_FileID x) now s' = Inr (ref, bs))"
  using files.validated_resolves [OF assms] .

lemma validated_file_resolves_witness:
  "\<exists>ref bs. SHA256Digest bs = fr_Digest example_ref \<and> int (length bs) = fr_Size example_ref \<and>
    (\<forall>now. fr_ExpiresAt ref = 0 \<or> now < fr_ExpiresAt ref \<longrightarrow>
       Content example_owner (fr_FileID example_ref) now example_files = Inr (ref, bs))"
  by (rule validated_file_resolves [OF example_files_ok example_validated]) simp_all

text \<open>C32: Every contract the email service prepares passes the engine's validatePreparedContract, has a fixed price and expires five minutes later.\<close>

theorem email_contract_accepted:
  assumes "email_Prepare parse_address err_text now offer request = Inr contract"
  shows "validatePreparedContract contract = None \<and> pp_ExpiresAt contract = now + 5 * Minute \<and>
    \<not> bt_VariablePriceAllowed (pp_BillingTerms contract)"
  using email_Prepare_wf [OF assms] by (simp add: validatePreparedContract_iff)

lemma email_contract_accepted_witness:
  "\<exists>contract. email_Prepare Inr (\<lambda>e. []) 150 demo_offer send_request = Inr contract \<and>
     validatePreparedContract contract = None"
proof -
  obtain contract where made: "email_Prepare Inr (\<lambda>e. []) 150 demo_offer send_request = Inr contract"
    using demo_send by blast
  with email_contract_accepted [OF made] show ?thesis by blast
qed

text \<open>C33: Content that DownloadFile returns has at most the requested number of bytes, a positive number, and is the content whose SHA-256 digest its file reference names, whatever the service sent.\<close>

theorem download_checked:
  assumes "result_of (DownloadFile nt de c fileID maximumBytes) w = Inr (ref, content)"
  shows "0 < maximumBytes \<and> int (length content) \<le> maximumBytes \<and>
    (\<exists>r. ref = Some r \<and> fr_Digest r = SHA256Digest content)"
  using yields_result [OF DownloadFile_checked, of nt de c fileID maximumBytes w] assms by simp

lemma download_checked_witness:
  "int (length conformance_content) \<le> 1024 \<and> fr_Digest site_ref = SHA256Digest conformance_content"
  using download_checked [OF succeeds_result [OF site_downloaded]] by simp

text \<open>C34: A private key put into the environment as standard base64, padded or not, becomes the key of the server's signer, and a client that looks up that signer's key ID in the published key set gets exactly its public key.\<close>

theorem signing_key_published:
  assumes "length sk = PrivateKeySize" "length (ed_Public ed sk) = PublicKeySize"
    and "padding \<in> {[], ''==''}"
    and "getenv ''ASCP_SIGNING_PRIVATE_KEY_B64'' = raw_std_encode sk @ padding"
  shows "\<exists>s. loadSigner ed generated getenv = (Inr s, False) \<and> sn_privateKey s = sk \<and>
    find_key (sn_keyID s) (JWKS s) = Inr (ed_Public ed sk)"
proof -
  let ?s = "\<lparr>sn_privateKey = sk, sn_publicKey = ed_Public ed sk,
    sn_keyID = getenv_or getenv ''ASCP_SIGNING_KEY_ID'' ''reference-1''\<rparr>"
  have "loadSigner ed generated getenv = (Inr ?s, False)" by (rule loadSigner_key [where padding = padding and sk = sk and getenv = getenv, OF assms(1,3,4)])
  moreover have "find_key (sn_keyID ?s) (JWKS ?s) = Inr (ed_Public ed sk)"
    using find_key_published [of ?s] assms(2) by simp
  ultimately show ?thesis by (intro exI [of _ ?s]) simp
qed

lemma signing_key_published_witness:
  "\<exists>s. loadSigner plain_ed25519 (Inl (New_error ''none'')) (\<lambda>_. raw_std_encode example_sk @ ''=='') = (Inr s, False) \<and>
    sn_privateKey s = example_sk \<and> find_key (sn_keyID s) (JWKS s) = Inr (ed_Public plain_ed25519 example_sk)"
  by (rule signing_key_published [where padding = "''==''"])
     (simp_all add: example_sk_def PrivateKeySize_def PublicKeySize_def plain_ed25519_def)

text \<open>C35: Each program ends after a fixed number of exchanges whatever the service answers: at most 14 for the demonstration client and 21 for the conformance program, for it neither retries nor follows the service into a loop.\<close>

theorem programs_bounded:
  "exchanges (events_of (main_client pg flags) w) \<le> 14 \<and> exchanges (events_of (main_conformance pg baseURL token) w) \<le> 21"
  by (intro conjI at_most_events at_most_main_client at_most_main_conformance)

text \<open>C36: Every chain of every log built by appends passes Verify, when a signature the signer made verifies to the signed payload.\<close>

theorem audit_log_verifies:
  assumes "reachable_log format_time sign l" "\<And>tm p sg. sign tm p = Inr sg \<Longrightarrow> verify_json sg = (Inr p :: signedEventPayload result)"
  shows "Verify format_time verify_json (chain l resourceID) = None"
  using reachable_log_ok [OF assms] by (rule log_ok_Verify)

lemma audit_log_verifies_witness:
  "Verify (\<lambda>t. decimal_int t) verify_example (chain [''tsk_1'' \<mapsto> [example_event zero_Signature]] ''tsk_1'') = None"
  by (rule audit_log_verifies [where sign = sign_example])
     (use reachable_log.intros(2) [OF reachable_log.intros(1), of "\<lambda>t. decimal_int t" sign_example
          "(Some ''r'', 5, 5)" "''tsk_1''" "''ascp.task.accepted''" agent "Inr ''{}''"] example_append
      in \<open>simp_all add: sign_verify_example\<close>)

text \<open>C37: However refunds of a settlement are requested, repeated or split, the granted ones never add up to more than was settled.\<close>

theorem refunds_never_exceed:
  assumes "mock_ok m" "settlementsByRef m sr = Some st" "refundedTotals m sr = None"
    and "ValidateMoney (st_Amount st) = None"
  shows "fst (refund_run sr requests m) \<le> money_value (st_Amount st)"
  using refunds_bounded [OF assms] .

lemma refunds_never_exceed_witness:
  "fst (refund_run (MustNewID ''s1'' ''bls'') [(''a'', usd ''3'', ''k1''), (''b'', usd ''3'', ''k2'')] mock_settled)
     \<le> money_value (st_Amount example_charge)"
  by (rule refunds_never_exceed [OF mock_settled_ok])
     (simp_all add: mock_settled_def mock_reserved_def NewMockProcessor_def example_charge_def usd_amounts)

text \<open>C38: A receipt recorded with the root of its chain at that moment stays provable: VerifyReceiptAnchor accepts it against the listed chain of every later state of the log, whatever is appended later. The chain may already hold records of other receipts, which the verifier skips; required is that each of them decodes and names another receipt ID, that the recorded data decodes to this receipt's ID and the root before it, and that signatures verify.\<close>

theorem receipt_anchored:
  assumes "reachable_log ft sign l" "\<And>tm p sg. sign tm p = Inr sg \<Longrightarrow> verify_json sg = (Inr p :: signedEventPayload result)"
    and "\<forall>x \<in> set (chain l taskID). av_Type x = ''ascp.receipt.issued'' \<longrightarrow>
      (\<exists>other root0. decode_anchor (av_Data x) = Inr (other, root0) \<and> other \<noteq> rc_ReceiptID receipt)"
    and "Append_with ft sign env taskID ''ascp.receipt.issued'' actor (Inr d) l = (Inr ev, l1)"
    and "decode_anchor d = Inr (rc_ReceiptID receipt, Root l taskID)" "rc_AuditRoot receipt = Root l taskID"
  shows "VerifyReceiptAnchor decode_anchor (List_events taskID 0 (log.append_all ft sign cs l1)) receipt = None"
proof -
  have "log_ok ft verify_json (snd (Append_with ft sign env taskID ''ascp.receipt.issued'' actor (Inr d) l))"
    by (rule Append_log_ok [OF assms(2) reachable_log_ok [OF assms(1,2)]])
  with assms(4) have ok: "log_ok ft verify_json l1" by simp
  from List_events_all [OF append_all_ok [OF assms(2) ok]]
  have "List_events taskID 0 (log.append_all ft sign cs l1) = chain (log.append_all ft sign cs l1) taskID" .
  moreover have "verifyReceiptAnchor decode_anchor (chain (log.append_all ft sign cs l1) taskID)
      (rc_ReceiptID receipt) (Root l taskID) ''ascp.receipt.issued'' = None"
    by (rule log.anchor_stays [OF assms(3,4,5)])
  ultimately show ?thesis using assms(6) by (simp add: VerifyReceiptAnchor_def)
qed

lemma receipt_anchored_witness:
  "VerifyReceiptAnchor decode_issued (List_events ''tsk_1'' 0
      (log.append_all (\<lambda>t. decimal_int t) sign_issued [((Some ''x'', 9, 9), ''tsk_1'', ''late'', agent, Inr ''{}'')]
        [''tsk_1'' \<mapsto> [first_issued, second_issued]])) (example_receipt\<lparr>rc_AuditRoot := av_EventHash first_issued\<rparr>) = None"
  by (rule receipt_anchored [OF issued_reachable sign_verify_issued _ issued_append(2)])
     (simp_all add: chain_def Root_def example_receipt_def issued_event_sel decode_issued_def)

text \<open>C39: AddMoney of two valid amounts of one currency returns a valid amount of that currency whose value is the exact sum, whatever the scales.\<close>

theorem money_addition_exact:
  assumes "ValidateMoney a = None" "ValidateMoney b = None" "m_Currency a = m_Currency b"
  shows "\<exists>c. AddMoney a b = Inr c \<and> ValidateMoney c = None \<and> m_Currency c = m_Currency a \<and>
    amount_rat (m_Amount c) = amount_rat (m_Amount a) + amount_rat (m_Amount b)"
  using AddMoney_ok [OF assms] by (simp add: money_value_def)

lemma money_addition_exact_witness:
  "\<exists>c. AddMoney \<lparr>m_Currency = ''USD'', m_Amount = ''0.10''\<rparr> \<lparr>m_Currency = ''USD'', m_Amount = ''2.905''\<rparr> = Inr c \<and>
     ValidateMoney c = None \<and> m_Currency c = ''USD'' \<and>
     amount_rat (m_Amount c) = amount_rat ''0.10'' + amount_rat ''2.905''"
  using money_addition_exact [of "\<lparr>m_Currency = ''USD'', m_Amount = ''0.10''\<rparr>"
      "\<lparr>m_Currency = ''USD'', m_Amount = ''2.905''\<rparr>"]
  by (simp add: usd_amounts)

text \<open>C40: ValidateMoney accepts exactly the amounts of the grammar: a currency code and an unsigned decimal with at most 18 fraction digits.\<close>

theorem money_grammar:
  "ValidateMoney m = None \<longleftrightarrow>
     currencyCodePattern (m_Currency m) \<and>
     (\<exists>ip fp. m_Amount m = ip @ (if fp = [] then [] else CHR ''.'' # fp) \<and> ip \<noteq> [] \<and>
        list_all is_digit ip \<and> list_all is_digit fp \<and> length fp \<le> 18)"
  unfolding ValidateMoney_iff valid_amount_def amount_text_def decimal_parts_def by blast

end
